(* ===== verification/C_Prelude.thy ===== *)
theory C_Prelude
  imports Main "HOL-Library.Word"
begin

text \<open>
  Shared vocabulary of the development: the C integer types, the outcome of a piece of C code
  (a value, undefined behaviour, process exit, panic or an endless loop), the shape
  \<open>if (f(...)) return 1;\<close> of the drivers' error handling, byte buffers with
  \<open>memcpy\<close> and \<open>memset\<close>, and the generic facts about them.

  C's \<open>uintN_t\<close> is \<open>N word\<close>, \<open>int16_t\<close> is a \<open>16 word\<close> read with \<open>sint\<close>.
  C's \<open>int\<close> is HOL's \<open>int\<close>: the components compute the mathematical value; \<open>checked\<close> is the result of an
  \<open>int\<close> operation with C's undefined overflow, and \<open>Checked_Game\<close> shows that no operation of the program overflows.
\<close>

unbundle bit_operations_syntax

type_synonym u8 = "8 word"
type_synonym u16 = "16 word"
type_synonym u32 = "32 word"

named_theorems c_consts \<open>values of the program's macro constants\<close>
named_theorems io_defs \<open>unfolding rules of the error-propagation combinators\<close>

section \<open>Outcomes of C code\<close>

datatype 'a outcome = Ok 'a | Undefined | Exited nat | Panicked | Diverges

fun obind :: "'a outcome \<Rightarrow> ('a \<Rightarrow> 'b outcome) \<Rightarrow> 'b outcome" where
  "obind (Ok x) f = f x"
| "obind Undefined f = Undefined"
| "obind (Exited n) f = Exited n"
| "obind Panicked f = Panicked"
| "obind Diverges f = Diverges"

lemma obind_eq_Ok [simp]: "obind m f = Ok y \<longleftrightarrow> (\<exists>x. m = Ok x \<and> f x = Ok y)"
  by (cases m) auto

lemma obind_cong [fundef_cong]: "m = m' \<Longrightarrow> (\<And>x. m' = Ok x \<Longrightarrow> f x = g x) \<Longrightarrow> obind m f = obind m' g"
  by (cases m') auto

lemma obind_undefined:
  "m = Undefined \<or> (\<exists>x. m = Ok x \<and> P x) \<Longrightarrow> (\<And>x. m = Ok x \<Longrightarrow> f x = Undefined) \<Longrightarrow> obind m f = Undefined"
  by (cases m) auto

lemma obind_assoc: "obind (obind m f) g = obind m (\<lambda>x. obind (f x) g)"
  by (cases m) auto

text \<open>Signed integers of 32 and 64 bits; an \<open>int\<close> operation whose value does not fit is undefined.\<close>

definition int32 :: "int \<Rightarrow> bool" where
  "int32 v \<longleftrightarrow> - (2 ^ 31) \<le> v \<and> v < 2 ^ 31"

definition int64 :: "int \<Rightarrow> bool" where
  "int64 v \<longleftrightarrow> - (2 ^ 63) \<le> v \<and> v < 2 ^ 63"

definition checked :: "int \<Rightarrow> int outcome" where
  "checked v = (if int32 v then Ok v else Undefined)"

lemma checked_Ok [simp]: "int32 v \<Longrightarrow> checked v = Ok v"
  by (simp add: checked_def)

text \<open>Reading or writing an array: out of range is undefined behaviour.\<close>

definition aread :: "'a list \<Rightarrow> nat \<Rightarrow> 'a outcome" where
  "aread xs i = (if i < length xs then Ok (xs ! i) else Undefined)"

definition awrite :: "'a list \<Rightarrow> nat \<Rightarrow> 'a \<Rightarrow> 'a list outcome" where
  "awrite xs i v = (if i < length xs then Ok (xs[i := v]) else Undefined)"

text \<open>The same with an \<open>int\<close> index, which may be negative.\<close>

definition aread_int :: "'a list \<Rightarrow> int \<Rightarrow> 'a outcome" where
  "aread_int xs i = (if 0 \<le> i then aread xs (nat i) else Undefined)"

definition awrite_int :: "'a list \<Rightarrow> int \<Rightarrow> 'a \<Rightarrow> 'a list outcome" where
  "awrite_int xs i v = (if 0 \<le> i then awrite xs (nat i) v else Undefined)"

text \<open>\<open>memcpy(dst + at, src, n)\<close> on two byte buffers.\<close>

definition splice :: "'a list \<Rightarrow> nat \<Rightarrow> 'a list \<Rightarrow> 'a list" where
  "splice dst at src = take at dst @ src @ drop (at + length src) dst"

definition memcpy :: "'a list \<Rightarrow> int \<Rightarrow> 'a list \<Rightarrow> int \<Rightarrow> int \<Rightarrow> 'a list outcome" where
  "memcpy dst at src from n =
     (if 0 \<le> at \<and> 0 \<le> from \<and> 0 \<le> n \<and> at + n \<le> int (length dst) \<and> from + n \<le> int (length src)
      then Ok (splice dst (nat at) (take (nat n) (drop (nat from) src)))
      else Undefined)"

lemma aread_Ok [simp]: "aread xs i = Ok v \<longleftrightarrow> i < length xs \<and> v = xs ! i"
  by (auto simp: aread_def)

lemma awrite_Ok [simp]: "awrite xs i v = Ok ys \<longleftrightarrow> i < length xs \<and> ys = xs[i := v]"
  by (auto simp: awrite_def)

lemma length_splice [simp]: "at + length src \<le> length dst \<Longrightarrow> length (splice dst at src) = length dst"
  by (simp add: splice_def)

lemma nth_splice:
  assumes "at + length src \<le> length dst" and "i < length dst"
  shows "splice dst at src ! i =
           (if at \<le> i \<and> i < at + length src then src ! (i - at) else dst ! i)"
  using assms by (auto simp: splice_def nth_append min_def)

lemma memcpy_in_bounds:
  assumes "0 \<le> at" "0 \<le> from" "0 \<le> n" "at + n \<le> int (length dst)" "from + n \<le> int (length src)"
  shows "\<exists>b. memcpy dst at src from n = Ok b \<and> length b = length dst"
proof -
  have "length (take (nat n) (drop (nat from) src)) \<le> nat n" by simp
  then have "nat at + length (take (nat n) (drop (nat from) src)) \<le> length dst" using assms by linarith
  with assms show ?thesis by (simp add: memcpy_def)
qed

lemma splice_Nil [simp]: "splice dst at [] = dst"
  by (simp add: splice_def)

section \<open>Counting loops\<close>

text \<open>\<open>for (int i = a; i < b; i++) body\<close>, where the body changes neither \<open>i\<close> nor \<open>b\<close>.\<close>

fun for_steps :: "int \<Rightarrow> nat \<Rightarrow> (int \<Rightarrow> 's \<Rightarrow> 's outcome) \<Rightarrow> 's \<Rightarrow> 's outcome" where
  "for_steps i 0 body s = Ok s"
| "for_steps i (Suc n) body s = obind (body i s) (for_steps (i + 1) n body)"

definition for_loop :: "int \<Rightarrow> int \<Rightarrow> (int \<Rightarrow> 's \<Rightarrow> 's outcome) \<Rightarrow> 's \<Rightarrow> 's outcome" where
  "for_loop a b body s = for_steps a (nat (b - a)) body s"

lemma for_loop_done [simp]: "b \<le> a \<Longrightarrow> for_loop a b body s = Ok s"
  by (simp add: for_loop_def)

lemma for_loop_step: "a < b \<Longrightarrow> for_loop a b body s = obind (body a s) (for_loop (a + 1) b body)"
proof -
  assume "a < b"
  then have "nat (b - a) = Suc (nat (b - (a + 1)))" by linarith
  moreover have "for_loop (a + 1) b body = for_steps (a + 1) (nat (b - (a + 1))) body"
    by (rule ext) (simp add: for_loop_def)
  ultimately show ?thesis by (simp add: for_loop_def del: obind_eq_Ok)
qed

text \<open>The proof rule of such a loop: an invariant indexed by the loop counter.\<close>

lemma for_loop_invariant:
  assumes "I a s" and "a \<le> b"
    and step: "\<And>i s. a \<le> i \<Longrightarrow> i < b \<Longrightarrow> I i s \<Longrightarrow> \<exists>s'. body i s = Ok s' \<and> I (i + 1) s'"
  shows "\<exists>s'. for_loop a b body s = Ok s' \<and> I b s'"
  using assms
proof (induction "nat (b - a)" arbitrary: a s)
  case 0
  then show ?case by simp
next
  case (Suc n)
  then have ab: "a < b" by linarith
  with Suc.prems obtain s' where s': "body a s = Ok s'" "I (a + 1) s'" by blast
  moreover have "n = nat (b - (a + 1))" using Suc.hyps(2) by linarith
  ultimately have "\<exists>s''. for_loop (a + 1) b body s' = Ok s'' \<and> I b s''"
    using Suc.hyps(1) [of "a + 1" s'] Suc.prems(3) ab by simp
  with s' ab show ?case by (simp add: for_loop_step)
qed

lemma for_loop_idle [simp]: "for_loop a b (\<lambda>i. Ok) s = Ok s" "for_loop a b (\<lambda>i s. Ok s) s = Ok s"
proof -
  have "for_steps i n (\<lambda>i. Ok) s = Ok s" for i n by (induction n arbitrary: i) simp_all
  then show "for_loop a b (\<lambda>i. Ok) s = Ok s" "for_loop a b (\<lambda>i s. Ok s) s = Ok s" by (simp_all add: for_loop_def)
qed

text \<open>A round that fails, and congruence on the rounds that are made.\<close>

lemma for_loop_cong:
  "a = a' \<Longrightarrow> b = b' \<Longrightarrow> (\<And>i s. a' \<le> i \<Longrightarrow> i < b' \<Longrightarrow> f i s = g i s) \<Longrightarrow> for_loop a b f s = for_loop a' b' g s"
proof (induction "nat (b - a)" arbitrary: a a' s)
  case 0
  then show ?case by simp
next
  case (Suc n)
  then have ab: "a < b" "n = nat (b - (a + 1))" by linarith+
  have "for_loop (a + 1) b f = for_loop (a' + 1) b' g"
    by (rule ext, rule Suc.hyps(1) [OF ab(2)]) (use Suc.prems in auto)
  with Suc.prems ab show ?case by (simp add: for_loop_step del: obind_eq_Ok)
qed

lemma for_loop_partial:
  assumes "I s" and step: "\<And>i s. I s \<Longrightarrow> body i s = Undefined \<or> (\<exists>s'. body i s = Ok s' \<and> I s')"
  shows "for_loop a b body s = Undefined \<or> (\<exists>s'. for_loop a b body s = Ok s' \<and> I s')"
proof -
  have "for_steps i n body s = Undefined \<or> (\<exists>s'. for_steps i n body s = Ok s' \<and> I s')" if "I s" for i n s
    using that
  proof (induction n arbitrary: i s)
    case (Suc n)
    from step [OF Suc.prems, of i] consider "body i s = Undefined" | s' where "body i s = Ok s'" "I s'" by blast
    then show ?case by cases (use Suc.IH in simp_all)
  qed simp
  with assms(1) show ?thesis by (simp add: for_loop_def)
qed

lemma for_loop_undefined:
  assumes "I s" "a \<le> k" "k < b"
    and step: "\<And>i s. I s \<Longrightarrow> a \<le> i \<Longrightarrow> i < b \<Longrightarrow> body i s = Undefined \<or> (\<exists>s'. body i s = Ok s' \<and> I s')"
    and fail: "\<And>s. I s \<Longrightarrow> body k s = Undefined"
  shows "for_loop a b body s = Undefined"
  using assms
proof (induction "nat (k - a)" arbitrary: a s)
  case 0
  then have "a = k" by linarith
  with 0 show ?case by (simp add: for_loop_step)
next
  case (Suc n)
  then have ak: "a < k" "n = nat (k - (a + 1))" by linarith+
  from Suc.prems(4) [of s a] Suc.prems(1,3) ak(1) consider "body a s = Undefined" | s' where "body a s = Ok s'" "I s'" by auto
  then show ?case
  proof cases
    case 2
    have "for_loop (a + 1) b body s' = Undefined"
      by (rule Suc.hyps(1) [OF ak(2)]) (use 2 ak(1) Suc.prems in auto)
    with 2 ak(1) Suc.prems(3) show ?thesis by (simp add: for_loop_step)
  qed (use ak(1) Suc.prems(3) in \<open>simp add: for_loop_step\<close>)
qed

lemma for_loop_shift: "for_loop a b f s = for_loop 0 (b - a) (\<lambda>i. f (a + i)) s"
proof -
  have "for_steps a n f s = for_steps 0 n (\<lambda>i. f (a + i)) s" for n
  proof -
    have "for_steps (a + k) n f s = for_steps k n (\<lambda>i. f (a + i)) s" for k
      by (induction n arbitrary: k s) (simp_all add: add.assoc fun_eq_iff cong: obind_cong)
    from this [of 0] show ?thesis by simp
  qed
  then show ?thesis by (simp add: for_loop_def)
qed

section \<open>Functions that return a status code\<close>

text \<open>
  A C function returning \<open>0\<close> on success and writing its result through a pointer is a
  state transformer that returns \<open>Some\<close> of the result, or \<open>None\<close> for a non-zero status;
  the state (whatever the environment has seen) is passed on in both cases.
\<close>

type_synonym ('w, 'a) io = "'w \<Rightarrow> 'a option \<times> 'w"

definition ret_ok :: "'a \<Rightarrow> ('w, 'a) io" where
  [io_defs]: "ret_ok x = (\<lambda>w. (Some x, w))"

definition ret_err :: "('w, 'a) io" where
  [io_defs]: "ret_err = (\<lambda>w. (None, w))"

definition andthen :: "('w, 'a) io \<Rightarrow> ('a \<Rightarrow> ('w, 'b) io) \<Rightarrow> ('w, 'b) io" where
  "andthen m f = (\<lambda>w. case m w of (None, w') \<Rightarrow> (None, w') | (Some x, w') \<Rightarrow> f x w')"

lemma andthen_apply [io_defs]:
  "andthen m f w = (case m w of (r, w') \<Rightarrow> (case r of None \<Rightarrow> (None, w') | Some x \<Rightarrow> f x w'))"
  by (auto simp: andthen_def split: prod.splits option.splits)

text \<open>A property of the state that every step keeps is kept by a sequence.\<close>

definition keeps :: "('w \<Rightarrow> bool) \<Rightarrow> ('w, 'a) io \<Rightarrow> bool" where
  "keeps I m \<longleftrightarrow> (\<forall>w. I w \<longrightarrow> I (snd (m w)))"

lemma keepsI [intro]: "(\<And>w. I w \<Longrightarrow> I (snd (m w))) \<Longrightarrow> keeps I m"
  by (simp add: keeps_def)

lemma keepsD: "keeps I m \<Longrightarrow> I w \<Longrightarrow> I (snd (m w))"
  by (simp add: keeps_def)

lemma keeps_ret_ok [simp]: "keeps I (ret_ok x)"
  by (simp add: keeps_def io_defs)

lemma keeps_ret_err [simp]: "keeps I ret_err"
  by (simp add: keeps_def io_defs)

lemma keeps_andthen: "keeps I m \<Longrightarrow> (\<And>x. keeps I (f x)) \<Longrightarrow> keeps I (andthen m f)"
  by (auto simp: keeps_def andthen_apply split: prod.splits option.splits dest: spec)

lemma keeps_if: "(b \<Longrightarrow> keeps I m) \<Longrightarrow> (\<not> b \<Longrightarrow> keeps I m') \<Longrightarrow> keeps I (if b then m else m')"
  by simp

section \<open>Bits\<close>

text \<open>\<open>BIT(n)\<close> of \<open>lcom/utils.h\<close>, and the test \<open>x & m\<close> used as a condition.\<close>

definition BIT :: "nat \<Rightarrow> 'a::len word" where
  "BIT n = push_bit n 1"

definition flag :: "'a::len word \<Rightarrow> 'a word \<Rightarrow> bool" where
  "flag x m \<longleftrightarrow> x AND m \<noteq> 0"

lemma flag_BIT: "flag x (BIT n) \<longleftrightarrow> bit x n"
  by (simp add: flag_def BIT_def push_bit_eq_mult and_exp_eq_0_iff_not_bit)

lemma flag_or: "flag x (m OR m') \<longleftrightarrow> flag x m \<or> flag x m'"
  by (auto simp: flag_def bit_eq_iff bit_and_iff bit_or_iff)

lemma BIT_numeral_simps:
  "(BIT 0 :: u8) = 1" "(BIT 1 :: u8) = 2" "(BIT 2 :: u8) = 4" "(BIT 3 :: u8) = 8"
  "(BIT 4 :: u8) = 16" "(BIT 5 :: u8) = 32" "(BIT 6 :: u8) = 64" "(BIT 7 :: u8) = 128"
  by (simp_all add: BIT_def push_bit_eq_mult)

lemma bit_BIT: "bit (BIT m :: 'a::len word) n \<longleftrightarrow> n = m \<and> n < LENGTH('a)"
  by (auto simp: BIT_def push_bit_eq_mult bit_exp_iff)

lemma flag_0 [simp]: "\<not> flag 0 m"
  by (simp add: flag_def)

text \<open>Unsigned values that are widened.\<close>

lemma unat_byte_less: "unat (b :: u8) < 256"
proof -
  have "unat b < 2 ^ LENGTH(8)" by (rule unsigned_less)
  then show ?thesis by simp
qed

lemma ucast_byte [simp]: "(ucast (ucast (b :: u8) :: u32) :: u8) = b"
  by (rule bit_eqI) (auto simp: bit_ucast_iff dest: bit_imp_le_length)

lemma unat_widen: "unat (ucast (f :: u16) :: u32) = unat f"
proof -
  have "unat f < 2 ^ LENGTH(16)" by (rule unsigned_less)
  then have "unat f < 2 ^ 32" by simp
  then show ?thesis by (simp add: unsigned_ucast_eq take_bit_nat_eq_self)
qed

text \<open>\<open>int16_t\<close> values: reading back an integer in range, and the sign extension
  \<open>0xFF00 | byte\<close>.\<close>

lemma sint_u16_of_int: "- 32768 \<le> i \<Longrightarrow> i < 32768 \<Longrightarrow> sint (word_of_int i :: u16) = i"
  by (simp add: sint_sbintrunc' signed_take_bit_int_eq_self)

lemma u16_of_byte: "(ucast (b :: u8) :: u16) = word_of_int (uint b)"
  by (simp add: unsigned_ucast_eq flip: word_of_int_uint)

lemma u16_sign_extend: "0xFF00 OR ucast (b :: u8) = (word_of_int (uint b - 256) :: u16)"
proof -
  have eq: "(0xFF00 :: u16) = NOT (mask 8)" by (simp add: mask_eq_exp_minus_1)
  have "NOT (mask 8) AND (ucast b :: u16) = 0"
    by (rule bit_eqI) (auto simp: bit_and_iff bit_not_iff bit_mask_iff bit_ucast_iff dest: bit_imp_le_length)
  then have "0xFF00 OR ucast b = (0xFF00 :: u16) + ucast b"
    unfolding eq by (metis add_0 word_plus_and_or)
  also have "\<dots> = 0xFF00 + word_of_int (uint b)"
    by (simp only: u16_of_byte)
  also have "\<dots> = word_of_int (0xFF00 + uint b)" by simp
  also have "\<dots> = word_of_int (uint b - 256)"
    by (simp add: word_of_int_eq_iff take_bit_eq_mod mod_eq_dvd_iff)
  finally show ?thesis .
qed

lemma sint_byte: "sint (ucast (b :: u8) :: u16) = uint b"
proof -
  have "0 \<le> uint b" "uint b < 256" using uint_lt2p [of b] by simp_all
  then show ?thesis unfolding u16_of_byte by (intro sint_u16_of_int) linarith+
qed

lemma sint_byte_extended: "sint (0xFF00 OR ucast (b :: u8) :: u16) = uint b - 256"
proof -
  have "0 \<le> uint b" "uint b < 256" using uint_lt2p [of b] by simp_all
  then show ?thesis unfolding u16_sign_extend by (intro sint_u16_of_int) linarith+
qed

end
