(* ===== verification/Kernel_IO.thy ===== *)
theory Kernel_IO
  imports C_Prelude
begin

text \<open>
  The boundary between the program and the Minix kernel, and \<open>drivers/utils.c\<close>.

  Kernel calls (port I/O, interrupt subscription, BIOS calls) are not part of the repository:
  they are the record \<open>kernel\<close>, an argument of every driver function.  Each call is answered
  from the history of all calls made so far, so one \<open>kernel\<close> value fixes an arbitrary
  behaviour of the machine, and a statement for every \<open>kernel\<close> holds for every behaviour.
  The history (\<open>trace\<close>, newest event first) is the state the drivers pass along; it records
  each call with its arguments and its answer.
\<close>

section \<open>Events, traces and the kernel\<close>

datatype io_event =
    Inb nat "u32 option"            \<comment> \<open>\<open>sys_inb(port, &val)\<close>; \<open>None\<close>: non-zero status\<close>
  | Outb nat u8 bool                \<comment> \<open>\<open>sys_outb(port, byte)\<close>; \<open>True\<close>: OK\<close>
  | Tickdelay nat                   \<comment> \<open>\<open>tickdelay(micros_to_ticks(us))\<close>\<close>
  | Irqset nat nat int "int option" \<comment> \<open>\<open>sys_irqsetpolicy(line, policy, &hook)\<close>; the new hook\<close>
  | Irqrm int "int option"          \<comment> \<open>\<open>sys_irqrmpolicy(&hook)\<close>; the new hook\<close>
  | Int86 u16 u16 u8 bool           \<comment> \<open>\<open>sys_int86\<close> with \<open>ax\<close>, \<open>bx\<close>, \<open>intno\<close>\<close>

type_synonym trace = "io_event list"

record kernel =
  k_inb :: "trace \<Rightarrow> nat \<Rightarrow> u32 option"
  k_outb :: "trace \<Rightarrow> nat \<Rightarrow> u8 \<Rightarrow> bool"
  k_irqset :: "trace \<Rightarrow> nat \<Rightarrow> nat \<Rightarrow> int \<Rightarrow> int option"
  k_irqrm :: "trace \<Rightarrow> int \<Rightarrow> int option"
  k_int86 :: "trace \<Rightarrow> u16 \<Rightarrow> u16 \<Rightarrow> u8 \<Rightarrow> bool"

definition sys_inb :: "kernel \<Rightarrow> nat \<Rightarrow> (trace, u32) io" where
  "sys_inb K port = (\<lambda>tr. let r = k_inb K tr port in (r, Inb port r # tr))"

definition sys_outb :: "kernel \<Rightarrow> nat \<Rightarrow> u8 \<Rightarrow> (trace, unit) io" where
  "sys_outb K port b =
     (\<lambda>tr. let ok = k_outb K tr port b in (if ok then Some () else None, Outb port b ok # tr))"

definition tickdelay :: "nat \<Rightarrow> (trace, unit) io" where
  "tickdelay us = (\<lambda>tr. (Some (), Tickdelay us # tr))"

definition sys_irqsetpolicy :: "kernel \<Rightarrow> nat \<Rightarrow> nat \<Rightarrow> int \<Rightarrow> (trace, int) io" where
  "sys_irqsetpolicy K line policy hook =
     (\<lambda>tr. let r = k_irqset K tr line policy hook in (r, Irqset line policy hook r # tr))"

definition sys_irqrmpolicy :: "kernel \<Rightarrow> int \<Rightarrow> (trace, int) io" where
  "sys_irqrmpolicy K hook = (\<lambda>tr. let r = k_irqrm K tr hook in (r, Irqrm hook r # tr))"

definition sys_int86 :: "kernel \<Rightarrow> u16 \<Rightarrow> u16 \<Rightarrow> u8 \<Rightarrow> (trace, unit) io" where
  "sys_int86 K ax bx intno =
     (\<lambda>tr. let ok = k_int86 K tr ax bx intno
           in (if ok then Some () else None, Int86 ax bx intno ok # tr))"

lemmas sys_defs = sys_inb_def sys_outb_def tickdelay_def sys_irqsetpolicy_def
  sys_irqrmpolicy_def sys_int86_def Let_def

text \<open>Interrupt policies of \<open>minix/com.h\<close>.\<close>

definition IRQ_REENABLE :: nat where [c_consts]: "IRQ_REENABLE = 1"
definition IRQ_EXCLUSIVE :: nat where [c_consts]: "IRQ_EXCLUSIVE = 2"

text \<open>The notification bit of a hook: \<open>*bit_no = BIT(hook_id)\<close>, an \<open>int\<close> stored in a
  \<open>uint8_t\<close>.\<close>

definition hook_bit :: "int \<Rightarrow> u8" where
  "hook_bit hook = ucast (BIT (nat hook) :: u32)"

section \<open>drivers/utils.c\<close>

definition util_sys_inb :: "kernel \<Rightarrow> nat \<Rightarrow> (trace, u8) io" where
  "util_sys_inb K port = andthen (sys_inb K port) (\<lambda>val. ret_ok (ucast val))"

text \<open>Both return the byte written through the pointer, with the function's return value.\<close>

definition util_get_16_LSB :: "u16 \<Rightarrow> u8 \<times> int" where
  "util_get_16_LSB val = (ucast val, 0)"

definition util_get_16_MSB :: "u16 \<Rightarrow> u8 \<times> int" where
  "util_get_16_MSB val = (ucast (drop_bit 8 val), 1)"

lemma util_sys_inb_apply:
  "util_sys_inb K port tr =
     (map_option ucast (k_inb K tr port), Inb port (k_inb K tr port) # tr)"
  by (cases "k_inb K tr port") (simp_all add: util_sys_inb_def sys_inb_def io_defs Let_def)

text \<open>The two halves of a 16-bit word determine it.\<close>

lemma util_get_16_recombine:
  "push_bit 8 (ucast (fst (util_get_16_MSB v))) OR ucast (fst (util_get_16_LSB v)) = (v :: u16)"
  by (rule bit_eqI)
    (auto simp: util_get_16_MSB_def util_get_16_LSB_def bit_or_iff bit_push_bit_iff bit_ucast_iff
      bit_drop_bit_eq not_le not_less le_less)

lemma util_get_16_value: "unat (fst (util_get_16_MSB v)) * 256 + unat (fst (util_get_16_LSB v)) = unat v"
proof -
  have "unat v < 65536" using unsigned_less [of v] by simp
  then have "unat v div 256 < 256" by simp
  then have "unat (fst (util_get_16_MSB v)) = unat v div 256"
    by (simp add: util_get_16_MSB_def unsigned_ucast_eq drop_bit_eq_div unat_div take_bit_eq_mod)
  moreover have "unat (fst (util_get_16_LSB v)) = unat v mod 256"
    by (simp add: util_get_16_LSB_def unsigned_ucast_eq take_bit_eq_mod)
  ultimately show ?thesis by simp
qed

section \<open>Invariants of the trace\<close>

text \<open>
  The interface every driver relies on for reasoning about histories: a property \<open>I\<close> of traces
  that reading a port and waiting cannot break.  What it says about writes is added by
  the locales that extend this one.
\<close>

locale trace_invariant =
  fixes I :: "trace \<Rightarrow> bool"
  assumes inb: "I tr \<Longrightarrow> I (Inb p r # tr)"
    and delay: "I tr \<Longrightarrow> I (Tickdelay us # tr)"
begin

lemma keeps_sys_inb: "keeps I (sys_inb K p)"
  by (rule keepsI) (simp add: sys_defs inb)

lemma keeps_util_sys_inb: "keeps I (util_sys_inb K p)"
  by (rule keepsI) (simp add: util_sys_inb_apply inb)

lemma keeps_tickdelay: "keeps I (tickdelay us)"
  by (rule keepsI) (simp add: tickdelay_def delay)

lemmas keeps_read = keeps_sys_inb keeps_util_sys_inb keeps_tickdelay

end

end
