(* ===== verification/Kbc.thy ===== *)
theory Kbc
  imports Kernel_IO
begin

text \<open>
  The keyboard controller driver: the constants of \<open>drivers/i8042.h\<close> and the three functions of
  \<open>drivers/kbc.c\<close>, with the bounded polling loops written as recursion on the remaining attempts.
  The lemmas say which controller state a successful transfer has seen, how many times the
  controller is polled, and that no byte is ever written while the input buffer is full.
\<close>

section \<open>Constants of drivers/i8042.h\<close>

definition KBC_IRQ_KBD :: nat where [c_consts]: "KBC_IRQ_KBD = 0x01"
definition KBC_IRQ_MOUSE :: nat where [c_consts]: "KBC_IRQ_MOUSE = 0x0C"
definition KBC_REG_IN_BUF :: nat where [c_consts]: "KBC_REG_IN_BUF = 0x60"
definition KBC_REG_OUT_BUF :: nat where [c_consts]: "KBC_REG_OUT_BUF = 0x60"
definition KBC_REG_STAT :: nat where [c_consts]: "KBC_REG_STAT = 0x64"
definition KBC_REG_COMMAND :: nat where [c_consts]: "KBC_REG_COMMAND = 0x64"

definition KBC_STAT_PARITY :: u8 where [c_consts]: "KBC_STAT_PARITY = BIT 7"
definition KBC_STAT_TIMEOUT :: u8 where [c_consts]: "KBC_STAT_TIMEOUT = BIT 6"
definition KBC_STAT_AUX :: u8 where [c_consts]: "KBC_STAT_AUX = BIT 5"
definition KBC_STAT_IBF :: u8 where [c_consts]: "KBC_STAT_IBF = BIT 1"
definition KBC_STAT_OBF :: u8 where [c_consts]: "KBC_STAT_OBF = BIT 0"

definition KBC_COMM_READ_BYTE :: u8 where [c_consts]: "KBC_COMM_READ_BYTE = 0x20"
definition KBC_COMM_WRITE_BYTE :: u8 where [c_consts]: "KBC_COMM_WRITE_BYTE = 0x60"
definition KBC_COMM_DISABLE_KBD_INTERFACE :: u8 where
  [c_consts]: "KBC_COMM_DISABLE_KBD_INTERFACE = 0xAD"
definition KBC_COMM_ENABLE_KBD_INTERFACE :: u8 where
  [c_consts]: "KBC_COMM_ENABLE_KBD_INTERFACE = 0xAE"
definition KBC_COMM_WRITE_MOUSE_COMM_BYTE :: u8 where
  [c_consts]: "KBC_COMM_WRITE_MOUSE_COMM_BYTE = 0xD4"

definition MOUSE_COMM_DISABLE_DATA_REPORTING :: u8 where
  [c_consts]: "MOUSE_COMM_DISABLE_DATA_REPORTING = 0xF5"
definition MOUSE_COMM_ENABLE_DATA_REPORTING :: u8 where
  [c_consts]: "MOUSE_COMM_ENABLE_DATA_REPORTING = 0xF4"
definition MOUSE_RES_ACK :: u8 where [c_consts]: "MOUSE_RES_ACK = 0xFA"

definition KBC_COMM_B_INT_KBD :: u8 where [c_consts]: "KBC_COMM_B_INT_KBD = BIT 0"

definition MOUSE_DP_Y_OVFL :: u8 where [c_consts]: "MOUSE_DP_Y_OVFL = BIT 7"
definition MOUSE_DP_X_OVFL :: u8 where [c_consts]: "MOUSE_DP_X_OVFL = BIT 6"
definition MOUSE_DP_MSB_Y :: u8 where [c_consts]: "MOUSE_DP_MSB_Y = BIT 5"
definition MOUSE_DP_MSB_X :: u8 where [c_consts]: "MOUSE_DP_MSB_X = BIT 4"
definition MOUSE_DP_MB :: u8 where [c_consts]: "MOUSE_DP_MB = BIT 2"
definition MOUSE_DP_RB :: u8 where [c_consts]: "MOUSE_DP_RB = BIT 1"
definition MOUSE_DP_LB :: u8 where [c_consts]: "MOUSE_DP_LB = BIT 0"

definition W_MAKECODE :: u8 where [c_consts]: "W_MAKECODE = 0x11"
definition W_BREAKCODE :: u8 where [c_consts]: "W_BREAKCODE = 0x91"
definition A_MAKECODE :: u8 where [c_consts]: "A_MAKECODE = 0x1e"
definition A_BREAKCODE :: u8 where [c_consts]: "A_BREAKCODE = 0x9e"
definition S_MAKECODE :: u8 where [c_consts]: "S_MAKECODE = 0x1f"
definition S_BREAKCODE :: u8 where [c_consts]: "S_BREAKCODE = 0x9f"
definition D_MAKECODE :: u8 where [c_consts]: "D_MAKECODE = 0x20"
definition D_BREAKCODE :: u8 where [c_consts]: "D_BREAKCODE = 0xa0"
definition ESC_MAKECODE :: u8 where [c_consts]: "ESC_MAKECODE = 0x01"
definition ESC_BREAKCODE :: u8 where [c_consts]: "ESC_BREAKCODE = 0x81"
definition SHIFT_MAKECODE :: u8 where [c_consts]: "SHIFT_MAKECODE = 0x2a"
definition SHIFT_BREAKCODE :: u8 where [c_consts]: "SHIFT_BREAKCODE = 0xaa"
definition DOUBLE_BYTE :: u8 where [c_consts]: "DOUBLE_BYTE = 0xE0"
definition BREAK_BIT :: u8 where [c_consts]: "BREAK_BIT = BIT 7"
definition DELAY_US :: nat where [c_consts]: "DELAY_US = 20000"
definition MAX_ATTEMPTS :: nat where [c_consts]: "MAX_ATTEMPTS = 0x14"

section \<open>drivers/kbc.c\<close>

definition kbc_read_status :: "kernel \<Rightarrow> (trace, u8) io" where
  "kbc_read_status K = util_sys_inb K KBC_REG_STAT"

text \<open>
  \<open>kbc_read_outbuff(data, mouse)\<close>: the second component of the result is the byte at \<open>data\<close> when the
  function returns, the first says whether it returned \<open>0\<close>.  A byte with a parity or
  timeout error has been stored at \<open>data\<close> although the call fails.
\<close>

fun kbc_read_outbuff_loop :: "kernel \<Rightarrow> bool \<Rightarrow> nat \<Rightarrow> u8 \<Rightarrow> trace \<Rightarrow> (bool \<times> u8) \<times> trace" where
  "kbc_read_outbuff_loop K mouse 0 data tr = ((False, data), tr)"
| "kbc_read_outbuff_loop K mouse (Suc attempts) data tr =
     (let retry = (\<lambda>tr'. kbc_read_outbuff_loop K mouse attempts data (snd (tickdelay DELAY_US tr')))
      in case kbc_read_status K tr of
           (None, tr1) \<Rightarrow> retry tr1
         | (Some status, tr1) \<Rightarrow>
             if flag status KBC_STAT_AUX \<and> \<not> mouse then retry tr1
             else if \<not> flag status KBC_STAT_AUX \<and> mouse then retry tr1
             else if flag status KBC_STAT_OBF then
               (case util_sys_inb K KBC_REG_OUT_BUF tr1 of
                  (None, tr2) \<Rightarrow> retry tr2
                | (Some byte, tr2) \<Rightarrow>
                    if flag status (KBC_STAT_PARITY OR KBC_STAT_TIMEOUT)
                    then ((False, byte), tr2) else ((True, byte), tr2))
             else retry tr1)"

definition kbc_read_outbuff :: "kernel \<Rightarrow> bool \<Rightarrow> u8 \<Rightarrow> trace \<Rightarrow> (bool \<times> u8) \<times> trace" where
  "kbc_read_outbuff K mouse data = kbc_read_outbuff_loop K mouse 8 data"

text \<open>The view of a caller that ignores the byte of a failed call.\<close>

definition kbc_read_byte :: "kernel \<Rightarrow> bool \<Rightarrow> (trace, u8) io" where
  "kbc_read_byte K mouse =
     (\<lambda>tr. case kbc_read_outbuff K mouse 0 tr of ((ok, b), tr') \<Rightarrow> (if ok then Some b else None, tr'))"

fun kbc_write_loop :: "kernel \<Rightarrow> nat \<Rightarrow> u8 \<Rightarrow> nat \<Rightarrow> (trace, unit) io" where
  "kbc_write_loop K port command 0 = ret_err"
| "kbc_write_loop K port command (Suc cnt) =
     andthen (kbc_read_status K) (\<lambda>status.
       if flag status KBC_STAT_IBF
       then andthen (tickdelay DELAY_US) (\<lambda>_. kbc_write_loop K port command cnt)
       else sys_outb K port command)"

definition kbc_write :: "kernel \<Rightarrow> nat \<Rightarrow> u8 \<Rightarrow> (trace, unit) io" where
  "kbc_write K port command = kbc_write_loop K port command MAX_ATTEMPTS"

section \<open>What a successful transfer has seen\<close>

definition readable :: "bool \<Rightarrow> u8 \<Rightarrow> bool" where
  "readable mouse status \<longleftrightarrow> flag status KBC_STAT_OBF \<and> (flag status KBC_STAT_AUX \<longleftrightarrow> mouse)"

definition corrupt :: "u8 \<Rightarrow> bool" where
  "corrupt status \<longleftrightarrow> flag status (KBC_STAT_PARITY OR KBC_STAT_TIMEOUT)"

fun status_reads :: "trace \<Rightarrow> nat" where
  "status_reads [] = 0"
| "status_reads (Inb p r # tr) = (if p = KBC_REG_STAT then Suc (status_reads tr) else status_reads tr)"
| "status_reads (_ # tr) = status_reads tr"

text \<open>The bytes written in a stretch of history, newest first.\<close>

fun writes :: "trace \<Rightarrow> (nat \<times> u8) list" where
  "writes [] = []"
| "writes (Outb p b ok # tr) = (p, b) # writes tr"
| "writes (_ # tr) = writes tr"

lemma writes_append [simp]: "writes (es @ tr) = writes es @ writes tr"
  by (induction es rule: writes.induct) auto

lemma status_reads_append [simp]: "status_reads (es @ tr) = status_reads es + status_reads tr"
  by (induction es rule: status_reads.induct) auto

lemma kbc_read_status_apply:
  "kbc_read_status K tr =
     (map_option ucast (k_inb K tr KBC_REG_STAT), Inb KBC_REG_STAT (k_inb K tr KBC_REG_STAT) # tr)"
  by (simp add: kbc_read_status_def util_sys_inb_apply)

text \<open>A stretch of history, newest first, that consists of \<open>n\<close> polls from which no byte could be taken: the status could not be read, or did not
  offer a byte of the requested device, or it did and reading the byte failed.  Every poll ends with the delay.\<close>

inductive polled :: "bool \<Rightarrow> nat \<Rightarrow> trace \<Rightarrow> bool" where
  none: "polled mouse 0 []"
| unreadable: "polled mouse n es \<Longrightarrow> polled mouse (Suc n) (Tickdelay DELAY_US # Inb KBC_REG_STAT None # es)"
| nothing: "polled mouse n es \<Longrightarrow> \<not> readable mouse (ucast st) \<Longrightarrow>
    polled mouse (Suc n) (Tickdelay DELAY_US # Inb KBC_REG_STAT (Some st) # es)"
| missed: "polled mouse n es \<Longrightarrow> readable mouse (ucast st) \<Longrightarrow>
    polled mouse (Suc n) (Tickdelay DELAY_US # Inb KBC_REG_OUT_BUF None # Inb KBC_REG_STAT (Some st) # es)"

lemma polled_append: "polled mouse m es \<Longrightarrow> polled mouse n es' \<Longrightarrow> polled mouse (m + n) (es @ es')"
  by (induction rule: polled.induct) (auto intro: polled.intros)

lemma polled_counts: "polled mouse n es \<Longrightarrow> status_reads es = n \<and> writes es = []"
  by (induction rule: polled.induct) (simp_all add: c_consts)

lemma loop_cases:
  obtains
    (retry) es where
      "kbc_read_outbuff_loop K mouse (Suc n) data tr = kbc_read_outbuff_loop K mouse n data (es @ tr)"
      "polled mouse 1 es"
  | (byte) st v where
      "k_inb K tr KBC_REG_STAT = Some st" "readable mouse (ucast st)"
      "k_inb K (Inb KBC_REG_STAT (Some st) # tr) KBC_REG_OUT_BUF = Some v"
      "kbc_read_outbuff_loop K mouse (Suc n) data tr =
         ((\<not> corrupt (ucast st), ucast v),
          Inb KBC_REG_OUT_BUF (Some v) # Inb KBC_REG_STAT (Some st) # tr)"
proof -
  let ?r1 = "k_inb K tr KBC_REG_STAT"
  let ?t1 = "Inb KBC_REG_STAT ?r1 # tr"
  let ?r2 = "k_inb K ?t1 KBC_REG_OUT_BUF"
  let ?retry1 = "[Tickdelay DELAY_US, Inb KBC_REG_STAT ?r1]"
  let ?retry2 = "[Tickdelay DELAY_US, Inb KBC_REG_OUT_BUF ?r2, Inb KBC_REG_STAT ?r1]"
  note unfold = kbc_read_status_apply util_sys_inb_apply tickdelay_def Let_def
  consider (no) "?r1 = None \<or> (\<exists>st. ?r1 = Some st \<and> \<not> readable mouse (ucast st))"
    | (fail) st where "?r1 = Some st" "readable mouse (ucast st)" "?r2 = None"
    | (ok) st v where "?r1 = Some st" "readable mouse (ucast st)" "?r2 = Some v"
    by (cases ?r1; cases ?r2) auto
  then show thesis
  proof cases
    case no
    then have "kbc_read_outbuff_loop K mouse (Suc n) data tr =
        kbc_read_outbuff_loop K mouse n data (?retry1 @ tr)"
      by (auto simp: unfold readable_def)
    moreover have "polled mouse (Suc 0) ?retry1" using no by (cases ?r1) (auto intro: polled.intros)
    ultimately show ?thesis by (intro retry) simp_all
  next
    case fail
    then have "kbc_read_outbuff_loop K mouse (Suc n) data tr =
        kbc_read_outbuff_loop K mouse n data (?retry2 @ tr)"
      by (auto simp: unfold readable_def)
    moreover have "polled mouse (Suc 0) ?retry2" using fail by (auto intro: polled.intros)
    ultimately show ?thesis by (intro retry) simp_all
  next
    case ok
    then have "kbc_read_outbuff_loop K mouse (Suc n) data tr =
        ((\<not> corrupt (ucast st), ucast v), Inb KBC_REG_OUT_BUF (Some v) # Inb KBC_REG_STAT (Some st) # tr)"
      by (auto simp: unfold readable_def corrupt_def)
    with ok show ?thesis by (intro byte) auto
  qed
qed

section \<open>Abstract specification of a transfer\<close>

text \<open>
  What a caller may rely on, as relations between the call's arguments, the history before it and
  its result: fewer than \<open>n\<close> polls without a byte and then the byte of the first status that offered one
  and could be read, or \<open>n\<close> polls without a byte.
\<close>

inductive kbc_read_spec ::
  "bool \<Rightarrow> nat \<Rightarrow> u8 \<Rightarrow> trace \<Rightarrow> (bool \<times> u8) \<times> trace \<Rightarrow> bool" where
  delivered: "polled mouse k rest \<Longrightarrow> k < n \<Longrightarrow> readable mouse (ucast st) \<Longrightarrow>
    kbc_read_spec mouse n data tr
      ((\<not> corrupt (ucast st), ucast v),
       Inb KBC_REG_OUT_BUF (Some v) # Inb KBC_REG_STAT (Some st) # rest @ tr)"
| exhausted: "polled mouse n rest \<Longrightarrow>
    kbc_read_spec mouse n data tr ((False, data), rest @ tr)"

definition ibf_set :: "trace \<Rightarrow> bool" where
  "ibf_set tr \<longleftrightarrow> (\<forall>st. Inb KBC_REG_STAT (Some st) \<in> set tr \<longrightarrow> flag (ucast st) KBC_STAT_IBF)"

inductive kbc_write_spec ::
  "nat \<Rightarrow> u8 \<Rightarrow> nat \<Rightarrow> trace \<Rightarrow> unit option \<times> trace \<Rightarrow> bool" where
  sent: "\<not> flag (ucast st) KBC_STAT_IBF \<Longrightarrow> writes rest = [] \<Longrightarrow> ibf_set rest \<Longrightarrow>
    status_reads rest < n \<Longrightarrow>
    kbc_write_spec port command n tr
      (if ok then Some () else None,
       Outb port command ok # Inb KBC_REG_STAT (Some st) # rest @ tr)"
| no_status: "writes rest = [] \<Longrightarrow> ibf_set rest \<Longrightarrow> status_reads rest < n \<Longrightarrow>
    kbc_write_spec port command n tr (None, Inb KBC_REG_STAT None # rest @ tr)"
| busy: "writes rest = [] \<Longrightarrow> ibf_set rest \<Longrightarrow> status_reads rest = n \<Longrightarrow>
    kbc_write_spec port command n tr (None, rest @ tr)"

lemma ibf_set_append [simp]: "ibf_set (es @ tr) \<longleftrightarrow> ibf_set es \<and> ibf_set tr"
  by (auto simp: ibf_set_def)

lemma kbc_read_spec_poll:
  assumes "kbc_read_spec mouse n data (es @ tr) res" and es: "polled mouse 1 es"
  shows "kbc_read_spec mouse (Suc n) data tr res"
  using assms(1)
proof cases
  case (delivered k rest st v)
  then show ?thesis
    using kbc_read_spec.delivered [OF polled_append [OF delivered(2) es], of "Suc n" st data tr v] by simp
next
  case (exhausted rest)
  then show ?thesis
    using kbc_read_spec.exhausted [of mouse "Suc n" "rest @ es" data tr] polled_append [OF exhausted(2) es] by simp
qed

lemma kbc_read_outbuff_loop_spec:
  "kbc_read_spec mouse n data tr (kbc_read_outbuff_loop K mouse n data tr)"
proof (induction n arbitrary: tr)
  case 0
  show ?case using kbc_read_spec.exhausted [of mouse 0 "[]" data tr] polled.none by simp
next
  case (Suc n)
  show ?case
  proof (rule loop_cases [where K = K and mouse = mouse and n = n and data = data and tr = tr])
    fix es
    assume "kbc_read_outbuff_loop K mouse (Suc n) data tr = kbc_read_outbuff_loop K mouse n data (es @ tr)" "polled mouse 1 es"
    then show ?thesis using Suc.IH [of "es @ tr"] by (simp add: kbc_read_spec_poll)
  next
    fix st v
    assume "readable mouse (ucast st)" "kbc_read_outbuff_loop K mouse (Suc n) data tr =
        ((\<not> corrupt (ucast st), ucast v), Inb KBC_REG_OUT_BUF (Some v) # Inb KBC_REG_STAT (Some st) # tr)"
    then show ?thesis using kbc_read_spec.delivered [of mouse 0 "[]" "Suc n" st data tr v] polled.none by simp
  qed
qed

lemma kbc_write_spec_poll:
  assumes "kbc_write_spec port command n (es @ tr) res"
    and "status_reads es = 1" "writes es = []" "ibf_set es"
  shows "kbc_write_spec port command (Suc n) tr res"
  using assms(1)
proof cases
  case (sent st rest ok)
  with assms(2-4) show ?thesis
    using kbc_write_spec.sent [of st "rest @ es" "Suc n" port command tr ok] by simp
next
  case (no_status rest)
  with assms(2-4) show ?thesis
    using kbc_write_spec.no_status [of "rest @ es" "Suc n" port command tr] by simp
next
  case (busy rest)
  with assms(2-4) show ?thesis
    using kbc_write_spec.busy [of "rest @ es" "Suc n" port command tr] by simp
qed

lemma kbc_write_loop_Suc:
  "kbc_write_loop K port command (Suc n) tr =
     (case k_inb K tr KBC_REG_STAT of
        None \<Rightarrow> (None, Inb KBC_REG_STAT None # tr)
      | Some st \<Rightarrow>
          if flag (ucast st) KBC_STAT_IBF
          then kbc_write_loop K port command n
                 (Tickdelay DELAY_US # Inb KBC_REG_STAT (Some st) # tr)
          else sys_outb K port command (Inb KBC_REG_STAT (Some st) # tr))"
  by (simp add: io_defs kbc_read_status_apply tickdelay_def split: option.splits)

declare kbc_write_loop.simps(2) [simp del]

lemma kbc_write_loop_spec: "kbc_write_spec port command n tr (kbc_write_loop K port command n tr)"
proof (induction n arbitrary: tr)
  case 0
  show ?case
    using kbc_write_spec.busy [of "[]" 0 port command tr] by (simp add: ret_err_def ibf_set_def)
next
  case (Suc n)
  let ?t1 = "\<lambda>st. Inb KBC_REG_STAT (Some st) # tr"
  show ?case
  proof (cases "k_inb K tr KBC_REG_STAT")
    case None
    then show ?thesis
      using kbc_write_spec.no_status [of "[]" "Suc n" port command tr]
      by (simp add: kbc_write_loop_Suc ibf_set_def)
  next
    case (Some st)
    show ?thesis
    proof (cases "flag (ucast st :: u8) KBC_STAT_IBF")
      case True
      let ?es = "[Tickdelay DELAY_US, Inb KBC_REG_STAT (Some st)]"
      have "kbc_write_spec port command (Suc n) tr (kbc_write_loop K port command n (?es @ tr))"
        by (rule kbc_write_spec_poll [OF Suc.IH]) (use True in \<open>auto simp: ibf_set_def c_consts\<close>)
      with Some True show ?thesis by (simp add: kbc_write_loop_Suc)
    next
      case False
      with Some show ?thesis
        using kbc_write_spec.sent [of st "[]" "Suc n" port command tr "k_outb K (?t1 st) port command"]
        by (simp add: kbc_write_loop_Suc sys_outb_def Let_def ibf_set_def)
    qed
  qed
qed

text \<open>Consequences used by the drivers built on the controller.\<close>

lemma kbc_write_spec_writes:
  assumes "kbc_write_spec port command n tr (Some u, tr')"
  shows "writes tr' = (port, command) # writes tr"
  using assms by cases (auto split: if_splits)

lemma kbc_write_writes:
  "kbc_write K port command tr = (Some u, tr') \<Longrightarrow> writes tr' = (port, command) # writes tr"
  using kbc_write_loop_spec [of port command MAX_ATTEMPTS tr K]
  by (auto simp: kbc_write_def intro: kbc_write_spec_writes)

lemma kbc_read_spec_writes:
  assumes "kbc_read_spec mouse n data tr res"
  shows "writes (snd res) = writes tr"
  using assms by cases (auto dest: polled_counts)

lemma kbc_read_byte_writes: "kbc_read_byte K mouse tr = (r, tr') \<Longrightarrow> writes tr' = writes tr"
  using kbc_read_spec_writes [OF kbc_read_outbuff_loop_spec [of mouse 8 0 tr K]]
  by (auto simp: kbc_read_byte_def kbc_read_outbuff_def split: prod.splits)

text \<open>Transfers that succeed at the first poll.\<close>

lemma kbc_write_at_once:
  assumes "k_inb K tr KBC_REG_STAT = Some st" and "\<not> flag (ucast st :: u8) KBC_STAT_IBF"
    and "k_outb K (Inb KBC_REG_STAT (Some st) # tr) port command"
  shows "kbc_write K port command tr =
    (Some (), Outb port command True # Inb KBC_REG_STAT (Some st) # tr)"
proof -
  have "kbc_write_loop K port command (Suc 19) tr =
      (Some (), Outb port command True # Inb KBC_REG_STAT (Some st) # tr)"
    using assms by (simp only: kbc_write_loop_Suc) (simp add: sys_outb_def)
  then show ?thesis by (simp add: kbc_write_def c_consts)
qed

lemma kbc_read_at_once:
  assumes "k_inb K tr KBC_REG_STAT = Some st" and "readable mouse (ucast st)" "\<not> corrupt (ucast st)"
    and "k_inb K (Inb KBC_REG_STAT (Some st) # tr) KBC_REG_OUT_BUF = Some v"
  shows "kbc_read_outbuff K mouse data tr =
    ((True, ucast v), Inb KBC_REG_OUT_BUF (Some v) # Inb KBC_REG_STAT (Some st) # tr)"
proof -
  have "kbc_read_outbuff_loop K mouse (Suc 7) data tr =
      ((True, ucast v), Inb KBC_REG_OUT_BUF (Some v) # Inb KBC_REG_STAT (Some st) # tr)"
    using assms
    by (simp only: kbc_read_outbuff_loop.simps)
      (simp add: readable_def corrupt_def kbc_read_status_apply util_sys_inb_apply)
  then show ?thesis by (simp add: kbc_read_outbuff_def)
qed

section \<open>Histories with guarded writes\<close>

text \<open>
  The contract the driver functions above \<open>kbc.c\<close> rely on: a property of histories that survives
  reads and delays, and survives a write to the controller's ports that directly follows a status
  read with a free input buffer.  Every function built from \<open>kbc_read_outbuff\<close> and
  \<open>kbc_write\<close> then keeps it.
\<close>

locale guarded_writes = trace_invariant +
  assumes guarded: "I tr \<Longrightarrow> \<not> flag (ucast st :: u8) KBC_STAT_IBF \<Longrightarrow>
    p = KBC_REG_IN_BUF \<or> p = KBC_REG_COMMAND \<Longrightarrow>
    I (Outb p b ok # Inb KBC_REG_STAT (Some st) # tr)"
begin

lemma keeps_kbc_read_status: "keeps I (kbc_read_status K)"
  by (simp add: kbc_read_status_def keeps_util_sys_inb)

lemma kbc_read_outbuff_loop_keeps: "I tr \<Longrightarrow> I (snd (kbc_read_outbuff_loop K mouse n data tr))"
proof (induction n arbitrary: mouse tr)
  case 0
  then show ?case by simp
next
  case (Suc n)
  have retry: "I t \<Longrightarrow> I (snd (kbc_read_outbuff_loop K m n data (snd (tickdelay DELAY_US t))))" for m t
    by (rule Suc.IH) (rule keepsD [OF keeps_tickdelay])
  from Suc.prems show ?case
    by (simp add: Let_def kbc_read_status_apply util_sys_inb_apply retry inb split: option.splits)
qed

lemma kbc_read_outbuff_keeps: "I tr \<Longrightarrow> I (snd (kbc_read_outbuff K mouse data tr))"
  by (simp add: kbc_read_outbuff_def kbc_read_outbuff_loop_keeps)

lemma keeps_kbc_read_byte: "keeps I (kbc_read_byte K mouse)"
proof (rule keepsI)
  fix tr
  assume "I tr"
  then have "I (snd (kbc_read_outbuff K mouse 0 tr))" by (rule kbc_read_outbuff_keeps)
  then show "I (snd (kbc_read_byte K mouse tr))"
    by (auto simp: kbc_read_byte_def split: prod.splits)
qed

lemma keeps_kbc_write_loop:
  assumes port: "port = KBC_REG_IN_BUF \<or> port = KBC_REG_COMMAND"
  shows "keeps I (kbc_write_loop K port command n)"
proof (rule keepsI)
  fix tr
  assume "I tr"
  then show "I (snd (kbc_write_loop K port command n tr))"
  proof (induction n arbitrary: tr)
    case 0
    then show ?case by (simp add: ret_err_def)
  next
    case (Suc n)
    then show ?case
      by (auto simp: kbc_write_loop_Suc sys_outb_def Let_def
          intro!: Suc.IH inb delay guarded [OF _ _ port] split: option.splits)
  qed
qed

lemma keeps_kbc_write:
  "port = KBC_REG_IN_BUF \<or> port = KBC_REG_COMMAND \<Longrightarrow> keeps I (kbc_write K port command)"
  unfolding kbc_write_def by (rule keeps_kbc_write_loop)

lemma keeps_kbc_command: "keeps I (kbc_write K KBC_REG_COMMAND command)"
  by (simp add: keeps_kbc_write)

lemma keeps_kbc_argument: "keeps I (kbc_write K KBC_REG_IN_BUF command)"
  by (simp add: keeps_kbc_write)

lemmas keeps_kbc = keeps_kbc_read_status keeps_kbc_read_byte keeps_kbc_command keeps_kbc_argument

end

text \<open>No byte is ever written to the controller unless the status read just before it
  showed a free input buffer.\<close>

fun kbc_polite :: "trace \<Rightarrow> bool" where
  "kbc_polite [] = True"
| "kbc_polite (Outb p b ok # tr) =
     ((p = KBC_REG_IN_BUF \<or> p = KBC_REG_COMMAND \<longrightarrow>
        (case tr of Inb q (Some st) # _ \<Rightarrow> q = KBC_REG_STAT \<and> \<not> flag (ucast st) KBC_STAT_IBF
         | _ \<Rightarrow> False)) \<and> kbc_polite tr)"
| "kbc_polite (_ # tr) = kbc_polite tr"

text \<open>Only the controller's two ports are ever written.\<close>

definition kbc_ports_only :: "trace \<Rightarrow> bool" where
  "kbc_ports_only tr \<longleftrightarrow> list_all (\<lambda>(p, b). p = KBC_REG_IN_BUF \<or> p = KBC_REG_COMMAND) (writes tr)"

interpretation polite: guarded_writes kbc_polite
  by unfold_locales auto

interpretation ports: guarded_writes kbc_ports_only
  by unfold_locales (auto simp: kbc_ports_only_def)

section \<open>Properties of the controller driver\<close>

text \<open>C16: reading the output buffer meets its specification for every behaviour of the machine: it polls
  at most eight times and takes the byte of the first status that showed a full output buffer for the
  requested device and after which the byte could be read; the call succeeds exactly when that status had no parity or timeout error.  It
  gives up, with \<open>data\<close> untouched, only when each of eight polls offered no byte or failed.  Nothing is written.\<close>

theorem kbc_read_outbuff_meets_spec:
  "kbc_read_spec mouse 8 data tr (kbc_read_outbuff K mouse data tr)"
  unfolding kbc_read_outbuff_def by (rule kbc_read_outbuff_loop_spec)

text \<open>C17: writing to the controller meets its specification: the byte goes out once, at the
  first poll that shows a free input buffer; an unreadable status ends the call with nothing
  written; a buffer that stays full for all twenty polls ends it with nothing written.\<close>

theorem kbc_write_meets_spec:
  "kbc_write_spec port command 20 tr (kbc_write K port command tr)"
  using kbc_write_loop_spec [of port command 20 tr K] by (simp add: kbc_write_def c_consts)

section \<open>Progress\<close>

text \<open>The controller answers status reads, and its input buffer is free from the \<open>j\<close>-th poll
  after \<open>tr\<close> on.\<close>

definition drains_after :: "kernel \<Rightarrow> nat \<Rightarrow> trace \<Rightarrow> bool" where
  "drains_after K j tr \<longleftrightarrow>
     (\<forall>tr'. \<exists>st. k_inb K tr' KBC_REG_STAT = Some st \<and>
        (status_reads tr + j \<le> status_reads tr' \<longrightarrow> \<not> flag (ucast st :: u8) KBC_STAT_IBF))"

lemma kbc_write_loop_progress:
  assumes drains: "drains_after K j tr" and outb: "\<And>tr'. k_outb K tr' port command"
  shows "status_reads tr' = status_reads tr + k \<Longrightarrow> k \<le> j \<Longrightarrow> j < k + n \<Longrightarrow>
    fst (kbc_write_loop K port command n tr') = Some ()"
proof (induction n arbitrary: tr' k)
  case 0
  then show ?case by simp
next
  case (Suc n)
  from drains obtain st where st: "k_inb K tr' KBC_REG_STAT = Some st"
    and free: "status_reads tr + j \<le> status_reads tr' \<longrightarrow> \<not> flag (ucast st :: u8) KBC_STAT_IBF"
    unfolding drains_after_def by blast
  show ?case
  proof (cases "flag (ucast st :: u8) KBC_STAT_IBF")
    case True
    with free Suc.prems have "Suc k \<le> j" "j < Suc k + n" by auto
    then have "fst (kbc_write_loop K port command n
        (Tickdelay DELAY_US # Inb KBC_REG_STAT (Some st) # tr')) = Some ()"
      using Suc.prems(1) by (intro Suc.IH [of _ "Suc k"]) auto
    with st True show ?thesis by (simp add: kbc_write_loop_Suc)
  next
    case False
    with st outb show ?thesis by (simp add: kbc_write_loop_Suc sys_outb_def Let_def)
  qed
qed

text \<open>A controller that frees its input buffer within the twenty polls gets the byte: the
  write returns \<open>0\<close>.\<close>

theorem kbc_write_progress:
  assumes "drains_after K j tr" and "j < 20" and "\<And>tr'. k_outb K tr' port command"
  shows "fst (kbc_write K port command tr) = Some ()"
  unfolding kbc_write_def
  by (rule kbc_write_loop_progress [OF assms(1,3), of tr 0]) (use assms(2) in \<open>simp_all add: c_consts\<close>)

definition slow_controller :: kernel where
  "slow_controller =
     \<lparr>k_inb = (\<lambda>tr p. Some (if status_reads tr < 3 then 2 else 0)), k_outb = (\<lambda>_ _ _. True),
      k_irqset = (\<lambda>_ _ _ h. Some h), k_irqrm = (\<lambda>_ h. Some h), k_int86 = (\<lambda>_ _ _ _. True)\<rparr>"

theorem kbc_write_progress_witness:
  "drains_after slow_controller 3 [] \<and> fst (kbc_write slow_controller KBC_REG_COMMAND 0xD4 []) = Some ()"
proof -
  have "drains_after slow_controller 3 []"
    by (simp add: drains_after_def slow_controller_def flag_def)
  then show ?thesis
    using kbc_write_progress [of slow_controller 3 "[]" KBC_REG_COMMAND "0xD4"]
    by (simp add: slow_controller_def)
qed

end
