(* ===== verification/Keyboard.thy ===== *)
theory Keyboard
  imports Kbc
begin

text \<open>
  The keyboard driver, \<open>drivers/keyboard.c\<close>: its three global variables as a record, interrupt
  subscription, reading a scancode, the interrupt handler of the labs and re-enabling interrupts
  through the controller's command byte.
\<close>

record keyboard_drv =
  kbd_hook_id :: int
  kbd_ih_valid :: bool
  scan_code :: u8

definition keyboard_drv_start :: keyboard_drv where
  "keyboard_drv_start = \<lparr>kbd_hook_id = 1, kbd_ih_valid = False, scan_code = 0\<rparr>"

definition keyboard_subscribe :: "kernel \<Rightarrow> (keyboard_drv \<times> trace, u8) io" where
  "keyboard_subscribe K =
     (\<lambda>(s, tr). let bit_no = hook_bit (kbd_hook_id s) in
        case sys_irqsetpolicy K KBC_IRQ_KBD (IRQ_REENABLE OR IRQ_EXCLUSIVE) (kbd_hook_id s) tr of
          (None, tr') \<Rightarrow> (None, (s, tr'))
        | (Some h, tr') \<Rightarrow> (Some bit_no, (s\<lparr>kbd_hook_id := h\<rparr>, tr')))"

definition keyboard_unsubscribe :: "kernel \<Rightarrow> (keyboard_drv \<times> trace, unit) io" where
  "keyboard_unsubscribe K =
     (\<lambda>(s, tr). case sys_irqrmpolicy K (kbd_hook_id s) tr of
          (None, tr') \<Rightarrow> (None, (s, tr'))
        | (Some h, tr') \<Rightarrow> (Some (), (s\<lparr>kbd_hook_id := h\<rparr>, tr')))"

text \<open>As for \<open>kbc_read_outbuff\<close>, the result holds the byte at \<open>scancode\<close> on return.\<close>

definition keyboard_read_scancode :: "kernel \<Rightarrow> u8 \<Rightarrow> trace \<Rightarrow> (bool \<times> u8) \<times> trace" where
  "keyboard_read_scancode K scancode tr =
     (case kbc_read_status K tr of
        (None, tr1) \<Rightarrow> ((False, scancode), tr1)
      | (Some status, tr1) \<Rightarrow>
          if \<not> flag status KBC_STAT_OBF then ((False, scancode), tr1)
          else if flag status (KBC_STAT_PARITY OR KBC_STAT_TIMEOUT) then ((False, scancode), tr1)
          else kbc_read_outbuff K False scancode tr1)"

definition kbc_ih :: "kernel \<Rightarrow> keyboard_drv \<times> trace \<Rightarrow> keyboard_drv \<times> trace" where
  "kbc_ih K = (\<lambda>(s, tr).
     case kbc_read_status K tr of
       (None, tr1) \<Rightarrow> (s, tr1)
     | (Some status, tr1) \<Rightarrow>
         if \<not> flag status KBC_STAT_OBF then (s, tr1)
         else if flag status (KBC_STAT_PARITY OR KBC_STAT_TIMEOUT) then (s, tr1)
         else (case kbc_read_outbuff K False (scan_code s) tr1 of
                 ((ok, b), tr2) \<Rightarrow>
                   if ok then (s\<lparr>scan_code := b, kbd_ih_valid := True\<rparr>, tr2)
                   else (s\<lparr>scan_code := b\<rparr>, tr2)))"

definition keyboard_enable_interrupts :: "kernel \<Rightarrow> (trace, unit) io" where
  "keyboard_enable_interrupts K =
     andthen (kbc_write K KBC_REG_COMMAND KBC_COMM_DISABLE_KBD_INTERFACE) (\<lambda>_.
     andthen (kbc_write K KBC_REG_COMMAND KBC_COMM_READ_BYTE) (\<lambda>_.
     andthen (kbc_read_byte K False) (\<lambda>command.
     andthen (kbc_write K KBC_REG_COMMAND KBC_COMM_WRITE_BYTE) (\<lambda>_.
     andthen (kbc_write K KBC_REG_IN_BUF (command OR KBC_COMM_B_INT_KBD)) (\<lambda>_.
     andthen (kbc_write K KBC_REG_COMMAND KBC_COMM_ENABLE_KBD_INTERFACE) (\<lambda>_.
     ret_ok ()))))))"

context guarded_writes
begin

lemma keeps_keyboard_enable_interrupts:
  "keeps I (keyboard_enable_interrupts K)"
  unfolding keyboard_enable_interrupts_def
  by (intro keeps_andthen keeps_kbc keeps_ret_ok)

end

section \<open>Properties of the keyboard driver\<close>

text \<open>The bytes of a successful \<open>keyboard_enable_interrupts\<close>, newest first.\<close>

definition enable_protocol :: "u8 \<Rightarrow> (nat \<times> u8) list" where
  "enable_protocol command =
     [(KBC_REG_COMMAND, KBC_COMM_ENABLE_KBD_INTERFACE),
      (KBC_REG_IN_BUF, command OR KBC_COMM_B_INT_KBD),
      (KBC_REG_COMMAND, KBC_COMM_WRITE_BYTE),
      (KBC_REG_COMMAND, KBC_COMM_READ_BYTE),
      (KBC_REG_COMMAND, KBC_COMM_DISABLE_KBD_INTERFACE)]"

text \<open>A successful \<open>keyboard_enable_interrupts\<close> writes exactly five bytes, in the order disable
  interface, read command byte, write command byte, the byte read with the keyboard interrupt bit
  set, enable interface.\<close>

theorem keyboard_enable_interrupts_protocol:
  assumes "keyboard_enable_interrupts K tr = (Some (), tr')"
  shows "\<exists>command. writes tr' = enable_protocol command @ writes tr"
  using assms
  by (auto simp: keyboard_enable_interrupts_def io_defs enable_protocol_def
      dest!: kbc_write_writes kbc_read_byte_writes split: prod.splits option.splits)

definition idle_keyboard :: kernel where
  "idle_keyboard =
     \<lparr>k_inb = (\<lambda>tr p. Some (if p = 0x64 then 1 else 0x46)), k_outb = (\<lambda>_ _ _. True),
      k_irqset = (\<lambda>_ _ _ h. Some h), k_irqrm = (\<lambda>_ h. Some h), k_int86 = (\<lambda>_ _ _ _. True)\<rparr>"

lemma idle_keyboard_write:
  "kbc_write idle_keyboard p c tr = (Some (), Outb p c True # Inb KBC_REG_STAT (Some 1) # tr)"
  by (rule kbc_write_at_once) (simp_all add: idle_keyboard_def c_consts flag_BIT)

lemma idle_keyboard_read:
  "kbc_read_byte idle_keyboard False tr =
     (Some 0x46, Inb KBC_REG_OUT_BUF (Some 0x46) # Inb KBC_REG_STAT (Some 1) # tr)"
proof -
  have "kbc_read_outbuff idle_keyboard False 0 tr =
      ((True, ucast (0x46 :: u32)), Inb KBC_REG_OUT_BUF (Some 0x46) # Inb KBC_REG_STAT (Some 1) # tr)"
    by (rule kbc_read_at_once)
      (simp_all add: idle_keyboard_def c_consts readable_def corrupt_def flag_or flag_BIT)
  then show ?thesis by (simp add: kbc_read_byte_def)
qed

theorem keyboard_enable_interrupts_protocol_witness:
  "\<exists>command. writes (snd (keyboard_enable_interrupts idle_keyboard [])) = enable_protocol command"
proof -
  have "keyboard_enable_interrupts idle_keyboard [] =
      (Some (), snd (keyboard_enable_interrupts idle_keyboard []))"
    by (simp add: keyboard_enable_interrupts_def io_defs idle_keyboard_write idle_keyboard_read)
  from keyboard_enable_interrupts_protocol [OF this] show ?thesis by simp
qed

lemma keyboard_read_scancode_cases:
  "(\<exists>e. keyboard_read_scancode K scancode tr = ((False, scancode), e # tr)) \<or>
   (\<exists>e. keyboard_read_scancode K scancode tr = kbc_read_outbuff K False scancode (e # tr))"
  by (cases "k_inb K tr KBC_REG_STAT") (auto simp: keyboard_read_scancode_def kbc_read_status_apply)

text \<open>A scancode is reported as read exactly when it was taken from the controller's output
  buffer after a status that offered keyboard data without parity or timeout error; a call that
  took no byte fails and leaves the caller's variable as it was.\<close>

theorem keyboard_read_scancode_sound:
  "case keyboard_read_scancode K scancode tr of ((ok, b), tr') \<Rightarrow>
     (\<exists>st v rest. tr' = Inb KBC_REG_OUT_BUF (Some v) # Inb KBC_REG_STAT (Some st) # rest @ tr \<and>
        b = ucast v \<and> readable False (ucast st) \<and> (ok \<longleftrightarrow> \<not> corrupt (ucast st)))
   \<or> ok = False \<and> b = scancode"
proof -
  consider (early) e where "keyboard_read_scancode K scancode tr = ((False, scancode), e # tr)"
    | (read) e where "keyboard_read_scancode K scancode tr = kbc_read_outbuff K False scancode (e # tr)"
    using keyboard_read_scancode_cases [of K scancode tr] by blast
  then show ?thesis
  proof cases
    case early
    then show ?thesis by simp
  next
    case (read e)
    have "kbc_read_spec False 8 scancode (e # tr) (kbc_read_outbuff K False scancode (e # tr))"
      unfolding kbc_read_outbuff_def by (rule kbc_read_outbuff_loop_spec)
    then show ?thesis
    proof cases
      case (delivered k rest st v)
      with read show ?thesis
        by (auto intro!: exI [of _ st] exI [of _ v] exI [of _ "rest @ [e]"])
    next
      case (exhausted rest)
      with read show ?thesis by simp
    qed
  qed
qed

end
