(* ===== verification/Mouse.thy ===== *)
theory Mouse
  imports Kbc
begin

text \<open>
  The PS/2 mouse driver, \<open>drivers/mouse.c\<close>: its global variables as a record, the byte-wise packet
  assembly with resynchronisation, packet decoding, and the command/acknowledge exchange.
  The lemmas show that a packet decodes to the movement the device encoded, that stray bytes before
  a packet are skipped, and which bytes a command exchange puts on the controller's ports.
\<close>

section \<open>State\<close>

text \<open>\<open>struct packet\<close> of \<open>lcom/lab4.h\<close>.\<close>

record packet =
  pkt_bytes :: "u8 list"
  rb :: bool
  mb :: bool
  lb :: bool
  delta_x :: u16
  delta_y :: u16
  x_ov :: bool
  y_ov :: bool

definition packet_zero :: packet where
  "packet_zero = \<lparr>pkt_bytes = [0, 0, 0], rb = False, mb = False, lb = False, delta_x = 0, delta_y = 0,
     x_ov = False, y_ov = False\<rparr>"

record mouse_drv =
  mouse_hook_id :: int
  current_byte_index :: u8
  current_byte :: u8
  mouse_bytes :: "u8 list"
  packet_ready :: bool
  cur_packet :: packet

definition mouse_drv_start :: mouse_drv where
  "mouse_drv_start =
     \<lparr>mouse_hook_id = 2, current_byte_index = 0, current_byte = 0, mouse_bytes = [0, 0, 0],
      packet_ready = False, cur_packet = packet_zero\<rparr>"

section \<open>Operations\<close>

definition mouse_subscribe :: "kernel \<Rightarrow> (mouse_drv \<times> trace, u8) io" where
  "mouse_subscribe K =
     (\<lambda>(s, tr). let bit_no = hook_bit (mouse_hook_id s) in
        case sys_irqsetpolicy K KBC_IRQ_MOUSE (IRQ_REENABLE OR IRQ_EXCLUSIVE) (mouse_hook_id s) tr of
          (None, tr') \<Rightarrow> (None, (s, tr'))
        | (Some h, tr') \<Rightarrow> (Some bit_no, (s\<lparr>mouse_hook_id := h\<rparr>, tr')))"

definition mouse_unsubscribe :: "kernel \<Rightarrow> (mouse_drv \<times> trace, unit) io" where
  "mouse_unsubscribe K =
     (\<lambda>(s, tr). case sys_irqrmpolicy K (mouse_hook_id s) tr of
          (None, tr') \<Rightarrow> (None, (s, tr'))
        | (Some h, tr') \<Rightarrow> (Some (), (s\<lparr>mouse_hook_id := h\<rparr>, tr')))"

definition mouse_packet_ready :: "mouse_drv \<Rightarrow> bool" where
  "mouse_packet_ready s = packet_ready s"

text \<open>The branches of \<open>mouse_read_packet\<close> after a successful read.\<close>

definition mouse_accept_byte :: "mouse_drv \<Rightarrow> mouse_drv" where
  "mouse_accept_byte s =
     (if current_byte_index s = 0 \<and> flag (current_byte s) (BIT 3)
      then s\<lparr>mouse_bytes := (mouse_bytes s)[0 := current_byte s],
             current_byte_index := current_byte_index s + 1, packet_ready := False\<rparr>
      else if current_byte_index s = 1
      then s\<lparr>mouse_bytes := (mouse_bytes s)[1 := current_byte s],
             current_byte_index := current_byte_index s + 1\<rparr>
      else if current_byte_index s = 2
      then s\<lparr>mouse_bytes := (mouse_bytes s)[2 := current_byte s],
             current_byte_index := 0, packet_ready := True\<rparr>
      else s)"

definition mouse_read_packet :: "kernel \<Rightarrow> (mouse_drv \<times> trace, unit) io" where
  "mouse_read_packet K =
     (\<lambda>(s, tr). case kbc_read_outbuff K True (current_byte s) tr of
        ((ok, b), tr') \<Rightarrow>
          if ok then (Some (), (mouse_accept_byte (s\<lparr>current_byte := b\<rparr>), tr'))
          else (None, (s\<lparr>current_byte := b\<rparr>, tr')))"

definition mouse_get_packet :: "mouse_drv \<Rightarrow> (packet \<times> mouse_drv) option" where
  "mouse_get_packet s =
     (if \<not> packet_ready s then None
      else let b = mouse_bytes s;
               p = \<lparr>pkt_bytes = b,
                    rb = flag (b ! 0) MOUSE_DP_RB,
                    mb = flag (b ! 0) MOUSE_DP_MB,
                    lb = flag (b ! 0) MOUSE_DP_LB,
                    delta_x = (if flag (b ! 0) MOUSE_DP_MSB_X then 0xFF00 OR ucast (b ! 1)
                               else ucast (b ! 1)),
                    delta_y = (if flag (b ! 0) MOUSE_DP_MSB_Y then 0xFF00 OR ucast (b ! 2)
                               else ucast (b ! 2)),
                    x_ov = flag (b ! 0) MOUSE_DP_X_OVFL,
                    y_ov = flag (b ! 0) MOUSE_DP_Y_OVFL\<rparr>
           in Some (p, s\<lparr>cur_packet := p\<rparr>))"

fun mouse_read_response_loop :: "kernel \<Rightarrow> nat \<Rightarrow> (trace, u8) io" where
  "mouse_read_response_loop K 0 = ret_err"
| "mouse_read_response_loop K (Suc cnt) =
     andthen (kbc_read_status K) (\<lambda>status.
       if \<not> flag status KBC_STAT_OBF
       then andthen (tickdelay DELAY_US) (\<lambda>_. mouse_read_response_loop K cnt)
       else kbc_read_byte K True)"

definition mouse_read_response :: "kernel \<Rightarrow> (trace, u8) io" where
  "mouse_read_response K = mouse_read_response_loop K MAX_ATTEMPTS"

text \<open>
  \<open>mouse_write_command\<close> tests its local \<open>aknl\<close> before it has assigned it: the value it finds there is
  the argument \<open>aknl\<close> of the loop.
\<close>

fun mouse_write_command_loop :: "kernel \<Rightarrow> u8 \<Rightarrow> nat \<Rightarrow> u8 \<Rightarrow> (trace, unit) io" where
  "mouse_write_command_loop K command 0 aknl = ret_err"
| "mouse_write_command_loop K command (Suc cnt) aknl =
     (if aknl = MOUSE_RES_ACK then ret_err
      else andthen (kbc_write K KBC_REG_COMMAND KBC_COMM_WRITE_MOUSE_COMM_BYTE) (\<lambda>_.
           andthen (kbc_write K KBC_REG_IN_BUF command) (\<lambda>_.
           andthen (tickdelay DELAY_US) (\<lambda>_.
           andthen (util_sys_inb K KBC_REG_OUT_BUF) (\<lambda>aknl'.
             if aknl' = MOUSE_RES_ACK then ret_ok ()
             else mouse_write_command_loop K command cnt aknl')))))"

definition mouse_write_command :: "kernel \<Rightarrow> u8 \<Rightarrow> u8 \<Rightarrow> (trace, unit) io" where
  "mouse_write_command K aknl command = mouse_write_command_loop K command MAX_ATTEMPTS aknl"

definition mouse_enable_data :: "kernel \<Rightarrow> u8 \<Rightarrow> (trace, unit) io" where
  "mouse_enable_data K aknl = mouse_write_command K aknl MOUSE_COMM_ENABLE_DATA_REPORTING"

definition mouse_disable_data :: "kernel \<Rightarrow> u8 \<Rightarrow> (trace, unit) io" where
  "mouse_disable_data K aknl = mouse_write_command K aknl MOUSE_COMM_DISABLE_DATA_REPORTING"

text \<open>Each of the three calls has an uninitialised local of its own.\<close>

definition mouse_stream_mode_command :: "kernel \<Rightarrow> u8 \<Rightarrow> u8 \<Rightarrow> u8 \<Rightarrow> u8 \<Rightarrow> (trace, unit) io" where
  "mouse_stream_mode_command K a1 a2 a3 command =
     andthen (mouse_disable_data K a1) (\<lambda>_.
     andthen (mouse_write_command K a2 command) (\<lambda>_.
     mouse_enable_data K a3))"

section \<open>Histories\<close>

context guarded_writes
begin

lemma keeps_mouse_write_command_loop: "keeps I (mouse_write_command_loop K command n aknl)"
proof (induction n arbitrary: aknl)
  case 0
  then show ?case by simp
next
  case (Suc n)
  show ?case
    by (auto intro!: keeps_andthen keeps_kbc keeps_read Suc.IH)
qed

lemma keeps_mouse_write_command: "keeps I (mouse_write_command K aknl command)"
  by (simp add: mouse_write_command_def keeps_mouse_write_command_loop)

lemma keeps_mouse_stream_mode_command: "keeps I (mouse_stream_mode_command K a1 a2 a3 command)"
  unfolding mouse_stream_mode_command_def mouse_disable_data_def mouse_enable_data_def
  by (intro keeps_andthen keeps_mouse_write_command)

lemma keeps_mouse_read_response_loop: "keeps I (mouse_read_response_loop K n)"
proof (induction n)
  case 0
  then show ?case by simp
next
  case (Suc n)
  then show ?case by (auto intro!: keeps_andthen keeps_kbc keeps_read)
qed

end

section \<open>Packet assembly\<close>

text \<open>The effect of one successfully read byte, and of a stream of them.\<close>

definition mouse_feed :: "u8 \<Rightarrow> mouse_drv \<Rightarrow> mouse_drv" where
  "mouse_feed b s = mouse_accept_byte (s\<lparr>current_byte := b\<rparr>)"

definition mouse_drv_ok :: "mouse_drv \<Rightarrow> bool" where
  "mouse_drv_ok s \<longleftrightarrow> length (mouse_bytes s) = 3 \<and> current_byte_index s \<le> 2 \<and>
     (packet_ready s \<longrightarrow> current_byte_index s = 0)"

lemma mouse_drv_start_ok: "mouse_drv_ok mouse_drv_start"
  by (simp add: mouse_drv_ok_def mouse_drv_start_def)

lemma mouse_accept_byte_ok: "mouse_drv_ok s \<Longrightarrow> mouse_drv_ok (mouse_accept_byte s)"
  by (auto simp: mouse_drv_ok_def mouse_accept_byte_def)

lemma mouse_feed_ok: "mouse_drv_ok s \<Longrightarrow> mouse_drv_ok (mouse_feed b s)"
  unfolding mouse_feed_def by (rule mouse_accept_byte_ok) (simp add: mouse_drv_ok_def)

lemma mouse_feed_stray:
  "current_byte_index s = 0 \<Longrightarrow> \<not> bit b 3 \<Longrightarrow> mouse_feed b s = s\<lparr>current_byte := b\<rparr>"
  by (simp add: mouse_feed_def mouse_accept_byte_def flag_BIT)

lemma mouse_feed_strays:
  assumes "current_byte_index s = 0" and "list_all (\<lambda>b. \<not> bit b 3) junk"
  shows "\<exists>c. fold mouse_feed junk s = s\<lparr>current_byte := c\<rparr>"
  using assms
proof (induction junk arbitrary: s)
  case Nil
  have "s = s\<lparr>current_byte := current_byte s\<rparr>" by simp
  then show ?case unfolding fold_simps by (rule exI)
next
  case (Cons b junk)
  with Cons.IH [of "s\<lparr>current_byte := b\<rparr>"] show ?case by (simp add: mouse_feed_stray)
qed

lemma mouse_feed_three:
  assumes "current_byte_index s = 0" "length (mouse_bytes s) = 3" "bit b0 3"
  shows "fold mouse_feed [b0, b1, b2] s =
    s\<lparr>current_byte := b2, mouse_bytes := [b0, b1, b2], current_byte_index := 0, packet_ready := True\<rparr>"
proof -
  from assms(2) obtain x y z where "mouse_bytes s = [x, y, z]"
    by (auto simp: length_Suc_conv numeral_eq_Suc)
  with assms(1,3) show ?thesis by (simp add: mouse_feed_def mouse_accept_byte_def flag_BIT)
qed

text \<open>The PS/2 encoding of a movement: button and sign bits in the first byte, the low eight
  bits of the displacements in the other two.\<close>

definition ps2_encode :: "bool \<Rightarrow> bool \<Rightarrow> bool \<Rightarrow> int \<Rightarrow> int \<Rightarrow> u8 list" where
  "ps2_encode l r m dx dy =
     [BIT 3 OR (if l then BIT 0 else 0) OR (if r then BIT 1 else 0) OR (if m then BIT 2 else 0)
        OR (if dx < 0 then BIT 4 else 0) OR (if dy < 0 then BIT 5 else 0),
      word_of_int dx, word_of_int dy]"

lemma uint_byte_of_int:
  "- 256 \<le> i \<Longrightarrow> i \<le> 255 \<Longrightarrow> uint (word_of_int i :: u8) = (if i < 0 then i + 256 else i)"
  using mod_add_self2 [of i 256] mod_pos_pos_trivial [of i 256] mod_pos_pos_trivial [of "i + 256" 256]
  by (simp add: uint_word_of_int_eq take_bit_eq_mod)

lemma decode_delta:
  "- 256 \<le> i \<Longrightarrow> i < 0 \<Longrightarrow> sint (0xFF00 OR ucast (word_of_int i :: u8) :: u16) = i"
  "0 \<le> i \<Longrightarrow> i \<le> 255 \<Longrightarrow> sint (ucast (word_of_int i :: u8) :: u16) = i"
  by (simp_all add: sint_byte sint_byte_extended uint_byte_of_int)

lemma mouse_packet_decodes:
  assumes ok: "mouse_drv_ok s" "current_byte_index s = 0"
    and junk: "list_all (\<lambda>b. \<not> bit b 3) junk"
    and range: "- 256 \<le> dx" "dx \<le> 255" "- 256 \<le> dy" "dy \<le> 255"
  shows "\<exists>p s'. mouse_get_packet (fold mouse_feed (junk @ ps2_encode l r m dx dy) s) = Some (p, s') \<and>
    lb p = l \<and> rb p = r \<and> mb p = m \<and> sint (delta_x p) = dx \<and> sint (delta_y p) = dy \<and>
    x_ov p = False \<and> y_ov p = False \<and>
    packet_ready (fold mouse_feed (junk @ ps2_encode l r m dx dy) s)"
proof -
  from mouse_feed_strays [OF ok(2) junk] obtain c
    where c: "fold mouse_feed junk s = s\<lparr>current_byte := c\<rparr>" by blast
  have "bit (ps2_encode l r m dx dy ! 0) 3"
    by (simp add: ps2_encode_def bit_or_iff bit_BIT)
  then have "fold mouse_feed (ps2_encode l r m dx dy) (s\<lparr>current_byte := c\<rparr>) =
      s\<lparr>current_byte := word_of_int dy, mouse_bytes := ps2_encode l r m dx dy,
        current_byte_index := 0, packet_ready := True\<rparr>"
    using ok mouse_feed_three [of "s\<lparr>current_byte := c\<rparr>"]
    by (simp add: ps2_encode_def mouse_drv_ok_def)
  with c range show ?thesis
    by (simp add: mouse_get_packet_def ps2_encode_def c_consts flag_BIT bit_or_iff bit_BIT
        decode_delta Let_def)
qed

text \<open>C18: a movement encoded by the device is decoded to the same buttons and the same signed
  displacements, however many stray bytes (without the first-byte marker) precede the packet.\<close>

theorem mouse_packet_roundtrip:
  assumes ok: "mouse_drv_ok s" "current_byte_index s = 0"
    and junk: "list_all (\<lambda>b. \<not> bit b 3) junk"
    and range: "- 256 \<le> dx" "dx \<le> 255" "- 256 \<le> dy" "dy \<le> 255"
  shows "\<exists>p s'. mouse_get_packet (fold mouse_feed (junk @ ps2_encode l r m dx dy) s) = Some (p, s') \<and>
    lb p = l \<and> rb p = r \<and> mb p = m \<and> sint (delta_x p) = dx \<and> sint (delta_y p) = dy \<and>
    x_ov p = False \<and> y_ov p = False"
  using mouse_packet_decodes [OF ok junk range, of l r m] by blast

theorem mouse_packet_roundtrip_witness:
  "\<exists>p s'. mouse_get_packet (fold mouse_feed ([0x05, 0x80] @ ps2_encode True False False (- 7) 12)
      mouse_drv_start) = Some (p, s') \<and>
    lb p = True \<and> rb p = False \<and> mb p = False \<and> sint (delta_x p) = - 7 \<and> sint (delta_y p) = 12 \<and>
    x_ov p = False \<and> y_ov p = False"
  by (rule mouse_packet_roundtrip [OF mouse_drv_start_ok]) (simp_all add: mouse_drv_start_def)

lemma mouse_read_packet_ok:
  "mouse_drv_ok s \<Longrightarrow> mouse_drv_ok (fst (snd (mouse_read_packet K (s, tr))))"
  by (auto simp: mouse_read_packet_def mouse_drv_ok_def split: prod.splits
      intro!: mouse_accept_byte_ok [unfolded mouse_drv_ok_def])

lemma mouse_get_packet_ok: "mouse_drv_ok s \<Longrightarrow> mouse_get_packet s = Some (p, s') \<Longrightarrow> mouse_drv_ok s'"
  by (auto simp: mouse_get_packet_def mouse_drv_ok_def Let_def split: if_splits)

section \<open>Commands\<close>

text \<open>One round of the exchange: the prefix command and the command byte, newest first.\<close>

definition command_round :: "u8 \<Rightarrow> (nat \<times> u8) list" where
  "command_round command =
     [(KBC_REG_IN_BUF, command), (KBC_REG_COMMAND, KBC_COMM_WRITE_MOUSE_COMM_BYTE)]"

lemma mouse_write_command_loop_Suc:
  "mouse_write_command_loop K command (Suc n) aknl tr =
     (if aknl = MOUSE_RES_ACK then (None, tr)
      else case kbc_write K KBC_REG_COMMAND KBC_COMM_WRITE_MOUSE_COMM_BYTE tr of
        (None, t1) \<Rightarrow> (None, t1)
      | (Some _, t1) \<Rightarrow>
          (case kbc_write K KBC_REG_IN_BUF command t1 of
             (None, t2) \<Rightarrow> (None, t2)
           | (Some _, t2) \<Rightarrow>
               let t3 = Tickdelay DELAY_US # t2; r = k_inb K t3 KBC_REG_OUT_BUF;
                   t4 = Inb KBC_REG_OUT_BUF r # t3 in
               (case r of None \<Rightarrow> (None, t4)
                | Some v \<Rightarrow> if (ucast v :: u8) = MOUSE_RES_ACK then (Some (), t4)
                            else mouse_write_command_loop K command n (ucast v) t4)))"
  by (simp add: io_defs tickdelay_def util_sys_inb_apply Let_def split: prod.splits option.splits)

lemma mouse_write_command_loop_protocol:
  "mouse_write_command_loop K command n aknl tr = (Some (), tr') \<Longrightarrow>
     \<exists>k. 1 \<le> k \<and> k \<le> n \<and> writes tr' = concat (replicate k (command_round command)) @ writes tr \<and>
        (\<exists>v rest. tr' = Inb KBC_REG_OUT_BUF (Some v) # rest \<and> (ucast v :: u8) = MOUSE_RES_ACK)"
proof (induction n arbitrary: aknl tr)
  case 0
  then show ?case by (simp add: ret_err_def)
next
  case (Suc n)
  from Suc.prems obtain t1 t2 v where
    t1: "kbc_write K KBC_REG_COMMAND KBC_COMM_WRITE_MOUSE_COMM_BYTE tr = (Some (), t1)" and
    t2: "kbc_write K KBC_REG_IN_BUF command t1 = (Some (), t2)" and
    v: "k_inb K (Tickdelay DELAY_US # t2) KBC_REG_OUT_BUF = Some v"
    unfolding mouse_write_command_loop_Suc Let_def
    by (auto split: if_splits prod.splits option.splits)
  let ?t3 = "Inb KBC_REG_OUT_BUF (Some v) # Tickdelay DELAY_US # t2"
  from Suc.prems t1 t2 v have rest:
    "if (ucast v :: u8) = MOUSE_RES_ACK then tr' = ?t3
     else mouse_write_command_loop K command n (ucast v) ?t3 = (Some (), tr')"
    unfolding mouse_write_command_loop_Suc Let_def by (auto split: if_splits)
  from t1 t2 have w: "writes t2 = command_round command @ writes tr"
    by (auto simp: command_round_def dest!: kbc_write_writes)
  show ?case
  proof (cases "(ucast v :: u8) = MOUSE_RES_ACK")
    case True
    with rest w show ?thesis by (intro exI [of _ 1]) simp
  next
    case False
    with rest obtain k where "1 \<le> k" "k \<le> n"
      and "writes tr' = concat (replicate k (command_round command)) @ writes t2"
      and "\<exists>v rest. tr' = Inb KBC_REG_OUT_BUF (Some v) # rest \<and> (ucast v :: u8) = MOUSE_RES_ACK"
      by (auto dest: Suc.IH)
    with w show ?thesis
      by (intro exI [of _ "Suc k"]) (simp flip: replicate_append_same)
  qed
qed

text \<open>A mouse command that succeeds was sent between one and twenty times, each time as the
  controller's forward-to-mouse command followed by the command byte, with nothing else written, and
  the last thing read is the mouse's acknowledgement.\<close>

theorem mouse_write_command_protocol:
  assumes "mouse_write_command K aknl command tr = (Some (), tr')"
  shows "\<exists>k. 1 \<le> k \<and> k \<le> 20 \<and>
      writes tr' = concat (replicate k (command_round command)) @ writes tr \<and>
      (\<exists>v rest. tr' = Inb KBC_REG_OUT_BUF (Some v) # rest \<and> (ucast v :: u8) = MOUSE_RES_ACK)"
  using mouse_write_command_loop_protocol [of K command MAX_ATTEMPTS aknl tr tr'] assms
  by (simp add: mouse_write_command_def) (simp add: c_consts)

text \<open>A machine whose controller is idle and whose mouse acknowledges everything.\<close>

definition idle_mouse :: kernel where
  "idle_mouse =
     \<lparr>k_inb = (\<lambda>tr p. Some (if p = 0x64 then 0x21 else 0xFA)), k_outb = (\<lambda>_ _ _. True),
      k_irqset = (\<lambda>_ _ _ h. Some h), k_irqrm = (\<lambda>_ h. Some h), k_int86 = (\<lambda>_ _ _ _. True)\<rparr>"

lemma idle_mouse_sel [simp]:
  "k_inb idle_mouse = (\<lambda>tr p. Some (if p = 0x64 then 0x21 else 0xFA))"
  "k_outb idle_mouse = (\<lambda>_ _ _. True)"
  by (simp_all add: idle_mouse_def)

lemma idle_mouse_write:
  "kbc_write idle_mouse p c tr = (Some (), Outb p c True # Inb KBC_REG_STAT (Some 0x21) # tr)"
  by (rule kbc_write_at_once) (simp_all add: c_consts flag_BIT)

lemma idle_mouse_command:
  assumes "aknl \<noteq> MOUSE_RES_ACK"
  shows "mouse_write_command idle_mouse aknl c tr =
    (Some (), [Inb KBC_REG_OUT_BUF (Some 0xFA), Tickdelay DELAY_US,
       Outb KBC_REG_IN_BUF c True, Inb KBC_REG_STAT (Some 0x21),
       Outb KBC_REG_COMMAND KBC_COMM_WRITE_MOUSE_COMM_BYTE True, Inb KBC_REG_STAT (Some 0x21)] @ tr)"
proof -
  have "mouse_write_command_loop idle_mouse c (Suc 19) aknl tr =
    (Some (), [Inb KBC_REG_OUT_BUF (Some 0xFA), Tickdelay DELAY_US,
       Outb KBC_REG_IN_BUF c True, Inb KBC_REG_STAT (Some 0x21),
       Outb KBC_REG_COMMAND KBC_COMM_WRITE_MOUSE_COMM_BYTE True, Inb KBC_REG_STAT (Some 0x21)] @ tr)"
    using assms
    by (simp only: mouse_write_command_loop_Suc idle_mouse_write) (simp add: Let_def c_consts)
  then show ?thesis by (simp add: mouse_write_command_def c_consts)
qed

theorem mouse_write_command_protocol_witness:
  "\<exists>k. 1 \<le> k \<and> k \<le> 20 \<and>
      writes (snd (mouse_write_command idle_mouse 0 0xF4 [])) = concat (replicate k (command_round 0xF4)) \<and>
      (\<exists>v rest. snd (mouse_write_command idle_mouse 0 0xF4 []) = Inb KBC_REG_OUT_BUF (Some v) # rest \<and>
         (ucast v :: u8) = MOUSE_RES_ACK)"
proof -
  have "mouse_write_command idle_mouse 0 0xF4 [] = (Some (), snd (mouse_write_command idle_mouse 0 0xF4 []))"
    by (subst (1 2) idle_mouse_command) (simp_all add: c_consts)
  from mouse_write_command_protocol [OF this] show ?thesis by simp
qed

text \<open>The acknowledgement variable is tested before it is assigned.  If the stack slot happens to hold
  the acknowledgement value, the command is not sent at all and the call reports failure.\<close>

theorem mouse_write_command_uninitialised:
  "mouse_write_command K MOUSE_RES_ACK command tr = (None, tr)"
  by (simp add: mouse_write_command_def c_consts numeral_eq_Suc ret_err_def)

end
