(* ===== verification/Linked_List.thy ===== *)
theory Linked_List
  imports C_Prelude
begin

text \<open>
  \<open>data_structs/linked_list.c\<close> on an explicit heap.  A heap maps addresses to nodes; \<open>malloc\<close> hands out
  addresses that were never used before and fails once the allocation budget is spent; \<open>free\<close>
  removes the node, so that a later access is undefined.  The loops over \<open>next\<close> carry fuel: a heap with
  \<open>brk\<close> addresses has no acyclic path longer than that, so running out of fuel is the endless
  loop on a cyclic list, \<open>Diverges\<close>.  The lemmas show that on a proper list the operations
  return, and refine list append and removal, leaving every other list of the heap alone.
\<close>

section \<open>Nodes and the heap\<close>

record 'd node =
  node_data :: 'd
  node_next :: "nat option"

type_synonym 'd cells = "nat \<Rightarrow> 'd node option"

record 'd nheap =
  cells :: "'d cells"
  brk :: nat      \<comment> \<open>all addresses from here on are fresh\<close>
  avail :: nat    \<comment> \<open>number of allocations that will still succeed\<close>

definition heap_start :: "nat \<Rightarrow> 'd nheap" where
  "heap_start budget = \<lparr>cells = Map.empty, brk = 0, avail = budget\<rparr>"

section \<open>Operations of linked_list.c\<close>

definition Node_create :: "'d nheap \<Rightarrow> 'd \<Rightarrow> (nat \<times> 'd nheap) outcome" where
  "Node_create h d =
     (if avail h = 0 then Exited 1
      else Ok (brk h, h\<lparr>cells := (cells h)(brk h \<mapsto> \<lparr>node_data = d, node_next = None\<rparr>),
                        brk := Suc (brk h), avail := avail h - 1\<rparr>))"

definition node_free :: "nat \<Rightarrow> 'd nheap \<Rightarrow> 'd nheap" where
  "node_free a h = h\<lparr>cells := (cells h)(a := None), avail := Suc (avail h)\<rparr>"

text \<open>\<open>while (temp->next != NULL) temp = temp->next;\<close>\<close>

fun last_node :: "nat \<Rightarrow> 'd cells \<Rightarrow> nat \<Rightarrow> nat outcome" where
  "last_node 0 c temp = Diverges"
| "last_node (Suc fuel) c temp =
     (case c temp of
        None \<Rightarrow> Undefined
      | Some n \<Rightarrow> (case node_next n of None \<Rightarrow> Ok temp | Some nx \<Rightarrow> last_node fuel c nx))"

definition Node_append :: "'d nheap \<Rightarrow> nat option \<Rightarrow> 'd \<Rightarrow> ('d nheap \<times> nat option) outcome" where
  "Node_append h head d =
     obind (Node_create h d) (\<lambda>(newNode, h1).
       case head of
         None \<Rightarrow> Ok (h1, Some newNode)
       | Some p \<Rightarrow>
           obind (last_node (Suc (brk h1)) (cells h1) p) (\<lambda>temp.
             case cells h1 temp of
               None \<Rightarrow> Undefined
             | Some n \<Rightarrow>
                 Ok (h1\<lparr>cells := (cells h1)(temp \<mapsto> n\<lparr>node_next := Some newNode\<rparr>)\<rparr>, Some p)))"

text \<open>\<open>while (temp != NULL && temp->data != data) { prev = temp; temp = temp->next; }\<close>\<close>

fun find_node :: "nat \<Rightarrow> 'd cells \<Rightarrow> nat option \<Rightarrow> nat option \<Rightarrow> 'd \<Rightarrow> (nat option \<times> nat option) outcome" where
  "find_node 0 c prev temp d = Diverges"
| "find_node (Suc fuel) c prev None d = Ok (prev, None)"
| "find_node (Suc fuel) c prev (Some t) d =
     (case c t of
        None \<Rightarrow> Undefined
      | Some n \<Rightarrow> if node_data n \<noteq> d then find_node fuel c (Some t) (node_next n) d
                  else Ok (prev, Some t))"

definition Node_remove :: "'d nheap \<Rightarrow> nat option \<Rightarrow> 'd \<Rightarrow> ('d nheap \<times> nat option) outcome" where
  "Node_remove h head d =
     (case head of
        None \<Rightarrow> Ok (h, None)
      | Some p \<Rightarrow>
          (case cells h p of
             None \<Rightarrow> Undefined
           | Some n \<Rightarrow>
               if node_data n = d then Ok (node_free p h, node_next n)
               else obind (find_node (Suc (Suc (brk h))) (cells h) None (Some p) d) (\<lambda>(prev, temp).
                 case temp of
                   None \<Rightarrow> Ok (h, Some p)
                 | Some t \<Rightarrow>
                     (case (prev, cells h t) of
                        (Some q, Some tn) \<Rightarrow>
                          (case cells h q of
                             None \<Rightarrow> Undefined
                           | Some qn \<Rightarrow>
                               Ok (node_free t (h\<lparr>cells := (cells h)(q \<mapsto> qn\<lparr>node_next := node_next tn\<rparr>)\<rparr>),
                                   Some p))
                      | _ \<Rightarrow> Undefined))))"

text \<open>\<open>List_print(head, print)\<close>: the arguments of the successive calls of \<open>print\<close>.\<close>

fun list_print_loop :: "nat \<Rightarrow> 'd cells \<Rightarrow> nat option \<Rightarrow> 'd list outcome" where
  "list_print_loop 0 c temp = Diverges"
| "list_print_loop (Suc fuel) c None = Ok []"
| "list_print_loop (Suc fuel) c (Some t) =
     (case c t of
        None \<Rightarrow> Undefined
      | Some n \<Rightarrow> obind (list_print_loop fuel c (node_next n)) (\<lambda>ds. Ok (node_data n # ds)))"

definition List_print :: "'d nheap \<Rightarrow> nat option \<Rightarrow> 'd list outcome" where
  "List_print h head = list_print_loop (Suc (Suc (brk h))) (cells h) head"

section \<open>Lists in the heap\<close>

text \<open>\<open>path c p as q\<close>: following \<open>next\<close> from \<open>p\<close> passes exactly the nodes \<open>as\<close> and arrives at \<open>q\<close>.\<close>

primrec path :: "'d cells \<Rightarrow> nat option \<Rightarrow> nat list \<Rightarrow> nat option \<Rightarrow> bool" where
  "path c p [] q \<longleftrightarrow> p = q"
| "path c p (a # as) q \<longleftrightarrow> p = Some a \<and> (\<exists>n. c a = Some n \<and> path c (node_next n) as q)"

definition contents :: "'d cells \<Rightarrow> nat list \<Rightarrow> 'd list" where
  "contents c as = map (\<lambda>a. node_data (the (c a))) as"

definition heap_ok :: "'d nheap \<Rightarrow> bool" where
  "heap_ok h \<longleftrightarrow> (\<forall>a. brk h \<le> a \<longrightarrow> cells h a = None)"

text \<open>The list with head \<open>p\<close> occupies the nodes \<open>as\<close> and holds \<open>xs\<close>.\<close>

definition holds :: "'d nheap \<Rightarrow> nat option \<Rightarrow> nat list \<Rightarrow> 'd list \<Rightarrow> bool" where
  "holds h p as xs \<longleftrightarrow> heap_ok h \<and> path (cells h) p as None \<and> contents (cells h) as = xs"

lemma path_append: "path c p (as @ bs) q \<longleftrightarrow> (\<exists>m. path c p as m \<and> path c m bs q)"
  by (induction as arbitrary: p) auto

lemma path_None [simp]: "path c None as q \<longleftrightarrow> as = [] \<and> q = None"
  by (cases as) auto

lemma path_frame: "a \<notin> set as \<Longrightarrow> path (c(a := v)) p as q = path c p as q"
  by (induction as arbitrary: p) auto

lemma contents_frame: "a \<notin> set as \<Longrightarrow> contents (c(a := v)) as = contents c as"
  by (induction as) (auto simp: contents_def)

lemma contents_Nil [simp]: "contents c [] = []"
  by (simp add: contents_def)

lemma contents_append [simp]: "contents c (as @ bs) = contents c as @ contents c bs"
  by (simp add: contents_def)

lemma path_dom: "path c p as q \<Longrightarrow> set as \<subseteq> dom c"
  by (induction as arbitrary: p) auto

lemma path_unique: "path c p as None \<Longrightarrow> path c p bs None \<Longrightarrow> as = bs"
proof (induction as arbitrary: p bs)
  case Nil
  then show ?case by simp
next
  case (Cons a as)
  then show ?case by (cases bs) auto
qed

lemma path_distinct: "path c p as None \<Longrightarrow> distinct as"
proof (induction as arbitrary: p)
  case Nil
  then show ?case by simp
next
  case (Cons a as)
  then obtain n where n: "c a = Some n" "path c (node_next n) as None" by auto
  have "a \<notin> set as"
  proof
    assume "a \<in> set as"
    then obtain xs ys where split: "as = xs @ a # ys" by (auto simp: in_set_conv_decomp)
    with n have "path c (node_next n) ys None" by (auto simp: path_append)
    with n(2) have "as = ys" by (rule path_unique)
    with split show False by simp
  qed
  with Cons.IH n(2) show ?case by simp
qed

lemma path_length:
  assumes "heap_ok h" "path (cells h) p as None"
  shows "length as \<le> brk h"
proof -
  have "a < brk h" if "cells h a = Some n" for a n
    using assms(1) that unfolding heap_ok_def by (metis not_le option.distinct(1))
  with path_dom [OF assms(2)] have "set as \<subseteq> {..<brk h}" by (force simp: dom_def)
  then have "card (set as) \<le> brk h" using card_mono [of "{..<brk h}"] by simp
  with path_distinct [OF assms(2)] show ?thesis by (simp add: distinct_card)
qed

lemma path_fresh: "heap_ok h \<Longrightarrow> path (cells h) p as q \<Longrightarrow> brk h \<notin> set as"
  using path_dom [of "cells h" p as q] by (auto simp: heap_ok_def dom_def)

section \<open>The loops return on a proper list\<close>

lemma last_node_path:
  "path c (Some p) as None \<Longrightarrow> length as \<le> fuel \<Longrightarrow> last_node fuel c p = Ok (last as)"
proof (induction as arbitrary: p fuel)
  case Nil
  then show ?case by simp
next
  case (Cons a as)
  then obtain n where n: "p = a" "c a = Some n" "path c (node_next n) as None" by auto
  from Cons.prems(2) obtain f where f: "fuel = Suc f" "length as \<le> f" by (cases fuel) auto
  show ?case
  proof (cases "node_next n")
    case None
    with n f show ?thesis by simp
  next
    case (Some nx)
    with n(3) have "as \<noteq> []" by auto
    with Some n f Cons.IH [of nx f] show ?thesis by simp
  qed
qed

text \<open>The node before the first one holding \<open>d\<close>, and that node.\<close>

lemma find_node_path:
  assumes "path c p as None" and "length as < fuel"
  shows "find_node fuel c prev p d =
    Ok (let bs = takeWhile (\<lambda>a. node_data (the (c a)) \<noteq> d) as; cs = dropWhile (\<lambda>a. node_data (the (c a)) \<noteq> d) as
        in (if bs = [] then prev else Some (last bs), if cs = [] then None else Some (hd cs)))"
  using assms
proof (induction as arbitrary: p prev fuel)
  case Nil
  then show ?case by (cases fuel) auto
next
  case (Cons a as)
  then obtain n where n: "p = Some a" "c a = Some n" "path c (node_next n) as None" by auto
  from Cons.prems(2) obtain f where f: "fuel = Suc f" "length as < f" by (cases fuel) auto
  show ?case
  proof (cases "node_data n = d")
    case True
    with n f show ?thesis by simp
  next
    case False
    with n f Cons.IH [OF n(3) f(2), of "Some a"] show ?thesis by (simp add: Let_def)
  qed
qed

lemma list_print_loop_path:
  "path c p as None \<Longrightarrow> length as < fuel \<Longrightarrow> list_print_loop fuel c p = Ok (contents c as)"
proof (induction as arbitrary: p fuel)
  case Nil
  then show ?case by (cases fuel) auto
next
  case (Cons a as)
  then obtain n where n: "p = Some a" "c a = Some n" "path c (node_next n) as None" by auto
  from Cons.prems(2) obtain f where "fuel = Suc f" "length as < f" by (cases fuel) auto
  with n Cons.IH show ?case by (simp add: contents_def)
qed

section \<open>Append\<close>

lemma heap_ok_create:
  "heap_ok h \<Longrightarrow> heap_ok (h\<lparr>cells := (cells h)(brk h \<mapsto> n), brk := Suc (brk h), avail := m\<rparr>)"
  by (auto simp: heap_ok_def)

lemma path_snoc:
  assumes "path c p (as @ [l]) None" and "b \<notin> set (as @ [l])" and "c l = Some n"
  shows "path (c(b \<mapsto> \<lparr>node_data = d, node_next = None\<rparr>, l \<mapsto> n\<lparr>node_next := Some b\<rparr>)) p (as @ [l, b]) None"
proof -
  from path_distinct [OF assms(1)] have "l \<notin> set as" by simp
  moreover from assms(1,3) have "path c p as (Some l)" by (auto simp: path_append)
  ultimately show ?thesis using assms(2) by (auto simp: path_append path_frame)
qed

lemma Node_append_step:
  assumes "holds h p as xs" and "0 < avail h"
  obtains h' p' where "Node_append h p d = Ok (h', p')" "holds h' p' (as @ [brk h]) (xs @ [d])"
    "avail h' = avail h - 1" "brk h' = Suc (brk h)"
    "\<And>a. a \<notin> set as \<Longrightarrow> a \<noteq> brk h \<Longrightarrow> cells h' a = cells h a"
proof -
  let ?new = "\<lparr>node_data = d, node_next = None\<rparr>"
  let ?c1 = "(cells h)(brk h \<mapsto> ?new)"
  let ?h1 = "h\<lparr>cells := ?c1, brk := Suc (brk h), avail := avail h - 1\<rparr>"
  from assms(1) have ok: "heap_ok h" and path: "path (cells h) p as None"
    and xs: "contents (cells h) as = xs"
    by (auto simp: holds_def)
  note fresh = path_fresh [OF ok path]
  have create: "Node_create h d = Ok (brk h, ?h1)" using assms(2) by (simp add: Node_create_def)
  show thesis
  proof (cases as rule: rev_cases)
    case Nil
    with path xs have "p = None" "xs = []" by auto
    with Nil create ok show ?thesis
      by (intro that [of ?h1 "Some (brk h)"])
        (auto simp: Node_append_def holds_def contents_def heap_ok_create)
  next
    case (snoc bs l)
    with path obtain n where n: "cells h l = Some n" by (auto simp: path_append)
    let ?h2 = "?h1\<lparr>cells := ?c1(l \<mapsto> n\<lparr>node_next := Some (brk h)\<rparr>)\<rparr>"
    from snoc path obtain q where q: "p = Some q" by (cases bs) auto
    from snoc fresh have l: "l \<noteq> brk h" "brk h \<notin> set bs" by auto
    from path_distinct [OF path] snoc have "l \<notin> set bs" by simp
    have "path ?c1 (Some q) as None" using path fresh q by (simp add: path_frame)
    then have "last_node (Suc (Suc (brk h))) ?c1 q = Ok l"
      using snoc path_length [OF ok path] by (subst last_node_path) auto
    then have append: "Node_append h p d = Ok (?h2, p)"
      using create n l q by (simp add: Node_append_def del: last_node.simps obind_eq_Ok)
    have "path (cells ?h2) p (as @ [brk h]) None"
      using path_snoc [of "cells h" p bs l "brk h" n d] path n l snoc by simp
    moreover have "contents (cells ?h2) (as @ [brk h]) = xs @ [d]"
      using snoc xs n l \<open>l \<notin> set bs\<close> by (auto simp: contents_frame) (simp add: contents_def)
    moreover have "heap_ok ?h2" using ok n l by (auto simp: heap_ok_def)
    ultimately show ?thesis
      using append snoc by (intro that [of ?h2 p]) (auto simp: holds_def)
  qed
qed

lemma holds_frame:
  assumes "holds h q bs ys" and "\<And>a. a \<in> set bs \<Longrightarrow> cells h' a = cells h a" and "heap_ok h'"
  shows "holds h' q bs ys"
proof -
  have "path (cells h) q bs None \<Longrightarrow> path (cells h') q bs None"
    using assms(2) by (induction bs arbitrary: q) auto
  moreover have "contents (cells h') bs = contents (cells h) bs"
    using assms(2) by (simp add: contents_def)
  ultimately show ?thesis using assms by (simp add: holds_def)
qed

section \<open>Removal\<close>

text \<open>A list splits at its first node holding \<open>d\<close>.\<close>

lemma split_at_first:
  assumes "contents c as = xs"
  obtains (absent) "d \<notin> set xs" "takeWhile (\<lambda>a. node_data (the (c a)) \<noteq> d) as = as"
      "dropWhile (\<lambda>a. node_data (the (c a)) \<noteq> d) as = []"
    | (present) bs t cs where "as = bs @ t # cs" "node_data (the (c t)) = d" "d \<notin> set (contents c bs)"
      "takeWhile (\<lambda>a. node_data (the (c a)) \<noteq> d) as = bs"
      "dropWhile (\<lambda>a. node_data (the (c a)) \<noteq> d) as = t # cs"
proof -
  let ?P = "\<lambda>a. node_data (the (c a)) \<noteq> d"
  show thesis
  proof (cases "dropWhile ?P as")
    case Nil
    then have "\<forall>a\<in>set as. ?P a" by simp
    with Nil assms show ?thesis by (intro absent) (auto simp: contents_def)
  next
    case (Cons t cs)
    then have "node_data (the (c t)) = d" using hd_dropWhile [of ?P as] by force
    moreover have "d \<notin> set (contents c (takeWhile ?P as))"
      by (auto simp: contents_def dest: set_takeWhileD)
    moreover have "as = takeWhile ?P as @ t # cs" using Cons by (metis takeWhile_dropWhile_id)
    ultimately show ?thesis using Cons by (intro present) auto
  qed
qed

lemma unlink_path:
  assumes path: "path c p (bs @ [q, t] @ cs) None" and n: "c q = Some qn" "c t = Some tn"
  shows "path (c(q \<mapsto> qn\<lparr>node_next := node_next tn\<rparr>, t := None)) p (bs @ [q] @ cs) None"
    and "contents (c(q \<mapsto> qn\<lparr>node_next := node_next tn\<rparr>, t := None)) (bs @ [q] @ cs) =
           contents c (bs @ [q] @ cs)"
proof -
  from path_distinct [OF path] have d: "q \<notin> set bs" "t \<notin> set bs" "q \<noteq> t" "q \<notin> set cs" "t \<notin> set cs"
    by auto
  from path n have "path c p bs (Some q)" "path c (node_next tn) cs None"
    by (auto simp: path_append)
  with d show "path (c(q \<mapsto> qn\<lparr>node_next := node_next tn\<rparr>, t := None)) p (bs @ [q] @ cs) None"
    by (auto simp: path_append path_frame)
  show "contents (c(q \<mapsto> qn\<lparr>node_next := node_next tn\<rparr>, t := None)) (bs @ [q] @ cs) =
      contents c (bs @ [q] @ cs)"
    using d n by (simp add: contents_frame) (simp add: contents_def)
qed

lemma heap_ok_unlink: "heap_ok h \<Longrightarrow> cells h q = Some n \<Longrightarrow>
    heap_ok (node_free t (h\<lparr>cells := (cells h)(q \<mapsto> m)\<rparr>))"
  by (auto simp: heap_ok_def node_free_def)

lemma Node_remove_step:
  assumes "holds h p as xs"
  obtains h' p' as' where "Node_remove h p d = Ok (h', p')" "holds h' p' as' (remove1 d xs)"
    "set as' \<subseteq> set as" "avail h' = (if d \<in> set xs then Suc (avail h) else avail h)"
    "\<And>a. a \<notin> set as \<Longrightarrow> cells h' a = cells h a"
proof -
  let ?c = "cells h"
  from assms have ok: "heap_ok h" and path: "path ?c p as None" and xs: "contents ?c as = xs"
    by (auto simp: holds_def)
  have find: "find_node (Suc (Suc (brk h))) ?c None p d =
    Ok (let bs = takeWhile (\<lambda>a. node_data (the (?c a)) \<noteq> d) as;
            cs = dropWhile (\<lambda>a. node_data (the (?c a)) \<noteq> d) as
        in (if bs = [] then None else Some (last bs), if cs = [] then None else Some (hd cs)))"
    by (rule find_node_path [OF path]) (use path_length [OF ok path] in simp)
  note nosimp = find_node.simps obind_eq_Ok
  from xs show thesis
  proof (cases rule: split_at_first [where d = d, consumes 1, case_names absent present])
    case absent
    have "Node_remove h p d = Ok (h, p)"
    proof (cases as)
      case Nil
      with path show ?thesis by (simp add: Node_remove_def)
    next
      case (Cons a as')
      with path obtain n where n: "p = Some a" "?c a = Some n" by auto
      with Cons absent xs have "node_data n \<noteq> d" by (auto simp: contents_def)
      with n absent Cons find show ?thesis by (simp add: Node_remove_def del: nosimp)
    qed
    with assms absent show ?thesis by (intro that [of h p as]) (simp_all add: remove1_idem)
  next
    case (present bs t cs)
    with path obtain tn where tn: "?c t = Some tn" "path ?c (node_next tn) cs None"
      by (auto simp: path_append)
    with present xs have xs': "remove1 d xs = contents ?c (bs @ cs)" "d \<in> set xs"
      by (auto simp: remove1_append contents_def)
    show ?thesis
    proof (cases bs rule: rev_cases)
      case Nil
      with present path tn have "Node_remove h p d = Ok (node_free t h, node_next tn)"
        by (simp add: Node_remove_def)
      moreover have "t \<notin> set cs" using path_distinct [OF path] present by simp
      ultimately show ?thesis
        using Nil present tn xs' ok
        by (intro that [of "node_free t h" "node_next tn" cs])
          (auto simp: holds_def node_free_def path_frame contents_frame heap_ok_def)
    next
      case (snoc bs' q)
      with path present obtain qn where qn: "?c q = Some qn" by (auto simp: path_append)
      from snoc present path obtain a where a: "p = Some a" "?c a \<noteq> None" "node_data (the (?c a)) \<noteq> d"
        by (cases bs') (auto simp: contents_def)
      let ?h' = "node_free t (h\<lparr>cells := ?c(q \<mapsto> qn\<lparr>node_next := node_next tn\<rparr>)\<rparr>)"
      have "Node_remove h p d = Ok (?h', p)"
        using a snoc present tn qn find by (auto simp: Node_remove_def simp del: nosimp)
      moreover have "path ?c p (bs' @ [q, t] @ cs) None" using path present snoc by simp
      note unlink_path [OF this qn tn(1)]
      ultimately show ?thesis
        using snoc present xs' heap_ok_unlink [OF ok qn, of t "qn\<lparr>node_next := node_next tn\<rparr>"]
        by (intro that [of ?h' p "bs' @ [q] @ cs"]) (auto simp: holds_def node_free_def)
    qed
  qed
qed

section \<open>The interface of the list\<close>

text \<open>Appending several elements, as the menu constructors do.\<close>

fun append_all :: "('h \<Rightarrow> 'p \<Rightarrow> 'd \<Rightarrow> ('h \<times> 'p) outcome) \<Rightarrow> 'h \<Rightarrow> 'p \<Rightarrow> 'd list \<Rightarrow> ('h \<times> 'p) outcome" where
  "append_all app h p [] = Ok (h, p)"
| "append_all app h p (d # ds) = obind (app h p d) (\<lambda>(h', p'). append_all app h' p' ds)"

text \<open>
  What the menus rely on: a list with head \<open>p\<close> owns the nodes \<open>A\<close> and holds \<open>xs\<close>; appending with memory
  left adds the element at the end, takes one fresh node and disturbs no list that owns other
  nodes; appending without memory ends the process.
\<close>

locale heap_list =
  fixes append :: "'h \<Rightarrow> 'p \<Rightarrow> 'd \<Rightarrow> ('h \<times> 'p) outcome"
    and rep :: "'h \<Rightarrow> 'p \<Rightarrow> 'a set \<Rightarrow> 'd list \<Rightarrow> bool"
    and room :: "'h \<Rightarrow> nat"
  assumes append: "rep h p A xs \<Longrightarrow> 0 < room h \<Longrightarrow>
      \<exists>h' p' a. append h p d = Ok (h', p') \<and> rep h' p' (insert a A) (xs @ [d]) \<and> room h' = room h - 1 \<and>
        (\<forall>q B ys. rep h q B ys \<longrightarrow> A \<inter> B = {} \<longrightarrow> rep h' q B ys \<and> insert a A \<inter> B = {})"
    and append_full: "room h = 0 \<Longrightarrow> append h p d = Exited 1"
begin

lemma append_all_rep:
  assumes "rep h p A xs" and "length ds \<le> room h"
  shows "\<exists>h' p' A'. append_all append h p ds = Ok (h', p') \<and> rep h' p' A' (xs @ ds) \<and>
    room h' = room h - length ds \<and>
    (\<forall>q B ys. rep h q B ys \<longrightarrow> A \<inter> B = {} \<longrightarrow> rep h' q B ys \<and> A' \<inter> B = {})"
  using assms
proof (induction ds arbitrary: h p A xs)
  case Nil
  then show ?case by auto
next
  case (Cons d ds)
  then obtain h1 p1 a where 1: "append h p d = Ok (h1, p1)" "rep h1 p1 (insert a A) (xs @ [d])"
      "room h1 = room h - 1"
    and frame1: "\<And>q B ys. rep h q B ys \<Longrightarrow> A \<inter> B = {} \<Longrightarrow> rep h1 q B ys \<and> insert a A \<inter> B = {}"
    using append [of h p A xs d] by fastforce
  have "length ds \<le> room h1" using 1(3) Cons.prems(2) by simp
  from Cons.IH [OF 1(2) this] obtain h2 p2 A2 where 2: "append_all append h1 p1 ds = Ok (h2, p2)"
      "rep h2 p2 A2 ((xs @ [d]) @ ds)" "room h2 = room h1 - length ds"
    and frame2: "\<And>q B ys. rep h1 q B ys \<Longrightarrow> insert a A \<inter> B = {} \<Longrightarrow> rep h2 q B ys \<and> A2 \<inter> B = {}"
    by metis
  have "rep h2 q B ys \<and> A2 \<inter> B = {}" if "rep h q B ys" "A \<inter> B = {}" for q B ys
    using frame1 [OF that] frame2 [of q B ys] by simp
  with 1 2 show ?case by (intro exI [of _ h2] exI [of _ p2] exI [of _ A2]) simp
qed

lemma append_all_full:
  assumes "rep h p A xs" and "room h < length ds"
  shows "append_all append h p ds = Exited 1"
  using assms
proof (induction ds arbitrary: h p A xs)
  case Nil
  then show ?case by simp
next
  case (Cons d ds)
  show ?case
  proof (cases "room h = 0")
    case True
    then show ?thesis by (simp add: append_full)
  next
    case False
    with Cons.prems obtain h1 p1 a where "append h p d = Ok (h1, p1)"
        "rep h1 p1 (insert a A) (xs @ [d])" "room h1 = room h - 1"
      using append [of h p A xs d] by fastforce
    with Cons.prems(2) False show ?thesis using Cons.IH [of h1 p1 "insert a A" "xs @ [d]"] by simp
  qed
qed

end

definition node_rep :: "'d nheap \<Rightarrow> nat option \<Rightarrow> nat set \<Rightarrow> 'd list \<Rightarrow> bool" where
  "node_rep h p A xs \<longleftrightarrow> (\<exists>as. holds h p as xs \<and> A = set as)"

interpretation nodes: heap_list Node_append node_rep avail
proof unfold_locales
  fix h :: "'a nheap" and p A xs d
  assume "node_rep h p A xs" and room: "0 < avail h"
  then obtain as where as: "holds h p as xs" "A = set as" by (auto simp: node_rep_def)
  from Node_append_step [OF as(1) room, of d] obtain h' p' where
    h': "Node_append h p d = Ok (h', p')" "holds h' p' (as @ [brk h]) (xs @ [d])"
      "avail h' = avail h - 1"
    and frame: "\<And>a. a \<notin> set as \<Longrightarrow> a \<noteq> brk h \<Longrightarrow> cells h' a = cells h a"
    by metis
  have "node_rep h' q B ys \<and> insert (brk h) A \<inter> B = {}"
    if "node_rep h q B ys" "A \<inter> B = {}" for q B ys
  proof -
    from that(1) obtain bs where bs: "holds h q bs ys" "B = set bs" by (auto simp: node_rep_def)
    then have fresh: "brk h \<notin> set bs" by (auto simp: holds_def dest: path_fresh)
    have "holds h' q bs ys"
    proof (rule holds_frame [OF bs(1)])
      show "heap_ok h'" using h'(2) by (simp add: holds_def)
      show "cells h' a = cells h a" if "a \<in> set bs" for a
        using that fresh bs(2) as(2) \<open>A \<inter> B = {}\<close> by (intro frame) auto
    qed
    with fresh bs(2) that(2) show ?thesis by (auto simp: node_rep_def)
  qed
  with h' as(2) show "\<exists>h' p' a. Node_append h p d = Ok (h', p') \<and>
      node_rep h' p' (insert a A) (xs @ [d]) \<and> avail h' = avail h - 1 \<and>
      (\<forall>q B ys. node_rep h q B ys \<longrightarrow> A \<inter> B = {} \<longrightarrow> node_rep h' q B ys \<and> insert a A \<inter> B = {})"
    by (intro exI [of _ h'] exI [of _ p'] exI [of _ "brk h"]) (auto simp: node_rep_def)
next
  fix h :: "'a nheap" and p d
  assume "avail h = 0"
  then show "Node_append h p d = Exited 1" by (simp add: Node_append_def Node_create_def)
qed

section \<open>Properties of the list\<close>

text \<open>C19: on a proper list with memory left, \<open>Node_append\<close> returns, the list then holds the new
  element at its end, one fresh node has been added to it, and every list with other nodes is as
  before; with no memory left it ends the program with code 1.\<close>

theorem Node_append_correct:
  assumes "node_rep h p A xs"
  shows "if avail h = 0 then Node_append h p d = Exited 1
    else \<exists>h' p' a. Node_append h p d = Ok (h', p') \<and> node_rep h' p' (insert a A) (xs @ [d]) \<and>
      avail h' = avail h - 1 \<and>
      (\<forall>q B ys. node_rep h q B ys \<longrightarrow> A \<inter> B = {} \<longrightarrow> node_rep h' q B ys \<and> insert a A \<inter> B = {})"
proof (cases "avail h = 0")
  case True
  then show ?thesis by (simp add: nodes.append_full)
next
  case False
  then show ?thesis using nodes.append [OF assms, of d] by simp
qed

lemma node_rep_start: "node_rep (heap_start n) None {} []"
  by (simp add: node_rep_def holds_def heap_ok_def heap_start_def)

theorem Node_append_correct_witness:
  "\<exists>h' p' a. Node_append (heap_start 1) None (7 :: nat) = Ok (h', p') \<and> node_rep h' p' {a} [7] \<and> avail h' = 0"
  using Node_append_correct [OF node_rep_start [of 1], of "7 :: nat"] by (auto simp: heap_start_def)

text \<open>C20: on a proper list, \<open>Node_remove\<close> returns, the list then holds its elements without the first
  occurrence of the argument, the node of that occurrence is given back, and every list with other
  nodes is as before.\<close>

theorem Node_remove_correct:
  assumes "node_rep h p A xs"
  shows "\<exists>h' p' B. Node_remove h p d = Ok (h', p') \<and> node_rep h' p' B (remove1 d xs) \<and> B \<subseteq> A \<and>
    avail h' = (if d \<in> set xs then Suc (avail h) else avail h) \<and>
    (\<forall>q C ys. node_rep h q C ys \<longrightarrow> A \<inter> C = {} \<longrightarrow> node_rep h' q C ys)"
proof -
  from assms obtain as where as: "holds h p as xs" "A = set as" by (auto simp: node_rep_def)
  from Node_remove_step [OF as(1), of d] obtain h' p' bs where
    h': "Node_remove h p d = Ok (h', p')" "holds h' p' bs (remove1 d xs)" "set bs \<subseteq> set as"
      "avail h' = (if d \<in> set xs then Suc (avail h) else avail h)"
    and same: "\<And>a. a \<notin> set as \<Longrightarrow> cells h' a = cells h a"
    by metis
  have "node_rep h' q C ys" if "node_rep h q C ys" "A \<inter> C = {}" for q C ys
  proof -
    from that(1) obtain cs where cs: "holds h q cs ys" "C = set cs" by (auto simp: node_rep_def)
    have "holds h' q cs ys"
      by (rule holds_frame [OF cs(1)]) (use h'(2) same that(2) as(2) cs(2) in \<open>auto simp: holds_def\<close>)
    with cs(2) show ?thesis by (auto simp: node_rep_def)
  qed
  with h' as(2) show ?thesis by (intro exI [of _ h'] exI [of _ p'] exI [of _ "set bs"]) (auto simp: node_rep_def)
qed

definition two_nodes :: "nat nheap" where
  "two_nodes = \<lparr>cells = [0 \<mapsto> \<lparr>node_data = 7, node_next = Some 1\<rparr>, 1 \<mapsto> \<lparr>node_data = 8, node_next = None\<rparr>],
     brk = 2, avail = 0\<rparr>"

theorem Node_remove_correct_witness:
  "node_rep two_nodes (Some 0) {0, 1} [7, 8] \<and>
   (\<exists>h' p' B. Node_remove two_nodes (Some 0) 8 = Ok (h', p') \<and> node_rep h' p' B [7] \<and> avail h' = 1)"
proof -
  have rep: "node_rep two_nodes (Some 0) {0, 1} [7, 8]"
    unfolding node_rep_def
    by (rule exI [of _ "[0, 1]"]) (simp add: two_nodes_def holds_def heap_ok_def contents_def)
  then show ?thesis
    using Node_remove_correct [OF rep, of 8] by (auto simp: two_nodes_def)
qed

end
