(* ===== verification/C_Text.thy ===== *)
theory C_Text
  imports C_Prelude
begin

text \<open>
  What the program uses of \<open>printf\<close> and \<open>scanf\<close>: decimal conversions with zero padding,
  the scanning of white-space separated words and of \<open>%lld\<close> numbers, and the fact that
  scanning a printed number gives it back.
\<close>

section \<open>Printing\<close>

definition digit :: "nat \<Rightarrow> char" where
  "digit d = char_of (48 + d)"

fun show_nat :: "nat \<Rightarrow> string" where
  "show_nat n = (if n < 10 then [digit n] else show_nat (n div 10) @ [digit (n mod 10)])"

declare show_nat.simps [simp del]

text \<open>\<open>%d\<close> and \<open>%lld\<close>.\<close>

definition show_int :: "int \<Rightarrow> string" where
  "show_int i = (if i < 0 then CHR ''-'' # show_nat (nat (- i)) else show_nat (nat i))"

text \<open>\<open>%0wd\<close> of a non-negative number.\<close>

definition show_padded :: "nat \<Rightarrow> nat \<Rightarrow> string" where
  "show_padded w n = replicate (w - length (show_nat n)) (CHR ''0'') @ show_nat n"

section \<open>Scanning\<close>

definition is_space :: "char \<Rightarrow> bool" where
  "is_space c \<longleftrightarrow> c \<in> {CHR '' '', CHR 0x09, CHR 0x0A, CHR 0x0B, CHR 0x0C, CHR 0x0D}"

definition is_digit :: "char \<Rightarrow> bool" where
  "is_digit c \<longleftrightarrow> 48 \<le> (of_char c :: nat) \<and> (of_char c :: nat) \<le> 57"

definition skip_spaces :: "string \<Rightarrow> string" where
  "skip_spaces s = dropWhile is_space s"

text \<open>\<open>%s\<close>: skips white space, then takes the longest non-empty run of other characters.\<close>

definition scan_word :: "string \<Rightarrow> (string \<times> string) option" where
  "scan_word s =
     (let r = skip_spaces s; w = takeWhile (\<lambda>c. \<not> is_space c) r
      in if w = [] then None else Some (w, dropWhile (\<lambda>c. \<not> is_space c) r))"

definition digits_value :: "string \<Rightarrow> nat" where
  "digits_value ds = foldl (\<lambda>n c. 10 * n + (of_char c - 48)) 0 ds"

text \<open>\<open>%lld\<close>: skips white space, takes an optional sign and a non-empty run of digits.\<close>

definition scan_int :: "string \<Rightarrow> (int \<times> string) option" where
  "scan_int s =
     (let r = skip_spaces s;
          neg = (case r of c # _ \<Rightarrow> c = CHR ''-'' | [] \<Rightarrow> False);
          r' = (case r of c # cs \<Rightarrow> if c = CHR ''-'' \<or> c = CHR ''+'' then cs else r | [] \<Rightarrow> []);
          ds = takeWhile is_digit r'
      in if ds = [] then None
         else Some (if neg then - int (digits_value ds) else int (digits_value ds),
                    dropWhile is_digit r'))"

section \<open>Scanning what was printed\<close>

lemma of_char_digit: "d < 10 \<Longrightarrow> (of_char (digit d) :: nat) = 48 + d"
  by (simp add: digit_def)

lemma is_digit_digit: "d < 10 \<Longrightarrow> is_digit (digit d)"
  by (simp add: is_digit_def of_char_digit)

lemma show_nat_nonempty [simp]: "show_nat n \<noteq> []"
  by (subst show_nat.simps) simp

lemma show_nat_digits: "list_all is_digit (show_nat n)"
proof (induction n rule: show_nat.induct)
  case (1 n)
  then show ?case by (subst show_nat.simps) (simp add: is_digit_digit)
qed

lemma digits_value_snoc: "digits_value (ds @ [c]) = 10 * digits_value ds + (of_char c - 48)"
  by (simp add: digits_value_def)

lemma digits_value_show [simp]: "digits_value (show_nat n) = n"
proof (induction n rule: show_nat.induct)
  case (1 n)
  then show ?case
    by (subst show_nat.simps) (auto simp: digits_value_snoc of_char_digit, simp add: digits_value_def of_char_digit)
qed

lemma length_show_nat: "0 < k \<Longrightarrow> n < 10 ^ k \<Longrightarrow> length (show_nat n) \<le> k"
proof (induction n arbitrary: k rule: show_nat.induct)
  case (1 n)
  show ?case
  proof (cases "n < 10")
    case True
    with "1.prems" show ?thesis by (simp add: show_nat.simps [of n])
  next
    case False
    with "1.prems" obtain j where j: "k = Suc j" "0 < j" by (cases k; cases "k - 1") auto
    with "1.prems" False "1.IH" [of j] show ?thesis by (simp add: show_nat.simps [of n])
  qed
qed

lemma show_nat_long: "10 ^ k \<le> n \<Longrightarrow> k < length (show_nat n)"
proof (induction n arbitrary: k rule: show_nat.induct)
  case (1 n)
  show ?case
  proof (cases "n < 10")
    case True
    moreover have "n < 10 ^ Suc j" for j using True by (rule less_le_trans) simp
    ultimately show ?thesis using "1.prems" by (cases k) (auto simp: show_nat.simps [of n] not_less [symmetric])
  next
    case False
    show ?thesis
    proof (cases k)
      case (Suc j)
      with "1.prems" have "10 ^ j \<le> n div 10" by simp
      with False Suc "1.IH" [of j] show ?thesis by (simp add: show_nat.simps [of n])
    qed simp
  qed
qed

lemma is_digit_not_space: "is_digit c \<Longrightarrow> \<not> is_space c"
  by (auto simp: is_digit_def is_space_def)

lemma is_digit_not_sign: "is_digit c \<Longrightarrow> c \<noteq> CHR ''-'' \<and> c \<noteq> CHR ''+''"
  by (auto simp: is_digit_def)

lemma takeWhile_all_append: "list_all P xs \<Longrightarrow> \<not> P y \<Longrightarrow> takeWhile P (xs @ y # ys) = xs"
  by (induction xs) auto

lemma dropWhile_all_append: "list_all P xs \<Longrightarrow> \<not> P y \<Longrightarrow> dropWhile P (xs @ y # ys) = y # ys"
  by (induction xs) auto

lemma scan_int_show:
  assumes "is_space y"
  shows "scan_int (show_int i @ y # ys) = Some (i, y # ys)"
proof -
  have y: "\<not> is_digit y" using assms is_digit_not_space by blast
  have run: "takeWhile is_digit (show_nat n @ y # ys) = show_nat n"
    "dropWhile is_digit (show_nat n @ y # ys) = y # ys" for n
    by (simp_all only: takeWhile_all_append [OF show_nat_digits y] dropWhile_all_append [OF show_nat_digits y])
  show ?thesis
  proof (cases "i < 0")
    case True
    then have "skip_spaces (show_int i @ y # ys) = CHR ''-'' # show_nat (nat (- i)) @ y # ys"
      by (simp add: show_int_def skip_spaces_def is_space_def)
    with True run show ?thesis by (simp add: scan_int_def)
  next
    case False
    obtain c cs where c: "show_nat (nat i) = c # cs" by (cases "show_nat (nat i)") auto
    with show_nat_digits [of "nat i"] have "is_digit c" by simp
    with False c is_digit_not_space is_digit_not_sign run [of "nat i"] digits_value_show [of "nat i"] show ?thesis
      by (simp add: scan_int_def show_int_def skip_spaces_def)
  qed
qed

lemma scan_int_skip: "is_space c \<Longrightarrow> scan_int (c # s) = scan_int s"
  by (simp add: scan_int_def skip_spaces_def)

lemma scan_word_skip: "is_space c \<Longrightarrow> scan_word (c # s) = scan_word s"
  by (simp add: scan_word_def skip_spaces_def)

lemma scan_word_word:
  assumes "w \<noteq> []" "list_all (\<lambda>c. \<not> is_space c) w" "is_space y"
  shows "scan_word (w @ y # ys) = Some (w, y # ys)"
proof -
  from assms(1,2) have "skip_spaces (w @ y # ys) = w @ y # ys" by (cases w) (simp_all add: skip_spaces_def)
  with assms show ?thesis
    by (simp add: scan_word_def takeWhile_all_append dropWhile_all_append)
qed

end
