(* ===== verification/Timer.thy ===== *)
theory Timer
  imports Kernel_IO
begin

text \<open>
  The i8254 timer driver: the constants of \<open>drivers/i8254.h\<close> and the functions of \<open>drivers/timer.c\<close>.
  The lemmas show that the divisor programmed into the counter is the one for the requested frequency
  and that the control word keeps the operating mode.
\<close>

section \<open>Constants of drivers/i8254.h\<close>

definition TIMER_FREQ :: u32 where [c_consts]: "TIMER_FREQ = 1193182"
definition TIMER0_IRQ :: nat where [c_consts]: "TIMER0_IRQ = 0"
definition TIMER_0 :: nat where [c_consts]: "TIMER_0 = 0x40"
definition TIMER_CTRL :: nat where [c_consts]: "TIMER_CTRL = 0x43"
definition TIMER_RB_CMD :: u8 where [c_consts]: "TIMER_RB_CMD = BIT 7 OR BIT 6"
definition TIMER_LSB :: u8 where [c_consts]: "TIMER_LSB = BIT 4"
definition TIMER_MSB :: u8 where [c_consts]: "TIMER_MSB = BIT 5"
definition TIMER_LSB_MSB :: u8 where [c_consts]: "TIMER_LSB_MSB = TIMER_LSB OR TIMER_MSB"
definition TIMER_RB_COUNT :: u8 where [c_consts]: "TIMER_RB_COUNT = BIT 5"

text \<open>The shift \<open>1 << (n + 1)\<close> of an \<open>int\<close> is only defined for \<open>n\<close> below 30; the chip has the counters 0 to 2.\<close>

definition TIMER_RB_SEL :: "u8 \<Rightarrow> u8" where
  "TIMER_RB_SEL n = BIT (unat n + 1)"

section \<open>State and operations of drivers/timer.c\<close>

record timer_drv =
  timer_counter :: u32
  timer_hook_id :: int

definition timer_drv_start :: timer_drv where
  "timer_drv_start = \<lparr>timer_counter = 0, timer_hook_id = 0\<rparr>"

definition timer_get_conf :: "kernel \<Rightarrow> u8 \<Rightarrow> (trace, u8) io" where
  "timer_get_conf K timer =
     (let control = TIMER_RB_CMD OR TIMER_RB_COUNT OR TIMER_RB_SEL timer in
      andthen (sys_outb K TIMER_CTRL control) (\<lambda>_.
      util_sys_inb K (TIMER_0 + unat timer)))"

text \<open>\<open>timerADDR\<close> is a \<open>uint8_t\<close>; the two halves of the divisor are written low byte first.\<close>

definition timer_set_frequency :: "kernel \<Rightarrow> u8 \<Rightarrow> u32 \<Rightarrow> (trace, unit) io" where
  "timer_set_frequency K timer freq =
     (if freq < 19 \<or> freq > TIMER_FREQ then ret_err
      else let timerADDR = (of_nat TIMER_0 + timer :: u8) in
        andthen (timer_get_conf K timer) (\<lambda>st.
          let control = TIMER_LSB_MSB OR push_bit 6 timer OR (st AND 0x0f);
              f = (ucast (TIMER_FREQ div freq) :: u16);
              lsb = fst (util_get_16_LSB f);
              msb = fst (util_get_16_MSB f)
          in andthen (sys_outb K TIMER_CTRL control) (\<lambda>_.
             andthen (sys_outb K (unat timerADDR) lsb) (\<lambda>_.
             andthen (sys_outb K (unat timerADDR) msb) (\<lambda>_.
             ret_ok ())))))"

definition timer_subscribe :: "kernel \<Rightarrow> (timer_drv \<times> trace, u8) io" where
  "timer_subscribe K =
     (\<lambda>(s, tr). let bit_no = hook_bit (timer_hook_id s) in
        case sys_irqsetpolicy K TIMER0_IRQ IRQ_REENABLE (timer_hook_id s) tr of
          (None, tr') \<Rightarrow> (None, (s, tr'))
        | (Some h, tr') \<Rightarrow> (Some bit_no, (s\<lparr>timer_hook_id := h\<rparr>, tr')))"

definition timer_unsubscribe :: "kernel \<Rightarrow> (timer_drv \<times> trace, unit) io" where
  "timer_unsubscribe K =
     (\<lambda>(s, tr). case sys_irqrmpolicy K (timer_hook_id s) tr of
          (None, tr') \<Rightarrow> (None, (s, tr'))
        | (Some h, tr') \<Rightarrow> (Some (), (s\<lparr>timer_hook_id := h\<rparr>, tr')))"

definition timer_int_handler :: "timer_drv \<Rightarrow> timer_drv" where
  "timer_int_handler s = s\<lparr>timer_counter := timer_counter s + 1\<rparr>"

text \<open>\<open>enum timer_status_field\<close> and \<open>union timer_status_field_val\<close> of \<open>lcom/timer.h\<close>; the
  display function of the course library is the argument \<open>print_config\<close>.\<close>

datatype timer_status_field = tsf_all | tsf_initial | tsf_mode | tsf_base

datatype timer_status_field_val = byte u8 | in_mode u8 | count_mode u8 | bcd bool

definition timer_display_conf ::
  "(u8 \<Rightarrow> timer_status_field \<Rightarrow> timer_status_field_val \<Rightarrow> bool) \<Rightarrow> u8 \<Rightarrow> u8 \<Rightarrow> timer_status_field \<Rightarrow> bool" where
  "timer_display_conf print_config timer st field =
     (let value = (case field of
          tsf_all \<Rightarrow> byte st
        | tsf_initial \<Rightarrow> in_mode (drop_bit 4 st AND 0x3)
        | tsf_mode \<Rightarrow> count_mode (drop_bit 1 st AND 0x07)
        | tsf_base \<Rightarrow> bcd (flag st 0x01))
      in print_config timer field value)"

section \<open>The programmed divisor\<close>

text \<open>The frequencies the function accepts never overflow the 16-bit counter.\<close>

lemma divisor_fits:
  assumes "\<not> freq < 19" 
  shows "unat (ucast (TIMER_FREQ div freq) :: u16) = unat TIMER_FREQ div unat freq"
proof -
  have "19 \<le> unat freq" using assms by (simp add: word_less_nat_alt)
  then have "unat TIMER_FREQ div unat freq \<le> unat TIMER_FREQ div 19" by (rule div_le_mono2 [rotated]) simp
  also have "\<dots> < 65536" by (simp add: c_consts)
  finally have "unat (TIMER_FREQ div freq) < 65536" by (simp add: unat_div)
  then show ?thesis by (simp add: unsigned_ucast_eq take_bit_eq_mod unat_div)
qed

lemma timer_set_frequency_trace:
  assumes "timer_set_frequency K timer freq tr = (Some (), tr')"
  obtains v where
    "let f = ucast (TIMER_FREQ div freq) :: u16; a = unat (of_nat TIMER_0 + timer :: u8) in
     tr' = [Outb a (fst (util_get_16_MSB f)) True, Outb a (fst (util_get_16_LSB f)) True,
            Outb TIMER_CTRL (TIMER_LSB_MSB OR push_bit 6 timer OR (ucast v AND 0x0f)) True,
            Inb (TIMER_0 + unat timer) (Some v),
            Outb TIMER_CTRL (TIMER_RB_CMD OR TIMER_RB_COUNT OR TIMER_RB_SEL timer) True] @ tr"
    "\<not> freq < 19" "\<not> freq > TIMER_FREQ"
  using assms
  by (auto simp: timer_set_frequency_def timer_get_conf_def io_defs sys_outb_def util_sys_inb_apply Let_def
      split: if_splits option.splits)

text \<open>A machine whose ports all answer.\<close>

definition ports_answer :: "kernel \<Rightarrow> bool" where
  "ports_answer K \<longleftrightarrow> (\<forall>tr p. k_inb K tr p \<noteq> None) \<and> (\<forall>tr p b. k_outb K tr p b)"

lemma timer_set_frequency_succeeds:
  assumes "ports_answer K" "\<not> freq < 19" "\<not> freq > TIMER_FREQ"
  shows "\<exists>tr'. timer_set_frequency K timer freq tr = (Some (), tr')"
  using assms
  by (auto simp: ports_answer_def timer_set_frequency_def timer_get_conf_def io_defs sys_outb_def util_sys_inb_apply Let_def split: option.splits)

text \<open>C24: for one of the three counters, a frequency outside the range from 19 Hz to that of the timer is refused without touching the hardware.  Otherwise,
  when all ports answer, the function succeeds; and whenever it succeeds it has made exactly five port accesses: the read-back command for the status of
  that counter, the read of that status, the control word that selects the counter and low-then-high access and keeps the mode bits that were
  read, and the low and the high byte of \<open>TIMER_FREQ / freq\<close>, which recombine without truncation.\<close>

theorem timer_set_frequency_programs:
  assumes "timer \<le> 2"
  shows "if freq < 19 \<or> 1193182 < freq then timer_set_frequency K timer freq tr = (None, tr)
    else (ports_answer K \<longrightarrow> fst (timer_set_frequency K timer freq tr) = Some ()) \<and>
      (\<forall>tr'. timer_set_frequency K timer freq tr = (Some (), tr') \<longrightarrow>
        (\<exists>lsb msb v. unat msb * 256 + unat lsb = 1193182 div unat freq \<and>
           tr' = [Outb (0x40 + unat timer) msb True, Outb (0x40 + unat timer) lsb True,
                  Outb 0x43 (0x30 OR push_bit 6 timer OR (ucast v AND 0x0f)) True, Inb (0x40 + unat timer) (Some v),
                  Outb 0x43 (0xE0 OR push_bit (unat timer) 2) True] @ tr))"
proof (cases "freq < 19 \<or> 1193182 < freq")
  case True
  then show ?thesis by (simp add: timer_set_frequency_def ret_err_def c_consts)
next
  case False
  have range: "\<not> freq < 19" "\<not> freq > TIMER_FREQ" using False by (simp_all add: c_consts)
  let ?f = "ucast (TIMER_FREQ div freq) :: u16"
  let ?lsb = "fst (util_get_16_LSB ?f)" and ?msb = "fst (util_get_16_MSB ?f)"
  have "unat timer \<le> 2" using assms by (simp add: word_le_nat_alt)
  then have "unat timer = 0 \<or> unat timer = 1 \<or> unat timer = 2" by linarith
  then have "timer = 0 \<or> timer = 1 \<or> timer = 2" by (simp add: word_unat_eq_iff)
  then have port: "unat (of_nat TIMER_0 + timer :: u8) = 0x40 + unat timer" and sel: "TIMER_RB_SEL timer = push_bit (unat timer) 2"
    by (auto simp: c_consts TIMER_RB_SEL_def BIT_def push_bit_eq_mult)
  have words: "TIMER_LSB_MSB = 0x30" "TIMER_RB_CMD OR (TIMER_RB_COUNT OR x) = 0xE0 OR x" for x
    by (simp_all add: c_consts BIT_numeral_simps flip: or.assoc)
  have "\<exists>lsb msb v. unat msb * 256 + unat lsb = 1193182 div unat freq \<and>
      tr' = [Outb (0x40 + unat timer) msb True, Outb (0x40 + unat timer) lsb True,
             Outb 0x43 (0x30 OR push_bit 6 timer OR (ucast v AND 0x0f)) True, Inb (0x40 + unat timer) (Some v),
             Outb 0x43 (0xE0 OR push_bit (unat timer) 2) True] @ tr"
    if success: "timer_set_frequency K timer freq tr = (Some (), tr')" for tr'
  proof -
    from timer_set_frequency_trace [OF success] obtain v where
      tr': "tr' = [Outb (0x40 + unat timer) ?msb True, Outb (0x40 + unat timer) ?lsb True,
            Outb TIMER_CTRL (0x30 OR push_bit 6 timer OR (ucast v AND 0x0f)) True, Inb (TIMER_0 + unat timer) (Some v),
            Outb TIMER_CTRL (0xE0 OR push_bit (unat timer) 2) True] @ tr"
      unfolding Let_def port sel words by metis
    moreover have "unat ?msb * 256 + unat ?lsb = 1193182 div unat freq"
      using util_get_16_value [of ?f] divisor_fits [OF range(1)] by (simp add: TIMER_FREQ_def)
    ultimately show ?thesis
      by (intro exI [of _ ?lsb] exI [of _ ?msb] exI [of _ v] conjI) (simp_all only: TIMER_0_def TIMER_CTRL_def)
  qed
  moreover have "fst (timer_set_frequency K timer freq tr) = Some ()" if "ports_answer K"
    using timer_set_frequency_succeeds [OF that range, of timer tr] by auto
  ultimately show ?thesis using False by auto
qed

definition plain_machine :: kernel where
  "plain_machine = \<lparr>k_inb = (\<lambda>_ _. Some 0x34), k_outb = (\<lambda>_ _ _. True), k_irqset = (\<lambda>_ _ _ h. Some h),
     k_irqrm = (\<lambda>_ h. Some h), k_int86 = (\<lambda>_ _ _ _. True)\<rparr>"

theorem timer_set_frequency_programs_witness:
  "\<exists>lsb msb v. snd (timer_set_frequency plain_machine 0 60 []) =
       [Outb 0x40 msb True, Outb 0x40 lsb True, Outb 0x43 (0x30 OR (ucast v AND 0x0f)) True, Inb 0x40 (Some v), Outb 0x43 0xE2 True] \<and>
     unat msb * 256 + unat lsb = 19886"
proof -
  have "ports_answer plain_machine" by (simp add: ports_answer_def plain_machine_def)
  moreover obtain r tr' where r: "timer_set_frequency plain_machine 0 60 [] = (r, tr')" by fastforce
  ultimately show ?thesis using timer_set_frequency_programs [of 0 60 plain_machine "[]"] by auto
qed

end
