(* ===== verification/Calendar.thy ===== *)
theory Calendar
  imports C_Prelude
begin

text \<open>
  The part of the C library's \<open>time.h\<close> the program calls: \<open>struct tm\<close>, \<open>gmtime\<close> and \<open>mktime\<close>, on the
  proleptic Gregorian calendar; \<open>utc_time\<close> is the date \<open>gmtime\<close> computes.  \<open>mktime\<close> works in a fixed time zone, given by its offset from UTC in seconds,
  and accepts an out-of-range month as C requires.  The lemmas show that the two functions are
  inverse to each other in UTC.
\<close>

record tm =
  tm_sec :: int
  tm_min :: int
  tm_hour :: int
  tm_mday :: int
  tm_mon :: int
  tm_year :: int

definition leap :: "int \<Rightarrow> bool" where
  "leap y \<longleftrightarrow> (4 dvd y \<and> \<not> 100 dvd y) \<or> 400 dvd y"

definition month_lengths :: "bool \<Rightarrow> int list" where
  "month_lengths lp = [31, if lp then 29 else 28, 31, 30, 31, 30, 31, 31, 30, 31, 30, 31]"

text \<open>Days from 1 January 1970 to 1 January of year \<open>y\<close>.\<close>

definition days_before_year :: "int \<Rightarrow> int" where
  "days_before_year y = 365 * (y - 1) + (y - 1) div 4 - (y - 1) div 100 + (y - 1) div 400 - 719162"

definition days_before_month :: "bool \<Rightarrow> nat \<Rightarrow> int" where
  "days_before_month lp m = sum_list (take m (month_lengths lp))"

definition mktime :: "int \<Rightarrow> tm \<Rightarrow> int" where
  "mktime zone t =
     (let y = 1900 + tm_year t + tm_mon t div 12; m = nat (tm_mon t mod 12)
      in (days_before_year y + days_before_month (leap y) m + tm_mday t - 1) * 86400
         + tm_hour t * 3600 + tm_min t * 60 + tm_sec t - zone)"

text \<open>Year and day of the year, from the 400, 100, 4 and 1 year cycles.\<close>

definition year_day :: "int \<Rightarrow> int \<times> int" where
  "year_day days =
     (let n = days + 719162; a = n div 146097; r = n mod 146097;
          b = min 3 (r div 36524); r1 = r - b * 36524;
          c = r1 div 1461; r2 = r1 mod 1461; d = min 3 (r2 div 365)
      in (400 * a + 100 * b + 4 * c + d + 1, r2 - d * 365))"

fun month_day :: "int list \<Rightarrow> int \<Rightarrow> nat \<times> int" where
  "month_day [] n = (0, n)"
| "month_day (l # ls) n =
     (if n < l then (0, n) else (case month_day ls (n - l) of (m, d) \<Rightarrow> (Suc m, d)))"

definition utc_time :: "int \<Rightarrow> tm" where
  "utc_time t =
     (let (y, yd) = year_day (t div 86400); (m, d) = month_day (month_lengths (leap y)) yd; s = t mod 86400
      in \<lparr>tm_sec = s mod 60, tm_min = s div 60 mod 60, tm_hour = s div 3600,
          tm_mday = d + 1, tm_mon = int m, tm_year = y - 1900\<rparr>)"

text \<open>\<open>gmtime\<close> gives a null pointer when the year does not fit its \<open>int\<close>.\<close>

definition gmtime :: "int \<Rightarrow> tm option" where
  "gmtime t = (if int32 (tm_year (utc_time t)) then Some (utc_time t) else None)"

section \<open>The cycles\<close>

lemma year_day_cycles:
  assumes "(y, yd) = year_day days"
  obtains a b c d where "y = 400 * a + 100 * b + 4 * c + d + 1"
    "days + 719162 = 146097 * a + 36524 * b + 1461 * c + 365 * d + yd"
    "0 \<le> b" "b \<le> 3" "0 \<le> c" "c \<le> 24" "0 \<le> d" "d \<le> 3" "0 \<le> yd" "yd \<le> 365"
    "yd = 365 \<longrightarrow> d = 3 \<and> (c \<noteq> 24 \<or> b = 3)"
proof -
  define n where "n = days + 719162"
  define a where "a = n div 146097"
  define r where "r = n mod 146097"
  define b where "b = min 3 (r div 36524)"
  define r1 where "r1 = r - b * 36524"
  define c where "c = r1 div 1461"
  define r2 where "r2 = r1 mod 1461"
  define d where "d = min 3 (r2 div 365)"
  note defs = n_def a_def r_def b_def r1_def c_def r2_def d_def
  have y: "y = 400 * a + 100 * b + 4 * c + d + 1" "yd = r2 - d * 365"
  proof -
    have "year_day days = (400 * a + 100 * b + 4 * c + d + 1, r2 - d * 365)"
      unfolding year_day_def Let_def defs by (rule refl)
    with assms show "y = 400 * a + 100 * b + 4 * c + d + 1" "yd = r2 - d * 365" by simp_all
  qed
  have n: "n = 146097 * a + r" "0 \<le> r" "r \<le> 146096" by (simp_all add: a_def r_def)
  have b: "0 \<le> b" "b \<le> 3" "0 \<le> r1" "r1 \<le> 36524" "r1 = 36524 \<longrightarrow> b = 3"
    using n(2,3) unfolding r1_def b_def by (auto simp: min_def)
  have c: "r1 = 1461 * c + r2" "0 \<le> r2" "r2 \<le> 1460" by (simp_all add: c_def r2_def)
  then have c': "0 \<le> c" "c \<le> 24" "c = 24 \<longrightarrow> r2 \<le> 1460" using b(3,4) by auto
  have d: "0 \<le> d" "d \<le> 3" "0 \<le> yd" "yd \<le> 365" "yd = 365 \<longrightarrow> d = 3"
    using c(2,3) unfolding y(2) d_def by (auto simp: min_def)
  have "yd = 365 \<longrightarrow> c \<noteq> 24 \<or> b = 3"
    using b(4,5) c(1) d(5) y(2) by auto
  moreover have "days + 719162 = 146097 * a + 36524 * b + 1461 * c + 365 * d + yd"
    using n(1) c(1) y(2) unfolding n_def r1_def by linarith
  ultimately show ?thesis using that y(1) b c' d by blast
qed

lemma year_day_correct:
  assumes "(y, yd) = year_day days"
  shows "days_before_year y + yd = days" "0 \<le> yd" "yd < (if leap y then 366 else 365)"
proof -
  from assms obtain a b c d where y: "y = 400 * a + 100 * b + 4 * c + d + 1"
    and days: "days + 719162 = 146097 * a + 36524 * b + 1461 * c + 365 * d + yd"
    and bounds: "0 \<le> b" "b \<le> 3" "0 \<le> c" "c \<le> 24" "0 \<le> d" "d \<le> 3" "0 \<le> yd" "yd \<le> 365"
    and last: "yd = 365 \<longrightarrow> d = 3 \<and> (c \<noteq> 24 \<or> b = 3)"
    by (rule year_day_cycles)
  have "(y - 1) div 4 = 100 * a + 25 * b + c" "(y - 1) div 100 = 4 * a + b" "(y - 1) div 400 = a"
    using y bounds by linarith+
  with y days show "days_before_year y + yd = days"
    by (simp add: days_before_year_def)
  show "0 \<le> yd" by (rule bounds)
  have "leap y" if "yd = 365"
  proof -
    from that last have "d = 3" "c \<noteq> 24 \<or> b = 3" by auto
    with y have y4: "y = 4 * (100 * a + 25 * b + (c + 1))" by simp
    have "\<not> 100 dvd y" if "c \<noteq> 24"
    proof
      assume "100 dvd y"
      moreover have "y = 100 * (4 * a + b) + 4 * (c + 1)" using y4 by simp
      ultimately have "100 dvd 4 * (c + 1)" by (simp add: dvd_add_right_iff)
      with that bounds show False by (auto dest!: zdvd_imp_le)
    qed
    moreover have "400 dvd y" if "c = 24" "b = 3"
    proof -
      have "y = 400 * (a + 1)" using that y4 by simp
      then show ?thesis by simp
    qed
    moreover have "4 dvd y" using y4 by simp
    ultimately show ?thesis using \<open>c \<noteq> 24 \<or> b = 3\<close> unfolding leap_def by blast
  qed
  with bounds(8) show "yd < (if leap y then 366 else 365)" by (cases "yd = 365") auto
qed

lemma month_day_correct:
  "month_day ls n = (m, d) \<Longrightarrow> n = sum_list (take m ls) + d"
proof (induction ls arbitrary: n m)
  case Nil
  then show ?case by simp
next
  case (Cons l ls)
  show ?case
  proof (cases "n < l")
    case True
    with Cons.prems show ?thesis by auto
  next
    case False
    with Cons.prems obtain k where "month_day ls (n - l) = (k, d)" "m = Suc k"
      by (auto split: prod.splits)
    with Cons.IH show ?thesis by fastforce
  qed
qed

lemma month_day_in_range:
  "month_day ls n = (m, d) \<Longrightarrow> 0 \<le> n \<Longrightarrow> n < sum_list ls \<Longrightarrow> m < length ls \<and> 0 \<le> d \<and> d < ls ! m"
proof (induction ls arbitrary: n m)
  case Nil
  then show ?case by simp
next
  case (Cons l ls)
  then show ?case by (fastforce split: if_splits prod.splits)
qed

section \<open>mktime inverts the conversion\<close>

lemma utc_parts:
  obtains y yd m d where "(y, yd) = year_day (t div 86400)"
    "month_day (month_lengths (leap y)) yd = (m, d)" "m < 12" "0 \<le> d" "d \<le> 30"
    "utc_time t = \<lparr>tm_sec = t mod 86400 mod 60, tm_min = t mod 86400 div 60 mod 60,
       tm_hour = t mod 86400 div 3600, tm_mday = d + 1, tm_mon = int m, tm_year = y - 1900\<rparr>"
proof -
  obtain y yd where y: "(y, yd) = year_day (t div 86400)" by (metis surj_pair)
  obtain m d where m: "month_day (month_lengths (leap y)) yd = (m, d)" by (metis surj_pair)
  have "sum_list (month_lengths (leap y)) = (if leap y then 366 else 365)"
    by (simp add: month_lengths_def)
  with month_day_in_range [OF m] year_day_correct [OF y]
  have md: "m < 12" "0 \<le> d" "d < month_lengths (leap y) ! m"
    by (auto simp: month_lengths_def)
  have "\<forall>l\<in>set (month_lengths lp). l \<le> 31" "length (month_lengths lp) = 12" for lp
    by (simp_all add: month_lengths_def)
  with md(1) have "month_lengths (leap y) ! m \<le> 31" by (metis nth_mem)
  with md y m show ?thesis
    by (intro that [of y yd m d]) (simp_all add: utc_time_def Let_def flip: y split: prod.splits)
qed

lemma clock_parts: "s div 3600 * 3600 + s div 60 mod 60 * 60 + s mod 60 = (s :: int)"
proof -
  have "s div 60 div 60 = s div 3600" by (simp add: zdiv_zmult2_eq [symmetric])
  then have "s div 60 = s div 3600 * 60 + s div 60 mod 60"
    using div_mult_mod_eq [of "s div 60" 60] by simp
  moreover have "s = s div 60 * 60 + s mod 60" by simp
  ultimately show ?thesis by linarith
qed

lemma mktime_utc: "mktime 0 (utc_time t) = t"
proof -
  obtain y yd m d where y: "(y, yd) = year_day (t div 86400)"
    and m: "month_day (month_lengths (leap y)) yd = (m, d)" "m < 12"
    and g: "utc_time t = \<lparr>tm_sec = t mod 86400 mod 60, tm_min = t mod 86400 div 60 mod 60,
       tm_hour = t mod 86400 div 3600, tm_mday = d + 1, tm_mon = int m, tm_year = y - 1900\<rparr>"
    by (rule utc_parts [of t])
  have "days_before_year y + (days_before_month (leap y) m + d) = t div 86400"
    using year_day_correct(1) [OF y] month_day_correct [OF m(1)] by (simp add: days_before_month_def)
  then have "mktime 0 (utc_time t) = (t div 86400) * 86400 + (t mod 86400 div 3600 * 3600 +
      t mod 86400 div 60 mod 60 * 60 + t mod 86400 mod 60)"
    using m(2) g by (simp add: mktime_def Let_def add.assoc)
  then show ?thesis by (simp only: clock_parts div_mult_mod_eq)
qed

section \<open>The times of a year\<close>

lemma days_before_year_less: "y < z \<Longrightarrow> days_before_year y < days_before_year z"
proof -
  assume less: "y < z"
  define a4 b4 a100 b100 a400 b400 where
    "a4 = (y - 1) div 4" "b4 = (z - 1) div 4" "a100 = (y - 1) div 100" "b100 = (z - 1) div 100"
    "a400 = (y - 1) div 400" "b400 = (z - 1) div 400"
  note d = this
  have "a4 \<le> b4" "a400 \<le> b400" using less by (simp_all add: d zdiv_mono1)
  moreover have "b100 - a100 \<le> z - y"
  proof -
    have "z - 1 = 100 * b100 + (z - 1) mod 100" "y - 1 = 100 * a100 + (y - 1) mod 100" by (simp_all add: d)
    moreover have "0 \<le> (z - 1) mod 100" "(y - 1) mod 100 < 100" by simp_all
    ultimately show ?thesis using less by linarith
  qed
  ultimately have "365 * (y - 1) + a4 - a100 + a400 < 365 * (z - 1) + b4 - b100 + b400" using less by simp
  then show ?thesis by (simp add: days_before_year_def d)
qed

lemma div_pred: "0 < c \<Longrightarrow> y div c = (y - 1) div c + (if c dvd y then 1 else 0)" for c y :: int
proof (cases "c dvd y")
  case True
  assume "0 < c"
  moreover from True obtain q where "y = c * q" ..
  moreover from calculation have "(y - 1) div c = q - 1" by (intro int_div_pos_eq [where r = "c - 1"]) (simp_all add: algebra_simps)
  ultimately show ?thesis by simp
next
  case False
  assume c: "0 < c"
  with False have "0 < y mod c" using pos_mod_sign [of c y] by (simp add: dvd_eq_mod_eq_0 order.not_eq_order_implies_strict)
  moreover have "y mod c - 1 < c" using pos_mod_bound [OF c, of y] by simp
  moreover have "y - 1 = c * (y div c) + (y mod c - 1)" by simp
  ultimately have "(y - 1) div c = y div c" by (intro int_div_pos_eq) simp_all
  with False show ?thesis by simp
qed

lemma days_before_next_year: "days_before_year (y + 1) = days_before_year y + (if leap y then 366 else 365)"
proof -
  have "400 dvd y \<Longrightarrow> 100 dvd y" "100 dvd y \<Longrightarrow> 4 dvd y" using dvd_trans [of 100 400 y] dvd_trans [of 4 100 y] by simp_all
  then show ?thesis using div_pred [of 4 y] div_pred [of 100 y] div_pred [of 400 y] by (auto simp: days_before_year_def leap_def)
qed

lemma utc_year_at_least: "y \<le> tm_year (utc_time t) + 1900 \<longleftrightarrow> days_before_year y * 86400 \<le> t"
proof -
  obtain z yd where z: "(z, yd) = year_day (t div 86400)" "tm_year (utc_time t) + 1900 = z"
    using utc_parts [of t] by (metis (no_types, lifting) diff_add_cancel tm.select_convs(6))
  have day: "days_before_year z + yd = t div 86400" "0 \<le> yd" "yd < (if leap z then 366 else 365)"
    using year_day_correct [OF z(1)] by blast+
  have "y \<le> z \<longleftrightarrow> days_before_year y \<le> t div 86400"
  proof
    assume "y \<le> z"
    then have "days_before_year y \<le> days_before_year z" using days_before_year_less [of y z] by (cases "y = z") auto
    with day show "days_before_year y \<le> t div 86400" by linarith
  next
    assume le: "days_before_year y \<le> t div 86400"
    show "y \<le> z"
    proof (rule ccontr)
      assume "\<not> y \<le> z"
      then have "days_before_year (z + 1) \<le> days_before_year y" using days_before_year_less [of "z + 1" y] by (cases "y = z + 1") auto
      with le day days_before_next_year [of z] show False by linarith
    qed
  qed
  moreover have "days_before_year y \<le> t div 86400 \<longleftrightarrow> days_before_year y * 86400 \<le> t" by linarith
  ultimately show ?thesis using z(2) by simp
qed

end
