(* ===== verification/Rtc.thy ===== *)
theory Rtc
  imports Kernel_IO C_Text Calendar
begin

text \<open>
  The real-time clock driver: the constants of \<open>drivers/rtc.h\<close> and the functions of \<open>drivers/rtc.c\<close>, with the
  conversions between the clock's date record and Unix time.
\<close>

section \<open>Constants of drivers/rtc.h\<close>

definition RTC_ADDR_REG :: nat where [c_consts]: "RTC_ADDR_REG = 0x70"
definition RTC_DATA_REG :: nat where [c_consts]: "RTC_DATA_REG = 0x71"
definition RTC_SECONDS_REG :: u8 where [c_consts]: "RTC_SECONDS_REG = 0x00"
definition RTC_MINUTES_REG :: u8 where [c_consts]: "RTC_MINUTES_REG = 0x02"
definition RTC_HOURS_REG :: u8 where [c_consts]: "RTC_HOURS_REG = 0x04"
definition RTC_DAY_WEEK_REG :: u8 where [c_consts]: "RTC_DAY_WEEK_REG = 0x06"
definition RTC_DAY_MONTH_REG :: u8 where [c_consts]: "RTC_DAY_MONTH_REG = 0x07"
definition RTC_MONTH_REG :: u8 where [c_consts]: "RTC_MONTH_REG = 0x08"
definition RTC_YEAR_REG :: u8 where [c_consts]: "RTC_YEAR_REG = 0x09"
definition RTC_STATUS_A_REG :: u8 where [c_consts]: "RTC_STATUS_A_REG = 0x0A"
definition RTC_STATUS_B_REG :: u8 where [c_consts]: "RTC_STATUS_B_REG = 0x0B"
definition RTC_STATUS_C_REG :: u8 where [c_consts]: "RTC_STATUS_C_REG = 0x0C"
definition RTC_STATUS_D_REG :: u8 where [c_consts]: "RTC_STATUS_D_REG = 0x0D"
definition RTC_UPDATING :: int where [c_consts]: "RTC_UPDATING = 1"

record rtc_date_time =
  rtc_seconds :: u8
  rtc_minutes :: u8
  rtc_hours :: u8
  rtc_day_week :: u8
  rtc_day :: u8
  rtc_month :: u8
  rtc_year :: u16

section \<open>Operations of drivers/rtc.c\<close>

definition rtc_read_register :: "kernel \<Rightarrow> u8 \<Rightarrow> (trace, u8) io" where
  "rtc_read_register K register_addr =
     andthen (sys_outb K RTC_ADDR_REG register_addr) (\<lambda>_. util_sys_inb K RTC_DATA_REG)"

definition rtc_update_in_progress :: "kernel \<Rightarrow> trace \<Rightarrow> int \<times> trace" where
  "rtc_update_in_progress K tr =
     (case rtc_read_register K RTC_STATUS_A_REG tr of
        (None, tr') \<Rightarrow> (1, tr')
      | (Some rtc_status, tr') \<Rightarrow> (if flag rtc_status (BIT 7) then RTC_UPDATING else 0, tr'))"

definition bcd_to_dec :: "u8 \<Rightarrow> u8" where
  "bcd_to_dec bcd = (drop_bit 4 bcd * 10) + (bcd AND 0x0F)"

definition rtc_date_time_to_unix :: "int \<Rightarrow> rtc_date_time \<Rightarrow> int" where
  "rtc_date_time_to_unix zone dt =
     mktime zone \<lparr>tm_sec = uint (rtc_seconds dt), tm_min = uint (rtc_minutes dt), tm_hour = uint (rtc_hours dt),
                 tm_mday = uint (rtc_day dt), tm_mon = uint (rtc_month dt) - 1,
                 tm_year = uint (rtc_year dt) + 100\<rparr>"

text \<open>The null pointer of \<open>gmtime\<close> is dereferenced without a check.  The weekday field is not written: it keeps the caller's value.\<close>

definition unix_to_rtc_date_time :: "int \<Rightarrow> rtc_date_time \<Rightarrow> rtc_date_time outcome" where
  "unix_to_rtc_date_time unix_time dt =
     (case gmtime unix_time of
        None \<Rightarrow> Undefined
      | Some t \<Rightarrow>
          obind (checked (tm_mon t + 1)) (\<lambda>month.
          obind (checked (tm_year t + 1900)) (\<lambda>year.
          Ok (dt\<lparr>rtc_seconds := word_of_int (tm_sec t), rtc_minutes := word_of_int (tm_min t),
                 rtc_hours := word_of_int (tm_hour t), rtc_day := word_of_int (tm_mday t),
                 rtc_month := word_of_int month, rtc_year := word_of_int year\<rparr>))))"

text \<open>\<open>rtc_read_date_time(rtc_dt)\<close>: the argument is the record pointed to, \<open>None\<close> for a null pointer.\<close>

definition rtc_read_date_time :: "kernel \<Rightarrow> rtc_date_time option \<Rightarrow> (trace, rtc_date_time) io" where
  "rtc_read_date_time K rtc_dt = (\<lambda>tr.
     case rtc_update_in_progress K tr of (u, tr1) \<Rightarrow>
       if u = RTC_UPDATING then (None, tr1)
       else (case rtc_dt of
         None \<Rightarrow> (None, tr1)
       | Some dt \<Rightarrow>
           andthen (rtc_read_register K RTC_SECONDS_REG) (\<lambda>seconds.
           andthen (rtc_read_register K RTC_MINUTES_REG) (\<lambda>minutes.
           andthen (rtc_read_register K RTC_HOURS_REG) (\<lambda>hours.
           andthen (rtc_read_register K RTC_DAY_WEEK_REG) (\<lambda>day_of_week.
           andthen (rtc_read_register K RTC_DAY_MONTH_REG) (\<lambda>day.
           andthen (rtc_read_register K RTC_MONTH_REG) (\<lambda>month.
           andthen (rtc_read_register K RTC_YEAR_REG) (\<lambda>year.
           ret_ok (dt\<lparr>rtc_seconds := bcd_to_dec seconds, rtc_minutes := bcd_to_dec minutes,
                      rtc_hours := bcd_to_dec hours, rtc_day_week := bcd_to_dec day_of_week,
                      rtc_day := bcd_to_dec day, rtc_month := bcd_to_dec month,
                      rtc_year := ucast (bcd_to_dec year)\<rparr>)))))))) tr1))"

text \<open>\<open>rtc_display_date_time(rtc_dt)\<close>: the text it prints.\<close>

definition weekdays :: "string list" where
  "weekdays = [''Sun'', ''Mon'', ''Tue'', ''Wed'', ''Thu'', ''Fri'', ''Sat'']"

definition rtc_display_date_time :: "rtc_date_time option \<Rightarrow> string outcome" where
  "rtc_display_date_time rtc_dt =
     (case rtc_dt of
        None \<Rightarrow> Ok (''Invalid date/time data.'' @ [CHR 0x0A])
      | Some dt \<Rightarrow>
          obind (aread weekdays (unat (rtc_day_week dt))) (\<lambda>wd.
          Ok (show_padded 2 (unat (rtc_hours dt)) @ '':'' @ show_padded 2 (unat (rtc_minutes dt)) @ '':'' @
              show_padded 2 (unat (rtc_seconds dt)) @ '' '' @ wd @ '', '' @
              show_padded 2 (unat (rtc_day dt)) @ ''/'' @ show_padded 2 (unat (rtc_month dt)) @ ''/20'' @
              show_padded 2 (unat (rtc_year dt)) @ [CHR 0x0A])))"

text \<open>\<open>rtc_test_conf()\<close>: the numbers it prints for the registers A to D, in order.\<close>

definition reg_flags :: "u8 \<Rightarrow> nat list \<Rightarrow> int list" where
  "reg_flags r bits = map (\<lambda>b. uint (r AND BIT b)) bits"

definition rtc_test_conf :: "kernel \<Rightarrow> (trace, int list) io" where
  "rtc_test_conf K =
     andthen (rtc_read_register K RTC_STATUS_A_REG) (\<lambda>reg_a.
     andthen (rtc_read_register K RTC_STATUS_B_REG) (\<lambda>reg_b.
     andthen (rtc_read_register K RTC_STATUS_C_REG) (\<lambda>reg_c.
     andthen (rtc_read_register K RTC_STATUS_D_REG) (\<lambda>reg_d.
     ret_ok ([uint reg_a] @ reg_flags reg_a [7] @
             map (\<lambda>b. uint (drop_bit b (reg_a AND BIT b))) [3, 2, 1, 0] @
             [uint reg_b] @ reg_flags reg_b [7, 6, 5, 4, 3, 2, 1, 0] @
             [uint reg_c] @ reg_flags reg_c [7, 6, 5, 4] @
             [uint reg_d, uint (drop_bit 7 (reg_d AND 0x80))])))))"

section \<open>Reading the clock\<close>

text \<open>The two events of a successful register access, newest first.\<close>

definition reg_access :: "u8 \<Rightarrow> u32 \<Rightarrow> trace" where
  "reg_access r v = [Inb RTC_DATA_REG (Some v), Outb RTC_ADDR_REG r True]"

lemma rtc_read_register_Some:
  "rtc_read_register K r tr = (Some b, tr') \<longleftrightarrow> (\<exists>v. tr' = reg_access r v @ tr \<and> b = ucast v \<and>
     k_outb K tr RTC_ADDR_REG r \<and> k_inb K (Outb RTC_ADDR_REG r True # tr) RTC_DATA_REG = Some v)"
  by (auto simp: rtc_read_register_def io_defs sys_outb_def util_sys_inb_apply reg_access_def Let_def
      split: if_splits)

lemma rtc_read_register_value: "rtc_read_register K r tr = (Some b, tr') \<Longrightarrow> \<exists>v. tr' = reg_access r v @ tr \<and> b = ucast v"
  by (auto simp: rtc_read_register_Some)

text \<open>A date is returned only after a status read without update in progress, and then each field is the
  decoded value of its own register, read once, in the order seconds, minutes, hours,
  weekday, day, month, year.\<close>

theorem rtc_read_date_time_reads:
  assumes "rtc_read_date_time K (Some dt) tr = (Some dt', tr')"
  shows "\<exists>st sec min hour wday day mon year.
    tr' = reg_access RTC_YEAR_REG year @ reg_access RTC_MONTH_REG mon @ reg_access RTC_DAY_MONTH_REG day @
          reg_access RTC_DAY_WEEK_REG wday @ reg_access RTC_HOURS_REG hour @ reg_access RTC_MINUTES_REG min @
          reg_access RTC_SECONDS_REG sec @ reg_access RTC_STATUS_A_REG st @ tr \<and>
    flag (ucast st :: u8) (BIT 7) = False \<and>
    dt' = dt\<lparr>rtc_seconds := bcd_to_dec (ucast sec), rtc_minutes := bcd_to_dec (ucast min),
             rtc_hours := bcd_to_dec (ucast hour), rtc_day_week := bcd_to_dec (ucast wday),
             rtc_day := bcd_to_dec (ucast day), rtc_month := bcd_to_dec (ucast mon),
             rtc_year := ucast (bcd_to_dec (ucast year))\<rparr>"
  using assms
  by (auto simp: rtc_read_date_time_def rtc_update_in_progress_def io_defs c_consts
      split: prod.splits option.splits if_splits dest!: rtc_read_register_value)
    (intro exI conjI, rule refl, assumption, rule refl)

definition noon_clock :: kernel where
  "noon_clock = \<lparr>k_inb = (\<lambda>tr p. case tr of Outb _ r _ # _ \<Rightarrow>
       Some (if r = 0x04 then 0x12 else if r = 0x09 then 0x24 else if r \<in> {0x07, 0x08} then 0x15 else 0) | _ \<Rightarrow> None),
     k_outb = (\<lambda>_ _ _. True), k_irqset = (\<lambda>_ _ _ h. Some h),
     k_irqrm = (\<lambda>_ h. Some h), k_int86 = (\<lambda>_ _ _ _. True)\<rparr>"

definition dt_zero :: rtc_date_time where
  "dt_zero = \<lparr>rtc_seconds = 0, rtc_minutes = 0, rtc_hours = 0, rtc_day_week = 0, rtc_day = 0, rtc_month = 0,
     rtc_year = 0\<rparr>"

lemma noon_clock_register:
  "rtc_read_register noon_clock r tr =
     (Some (if r = 0x04 then 0x12 else if r = 0x09 then 0x24 else if r \<in> {0x07, 0x08} then 0x15 else 0),
      reg_access r (if r = 0x04 then 0x12 else if r = 0x09 then 0x24 else if r \<in> {0x07, 0x08} then 0x15 else 0) @ tr)"
  by (simp add: rtc_read_register_Some noon_clock_def)

theorem rtc_read_date_time_reads_witness:
  "\<exists>st sec min hour wday day mon year.
    snd (rtc_read_date_time noon_clock (Some dt_zero) []) =
          reg_access RTC_YEAR_REG year @ reg_access RTC_MONTH_REG mon @ reg_access RTC_DAY_MONTH_REG day @
          reg_access RTC_DAY_WEEK_REG wday @ reg_access RTC_HOURS_REG hour @ reg_access RTC_MINUTES_REG min @
          reg_access RTC_SECONDS_REG sec @ reg_access RTC_STATUS_A_REG st \<and>
    flag (ucast st :: u8) (BIT 7) = False"
proof -
  have "\<exists>dt'. rtc_read_date_time noon_clock (Some dt_zero) [] =
      (Some dt', snd (rtc_read_date_time noon_clock (Some dt_zero) []))"
    by (simp add: rtc_read_date_time_def rtc_update_in_progress_def io_defs noon_clock_register c_consts)
  then obtain dt' where "rtc_read_date_time noon_clock (Some dt_zero) [] =
      (Some dt', snd (rtc_read_date_time noon_clock (Some dt_zero) []))" ..
  from rtc_read_date_time_reads [OF this] show ?thesis unfolding append_Nil2 by blast
qed

section \<open>Decoding\<close>

lemma bcd_to_dec_value: "unat (bcd_to_dec b) = unat b div 16 * 10 + unat b mod 16"
proof -
  have "unat b < 256" using unsigned_less [of b] by simp
  then have "unat b div 16 * 10 + unat b mod 16 < 256" by linarith
  moreover have "b AND 0x0F = take_bit 4 b" by (simp add: take_bit_eq_mask mask_eq_exp_minus_1)
  ultimately show ?thesis
    by (simp add: bcd_to_dec_def drop_bit_eq_div unat_word_ariths unat_div unsigned_take_bit_eq take_bit_eq_mod)
qed

text \<open>Decoding inverts the clock's two-digit binary coded decimal for every number below 100.\<close>

theorem bcd_to_dec_roundtrip:
  assumes "n < 100"
  shows "unat (bcd_to_dec (of_nat (n div 10 * 16 + n mod 10))) = n"
proof -
  have "n div 10 * 16 + n mod 10 < 256" using assms by linarith
  then have "unat (of_nat (n div 10 * 16 + n mod 10) :: u8) = n div 10 * 16 + n mod 10"
    by (intro of_nat_inverse [OF refl]) simp
  then show ?thesis using assms by (simp add: bcd_to_dec_value)
qed

theorem bcd_to_dec_roundtrip_witness: "unat (bcd_to_dec (of_nat (59 div 10 * 16 + 59 mod 10))) = 59"
  by (rule bcd_to_dec_roundtrip) simp

section \<open>Conversion to and from Unix time\<close>

lemma days_before_year_cycle: "days_before_year (y + 400 * k) = days_before_year y + 146097 * k"
proof -
  have "(y + 400 * k - 1) div 4 = (y - 1) div 4 + 100 * k" "(y + 400 * k - 1) div 100 = (y - 1) div 100 + 4 * k"
    "(y + 400 * k - 1) div 400 = (y - 1) div 400 + k"
    by linarith+
  then show ?thesis by (simp add: days_before_year_def)
qed

lemma leap_cycle: "leap (y + 400 * k) = leap y"
proof -
  have "(4 :: int) dvd 400 * k" "(100 :: int) dvd 400 * k" by simp_all
  then show ?thesis by (simp add: leap_def dvd_add_left_iff)
qed

lemma mktime_cycle:
  "mktime zone (t\<lparr>tm_year := tm_year t + 400 * k\<rparr>) = mktime zone t + 146097 * 86400 * k"
proof -
  let ?y = "1900 + tm_year t + tm_mon t div 12"
  have "mktime zone (t\<lparr>tm_year := tm_year t + 400 * k\<rparr>) =
      (days_before_year (?y + 400 * k) + days_before_month (leap (?y + 400 * k)) (nat (tm_mon t mod 12)) + tm_mday t - 1)
        * 86400 + tm_hour t * 3600 + tm_min t * 60 + tm_sec t - zone"
    by (simp add: mktime_def Let_def add_ac)
  then show ?thesis
    unfolding leap_cycle days_before_year_cycle by (simp add: mktime_def Let_def algebra_simps)
qed

lemma mktime_zone: "mktime zone t = mktime 0 t - zone"
  by (simp add: mktime_def Let_def)

text \<open>The fields of a broken-down time fit the record's bytes.\<close>

lemma utc_bounds:
  "0 \<le> tm_sec (utc_time t)" "tm_sec (utc_time t) < 60" "0 \<le> tm_min (utc_time t)" "tm_min (utc_time t) < 60"
  "0 \<le> tm_hour (utc_time t)" "tm_hour (utc_time t) < 24" "1 \<le> tm_mday (utc_time t)" "tm_mday (utc_time t) \<le> 31"
  "0 \<le> tm_mon (utc_time t)" "tm_mon (utc_time t) < 12"
proof -
  obtain y m d where "m < 12" "0 \<le> d" "d \<le> 30"
    and g: "utc_time t = \<lparr>tm_sec = t mod 86400 mod 60, tm_min = t mod 86400 div 60 mod 60,
       tm_hour = t mod 86400 div 3600, tm_mday = d + 1, tm_mon = int m, tm_year = y - 1900\<rparr>"
    by (metis utc_parts [of t])
  moreover have "0 \<le> t mod 86400" "t mod 86400 < 86400" by simp_all
  then have "0 \<le> t mod 86400 div 3600" "t mod 86400 div 3600 < 24" by linarith+
  ultimately show "0 \<le> tm_sec (utc_time t)" "tm_sec (utc_time t) < 60" "0 \<le> tm_min (utc_time t)"
    "tm_min (utc_time t) < 60" "0 \<le> tm_hour (utc_time t)" "tm_hour (utc_time t) < 24" "1 \<le> tm_mday (utc_time t)"
    "tm_mday (utc_time t) \<le> 31" "0 \<le> tm_mon (utc_time t)" "tm_mon (utc_time t) < 12"
    by simp_all
qed

lemma uint_u8: "0 \<le> i \<Longrightarrow> i < 256 \<Longrightarrow> uint (word_of_int i :: u8) = i"
  by (simp add: uint_word_of_int_eq take_bit_eq_mod)

lemma uint_u16: "0 \<le> i \<Longrightarrow> i < 65536 \<Longrightarrow> uint (word_of_int i :: u16) = i"
  by (simp add: uint_word_of_int_eq take_bit_eq_mod)

lemma uint_u8_Suc: "0 \<le> i \<Longrightarrow> i < 255 \<Longrightarrow> uint (word_of_int i + 1 :: u8) = i + 1"
  using uint_u8 [of "i + 1"] by simp

text \<open>The date of a time, and the times \<open>gmtime\<close> and the addition of 1900 to its year can cope with.\<close>

definition utc_date :: "int \<Rightarrow> rtc_date_time \<Rightarrow> rtc_date_time" where
  "utc_date t dt =
     dt\<lparr>rtc_seconds := word_of_int (tm_sec (utc_time t)), rtc_minutes := word_of_int (tm_min (utc_time t)),
        rtc_hours := word_of_int (tm_hour (utc_time t)), rtc_day := word_of_int (tm_mday (utc_time t)),
        rtc_month := word_of_int (tm_mon (utc_time t) + 1), rtc_year := word_of_int (tm_year (utc_time t) + 1900)\<rparr>"

definition date_fits :: "int \<Rightarrow> bool" where
  "date_fits t \<longleftrightarrow> - 67768040609740800 \<le> t \<and> t < 67767976233532800"

lemma date_fits_year: "date_fits t \<longleftrightarrow> int32 (tm_year (utc_time t)) \<and> int32 (tm_year (utc_time t) + 1900)"
  using utc_year_at_least [of "1900 - 2 ^ 31" t] utc_year_at_least [of "2 ^ 31" t]
  by (auto simp: date_fits_def int32_def days_before_year_def)

lemma unix_to_rtc_date_time_fits:
  "date_fits t \<Longrightarrow> unix_to_rtc_date_time t dt = Ok (utc_date t dt)"
  "\<not> date_fits t \<Longrightarrow> unix_to_rtc_date_time t dt = Undefined"
proof -
  have "int32 (tm_mon (utc_time t) + 1)" using utc_bounds [of t] by (simp add: int32_def)
  then show "date_fits t \<Longrightarrow> unix_to_rtc_date_time t dt = Ok (utc_date t dt)"
    "\<not> date_fits t \<Longrightarrow> unix_to_rtc_date_time t dt = Undefined"
    by (auto simp: date_fits_year unix_to_rtc_date_time_def gmtime_def utc_date_def checked_def)
qed

text \<open>C26: the conversion of a time stamp is defined exactly from 1 January of the year -2147481748 to 31 December of the year 2147483647, when
  it gives the date in UTC; before that \<open>gmtime\<close> gives the null pointer that is dereferenced, and after that the sum of the year and
  1900 overflows or the pointer is null as well.\<close>

theorem unix_to_rtc_date_time_range:
  "unix_to_rtc_date_time t dt =
     (if - 67768040609740800 \<le> t \<and> t < 67767976233532800 then Ok (utc_date t dt) else Undefined)"
  using unix_to_rtc_date_time_fits [of t dt] by (simp add: date_fits_def)

text \<open>Converting to the date record, replacing its year, and converting back.\<close>

lemma to_unix_of_date:
  assumes "0 \<le> y" "y < 65536"
  shows "rtc_date_time_to_unix zone ((utc_date t dt)\<lparr>rtc_year := word_of_int y\<rparr>) =
    mktime zone ((utc_time t)\<lparr>tm_year := y + 100\<rparr>)"
  using utc_bounds [of t] assms
  by (cases "utc_time t")
    (simp add: rtc_date_time_to_unix_def utc_date_def uint_u8 uint_u16 uint_u8_Suc)

text \<open>C25: with the clock chip's two-digit year (years since 2000) in the date record, for the years 2000 to 2255: converting a time stamp to a date and back
  gives the time stamp less the offset of the time zone, since \<open>mktime\<close> reads as local time the fields that \<open>gmtime\<close> gave in UTC.  The two are
  inverse exactly when the zone is UTC.\<close>

theorem rtc_date_time_to_unix_clock_year:
  assumes "2000 \<le> tm_year (utc_time t) + 1900" "tm_year (utc_time t) + 1900 \<le> 2255"
  shows "\<exists>dt'. unix_to_rtc_date_time t dt = Ok dt' \<and>
    rtc_date_time_to_unix zone (dt'\<lparr>rtc_year := word_of_int (tm_year (utc_time t) + 1900 - 2000)\<rparr>) = t - zone"
proof -
  have "rtc_date_time_to_unix zone
      ((utc_date t dt)\<lparr>rtc_year := word_of_int (tm_year (utc_time t) + 1900 - 2000)\<rparr>) =
    mktime zone ((utc_time t)\<lparr>tm_year := tm_year (utc_time t) + 1900 - 2000 + 100\<rparr>)"
    by (rule to_unix_of_date) (use assms in simp_all)
  also have "\<dots> = mktime zone (utc_time t)" by simp
  finally have "rtc_date_time_to_unix zone ((utc_date t dt)\<lparr>rtc_year := word_of_int (tm_year (utc_time t) + 1900 - 2000)\<rparr>) = t - zone"
    by (simp add: mktime_zone [of zone] mktime_utc)
  moreover have "date_fits t" using assms by (simp add: date_fits_year int32_def)
  ultimately show ?thesis using unix_to_rtc_date_time_fits(1) by blast
qed

theorem rtc_date_time_to_unix_clock_year_witness:
  "\<exists>dt'. unix_to_rtc_date_time 1717200000 dt_zero = Ok dt' \<and> rtc_date_time_to_unix 3600 (dt'\<lparr>rtc_year := 24\<rparr>) = 1717196400"
proof -
  have "tm_year (utc_time 1717200000) = 124" by code_simp
  then show ?thesis using rtc_date_time_to_unix_clock_year [of 1717200000 dt_zero 3600] by simp
qed

text \<open>The two conversions do not fit together.  \<open>unix_to_rtc_date_time\<close> stores the full year, \<open>rtc_date_time_to_unix\<close>
  expects years since 2000, so a timestamp that is read and written back moves 2000 years ahead: by
  exactly 63113904000 seconds.\<close>

lemma unix_to_rtc_to_unix:
  assumes "0 \<le> tm_year (utc_time t) + 1900" "tm_year (utc_time t) + 1900 < 65536"
  shows "unix_to_rtc_date_time t dt = Ok (utc_date t dt)" "rtc_date_time_to_unix 0 (utc_date t dt) = t + 63113904000"
proof -
  let ?y = "tm_year (utc_time t) + 1900"
  show "unix_to_rtc_date_time t dt = Ok (utc_date t dt)"
    using assms by (intro unix_to_rtc_date_time_fits) (simp add: date_fits_year int32_def)
  have "utc_date t dt = (utc_date t dt)\<lparr>rtc_year := word_of_int ?y\<rparr>"
    by (simp add: utc_date_def)
  also have "rtc_date_time_to_unix 0 \<dots> = mktime 0 ((utc_time t)\<lparr>tm_year := ?y + 100\<rparr>)"
    by (rule to_unix_of_date [OF assms])
  also have "(utc_time t)\<lparr>tm_year := ?y + 100\<rparr> = (utc_time t)\<lparr>tm_year := tm_year (utc_time t) + 400 * 5\<rparr>"
    by simp
  finally show "rtc_date_time_to_unix 0 (utc_date t dt) = t + 63113904000" unfolding mktime_cycle mktime_utc by simp
qed

text \<open>Every date record stands for a time well within these bounds.\<close>

lemma days_before_month_bounds: "0 \<le> days_before_month lp m \<and> days_before_month lp m \<le> 366"
proof -
  let ?ls = "month_lengths lp"
  have pos: "\<forall>l \<in> set ?ls. 0 \<le> l" by (simp add: month_lengths_def)
  have "0 \<le> sum_list (take m ?ls)" "0 \<le> sum_list (drop m ?ls)"
    using pos by (auto intro!: sum_list_nonneg dest: in_set_takeD in_set_dropD)
  moreover have "sum_list (take m ?ls) + sum_list (drop m ?ls) = sum_list ?ls"
    by (simp only: append_take_drop_id flip: sum_list_append)
  moreover have "sum_list ?ls \<le> 366" by (simp add: month_lengths_def)
  ultimately show ?thesis unfolding days_before_month_def by linarith
qed

lemma rtc_date_time_to_unix_fits:
  assumes "\<bar>zone\<bar> \<le> 86400"
  shows "date_fits (rtc_date_time_to_unix zone dt)" "int64 (rtc_date_time_to_unix zone dt)"
proof -
  let ?mon = "uint (rtc_month dt) - 1"
  define y where "y = 1900 + (uint (rtc_year dt) + 100) + ?mon div 12"
  define m where "m = days_before_month (leap y) (nat (?mon mod 12))"
  have bytes: "0 \<le> uint b" "uint b < 256" for b :: u8 by (rule unsigned_greater_eq) (use uint_lt2p [of b] in simp)
  have year: "0 \<le> uint (rtc_year dt)" "uint (rtc_year dt) < 65536" by (rule unsigned_greater_eq) (use uint_lt2p [of "rtc_year dt"] in simp)
  have "- 1 \<le> ?mon div 12" "?mon div 12 \<le> 22" using bytes [of "rtc_month dt"] by linarith+
  then have y: "1999 \<le> y" "y \<le> 67557" using year unfolding y_def by linarith+
  then have "days_before_year 1999 \<le> days_before_year y" "days_before_year y \<le> days_before_year 67557"
    using days_before_year_less [of 1999 y] days_before_year_less [of y 67557] by (cases "y = 1999"; cases "y = 67557"; simp)+
  then have "0 \<le> days_before_year y" "days_before_year y \<le> 24000000" by (simp_all add: days_before_year_def)
  moreover have "0 \<le> m" "m \<le> 366" using days_before_month_bounds by (simp_all add: m_def)
  moreover define d where "d = days_before_year y + m + uint (rtc_day dt) - 1"
  ultimately have d: "- 1 \<le> d" "d \<le> 25000000" using bytes [of "rtc_day dt"] by linarith+
  define s where "s = uint (rtc_hours dt) * 3600 + uint (rtc_minutes dt) * 60 + uint (rtc_seconds dt) - zone"
  have s: "- 100000 \<le> s" "s \<le> 2000000"
    using assms bytes [of "rtc_hours dt"] bytes [of "rtc_minutes dt"] bytes [of "rtc_seconds dt"] unfolding s_def by linarith+
  have "rtc_date_time_to_unix zone dt = d * 86400 + s"
    by (simp add: rtc_date_time_to_unix_def mktime_def Let_def y_def m_def d_def s_def)
  with d s have "- 1000000 \<le> rtc_date_time_to_unix zone dt" "rtc_date_time_to_unix zone dt \<le> 10000000000000" by simp_all
  then show "date_fits (rtc_date_time_to_unix zone dt)" "int64 (rtc_date_time_to_unix zone dt)"
    by (simp_all add: date_fits_def int64_def)
qed

text \<open>The weekday table is indexed from 0, while the record numbers weekdays from 1 for Sunday: Sunday is
  printed as Monday, and displaying a Saturday reads past the end of the table.\<close>

theorem rtc_display_weekday_off_by_one:
  "rtc_display_date_time (Some (dt\<lparr>rtc_day_week := 7\<rparr>)) = Undefined \<and>
   (\<exists>pre post. rtc_display_date_time (Some (dt\<lparr>rtc_day_week := 1\<rparr>)) = Ok (pre @ ''Mon'' @ post))"
  by (simp add: rtc_display_date_time_def weekdays_def aread_def)
    (metis append.assoc append_Cons append_Nil)

end
