(* ===== verification/Leaderboard.thy ===== *)
theory Leaderboard
  imports Rtc
begin

text \<open>
  The leaderboard, \<open>leaderboard/leaderboard.c\<close>: a fixed array of three entries with a count, insertion in order
  of time, and the text file it is kept in.  \<open>char name[4]\<close> is its string, at most three characters; a longer
  one is a buffer overflow, hence undefined.  The counters stay far below 256, so the \<open>uint8_t\<close>s are
  natural numbers.  The lemmas show that insertion keeps the three best times in order, and what a file
  written by the program contains when it is read back.
\<close>

record LeaderboardEntry =
  entry_name :: string
  dt_of_entry :: rtc_date_time
  time_entry :: int

record Leaderboard =
  entries :: "LeaderboardEntry list"
  entry_count :: nat

section \<open>Reading and writing the file\<close>

text \<open>One \<open>fscanf(file, "%s %lld %lld", name, &dt_entry, &time_entry)\<close> into entry \<open>e\<close>: whether all three items were
  read, the entry, \<open>dt_entry\<close> and the rest of the file.  Items before a mismatch have been stored; a number that does not fit
  64 bits is undefined.\<close>

definition scan_entry :: "string \<Rightarrow> LeaderboardEntry \<Rightarrow> (bool \<times> LeaderboardEntry \<times> int \<times> string) outcome" where
  "scan_entry s e =
     (case scan_word s of
        None \<Rightarrow> Ok (False, e, 0, s)
      | Some (w, s1) \<Rightarrow>
          if 3 < length w then Undefined
          else let e1 = e\<lparr>entry_name := w\<rparr> in
            (case scan_int s1 of
               None \<Rightarrow> Ok (False, e1, 0, s1)
             | Some (d, s2) \<Rightarrow>
                 if \<not> int64 d then Undefined
                 else (case scan_int s2 of
                         None \<Rightarrow> Ok (False, e1, d, s2)
                       | Some (t, s3) \<Rightarrow> if \<not> int64 t then Undefined else Ok (True, e1\<lparr>time_entry := t\<rparr>, d, s3))))"

text \<open>The loop, by the number of entries that may still be read before it breaks.\<close>

fun read_entries :: "nat \<Rightarrow> string \<Rightarrow> Leaderboard \<Rightarrow> Leaderboard outcome" where
  "read_entries 0 s lb = Ok lb"
| "read_entries (Suc k) s lb =
     (let n = entry_count lb in
      obind (aread (entries lb) n) (\<lambda>e.
      obind (scan_entry s e) (\<lambda>(ok, e', dt_entry, s').
        if ok
        then obind (unix_to_rtc_date_time dt_entry (dt_of_entry e')) (\<lambda>dt.
             read_entries k s' (lb\<lparr>entries := (entries lb)[n := e'\<lparr>dt_of_entry := dt\<rparr>], entry_count := n + 1\<rparr>))
        else Ok (lb\<lparr>entries := (entries lb)[n := e']\<rparr>))))"

text \<open>\<open>file\<close> is the text of the file, \<open>None\<close> if it cannot be opened; the result has the return code.\<close>

definition Leaderboard_read_file :: "string option \<Rightarrow> Leaderboard \<Rightarrow> (int \<times> Leaderboard) outcome" where
  "Leaderboard_read_file file lb =
     (case file of
        None \<Rightarrow> Ok (1, lb)
      | Some text \<Rightarrow> obind (read_entries 3 text (lb\<lparr>entry_count := 0\<rparr>)) (\<lambda>lb'. Ok (0, lb')))"

definition entry_line :: "string \<Rightarrow> int \<Rightarrow> int \<Rightarrow> string" where
  "entry_line name timestamp time = name @ '' '' @ show_int timestamp @ '' '' @ show_int time @ [CHR 0x0A]"

text \<open>The return code and the text of the file; all three array elements are written.\<close>

definition Leaderboard_write_file :: "int \<Rightarrow> bool \<Rightarrow> Leaderboard \<Rightarrow> int \<times> string" where
  "Leaderboard_write_file zone can_open lb =
     (if \<not> can_open then (1, [])
      else (0, concat (map (\<lambda>i. let e = entries lb ! i in
              entry_line (entry_name e) (rtc_date_time_to_unix zone (dt_of_entry e)) (time_entry e)) [0, 1, 2])))"

section \<open>Adding an entry\<close>

text \<open>The first loop, from index \<open>i\<close> with \<open>k\<close> entries to go.\<close>

fun insert_position :: "LeaderboardEntry list \<Rightarrow> int \<Rightarrow> nat \<Rightarrow> nat \<Rightarrow> nat outcome" where
  "insert_position es t i 0 = Ok i"
| "insert_position es t i (Suc k) =
     obind (aread es i) (\<lambda>e. if t < time_entry e then Ok i else insert_position es t (Suc i) k)"

text \<open>The second loop, from index \<open>i\<close> down to the insert position.\<close>

fun shift_entries :: "LeaderboardEntry list \<Rightarrow> nat \<Rightarrow> nat \<Rightarrow> LeaderboardEntry list" where
  "shift_entries es pos 0 = es"
| "shift_entries es pos (Suc i) =
     (if Suc i > pos then shift_entries (if Suc i < 3 then es[Suc i := es ! i] else es) pos i else es)"

definition Leaderboard_add_entry ::
  "Leaderboard \<Rightarrow> string \<Rightarrow> rtc_date_time \<Rightarrow> int \<Rightarrow> Leaderboard outcome" where
  "Leaderboard_add_entry lb name dt time =
     (if 3 < length name then Undefined
      else let new_entry = \<lparr>entry_name = name, dt_of_entry = dt, time_entry = time\<rparr> in
        obind (insert_position (entries lb) time 0 (entry_count lb)) (\<lambda>pos.
          let es = shift_entries (entries lb) pos (entry_count lb)
          in Ok (if pos < 3
                 then lb\<lparr>entries := es[pos := new_entry],
                         entry_count := (if entry_count lb < 3 then entry_count lb + 1 else entry_count lb)\<rparr>
                 else lb\<lparr>entries := es\<rparr>)))"

section \<open>Abstract specification\<close>

text \<open>The ranking a leaderboard stands for, and the insertion of a result behind all results at least as
  good.\<close>

definition ranking :: "Leaderboard \<Rightarrow> LeaderboardEntry list" where
  "ranking lb = take (entry_count lb) (entries lb)"

definition rank_in :: "LeaderboardEntry \<Rightarrow> LeaderboardEntry list \<Rightarrow> LeaderboardEntry list" where
  "rank_in e es = takeWhile (\<lambda>x. time_entry x \<le> time_entry e) es @ e # dropWhile (\<lambda>x. time_entry x \<le> time_entry e) es"

definition leaderboard_ok :: "Leaderboard \<Rightarrow> bool" where
  "leaderboard_ok lb \<longleftrightarrow> length (entries lb) = 3 \<and> entry_count lb \<le> 3 \<and> sorted (map time_entry (ranking lb))"

lemma Leaderboard_add_entry_ranking:
  assumes "length (entries lb) = 3" "entry_count lb \<le> 3" "length name \<le> 3"
  shows "\<exists>lb'. Leaderboard_add_entry lb name dt time = Ok lb' \<and> length (entries lb') = 3 \<and>
    entry_count lb' = min 3 (entry_count lb + 1) \<and>
    ranking lb' = take 3 (rank_in \<lparr>entry_name = name, dt_of_entry = dt, time_entry = time\<rparr> (ranking lb))"
proof -
  from assms(1) obtain a b c where es: "entries lb = [a, b, c]"
    by (auto simp: length_Suc_conv numeral_eq_Suc)
  from assms(2) consider "entry_count lb = 0" | "entry_count lb = 1" | "entry_count lb = 2" | "entry_count lb = 3"
    by linarith
  then show ?thesis
    by cases (use es assms(3) in \<open>auto simp: Leaderboard_add_entry_def ranking_def rank_in_def aread_def numeral_eq_Suc Let_def not_less\<close>)
qed

lemma sorted_rank_in: "sorted (map time_entry es) \<Longrightarrow> sorted (map time_entry (rank_in e es))"
proof (induction es)
  case Nil
  then show ?case by (simp add: rank_in_def)
next
  case (Cons x es)
  then show ?case
    by (auto simp: rank_in_def dest: set_takeWhileD set_dropWhileD intro: order_trans less_imp_le)
qed


section \<open>Insertion\<close>

text \<open>C21: adding a result to a well-formed leaderboard succeeds, keeps it well formed, and the new ranking is
  the old one with the result put behind all results at least as good, cut to three places.\<close>

theorem Leaderboard_add_entry_refines:
  assumes "leaderboard_ok lb" "length name \<le> 3"
  shows "\<exists>lb'. Leaderboard_add_entry lb name dt time = Ok lb' \<and> leaderboard_ok lb' \<and>
    ranking lb' = take 3 (rank_in \<lparr>entry_name = name, dt_of_entry = dt, time_entry = time\<rparr> (ranking lb))"
proof -
  from assms Leaderboard_add_entry_ranking [of lb name dt time] obtain lb' where
    ok: "Leaderboard_add_entry lb name dt time = Ok lb'"
    and len: "length (entries lb') = 3" "entry_count lb' = min 3 (entry_count lb + 1)"
    and rank: "ranking lb' = take 3 (rank_in \<lparr>entry_name = name, dt_of_entry = dt, time_entry = time\<rparr> (ranking lb))"
    by (auto simp: leaderboard_ok_def)
  have "sorted (map time_entry (ranking lb'))"
    unfolding rank take_map [symmetric] using assms(1)
    by (intro sorted_wrt_take sorted_rank_in) (simp add: leaderboard_ok_def)
  with ok len rank show ?thesis by (auto simp: leaderboard_ok_def)
qed

definition sample_entry :: "string \<Rightarrow> int \<Rightarrow> LeaderboardEntry" where
  "sample_entry n t = \<lparr>entry_name = n, dt_of_entry = dt_zero, time_entry = t\<rparr>"

definition sample_board :: Leaderboard where
  "sample_board = \<lparr>entries = [sample_entry ''ANA'' 30, sample_entry ''RUI'' 45, sample_entry ''ZE'' 60], entry_count = 3\<rparr>"

theorem Leaderboard_add_entry_refines_witness:
  "\<exists>lb'. Leaderboard_add_entry sample_board ''NEW'' dt_zero 45 = Ok lb' \<and> leaderboard_ok lb' \<and>
    ranking lb' = [sample_entry ''ANA'' 30, sample_entry ''RUI'' 45, sample_entry ''NEW'' 45]"
proof -
  have "leaderboard_ok sample_board"
    by (simp add: leaderboard_ok_def sample_board_def sample_entry_def ranking_def)
  from Leaderboard_add_entry_refines [OF this, of "''NEW''" dt_zero 45] show ?thesis
    by (simp add: sample_board_def sample_entry_def ranking_def rank_in_def)
qed

section \<open>The file\<close>

definition name_ok :: "string \<Rightarrow> bool" where
  "name_ok w \<longleftrightarrow> w \<noteq> [] \<and> length w \<le> 3 \<and> list_all (\<lambda>c. \<not> is_space c) w"

lemma scan_entry_text:
  assumes "name_ok n"
  shows "scan_entry (entry_line n d t @ rest) e =
    (if int64 d \<and> int64 t then Ok (True, e\<lparr>entry_name := n, time_entry := t\<rparr>, d, CHR 0x0A # rest) else Undefined)"
proof -
  have space: "is_space (CHR '' '')" "is_space (CHR 0x0A)" by (simp_all add: is_space_def)
  show ?thesis
    using assms
    by (simp add: scan_entry_def entry_line_def name_ok_def scan_word_word [OF _ _ space(1)]
        scan_int_skip [OF space(1)] scan_int_show [OF space(1)] scan_int_show [OF space(2)] Let_def)
qed

lemma scan_entry_line:
  "name_ok n \<Longrightarrow> int64 d \<Longrightarrow> int64 t \<Longrightarrow>
    scan_entry (entry_line n d t @ rest) e = Ok (True, e\<lparr>entry_name := n, time_entry := t\<rparr>, d, CHR 0x0A # rest)"
  by (simp add: scan_entry_text)

lemma scan_entry_newline: "scan_entry (CHR 0x0A # s) e = scan_entry s e" if "scan_word s \<noteq> None"
  using that scan_word_skip [of "CHR 0x0A" s] by (auto simp: scan_entry_def is_space_def)

lemma scan_entry_next_line:
  assumes "name_ok n" "int64 d" "int64 t"
  shows "scan_entry (CHR 0x0A # entry_line n d t @ rest) e =
    Ok (True, e\<lparr>entry_name := n, time_entry := t\<rparr>, d, CHR 0x0A # rest)"
proof -
  have "scan_word (entry_line n d t @ rest) \<noteq> None"
    using assms scan_word_word [of n "CHR '' ''"] by (simp add: entry_line_def name_ok_def is_space_def)
  then show ?thesis using scan_entry_line [OF assms] by (simp add: scan_entry_newline)
qed

text \<open>What reading a file back does to an entry that was written: name and time are kept, the date
  goes through Unix time.\<close>

definition reread_entry :: "int \<Rightarrow> LeaderboardEntry \<Rightarrow> LeaderboardEntry \<Rightarrow> LeaderboardEntry" where
  "reread_entry zone old e = \<lparr>entry_name = entry_name e,
     dt_of_entry = utc_date (rtc_date_time_to_unix zone (dt_of_entry e)) (dt_of_entry old),
     time_entry = time_entry e\<rparr>"

text \<open>An entry that can be written: a name without blanks and a time of type \<open>time_t\<close>.\<close>

definition entry_ok :: "LeaderboardEntry \<Rightarrow> bool" where
  "entry_ok e \<longleftrightarrow> name_ok (entry_name e) \<and> int64 (time_entry e)"

lemma read_written:
  assumes "length (entries lb) = 3" "length (entries old) = 3" "\<forall>e \<in> set (entries lb). entry_ok e" "\<bar>zone\<bar> \<le> 86400"
  shows "\<exists>lb'. Leaderboard_read_file (Some (snd (Leaderboard_write_file zone True lb))) old = Ok (0, lb') \<and>
    entry_count lb' = 3 \<and> entries lb' = map2 (reread_entry zone) (entries old) (entries lb)"
proof -
  from assms(1) obtain a b c where es: "entries lb = [a, b, c]"
    by (auto simp: length_Suc_conv numeral_eq_Suc)
  from assms(2) obtain x y z where old: "entries old = [x, y, z]"
    by (auto simp: length_Suc_conv numeral_eq_Suc)
  have ok: "name_ok (entry_name a)" "name_ok (entry_name b)" "name_ok (entry_name c)"
      "int64 (time_entry a)" "int64 (time_entry b)" "int64 (time_entry c)"
    using assms(3) es by (simp_all add: entry_ok_def)
  have three: "(3 :: nat) = Suc (Suc (Suc 0))" by simp
  note date = rtc_date_time_to_unix_fits [OF assms(4)]
  note lines = scan_entry_line [OF ok(1) date(2) ok(4)] scan_entry_next_line [OF ok(2) date(2) ok(5)]
    scan_entry_next_line [OF ok(3) date(2) ok(6), where rest = "[]", simplified]
  show ?thesis
    using old
    by (simp add: Leaderboard_read_file_def Leaderboard_write_file_def es three lines aread_def reread_entry_def Let_def
        unix_to_rtc_date_time_fits(1) [OF date(1)])
qed

text \<open>C22: a leaderboard of three named results that is written out and read back has the same names and
  times in the same places, so the ranking survives a restart of the game.\<close>

theorem Leaderboard_file_roundtrip:
  assumes "leaderboard_ok lb" "entry_count lb = 3" "\<forall>e \<in> set (entries lb). entry_ok e"
    "length (entries old) = 3" "\<bar>zone\<bar> \<le> 86400"
  shows "\<exists>lb'. Leaderboard_read_file (Some (snd (Leaderboard_write_file zone True lb))) old = Ok (0, lb') \<and>
    leaderboard_ok lb' \<and>
    map (\<lambda>e. (entry_name e, time_entry e)) (ranking lb') = map (\<lambda>e. (entry_name e, time_entry e)) (ranking lb)"
proof -
  from assms read_written [of lb old zone] obtain lb' where
    ok: "Leaderboard_read_file (Some (snd (Leaderboard_write_file zone True lb))) old = Ok (0, lb')"
    and count: "entry_count lb' = 3" and es: "entries lb' = map2 (reread_entry zone) (entries old) (entries lb)"
    by (auto simp: leaderboard_ok_def)
  have kept: "map (\<lambda>e. (entry_name e, time_entry e)) (entries lb') = map (\<lambda>e. (entry_name e, time_entry e)) (entries lb)"
    using assms(1,4) unfolding es
    by (intro nth_equalityI) (auto simp: leaderboard_ok_def reread_entry_def)
  then have "map snd (map (\<lambda>e. (entry_name e, time_entry e)) (entries lb')) =
      map snd (map (\<lambda>e. (entry_name e, time_entry e)) (entries lb))" by (rule arg_cong)
  then have "map time_entry (entries lb') = map time_entry (entries lb)" by (simp add: comp_def)
  moreover have "length (entries lb') = 3" using assms(1,4) es by (simp add: leaderboard_ok_def)
  ultimately show ?thesis
    using ok kept count assms(1,2) by (auto simp: leaderboard_ok_def ranking_def)
qed

theorem Leaderboard_file_roundtrip_witness:
  "\<exists>lb'. Leaderboard_read_file (Some (snd (Leaderboard_write_file 0 True sample_board))) sample_board = Ok (0, lb') \<and>
    leaderboard_ok lb' \<and>
    map (\<lambda>e. (entry_name e, time_entry e)) (ranking lb') = [(''ANA'', 30), (''RUI'', 45), (''ZE'', 60)]"
proof -
  have "leaderboard_ok sample_board" "entry_count sample_board = 3" "length (entries sample_board) = 3"
    "\<forall>e \<in> set (entries sample_board). entry_ok e"
    by (simp_all add: leaderboard_ok_def sample_board_def sample_entry_def ranking_def entry_ok_def name_ok_def is_space_def int64_def)
  from Leaderboard_file_roundtrip [OF this(1,2,4,3), of 0] show ?thesis
    by (simp add: sample_board_def sample_entry_def ranking_def)
qed

text \<open>C40: in UTC, when a leaderboard file of three valid lines, with dates in the years 0 to 65535, is read and the leaderboard is written out again, every
  timestamp of the new file is 2000 Gregorian years, 63113904000 seconds, later than in the old one: the date of a record moves although nobody
  played.\<close>

theorem Leaderboard_rewrite_shifts_dates:
  assumes "length (entries old) = 3" "name_ok n1" "name_ok n2" "name_ok n3" "int64 t1" "int64 t2" "int64 t3"
    "\<forall>d \<in> {d1, d2, d3}. 0 \<le> tm_year (utc_time d) + 1900 \<and> tm_year (utc_time d) + 1900 < 65536"
  shows "\<exists>lb'. Leaderboard_read_file (Some (entry_line n1 d1 t1 @ entry_line n2 d2 t2 @ entry_line n3 d3 t3)) old = Ok (0, lb') \<and>
    Leaderboard_write_file 0 True lb' =
      (0, entry_line n1 (d1 + 63113904000) t1 @ entry_line n2 (d2 + 63113904000) t2 @ entry_line n3 (d3 + 63113904000) t3)"
proof -
  from assms(1) obtain x y z where old: "entries old = [x, y, z]"
    by (auto simp: length_Suc_conv numeral_eq_Suc)
  have three: "(3 :: nat) = Suc (Suc (Suc 0))" by simp
  have "int64 d" if "d \<in> {d1, d2, d3}" for d
  proof -
    have "date_fits d" using assms(8) that by (auto simp: date_fits_year int32_def)
    then show ?thesis by (simp add: date_fits_def int64_def)
  qed
  then have d: "int64 d1" "int64 d2" "int64 d3" by simp_all
  note lines = scan_entry_line [OF assms(2) d(1) assms(5)] scan_entry_next_line [OF assms(3) d(2) assms(6)]
    scan_entry_next_line [OF assms(4) d(3) assms(7), where rest = "[]", simplified]
  have shift: "unix_to_rtc_date_time d dt = Ok (utc_date d dt)" "rtc_date_time_to_unix 0 (utc_date d dt) = d + 63113904000"
    if "d \<in> {d1, d2, d3}" for d dt
    using assms(8) that by (intro unix_to_rtc_to_unix; auto)+
  show ?thesis
    using old shift
    by (simp add: Leaderboard_read_file_def Leaderboard_write_file_def three lines aread_def Let_def)
qed

theorem Leaderboard_rewrite_shifts_dates_witness:
  "\<exists>lb'. Leaderboard_read_file (Some (entry_line ''ANA'' 1717200000 30 @ entry_line ''RUI'' 1717200000 45 @
      entry_line ''ZE'' 1717200000 60)) sample_board = Ok (0, lb') \<and>
    Leaderboard_write_file 0 True lb' =
      (0, entry_line ''ANA'' 64831104000 30 @ entry_line ''RUI'' 64831104000 45 @ entry_line ''ZE'' 64831104000 60)"
proof -
  have "tm_year (utc_time 1717200000) = 124" by code_simp
  then show ?thesis
    using Leaderboard_rewrite_shifts_dates [of sample_board "''ANA''" "''RUI''" "''ZE''" 30 45 60 1717200000 1717200000 1717200000]
    by (simp add: sample_board_def name_ok_def is_space_def int64_def)
qed

text \<open>A line that follows others, whose last newline has not been read yet.\<close>

lemma scan_entry_after_line:
  assumes "name_ok n" "nl = [] \<or> nl = [CHR 0x0A]"
  shows "scan_entry (nl @ entry_line n d t @ rest) e =
    (if int64 d \<and> int64 t then Ok (True, e\<lparr>entry_name := n, time_entry := t\<rparr>, d, CHR 0x0A # rest) else Undefined)"
proof -
  have "scan_word (entry_line n d t @ rest) \<noteq> None"
    using assms(1) scan_word_word [of n "CHR '' ''"] by (simp add: entry_line_def name_ok_def is_space_def)
  with assms show ?thesis by (auto simp: scan_entry_newline scan_entry_text)
qed

text \<open>The text of some lines.\<close>

definition file_lines :: "(string \<times> int \<times> int) list \<Rightarrow> string" where
  "file_lines ls = concat (map (\<lambda>(n, d, t). entry_line n d t) ls)"

definition line_valid :: "string \<times> int \<times> int \<Rightarrow> bool" where
  "line_valid = (\<lambda>(n, d, t). name_ok n \<and> date_fits d \<and> int64 t)"

lemma read_entries_far_date:
  assumes "length ls < k" "entry_count lb + k \<le> length (entries lb)" "list_all line_valid ls" "name_ok n" "\<not> date_fits d"
    "nl = [] \<or> nl = [CHR 0x0A]"
  shows "read_entries k (nl @ file_lines ls @ entry_line n d t @ rest) lb = Undefined"
  using assms
proof (induction ls arbitrary: k lb nl)
  case Nil
  then obtain j where "k = Suc j" by (cases k) auto
  with Nil show ?case
    by (simp add: file_lines_def aread_def scan_entry_after_line unix_to_rtc_date_time_fits(2) Let_def)
next
  case (Cons l ls)
  then obtain j where k: "k = Suc j" "length ls < j" by (cases k) auto
  obtain n1 d1 t1 where l: "l = (n1, d1, t1)" by (cases l)
  have ok: "name_ok n1" "date_fits d1" "int64 d1" "int64 t1" "list_all line_valid ls"
    using Cons.prems(3) by (simp_all add: l line_valid_def date_fits_def int64_def)
  have "nl @ file_lines (l # ls) @ entry_line n d t @ rest = nl @ entry_line n1 d1 t1 @ file_lines ls @ entry_line n d t @ rest"
    by (simp add: file_lines_def l)
  moreover have "read_entries j (CHR 0x0A # file_lines ls @ entry_line n d t @ rest)
      (lb\<lparr>entries := (entries lb)[entry_count lb := e], entry_count := entry_count lb + 1\<rparr>) = Undefined" for e
    using Cons.IH [of j "lb\<lparr>entries := (entries lb)[entry_count lb := e], entry_count := entry_count lb + 1\<rparr>" "[CHR 0x0A]"] k ok(5) Cons.prems
    by simp
  ultimately show ?case
    using k(1) Cons.prems(2) ok(1-4) scan_entry_after_line [OF ok(1) Cons.prems(6)]
    by (simp add: aread_def unix_to_rtc_date_time_fits(1) [OF ok(2)] Let_def)
qed

text \<open>C23: a time stamp whose year does not fit an \<open>int\<close>, or that does not fit 64 bits, in the first line of the leaderboard file or after one or two valid
  lines stops the game while it reads its leaderboard: the null pointer that \<open>gmtime\<close> returns is dereferenced, or the year overflows.  What
  follows that line does not matter.\<close>

theorem Leaderboard_far_date_undefined:
  assumes "length ls \<le> 2" "list_all line_valid ls" "name_ok n" "\<not> date_fits d" "length (entries old) = 3"
  shows "Leaderboard_read_file (Some (file_lines ls @ entry_line n d t @ rest)) old = Undefined"
  using read_entries_far_date [of ls 3 "old\<lparr>entry_count := 0\<rparr>" n d "[]" t rest] assms
  by (simp add: Leaderboard_read_file_def)

theorem Leaderboard_far_date_undefined_witness:
  "Leaderboard_read_file (Some (entry_line ''RUI'' 1717200000 45 @ entry_line ''ANA'' 67767976233532800 30)) sample_board = Undefined"
  using Leaderboard_far_date_undefined [of "[(''RUI'', 1717200000, 45)]" "''ANA''" 67767976233532800 sample_board 30 "[]"]
  by (simp add: file_lines_def line_valid_def name_ok_def is_space_def date_fits_def int64_def sample_board_def)

text \<open>A leaderboard with only two results, whose third slot still has the empty name, is written with a line
  that lacks a name; reading the file back stores the digits of that line's timestamp into \<open>char name[4]\<close>, a
  buffer overflow.\<close>

theorem Leaderboard_unused_slot_overflows:
  assumes "entries lb = [a, b, c]" "name_ok (entry_name a)" "name_ok (entry_name b)" "entry_name c = []"
    "1000 \<le> rtc_date_time_to_unix zone (dt_of_entry c)" "length (entries old) = 3"
    "int64 (time_entry a)" "int64 (time_entry b)" "\<bar>zone\<bar> \<le> 86400"
  shows "Leaderboard_read_file (Some (snd (Leaderboard_write_file zone True lb))) old = Undefined"
proof -
  let ?d = "rtc_date_time_to_unix zone (dt_of_entry c)"
  let ?w = "show_int ?d"
  note date = rtc_date_time_to_unix_fits [OF assms(9)]
  have w: "?w = show_nat (nat ?d)" using assms(5) by (simp add: show_int_def)
  have "list_all (\<lambda>c. \<not> is_space c) ?w"
    using show_nat_digits [of "nat ?d"] is_digit_not_space unfolding w by (auto simp: list_all_iff)
  moreover have "3 < length ?w"
    using assms(5) show_nat_long [of 3 "nat ?d"] unfolding w by simp
  ultimately have "scan_entry (CHR 0x0A # entry_line [] ?d t) e = Undefined" for t e
    using scan_word_word [of ?w "CHR '' ''"]
    by (auto simp: scan_entry_def entry_line_def scan_word_skip is_space_def w)
  moreover have three: "(3 :: nat) = Suc (Suc (Suc 0))" by simp
  ultimately show ?thesis
    using assms(1,4,6) scan_entry_line [OF assms(2) date(2) assms(7)] scan_entry_next_line [OF assms(3) date(2) assms(8)]
    by (simp add: unix_to_rtc_date_time_fits(1) [OF date(1)] Leaderboard_read_file_def Leaderboard_write_file_def Let_def aread_def three)
qed

theorem Leaderboard_unused_slot_overflows_witness:
  "Leaderboard_read_file (Some (snd (Leaderboard_write_file 0 True
     \<lparr>entries = [sample_entry ''ANA'' 30, sample_entry ''RUI'' 45, sample_entry [] 0], entry_count = 2\<rparr>)))
     sample_board = Undefined"
proof -
  have "rtc_date_time_to_unix 0 dt_zero = 943920000" by code_simp
  then show ?thesis
    by (intro Leaderboard_unused_slot_overflows [OF select_convs(1)])
      (simp_all add: sample_entry_def sample_board_def name_ok_def is_space_def int64_def)
qed

end
