(* ===== verification/Geometry.thy ===== *)
theory Geometry
  imports C_Prelude
begin

text \<open>
  Points and axis-aligned boxes: \<open>vec2/vec2.h\<close> and \<open>aabb/aabb.c\<close>.  Both tests include the edges of a box.
  The lemmas show that the overlap test decides exactly whether two boxes have a point in common.
\<close>

record vec2 =
  vx :: int
  vy :: int

definition VEC2 :: "int \<Rightarrow> int \<Rightarrow> vec2" where
  "VEC2 x y = \<lparr>vx = x, vy = y\<rparr>"

lemma VEC2_simps [simp]: "vx (VEC2 x y) = x" "vy (VEC2 x y) = y"
  by (simp_all add: VEC2_def)

record aabb =
  position :: vec2
  size_of :: vec2

definition AABB :: "vec2 \<Rightarrow> vec2 \<Rightarrow> aabb" where
  "AABB pos sz = \<lparr>position = pos, size_of = sz\<rparr>"

lemma AABB_simps [simp]: "position (AABB p s) = p" "size_of (AABB p s) = s"
  by (simp_all add: AABB_def)

definition AABB_contains :: "aabb \<Rightarrow> vec2 \<Rightarrow> bool" where
  "AABB_contains box point =
     (if vx point < vx (position box) \<or> vx point > vx (position box) + vx (size_of box) then False
      else if vy point < vy (position box) \<or> vy point > vy (position box) + vy (size_of box) then False
      else True)"

definition AABB_overlaps :: "aabb \<Rightarrow> aabb \<Rightarrow> bool" where
  "AABB_overlaps first second =
     (if vx (position first) + vx (size_of first) < vx (position second) \<or>
         vx (position second) + vx (size_of second) < vx (position first) then False
      else if vy (position first) + vy (size_of first) < vy (position second) \<or>
         vy (position second) + vy (size_of second) < vy (position first) then False
      else True)"

definition aabb_ok :: "aabb \<Rightarrow> bool" where
  "aabb_ok box \<longleftrightarrow> 0 \<le> vx (size_of box) \<and> 0 \<le> vy (size_of box)"

text \<open>Two closed intervals meet iff neither lies wholly before the other, and then at the larger of their
  left ends.\<close>

lemma intervals_meet:
  fixes a b m n :: int
  assumes "0 \<le> m" "0 \<le> n"
  shows "(\<exists>x. a \<le> x \<and> x \<le> a + m \<and> b \<le> x \<and> x \<le> b + n) \<longleftrightarrow> \<not> (a + m < b \<or> b + n < a)"
    (is "?l \<longleftrightarrow> ?r")
proof
  assume ?r
  with assms have "a \<le> max a b \<and> max a b \<le> a + m \<and> b \<le> max a b \<and> max a b \<le> b + n" by linarith
  then show ?l by blast
qed auto

lemma AABB_contains_iff:
  "AABB_contains box p \<longleftrightarrow> vx (position box) \<le> vx p \<and> vx p \<le> vx (position box) + vx (size_of box) \<and>
     vy (position box) \<le> vy p \<and> vy p \<le> vy (position box) + vy (size_of box)"
  by (auto simp: AABB_contains_def)

text \<open>C30: two boxes overlap exactly when some point lies in both of them.\<close>

theorem AABB_overlaps_common_point:
  assumes "aabb_ok a" "aabb_ok b"
  shows "AABB_overlaps a b \<longleftrightarrow> (\<exists>p. AABB_contains a p \<and> AABB_contains b p)"
proof -
  note meet = intervals_meet [of "vx (size_of a)" "vx (size_of b)" "vx (position a)" "vx (position b)"]
    intervals_meet [of "vy (size_of a)" "vy (size_of b)" "vy (position a)" "vy (position b)"]
  have "(\<exists>p. AABB_contains a p \<and> AABB_contains b p) \<longleftrightarrow>
      (\<exists>x. vx (position a) \<le> x \<and> x \<le> vx (position a) + vx (size_of a) \<and>
           vx (position b) \<le> x \<and> x \<le> vx (position b) + vx (size_of b)) \<and>
      (\<exists>y. vy (position a) \<le> y \<and> y \<le> vy (position a) + vy (size_of a) \<and>
           vy (position b) \<le> y \<and> y \<le> vy (position b) + vy (size_of b))" (is "?l \<longleftrightarrow> ?x \<and> ?y")
  proof
    assume "?x \<and> ?y"
    then obtain x y where "AABB_contains a (VEC2 x y) \<and> AABB_contains b (VEC2 x y)"
      by (auto simp: AABB_contains_iff)
    then show ?l by blast
  qed (auto simp: AABB_contains_iff)
  with meet assms show ?thesis by (simp add: AABB_overlaps_def aabb_ok_def)
qed

theorem AABB_overlaps_common_point_witness:
  "\<exists>p. AABB_contains (AABB (VEC2 0 0) (VEC2 10 10)) p \<and> AABB_contains (AABB (VEC2 10 5) (VEC2 3 3)) p"
  using AABB_overlaps_common_point [of "AABB (VEC2 0 0) (VEC2 10 10)" "AABB (VEC2 10 5) (VEC2 3 3)"]
  by (simp add: AABB_overlaps_def aabb_ok_def)

end
