(* ===== verification/Canvas.thy ===== *)
theory Canvas
  imports Geometry
begin

text \<open>
  Pictures, and the interface of a surface that is drawn on row by row or cell by cell.  The clients' lemmas, what the nested
  loops of the drawing code paint, are proved once for every surface.  The back buffer of the graphics driver and the tables of characters
  of the level code are such surfaces.
\<close>

section \<open>Pictures\<close>

text \<open>A picture says which pixels are painted, and with which colour.\<close>

type_synonym 'c pic = "int \<Rightarrow> int \<Rightarrow> 'c option"

type_synonym picture = "u8 pic"

definition blank :: "'c pic" where
  "blank = (\<lambda>a b. None)"

definition over :: "'c pic \<Rightarrow> 'c pic \<Rightarrow> 'c pic" where
  "over Q P = (\<lambda>a b. case Q a b of None \<Rightarrow> P a b | Some c \<Rightarrow> Some c)"

definition box :: "int \<Rightarrow> int \<Rightarrow> int \<Rightarrow> int \<Rightarrow> 'c pic \<Rightarrow> 'c pic" where
  "box x y w h f = (\<lambda>a b. if x \<le> a \<and> a < x + w \<and> y \<le> b \<and> b < y + h then f (a - x) (b - y) else None)"

definition row :: "int \<Rightarrow> int \<Rightarrow> 'c list \<Rightarrow> 'c pic" where
  "row x y bytes = box x y (int (length bytes)) 1 (\<lambda>a b. Some (bytes ! nat a))"

definition dot :: "int \<Rightarrow> int \<Rightarrow> 'c \<Rightarrow> 'c pic" where
  "dot x y c = box x y 1 1 (\<lambda>a b. Some c)"

lemma over_blank [simp]: "over P blank = P" "over blank P = P"
  by (simp_all add: over_def blank_def fun_eq_iff split: option.splits)

lemma box_empty [simp]: "w \<le> 0 \<or> h \<le> 0 \<Longrightarrow> box x y w h f = blank"
  by (auto simp: box_def blank_def fun_eq_iff)

lemma box_next_row: "0 \<le> h \<Longrightarrow> over (box x (y + h) w 1 (\<lambda>a b. f a h)) (box x y w h f) = box x y w (h + 1) f"
  by (auto simp: over_def box_def fun_eq_iff split: option.splits)

lemma box_next_column: "0 \<le> w \<Longrightarrow> over (box (x + w) y 1 h (\<lambda>a b. f w b)) (box x y w h f) = box x y (w + 1) h f"
  by (auto simp: over_def box_def fun_eq_iff split: option.splits)

section \<open>Interfaces of a canvas\<close>

text \<open>A canvas: \<open>painted g P g'\<close> says that \<open>g'\<close> is \<open>g\<close> with the picture \<open>P\<close> painted over it.\<close>

locale canvas =
  fixes ready :: "'g \<Rightarrow> bool"
    and painted :: "'g \<Rightarrow> 'c pic \<Rightarrow> 'g \<Rightarrow> bool"
  assumes painted_blank: "painted g blank g"
    and painted_over: "painted g P g' \<Longrightarrow> painted g' Q g'' \<Longrightarrow> painted g (over Q P) g''"
    and painted_ready: "painted g P g' \<Longrightarrow> ready g \<Longrightarrow> ready g'"

locale row_canvas = canvas ready painted
  for ready :: "'g \<Rightarrow> bool" and painted :: "'g \<Rightarrow> 'c pic \<Rightarrow> 'g \<Rightarrow> bool" +
  fixes draw_row :: "vec2 \<Rightarrow> 'c list \<Rightarrow> int \<Rightarrow> 'g \<Rightarrow> 'g outcome"
  assumes draw_row: "ready g \<Longrightarrow>
    \<exists>g'. draw_row (VEC2 x y) bytes (int (length bytes)) g = Ok g' \<and> painted g (row x y bytes) g'"
begin

lemma draw_rows:
  assumes "ready g" and len: "\<And>y. y0 \<le> y \<Longrightarrow> y < y0 + h \<Longrightarrow> int (length (line y)) = w"
  shows "\<exists>g'. for_loop y0 (y0 + h) (\<lambda>y. draw_row (VEC2 x (y + dy)) (line y) w) g = Ok g' \<and>
    painted g (box x (y0 + dy) w h (\<lambda>a b. Some (line (y0 + b) ! nat a))) g'"
proof (cases "0 \<le> h")
  case True
  let ?f = "\<lambda>a b. Some (line (y0 + b) ! nat a)"
  let ?I = "\<lambda>i t. painted g (box x (y0 + dy) w (i - y0) ?f) t"
  have "\<exists>g'. for_loop y0 (y0 + h) (\<lambda>y. draw_row (VEC2 x (y + dy)) (line y) w) g = Ok g' \<and> ?I (y0 + h) g'"
  proof (rule for_loop_invariant)
    fix i t assume i: "y0 \<le> i" "i < y0 + h" and I: "?I i t"
    then obtain t' where t': "draw_row (VEC2 x (i + dy)) (line i) w t = Ok t'" "painted t (row x (i + dy) (line i)) t'"
      using draw_row [of t x "i + dy" "line i"] painted_ready [OF I assms(1)] len [OF i] by auto
    have "over (row x (i + dy) (line i)) (box x (y0 + dy) w (i - y0) ?f) = box x (y0 + dy) w (i + 1 - y0) ?f"
      using box_next_row [of "i - y0" x "y0 + dy" w ?f] i len [OF i]
      by (simp add: row_def algebra_simps)
    with painted_over [OF I t'(2)] t'(1)
    show "\<exists>t'. draw_row (VEC2 x (i + dy)) (line i) w t = Ok t' \<and> ?I (i + 1) t'" by auto
  qed (use True painted_blank in auto)
  then show ?thesis by simp
qed (use painted_blank in auto)

end

locale dot_canvas = canvas ready painted
  for ready :: "'g \<Rightarrow> bool" and painted :: "'g \<Rightarrow> 'c pic \<Rightarrow> 'g \<Rightarrow> bool" +
  fixes window :: "'g \<Rightarrow> int \<Rightarrow> int \<Rightarrow> bool"
    and draw_dot :: "int \<Rightarrow> int \<Rightarrow> 'c \<Rightarrow> 'g \<Rightarrow> 'g outcome"
  assumes painted_window: "painted g P g' \<Longrightarrow> window g' = window g"
    and draw_dot: "ready g \<Longrightarrow> window g x y \<Longrightarrow> \<exists>g'. draw_dot x y c g = Ok g' \<and> painted g (dot x y c) g'"
begin

lemma draw_dot_row:
  assumes "ready g" and win: "\<And>i. 0 \<le> i \<Longrightarrow> i < w \<Longrightarrow> window g (x + i) y"
  shows "\<exists>g'. for_loop 0 w (\<lambda>i g. case f i of None \<Rightarrow> Ok g | Some c \<Rightarrow> draw_dot (x + i) y c g) g = Ok g' \<and>
    painted g (box x y w 1 (\<lambda>a b. f a)) g'"
proof (cases "0 \<le> w")
  case True
  let ?I = "\<lambda>i t. painted g (box x y i 1 (\<lambda>a b. f a)) t"
  have "\<exists>g'. for_loop 0 w (\<lambda>i g. case f i of None \<Rightarrow> Ok g | Some c \<Rightarrow> draw_dot (x + i) y c g) g = Ok g' \<and> ?I w g'"
  proof (rule for_loop_invariant)
    fix i t assume i: "0 \<le> i" "i < w" and I: "?I i t"
    let ?new = "box (x + i) y 1 1 (\<lambda>a b. f i)"
    obtain t' where t': "(case f i of None \<Rightarrow> Ok t | Some c \<Rightarrow> draw_dot (x + i) y c t) = Ok t'" "painted t ?new t'"
    proof (cases "f i")
      case None
      then have "?new = blank" by (simp add: box_def blank_def fun_eq_iff)
      then show ?thesis using that None painted_blank by simp
    next
      case (Some c)
      then show ?thesis
        using that draw_dot [OF painted_ready [OF I assms(1)], of "x + i" y c] painted_window [OF I] win [OF i]
        by (auto simp: dot_def)
    qed
    with painted_over [OF I t'(2)] box_next_column [OF i(1), of x y 1 "\<lambda>a b. f a"]
    show "\<exists>t'. (case f i of None \<Rightarrow> Ok t | Some c \<Rightarrow> draw_dot (x + i) y c t) = Ok t' \<and> ?I (i + 1) t'" by auto
  qed (use True painted_blank in auto)
  then show ?thesis by simp
qed (use painted_blank in auto)

lemma draw_dots:
  assumes "ready g" and win: "\<And>i j. 0 \<le> i \<Longrightarrow> i < w \<Longrightarrow> 0 \<le> j \<Longrightarrow> j < h \<Longrightarrow> window g (x + i) (y + j)"
  shows "\<exists>g'. for_loop 0 h (\<lambda>j. for_loop 0 w (\<lambda>i g. case f i j of None \<Rightarrow> Ok g | Some c \<Rightarrow> draw_dot (x + i) (y + j) c g)) g
      = Ok g' \<and> painted g (box x y w h f) g'"
proof (cases "0 \<le> h")
  case True
  let ?I = "\<lambda>j t. painted g (box x y w j f) t"
  let ?row = "\<lambda>j. for_loop 0 w (\<lambda>i g. case f i j of None \<Rightarrow> Ok g | Some c \<Rightarrow> draw_dot (x + i) (y + j) c g)"
  show ?thesis
  proof (rule for_loop_invariant [where I = ?I])
    fix j t assume j: "0 \<le> j" "j < h" and I: "?I j t"
    then obtain t' where t': "?row j t = Ok t'" "painted t (box x (y + j) w 1 (\<lambda>a b. f a j)) t'"
      using draw_dot_row [of t w x "y + j" "\<lambda>i. f i j"] painted_ready [OF I assms(1)] painted_window [OF I] win by auto
    with painted_over [OF I t'(2)] box_next_row [OF j(1), of x y w f]
    show "\<exists>t'. ?row j t = Ok t' \<and> ?I (j + 1) t'" by auto
  qed (use True painted_blank in auto)
qed (use painted_blank in auto)

end

section \<open>Tables as canvases\<close>

text \<open>A table of cells \<open>t[y][x]\<close> as an array of rows.\<close>

definition aread2 :: "'c list list \<Rightarrow> int \<Rightarrow> int \<Rightarrow> 'c outcome" where
  "aread2 t y x = obind (aread_int t y) (\<lambda>row. aread_int row x)"

definition awrite2 :: "'c list list \<Rightarrow> int \<Rightarrow> int \<Rightarrow> 'c \<Rightarrow> 'c list list outcome" where
  "awrite2 t y x c = obind (aread_int t y) (\<lambda>row. obind (awrite_int row x c) (\<lambda>row. Ok (t[nat y := row])))"

definition in_table :: "'c list list \<Rightarrow> int \<Rightarrow> int \<Rightarrow> bool" where
  "in_table t x y \<longleftrightarrow> 0 \<le> y \<and> y < int (length t) \<and> 0 \<le> x \<and> x < int (length (t ! nat y))"

abbreviation cell :: "'c list list \<Rightarrow> int \<Rightarrow> int \<Rightarrow> 'c" where
  "cell t y x \<equiv> t ! nat y ! nat x"

definition table_painted :: "'c list list \<Rightarrow> 'c pic \<Rightarrow> 'c list list \<Rightarrow> bool" where
  "table_painted t P t' \<longleftrightarrow> map length t' = map length t \<and>
     (\<forall>x y. in_table t x y \<longrightarrow> cell t' y x = (case P x y of None \<Rightarrow> cell t y x | Some c \<Rightarrow> c))"

lemma in_table_shape: "map length t' = map length t \<Longrightarrow> in_table t' = in_table t"
proof (intro ext)
  fix x y assume shape: "map length t' = map length t"
  then have "length t' = length t" by (metis length_map)
  moreover have "length (t' ! i) = length (t ! i)" if "i < length t" for i
    using that shape calculation by (metis nth_map)
  ultimately show "in_table t' x y = in_table t x y" by (auto simp: in_table_def nat_less_iff)
qed

lemma aread2_in: "in_table t x y \<Longrightarrow> aread2 t y x = Ok (cell t y x)"
  by (simp add: aread2_def aread_int_def aread_def in_table_def nat_less_iff)

lemma aread2_out: "\<not> in_table t x y \<Longrightarrow> aread2 t y x = Undefined"
  by (auto simp: aread2_def aread_int_def aread_def in_table_def nat_less_iff)

lemma awrite2_out: "\<not> in_table t x y \<Longrightarrow> awrite2 t y x c = Undefined"
  by (auto simp: awrite2_def aread_int_def aread_def awrite_int_def awrite_def in_table_def nat_less_iff)

lemma awrite2_painted:
  assumes "in_table t x y"
  shows "\<exists>t'. awrite2 t y x c = Ok t' \<and> table_painted t (dot x y c) t'"
proof -
  have yx: "0 \<le> y" "nat y < length t" "0 \<le> x" "nat x < length (t ! nat y)"
    using assms by (simp_all add: in_table_def nat_less_iff)
  let ?row = "(t ! nat y)[nat x := c]"
  have "awrite2 t y x c = Ok (t[nat y := ?row])" using yx by (simp add: awrite2_def aread_int_def awrite_int_def aread_def awrite_def)
  moreover have "map length (t[nat y := ?row]) = map length t" using yx by (intro nth_equalityI) (auto simp: nth_list_update)
  moreover have "cell (t[nat y := ?row]) b a = (case dot x y c a b of None \<Rightarrow> cell t b a | Some c \<Rightarrow> c)" if "in_table t a b" for a b
    using that yx by (auto simp: in_table_def dot_def box_def nth_list_update nat_eq_iff2 nat_less_iff)
  ultimately show ?thesis by (simp add: table_painted_def)
qed

text \<open>Copying a cell is undefined or keeps the shape of the table.\<close>

lemma copy_cell_shape:
  "obind (aread2 s b a) (\<lambda>c. awrite2 t y x c) = Undefined \<or>
   (\<exists>t'. obind (aread2 s b a) (\<lambda>c. awrite2 t y x c) = Ok t' \<and> map length t' = map length t)"
proof (cases "in_table s a b \<and> in_table t x y")
  case True
  from awrite2_painted [OF conjunct2 [OF True], of "cell s b a"] True show ?thesis by (auto simp: aread2_in table_painted_def)
next
  case False
  then show ?thesis by (cases "in_table s a b") (simp_all add: aread2_in aread2_out awrite2_out)
qed

interpretation tables: dot_canvas "\<lambda>_ :: 'c list list. True" table_painted in_table "\<lambda>x y c t. awrite2 t y x c"
proof
  show "table_painted t blank t" for t :: "'c list list" by (simp add: table_painted_def blank_def)
  show "table_painted g (over Q P) g''" if p: "table_painted g P g'" and q: "table_painted g' Q g''" for g P g' Q and g'' :: "'c list list"
  proof -
    have "in_table g' = in_table g" using p by (intro in_table_shape) (simp only: table_painted_def)
    moreover have "map length g'' = map length g" using p q by (simp only: table_painted_def)
    moreover have "cell g' y x = (case P x y of None \<Rightarrow> cell g y x | Some c \<Rightarrow> c)" if "in_table g x y" for x y
      using p that by (simp only: table_painted_def)
    moreover have "cell g'' y x = (case Q x y of None \<Rightarrow> cell g' y x | Some c \<Rightarrow> c)" if "in_table g' x y" for x y
      using q that by (simp only: table_painted_def)
    ultimately show ?thesis by (simp add: table_painted_def over_def split: option.splits)
  qed
  show "in_table g' = in_table g" if "table_painted g P g'" for g P and g' :: "'c list list"
    using that by (intro in_table_shape) (simp only: table_painted_def)
  show "\<exists>g'. awrite2 g y x c = Ok g' \<and> table_painted g (dot x y c) g'" if "in_table g x y" for g :: "'c list list" and x y c
    using that by (rule awrite2_painted)
qed

end
