(* ===== verification/Gpu.thy ===== *)
theory Gpu
  imports Kernel_IO Canvas
begin

text \<open>
  The graphics driver, \<open>drivers/gpu.c\<close>: mode setting, the mapping of video memory, and the drawing
  primitives, which work on a back buffer that a commit copies to video memory.  The BIOS call goes
  through the kernel record; the VBE query, the memory mapping, \<open>malloc\<close> and \<open>xpm_load\<close> are parameters.  Images
  are byte lists; every access to a buffer is checked against its length and undefined outside.
  The lemmas show that clipping never leaves the buffer and describe each primitive pixel by pixel.
\<close>

section \<open>Data\<close>

datatype xpm_image_type = XPM_INDEXED | XPM_1_5_5_5 | XPM_5_6_5 | XPM_8_8_8 | XPM_8_8_8_8
  | XPM_GRAY_1_5_5_5 | XPM_GRAY_5_6_5 | XPM_GRAY_8_8_8 | XPM_GRAY_8_8_8_8 | INVALID_XPM

record xpm_image =
  img_type :: xpm_image_type
  img_width :: u16
  img_height :: u16
  img_bytes :: "u8 list"

record GPU_RES_INFO =
  x_res :: u16
  y_res :: u16

text \<open>\<open>mr_base\<close> and \<open>mr_limit\<close> are \<open>mem_range\<close>; the file's own \<open>x_res\<close> and \<open>y_res\<close>, which shadow nothing and
  are never assigned, are \<open>static_x_res\<close> and \<open>static_y_res\<close>.  \<open>malloc_max\<close> is the largest block \<open>malloc\<close> can give out.\<close>

record gpu =
  gpu_res_info :: GPU_RES_INFO
  static_x_res :: u16
  static_y_res :: u16
  bits_per_pixel :: u8
  bytes_per_pixel :: u8
  red_mask_size :: u8
  green_mask_size :: u8
  blue_mask_size :: u8
  red_mask_location :: u8
  green_mask_location :: u8
  blue_mask_location :: u8
  color_mode :: u8
  vram_size :: u32
  mr_base :: u32
  mr_limit :: u32
  video_mem :: "u8 list"
  backbuffer :: "u8 list"
  malloc_max :: nat

definition INDEX_MODE :: u8 where [c_consts]: "INDEX_MODE = 0"
definition DIRECT_MODE :: u8 where [c_consts]: "DIRECT_MODE = 1"

definition gpu_start :: "nat \<Rightarrow> gpu" where
  "gpu_start room = \<lparr>gpu_res_info = \<lparr>x_res = 0, y_res = 0\<rparr>, static_x_res = 0, static_y_res = 0,
     bits_per_pixel = 0, bytes_per_pixel = 0, red_mask_size = 0, green_mask_size = 0, blue_mask_size = 0,
     red_mask_location = 0, green_mask_location = 0, blue_mask_location = 0, color_mode = 0, vram_size = 0,
     mr_base = 0, mr_limit = 0, video_mem = [], backbuffer = [], malloc_max = room\<rparr>"

abbreviation X_RES :: "gpu \<Rightarrow> int" where "X_RES g \<equiv> uint (x_res (gpu_res_info g))"
abbreviation Y_RES :: "gpu \<Rightarrow> int" where "Y_RES g \<equiv> uint (y_res (gpu_res_info g))"
abbreviation BPP :: "gpu \<Rightarrow> int" where "BPP g \<equiv> uint (bytes_per_pixel g)"

section \<open>Setting the mode\<close>

definition gpu_set_mode :: "kernel \<Rightarrow> u16 \<Rightarrow> (trace, unit) io" where
  "gpu_set_mode K mode = sys_int86 K 0x4F02 (BIT 14 OR mode) 0x10"

record vbe_mode_info =
  XResolution :: u16
  YResolution :: u16
  BitsPerPixel :: u8
  RedMaskSize :: u8
  GreenMaskSize :: u8
  BlueMaskSize :: u8
  RedFieldPosition :: u8
  GreenFieldPosition :: u8
  BlueFieldPosition :: u8
  MemoryModel :: u8
  PhysBasePtr :: u32

text \<open>The library and kernel calls of \<open>gpu_init_mem_indexation\<close>; \<open>None\<close> and \<open>False\<close> are failures.\<close>

record gpu_env =
  vbe_get_mode_info :: "u16 \<Rightarrow> vbe_mode_info option"
  sys_privctl_add_mem :: "u32 \<Rightarrow> u32 \<Rightarrow> bool"
  vm_map_phys :: "u32 \<Rightarrow> u32 \<Rightarrow> u8 list option"
  malloc_bytes :: "u32 \<Rightarrow> u8 list option"

text \<open>The return code and the new state; both products of \<open>x_res * y_res * bytes_per_pixel\<close> are \<open>int\<close>s, undefined
  beyond 31 bits.\<close>

definition gpu_init_mem_indexation :: "gpu_env \<Rightarrow> u16 \<Rightarrow> gpu \<Rightarrow> (int \<times> gpu) outcome" where
  "gpu_init_mem_indexation E mode g =
     (case vbe_get_mode_info E mode of
        None \<Rightarrow> Ok (1, g)
      | Some vmi \<Rightarrow>
          let bpp = word_of_int ((uint (BitsPerPixel vmi) + 7) div 8) :: u8;
              product = uint (XResolution vmi) * uint (YResolution vmi) * uint bpp;
              vsize = word_of_int product :: u32;
              base = PhysBasePtr vmi;
              g1 = g\<lparr>gpu_res_info := \<lparr>x_res = XResolution vmi, y_res = YResolution vmi\<rparr>,
                     bits_per_pixel := BitsPerPixel vmi, bytes_per_pixel := bpp,
                     red_mask_size := RedMaskSize vmi, green_mask_size := GreenMaskSize vmi,
                     blue_mask_size := BlueMaskSize vmi, red_mask_location := RedFieldPosition vmi,
                     green_mask_location := GreenFieldPosition vmi, blue_mask_location := BlueFieldPosition vmi,
                     color_mode := (if MemoryModel vmi = 0x06 then DIRECT_MODE else INDEX_MODE),
                     vram_size := vsize, mr_base := base, mr_limit := base + vsize\<rparr>
          in if 2 ^ 31 \<le> uint (XResolution vmi) * uint (YResolution vmi) \<or> 2 ^ 31 \<le> product then Undefined
             else if \<not> sys_privctl_add_mem E base (base + vsize) then Panicked
             else (case vm_map_phys E base vsize of
                     None \<Rightarrow> Panicked
                   | Some vm \<Rightarrow>
                       (case malloc_bytes E vsize of
                          None \<Rightarrow> Panicked
                        | Some bb \<Rightarrow> Ok (0, g1\<lparr>video_mem := vm, backbuffer := bb\<rparr>))))"

section \<open>Drawing\<close>

text \<open>The bytes of a little-endian \<open>uint32_t\<close> in memory.\<close>

definition color_bytes :: "u32 \<Rightarrow> u8 list" where
  "color_bytes c = map (\<lambda>i. ucast (drop_bit (8 * i) c)) [0..<4]"

definition gpu_draw_pixel :: "u16 \<Rightarrow> u16 \<Rightarrow> u32 \<Rightarrow> gpu \<Rightarrow> gpu outcome" where
  "gpu_draw_pixel x y color g =
     (if x \<ge> x_res (gpu_res_info g) \<or> y \<ge> y_res (gpu_res_info g) then Ok g
      else let location = word_of_int ((uint y * X_RES g + uint x) * BPP g) :: u32
           in obind (memcpy (backbuffer g) (uint location) (color_bytes color) 0 (BPP g))
                (\<lambda>b. Ok (g\<lparr>backbuffer := b\<rparr>)))"

definition gpu_draw_line :: "vec2 \<Rightarrow> u8 list \<Rightarrow> int \<Rightarrow> gpu \<Rightarrow> gpu outcome" where
  "gpu_draw_line pos bytes pixelsc g =
     (if vx pos > X_RES g then Ok g
      else if vx pos + pixelsc < 0 then Ok g
      else if vy pos < 0 \<or> vy pos \<ge> Y_RES g then Ok g
      else let start = max (vx pos) 0;
               stop = min (X_RES g - 1) (vx pos + pixelsc - 1);
               count = stop - start + 1;
               location = (vy pos * X_RES g + start) * BPP g;
               skip = (if vx pos < 0 then - vx pos else 0)
           in obind (memcpy (backbuffer g) location bytes skip (count * BPP g))
                (\<lambda>b. Ok (g\<lparr>backbuffer := b\<rparr>)))"

text \<open>The variable-length array \<open>bytes[size.x]\<close> needs a positive size.\<close>

definition gpu_draw_rect :: "vec2 \<Rightarrow> vec2 \<Rightarrow> u8 \<Rightarrow> gpu \<Rightarrow> gpu outcome" where
  "gpu_draw_rect pos sz color g =
     (if color_mode g = INDEX_MODE
      then for_loop (vy pos) (vy pos + vy sz) (\<lambda>y g.
             if vx sz \<le> 0 then Undefined
             else gpu_draw_line (VEC2 (vx pos) y) (replicate (nat (vx sz)) color) (vx sz) g) g
      else Ok g)"

definition gpu_draw_transparent_xpm :: "xpm_image \<Rightarrow> vec2 \<Rightarrow> vec2 \<Rightarrow> vec2 \<Rightarrow> gpu \<Rightarrow> gpu outcome" where
  "gpu_draw_transparent_xpm xpm pos offset sz =
     for_loop 0 (vy sz) (\<lambda>y. for_loop 0 (vx sz) (\<lambda>x g.
       obind (aread_int (img_bytes xpm) ((y + vy offset) * uint (img_width xpm) + (x + vx offset))) (\<lambda>byte.
         if byte \<noteq> 99 then gpu_draw_pixel (word_of_int (vx pos + x)) (word_of_int (vy pos + y)) (ucast byte) g
         else Ok g)))"

text \<open>The line buffer is allocated once; when that fails, the first copy into it is undefined.\<close>

definition gpu_draw_xpm :: "xpm_image \<Rightarrow> vec2 \<Rightarrow> vec2 \<Rightarrow> vec2 \<Rightarrow> gpu \<Rightarrow> gpu outcome" where
  "gpu_draw_xpm xpm pos offset sz g =
     (let n = vx sz * BPP g; allocated = (0 \<le> n \<and> n \<le> int (malloc_max g)) in
      for_loop (vy offset) (vy offset + vy sz) (\<lambda>y t.
        if \<not> allocated then Undefined
        else obind (memcpy (replicate (nat n) 0) 0 (img_bytes xpm) ((y * uint (img_width xpm) + vx offset) * BPP g) n)
               (\<lambda>bytes. gpu_draw_line (VEC2 (vx pos) (vy pos + y - vy offset)) bytes (vx sz) t)) g)"

text \<open>\<open>xpm_load\<close> gives the returned address, \<open>None\<close> on error, and the image record; \<open>colors\<close> walks over the bytes.\<close>

definition draw_colors :: "u8 list \<Rightarrow> u16 \<Rightarrow> u16 \<Rightarrow> u16 \<Rightarrow> u16 \<Rightarrow> gpu \<Rightarrow> gpu outcome" where
  "draw_colors colors w h x y =
     for_loop 0 (uint h) (\<lambda>iy. for_loop 0 (uint w) (\<lambda>ix g.
       obind (aread_int colors (iy * uint w + ix)) (\<lambda>c.
         gpu_draw_pixel (x + word_of_int ix) (y + word_of_int iy) (ucast c) g)))"

definition aux_draw_xpm :: "('x \<Rightarrow> u8 list option \<times> xpm_image) \<Rightarrow> 'x \<Rightarrow> u16 \<Rightarrow> u16 \<Rightarrow> gpu \<Rightarrow> gpu outcome" where
  "aux_draw_xpm xpm_load xpm x y g =
     (case xpm_load xpm of (colors, img) \<Rightarrow>
        draw_colors (case colors of None \<Rightarrow> [] | Some cs \<Rightarrow> cs) (img_width img) (img_height img) x y g)"

definition gpu_buffer_commit :: "gpu \<Rightarrow> gpu outcome" where
  "gpu_buffer_commit g =
     obind (memcpy (video_mem g) 0 (backbuffer g) 0 (uint (vram_size g))) (\<lambda>v. Ok (g\<lparr>video_mem := v\<rparr>))"

definition gpu_buffer_clear :: "gpu \<Rightarrow> gpu outcome" where
  "gpu_buffer_clear g =
     obind (memcpy (backbuffer g) 0 (replicate (unat (vram_size g)) 0) 0 (uint (vram_size g)))
       (\<lambda>b. Ok (g\<lparr>backbuffer := b\<rparr>))"

text \<open>\<open>vg_draw_rectangle\<close> of the LCF library is a parameter.\<close>

definition aux_clear :: "(u16 \<Rightarrow> u16 \<Rightarrow> u16 \<Rightarrow> u16 \<Rightarrow> u32 \<Rightarrow> bool) \<Rightarrow> gpu \<Rightarrow> int" where
  "aux_clear vg_draw_rectangle g =
     (if \<not> vg_draw_rectangle 0 0 (static_x_res g) (static_y_res g) 0 then 1 else 0)"

definition gpu_get_gpu_res_info :: "gpu \<Rightarrow> GPU_RES_INFO" where
  "gpu_get_gpu_res_info g = gpu_res_info g"

section \<open>The back buffer as a canvas\<close>

text \<open>The invariant of the driver after initialisation: both buffers hold the whole screen.\<close>

definition gpu_ok :: "gpu \<Rightarrow> bool" where
  "gpu_ok g \<longleftrightarrow> 1 \<le> BPP g \<and> BPP g \<le> 4 \<and> X_RES g * Y_RES g * BPP g < 2 ^ 31 \<and>
     uint (vram_size g) = X_RES g * Y_RES g * BPP g \<and>
     int (length (backbuffer g)) = X_RES g * Y_RES g * BPP g \<and>
     int (length (video_mem g)) = X_RES g * Y_RES g * BPP g"

definition indexed_ok :: "gpu \<Rightarrow> bool" where
  "indexed_ok g \<longleftrightarrow> gpu_ok g \<and> bytes_per_pixel g = 1"

definition on_screen :: "gpu \<Rightarrow> int \<Rightarrow> int \<Rightarrow> bool" where
  "on_screen g a b \<longleftrightarrow> 0 \<le> a \<and> a < X_RES g \<and> 0 \<le> b \<and> b < Y_RES g"

definition pixel :: "gpu \<Rightarrow> int \<Rightarrow> int \<Rightarrow> u8" where
  "pixel g a b = backbuffer g ! nat (b * X_RES g + a)"

definition shown :: "gpu \<Rightarrow> int \<Rightarrow> int \<Rightarrow> u8" where
  "shown g a b = video_mem g ! nat (b * X_RES g + a)"

text \<open>Only the contents of the back buffer have changed.\<close>

definition redrawn :: "gpu \<Rightarrow> gpu \<Rightarrow> bool" where
  "redrawn g g' \<longleftrightarrow> (\<exists>b. g' = g\<lparr>backbuffer := b\<rparr> \<and> length b = length (backbuffer g))"

definition painted :: "gpu \<Rightarrow> picture \<Rightarrow> gpu \<Rightarrow> bool" where
  "painted g P g' \<longleftrightarrow> redrawn g g' \<and>
     (\<forall>a b. on_screen g a b \<longrightarrow> pixel g' a b = (case P a b of None \<Rightarrow> pixel g a b | Some c \<Rightarrow> c))"

lemma redrawnI [intro]: "length b = length (backbuffer g) \<Longrightarrow> redrawn g (g\<lparr>backbuffer := b\<rparr>)"
  by (auto simp: redrawn_def)

lemma redrawn_refl [simp]: "redrawn g g"
  using redrawnI [of "backbuffer g" g] by simp

lemma redrawn_trans: "redrawn g g' \<Longrightarrow> redrawn g' g'' \<Longrightarrow> redrawn g g''"
  by (auto simp: redrawn_def)

lemma redrawn_fields:
  assumes "redrawn g g'"
  shows "gpu_res_info g' = gpu_res_info g" "bytes_per_pixel g' = bytes_per_pixel g" "vram_size g' = vram_size g"
    "video_mem g' = video_mem g" "color_mode g' = color_mode g" "malloc_max g' = malloc_max g"
    "length (backbuffer g') = length (backbuffer g)"
  using assms by (auto simp: redrawn_def)

lemma redrawn_ok: "redrawn g g' \<Longrightarrow> gpu_ok g' = gpu_ok g"
  using redrawn_fields [of g g'] by (simp add: gpu_ok_def)

lemma redrawn_indexed_ok: "redrawn g g' \<Longrightarrow> indexed_ok g' = indexed_ok g"
  using redrawn_fields [of g g'] redrawn_ok [of g g'] by (simp add: indexed_ok_def)

lemma painted_redrawn: "painted g P g' \<Longrightarrow> redrawn g g'"
  by (simp add: painted_def)

interpretation screen: canvas indexed_ok painted
proof
  show "painted g blank g" for g by (simp add: painted_def blank_def)
  show "painted g (over Q P) g''" if "painted g P g'" "painted g' Q g''" for g P g' Q g''
    using that redrawn_fields [of g g'] redrawn_trans [of g g' g'']
    by (auto simp: painted_def over_def on_screen_def split: option.splits)
  show "indexed_ok g'" if "painted g P g'" "indexed_ok g" for g P g'
    using that redrawn_indexed_ok painted_redrawn by blast
qed

text \<open>The cells of a run of pixels in row \<open>y\<close>.\<close>

lemma row_cells:
  fixes X :: int
  assumes "0 \<le> a" "a < X" "0 \<le> s" "s + n \<le> X"
  shows "y * X + s \<le> b * X + a \<and> b * X + a < y * X + s + n \<longleftrightarrow> b = y \<and> s \<le> a \<and> a < s + n"
proof -
  have "b * X + a < y * X + s" if "b < y"
  proof -
    have "(b + 1) * X \<le> y * X" using that assms by (intro mult_right_mono) auto
    then show ?thesis using assms by (simp add: algebra_simps)
  qed
  moreover have "y * X + s + n \<le> b * X + a" if "y < b"
  proof -
    have "(y + 1) * X \<le> b * X" using that assms by (intro mult_right_mono) auto
    then show ?thesis using assms by (simp add: algebra_simps)
  qed
  ultimately show ?thesis by (cases b y rule: linorder_cases) auto
qed

lemma cell_bound:
  fixes X Y :: int
  assumes "0 \<le> a" "a < X" "0 \<le> b" "b < Y"
  shows "0 \<le> b * X + a" "b * X + a < X * Y"
proof -
  have "(b + 1) * X \<le> Y * X" using assms by (intro mult_right_mono) auto
  with assms show "b * X + a < X * Y" "0 \<le> b * X + a" by (simp_all add: algebra_simps)
qed

text \<open>A copy of \<open>n\<close> bytes into row \<open>y\<close> of the buffer, from column \<open>s\<close>.\<close>

lemma memcpy_row:
  assumes "indexed_ok g" "0 \<le> y" "y < Y_RES g" "0 \<le> s" "0 \<le> n" "s + n \<le> X_RES g"
    "0 \<le> from" "from + n \<le> int (length bytes)"
  shows "\<exists>b'. memcpy (backbuffer g) (y * X_RES g + s) bytes from n = Ok b' \<and>
    painted g (box s y n 1 (\<lambda>i j. Some (bytes ! nat (from + i)))) (g\<lparr>backbuffer := b'\<rparr>)"
proof -
  let ?X = "X_RES g"
  let ?at = "nat (y * ?X + s)" and ?src = "take (nat n) (drop (nat from) bytes)"
  have len: "int (length (backbuffer g)) = ?X * Y_RES g" using assms(1) by (simp add: indexed_ok_def gpu_ok_def)
  have src: "length ?src = nat n" using assms(5-8) by auto
  have X0: "0 \<le> y * ?X" using assms(2) by simp
  have "(y + 1) * ?X \<le> Y_RES g * ?X" using assms(3) by (intro mult_right_mono) auto
  then have fits: "y * ?X + s + n \<le> ?X * Y_RES g" using assms(6) by (simp add: algebra_simps)
  have fits': "?at + length ?src \<le> length (backbuffer g)" using fits len src X0 assms(4,5) by linarith
  have ok: "memcpy (backbuffer g) (y * ?X + s) bytes from n = Ok (splice (backbuffer g) ?at ?src)"
    using fits len X0 assms(4-8) by (simp add: memcpy_def)
  have "splice (backbuffer g) ?at ?src ! nat (b * ?X + a) =
      (case box s y n 1 (\<lambda>i j. Some (bytes ! nat (from + i))) a b of None \<Rightarrow> pixel g a b | Some c \<Rightarrow> c)"
    if on: "on_screen g a b" for a b
  proof -
    have cell: "0 \<le> b * ?X + a" "nat (b * ?X + a) < length (backbuffer g)"
      using cell_bound [of a ?X b "Y_RES g"] on len unfolding on_screen_def by linarith+
    have inside: "(?at \<le> nat (b * ?X + a) \<and> nat (b * ?X + a) < ?at + length ?src) \<longleftrightarrow> b = y \<and> s \<le> a \<and> a < s + n"
      using row_cells [of a ?X s n y b] on assms(4,6) cell(1) X0 src assms(5)
      unfolding on_screen_def by (simp add: nat_le_eq_zle nat_less_iff nat_add_distrib [symmetric] del: length_take)
        linarith
    have elem: "?src ! (nat (b * ?X + a) - ?at) = bytes ! nat (from + (a - s))" if "b = y" "s \<le> a" "a < s + n"
    proof -
      have "nat (b * ?X + a) - ?at = nat (a - s)" unfolding that(1) using that X0 assms(4) by linarith
      moreover have "nat from + nat (a - s) = nat (from + (a - s))" using that assms(7) by linarith
      moreover have "nat (a - s) < nat n" using that by linarith
      moreover have "nat from \<le> length bytes" using assms(5,7,8) by linarith
      ultimately show ?thesis by simp
    qed
    show ?thesis
    proof (cases "b = y \<and> s \<le> a \<and> a < s + n")
      case True
      then have "splice (backbuffer g) ?at ?src ! nat (b * ?X + a) = ?src ! (nat (b * ?X + a) - ?at)"
        using nth_splice [OF fits' cell(2)] inside by (simp only: if_True simp_thms)
      also have "\<dots> = bytes ! nat (from + (a - s))" using True elem by blast
      finally show ?thesis using True by (simp add: box_def)
    next
      case False
      then have "splice (backbuffer g) ?at ?src ! nat (b * ?X + a) = backbuffer g ! nat (b * ?X + a)"
        using nth_splice [OF fits' cell(2)] inside by (simp only: if_False simp_thms)
      then show ?thesis using False by (auto simp: box_def pixel_def)
    qed
  qed
  then have "painted g (box s y n 1 (\<lambda>i j. Some (bytes ! nat (from + i)))) (g\<lparr>backbuffer := splice (backbuffer g) ?at ?src\<rparr>)"
    using fits' by (simp add: painted_def redrawnI pixel_def)
  with ok show ?thesis by blast
qed

lemma painted_cong:
  "painted g P g' \<Longrightarrow> (\<And>a b. on_screen g a b \<Longrightarrow> P a b = Q a b) \<Longrightarrow> painted g Q g'"
  by (simp add: painted_def)

lemma painted_clipped: "(\<And>a b. on_screen g a b \<Longrightarrow> P a b = None) \<Longrightarrow> painted g P g"
  by (rule painted_cong [OF screen.painted_blank]) (simp add: blank_def)

text \<open>The clipping of a run of \<open>n\<close> pixels from column \<open>x\<close> to \<open>X\<close> columns.\<close>

lemma clip_run:
  fixes x n X :: int
  assumes "0 \<le> n" "x \<le> X" "0 \<le> x + n" "0 \<le> X"
  shows "0 \<le> max x 0" "0 \<le> min (X - 1) (x + n - 1) - max x 0 + 1"
    "max x 0 + (min (X - 1) (x + n - 1) - max x 0 + 1) \<le> X" "0 \<le> (if x < 0 then - x else 0)"
    "(if x < 0 then - x else 0) + (min (X - 1) (x + n - 1) - max x 0 + 1) \<le> n"
  using assms by (auto simp: min_def max_def)

lemma clip_run_column:
  fixes x n X a :: int
  assumes "0 \<le> a" "a < X"
  shows "(max x 0 \<le> a \<and> a < max x 0 + (min (X - 1) (x + n - 1) - max x 0 + 1)) = (x \<le> a \<and> a < x + n)"
    "(if x < 0 then - x else 0) + (a - max x 0) = a - x"
  using assms by (auto simp: min_def max_def)

lemma gpu_draw_line_painted:
  assumes ok: "indexed_ok g"
  shows "\<exists>g'. gpu_draw_line (VEC2 x y) bytes (int (length bytes)) g = Ok g' \<and> painted g (row x y bytes) g'"
proof -
  let ?X = "X_RES g" and ?n = "int (length bytes)"
  let ?start = "max x 0" and ?count = "min (?X - 1) (x + ?n - 1) - max x 0 + 1"
  let ?skip = "if x < 0 then - x else 0"
  have bpp: "BPP g = 1" using ok by (simp add: indexed_ok_def)
  show ?thesis
  proof (cases "x > ?X \<or> x + ?n < 0 \<or> y < 0 \<or> y \<ge> Y_RES g")
    case True
    then have "gpu_draw_line (VEC2 x y) bytes ?n g = Ok g"
      by (elim disjE) (simp_all only: gpu_draw_line_def VEC2_simps if_cancel if_True simp_thms)
    moreover have "painted g (row x y bytes) g"
      using True by (intro painted_clipped) (auto simp: row_def box_def on_screen_def)
    ultimately show ?thesis by blast
  next
    case False
    have clip: "0 \<le> ?start" "0 \<le> ?count" "?start + ?count \<le> ?X" "0 \<le> ?skip" "?skip + ?count \<le> ?n"
      using clip_run [of ?n x ?X] False by simp_all
    from False have "\<exists>b'. memcpy (backbuffer g) (y * ?X + ?start) bytes ?skip ?count = Ok b' \<and>
        painted g (box ?start y ?count 1 (\<lambda>i j. Some (bytes ! nat (?skip + i)))) (g\<lparr>backbuffer := b'\<rparr>)"
      using clip by (intro memcpy_row [OF ok]) auto
    then obtain b' where b': "memcpy (backbuffer g) (y * ?X + ?start) bytes ?skip ?count = Ok b'"
      and pnt: "painted g (box ?start y ?count 1 (\<lambda>i j. Some (bytes ! nat (?skip + i)))) (g\<lparr>backbuffer := b'\<rparr>)"
      by blast
    have "gpu_draw_line (VEC2 x y) bytes ?n g = Ok (g\<lparr>backbuffer := b'\<rparr>)"
      unfolding gpu_draw_line_def VEC2_simps bpp using False b' by (simp add: Let_def split del: if_split)
    moreover have "painted g (row x y bytes) (g\<lparr>backbuffer := b'\<rparr>)"
    proof (rule painted_cong [OF pnt])
      fix a b assume "on_screen g a b"
      then have inside: "(?start \<le> a \<and> a < ?start + ?count) = (x \<le> a \<and> a < x + ?n)"
        and index: "?skip + (a - ?start) = a - x"
        using clip_run_column(1) [of a ?X x ?n] clip_run_column(2) [of a ?X x] by (simp_all only: on_screen_def simp_thms)
      have "box ?start y ?count 1 (\<lambda>i j. Some (bytes ! nat (?skip + i))) a b =
          (if (?start \<le> a \<and> a < ?start + ?count) \<and> y \<le> b \<and> b < y + 1
           then Some (bytes ! nat (?skip + (a - ?start))) else None)" by (simp only: box_def conj_assoc)
      also have "\<dots> = row x y bytes a b" by (simp only: inside index row_def box_def conj_assoc)
      finally show "box ?start y ?count 1 (\<lambda>i j. Some (bytes ! nat (?skip + i))) a b = row x y bytes a b" .
    qed
    ultimately show ?thesis by blast
  qed
qed

interpretation lines: row_canvas indexed_ok painted gpu_draw_line
  by unfold_locales (rule gpu_draw_line_painted)

text \<open>A coordinate converted to \<open>uint16_t\<close> denotes the same column, or none, as long as it is not so far to the
  left that it wraps around onto the screen.\<close>

definition window16 :: "gpu \<Rightarrow> int \<Rightarrow> int \<Rightarrow> bool" where
  "window16 g x y \<longleftrightarrow> X_RES g - 65536 \<le> x \<and> x < 65536 \<and> Y_RES g - 65536 \<le> y \<and> y < 65536"

lemma uint_wrap16: "- 65536 \<le> x \<Longrightarrow> x < 65536 \<Longrightarrow> uint (word_of_int x :: u16) = (if x < 0 then x + 65536 else x)"
proof -
  assume "- 65536 \<le> x" "x < 65536"
  moreover have "x mod 65536 = x + 65536" if "- 65536 \<le> x" "x < 0"
    using that mod_pos_pos_trivial [of "x + 65536" 65536] by simp
  ultimately show ?thesis by (simp add: uint_word_of_int_eq take_bit_eq_mod)
qed

lemma uint_u32_of_int: "0 \<le> i \<Longrightarrow> i < 2 ^ 32 \<Longrightarrow> uint (word_of_int i :: u32) = i"
  by (simp add: uint_word_of_int_eq take_bit_eq_mod)

lemma window16_clip:
  assumes "window16 g x y"
  shows "word_of_int x \<ge> x_res (gpu_res_info g) \<or> word_of_int y \<ge> y_res (gpu_res_info g) \<longleftrightarrow> \<not> on_screen g x y"
proof -
  have "0 \<le> X_RES g" "0 \<le> Y_RES g" by simp_all
  with assms have "- 65536 \<le> x" "x < 65536" "- 65536 \<le> y" "y < 65536"
    unfolding window16_def by linarith+
  then have "uint (word_of_int x :: u16) = (if x < 0 then x + 65536 else x)"
    "uint (word_of_int y :: u16) = (if y < 0 then y + 65536 else y)"
    by (simp_all only: uint_wrap16)
  with assms show ?thesis
    unfolding window16_def on_screen_def word_le_def by (auto split: if_splits)
qed

lemma color_bytes_byte: "color_bytes (ucast (c :: u8)) = [c, 0, 0, 0]"
proof -
  have zero: "(ucast (drop_bit (8 * i) (ucast c :: u32)) :: u8) = 0" if "0 < i" for i
    using that by (intro bit_word_eqI) (auto simp: bit_simps dest: bit_imp_le_length)
  have "(ucast (ucast c :: u32) :: u8) = c" by (intro bit_word_eqI) (auto simp: bit_simps)
  moreover have "[0..<4] = [0, 1, 2, 3 :: nat]" by (simp add: upt_rec)
  ultimately show ?thesis using zero [of 1] zero [of 2] zero [of 3] by (simp add: color_bytes_def)
qed

lemma gpu_draw_pixel_painted:
  assumes ok: "indexed_ok g" and win: "window16 g x y"
  shows "\<exists>g'. gpu_draw_pixel (word_of_int x) (word_of_int y) (ucast c) g = Ok g' \<and> painted g (dot x y c) g'"
proof (cases "on_screen g x y")
  case False
  then have "gpu_draw_pixel (word_of_int x) (word_of_int y) (ucast c) g = Ok g"
    using window16_clip [OF win] by (simp add: gpu_draw_pixel_def)
  moreover have "painted g (dot x y c) g"
    using False by (intro painted_clipped) (auto simp: dot_def box_def)
  ultimately show ?thesis by blast
next
  case True
  have bpp: "BPP g = 1" using ok by (simp add: indexed_ok_def)
  have xy: "uint (word_of_int x :: u16) = x" "uint (word_of_int y :: u16) = y"
    using win True uint_wrap16 [of x] uint_wrap16 [of y] by (auto simp: window16_def on_screen_def)
  have "0 \<le> y * X_RES g + x" "y * X_RES g + x < X_RES g * Y_RES g" "X_RES g * Y_RES g < 2 ^ 31"
    using True cell_bound [of x "X_RES g" y "Y_RES g"] ok bpp
    by (auto simp: on_screen_def indexed_ok_def gpu_ok_def)
  then have loc: "uint (word_of_int (y * X_RES g + x) :: u32) = y * X_RES g + x"
    by (intro uint_u32_of_int) auto
  obtain b' where b': "memcpy (backbuffer g) (y * X_RES g + x) [c, 0, 0, 0] 0 1 = Ok b'"
    and pnt: "painted g (box x y 1 1 (\<lambda>i j. Some ([c, 0, 0, 0] ! nat (0 + i)))) (g\<lparr>backbuffer := b'\<rparr>)"
    using memcpy_row [OF ok, of y x 1 0 "[c, 0, 0, 0]"] True by (auto simp: on_screen_def)
  have "painted g (dot x y c) (g\<lparr>backbuffer := b'\<rparr>)"
    by (rule painted_cong [OF pnt]) (auto simp: dot_def box_def)
  moreover have "gpu_draw_pixel (word_of_int x) (word_of_int y) (ucast c) g = Ok (g\<lparr>backbuffer := b'\<rparr>)"
    using window16_clip [OF win] True b' loc
    by (simp add: gpu_draw_pixel_def bpp xy color_bytes_byte Let_def del: of_int_add of_int_mult)
  ultimately show ?thesis by blast
qed

interpretation dots: dot_canvas indexed_ok painted window16 "\<lambda>x y c. gpu_draw_pixel (word_of_int x) (word_of_int y) (ucast c)"
proof
  show "window16 g' = window16 g" if "painted g P g'" for g P g'
    using redrawn_fields(1) [OF painted_redrawn [OF that]] by (simp add: window16_def fun_eq_iff)
qed (rule gpu_draw_pixel_painted)

section \<open>Drawing never leaves the buffer\<close>

text \<open>In every colour depth, drawing a line of \<open>n\<close> pixels at any position, on or off the screen, succeeds and
  changes nothing but the contents of the back buffer: clipping never reads past the line and never
  writes past the buffer.\<close>

theorem gpu_draw_line_safe:
  assumes "gpu_ok g" "0 \<le> n" "int (length bytes) = n * BPP g"
  shows "\<exists>g'. gpu_draw_line pos bytes n g = Ok g' \<and> redrawn g g'"
proof (cases "vx pos > X_RES g \<or> vx pos + n < 0 \<or> vy pos < 0 \<or> vy pos \<ge> Y_RES g")
  case True
  then have "gpu_draw_line pos bytes n g = Ok g"
    by (elim disjE) (simp_all only: gpu_draw_line_def if_cancel if_True simp_thms)
  then show ?thesis by simp
next
  case False
  let ?X = "X_RES g" and ?B = "BPP g" and ?x = "vx pos" and ?y = "vy pos"
  let ?start = "max ?x 0" and ?count = "min (?X - 1) (?x + n - 1) - max ?x 0 + 1"
  let ?skip = "if ?x < 0 then - ?x else 0"
  have clip: "0 \<le> ?start" "0 \<le> ?count" "?start + ?count \<le> ?X" "0 \<le> ?skip" "?skip + ?count \<le> n"
    using clip_run [of n ?x ?X] assms(2) False by simp_all
  have B: "1 \<le> ?B" using assms(1) by (simp add: gpu_ok_def)
  have len: "int (length (backbuffer g)) = ?X * Y_RES g * ?B" using assms(1) by (simp add: gpu_ok_def)
  have "(?y + 1) * ?X \<le> Y_RES g * ?X" using False by (intro mult_right_mono) auto
  then have "(?y * ?X + ?start + ?count) * ?B \<le> ?X * Y_RES g * ?B"
    using clip(3) B by (intro mult_right_mono) (auto simp: algebra_simps)
  then have dst: "(?y * ?X + ?start) * ?B + ?count * ?B \<le> int (length (backbuffer g))"
    unfolding len by (simp only: distrib_right)
  have "?skip + ?count * ?B \<le> (?skip + ?count) * ?B"
    using mult_left_mono [OF B clip(4)] by (simp only: distrib_right mult_1_right add_le_cancel_right)
  also have "\<dots> \<le> n * ?B" using clip(5) B by (intro mult_right_mono) auto
  finally have src: "?skip + ?count * ?B \<le> int (length bytes)" using assms(3) by simp
  have nonneg: "0 \<le> (?y * ?X + ?start) * ?B" "0 \<le> ?count * ?B"
    using False clip(1) B mult_nonneg_nonneg [OF clip(2), of ?B] by (simp_all add: add_nonneg_nonneg)
  obtain b' where copy: "memcpy (backbuffer g) ((?y * ?X + ?start) * ?B) bytes ?skip (?count * ?B) = Ok b'"
    and "length b' = length (backbuffer g)"
    using memcpy_in_bounds [OF nonneg(1) clip(4) nonneg(2) dst src] by blast
  moreover have "gpu_draw_line pos bytes n g = Ok (g\<lparr>backbuffer := b'\<rparr>)"
    using False copy by (simp add: gpu_draw_line_def Let_def split del: if_split)
  ultimately show ?thesis by blast
qed

section \<open>What the primitives paint\<close>

lemma box_cong:
  assumes "\<And>a b. 0 \<le> a \<Longrightarrow> a < w \<Longrightarrow> 0 \<le> b \<Longrightarrow> b < h \<Longrightarrow> f a b = f' a b"
  shows "box x y w h f = box x y w h f'"
  using assms by (auto simp: box_def fun_eq_iff)

lemma gpu_draw_rect_painted:
  assumes "indexed_ok g" "color_mode g = INDEX_MODE" "0 < vx sz"
  shows "\<exists>g'. gpu_draw_rect pos sz color g = Ok g' \<and> painted g (box (vx pos) (vy pos) (vx sz) (vy sz) (\<lambda>a b. Some color)) g'"
proof -
  let ?line = "\<lambda>y :: int. replicate (nat (vx sz)) color"
  have loop: "gpu_draw_rect pos sz color g =
      for_loop (vy pos) (vy pos + vy sz) (\<lambda>y. gpu_draw_line (VEC2 (vx pos) (y + 0)) (?line y) (vx sz)) g"
    using assms(2,3) by (simp add: gpu_draw_rect_def)
  have pic: "box (vx pos) (vy pos + 0) (vx sz) (vy sz) (\<lambda>a b. Some (?line (vy pos + b) ! nat a)) =
      box (vx pos) (vy pos) (vx sz) (vy sz) (\<lambda>a b. Some color)"
    unfolding add_0_right by (rule box_cong) simp
  have "int (length (?line y)) = vx sz" for y using assms(3) by simp
  from lines.draw_rows [OF assms(1) this, where ?y0.0 = "vy pos" and h = "vy sz" and x = "vx pos" and dy = 0]
  show ?thesis by (simp only: loop pic)
qed

text \<open>A frame that lies inside an indexed image, and the image's pixels.\<close>

definition frame_ok :: "xpm_image \<Rightarrow> vec2 \<Rightarrow> vec2 \<Rightarrow> bool" where
  "frame_ok img offset sz \<longleftrightarrow> 0 \<le> vx offset \<and> 0 \<le> vy offset \<and> 0 \<le> vx sz \<and> 0 \<le> vy sz \<and>
     vx offset + vx sz \<le> uint (img_width img) \<and> vy offset + vy sz \<le> uint (img_height img) \<and>
     int (length (img_bytes img)) = uint (img_width img) * uint (img_height img)"

definition img_pixel :: "xpm_image \<Rightarrow> int \<Rightarrow> int \<Rightarrow> u8" where
  "img_pixel img a b = img_bytes img ! nat (b * uint (img_width img) + a)"

lemma frame_cell:
  assumes "frame_ok img offset sz" "0 \<le> a" "a < vx sz" "0 \<le> b" "b < vy sz"
  shows "aread_int (img_bytes img) ((b + vy offset) * uint (img_width img) + (a + vx offset)) =
    Ok (img_pixel img (vx offset + a) (vy offset + b))"
proof -
  have "0 \<le> (b + vy offset) * uint (img_width img) + (a + vx offset)"
    "(b + vy offset) * uint (img_width img) + (a + vx offset) < uint (img_width img) * uint (img_height img)"
    using assms cell_bound [of "a + vx offset" "uint (img_width img)" "b + vy offset" "uint (img_height img)"]
    by (simp_all add: frame_ok_def)
  moreover have "int (length (img_bytes img)) = uint (img_width img) * uint (img_height img)"
    using assms(1) by (simp add: frame_ok_def)
  ultimately show ?thesis
    by (auto simp: aread_int_def aread_def img_pixel_def add.commute nat_less_iff)
qed

text \<open>The copy of one row of the frame into the line buffer.\<close>

lemma frame_row:
  assumes "frame_ok img offset sz" "vy offset \<le> y" "y < vy offset + vy sz"
  defines "from \<equiv> y * uint (img_width img) + vx offset"
  shows "memcpy (replicate (nat (vx sz)) 0) 0 (img_bytes img) from (vx sz) =
      Ok (take (nat (vx sz)) (drop (nat from) (img_bytes img)))"
    and "length (take (nat (vx sz)) (drop (nat from) (img_bytes img))) = nat (vx sz)"
    and "\<And>a. 0 \<le> a \<Longrightarrow> a < vx sz \<Longrightarrow>
      take (nat (vx sz)) (drop (nat from) (img_bytes img)) ! nat a = img_pixel img (vx offset + a) y"
proof -
  let ?W = "uint (img_width img)" and ?H = "uint (img_height img)"
  have f: "0 \<le> vx offset" "0 \<le> vy offset" "0 \<le> vx sz" "vx offset + vx sz \<le> ?W" "vy offset + vy sz \<le> ?H"
    "int (length (img_bytes img)) = ?W * ?H" using assms(1) by (simp_all add: frame_ok_def)
  have from0: "0 \<le> from" unfolding from_def using f assms(2) by simp
  have "(y + 1) * ?W \<le> ?H * ?W" using f assms(3) by (intro mult_right_mono) auto
  then have fits: "from + vx sz \<le> int (length (img_bytes img))"
    unfolding from_def using f by (simp add: algebra_simps)
  show "length (take (nat (vx sz)) (drop (nat from) (img_bytes img))) = nat (vx sz)" using from0 fits by auto
  then show "memcpy (replicate (nat (vx sz)) 0) 0 (img_bytes img) from (vx sz) =
      Ok (take (nat (vx sz)) (drop (nat from) (img_bytes img)))"
    using from0 fits f(3) by (simp add: memcpy_def splice_def)
  fix a assume a: "0 \<le> a" "a < vx sz"
  then have "nat from + nat a = nat (y * ?W + (vx offset + a))" "nat from \<le> length (img_bytes img)" "nat a < nat (vx sz)"
    using from0 fits unfolding from_def by (simp_all add: nat_add_distrib [symmetric] add.assoc)
  then show "take (nat (vx sz)) (drop (nat from) (img_bytes img)) ! nat a = img_pixel img (vx offset + a) y"
    by (simp add: img_pixel_def)
qed

lemma gpu_draw_xpm_painted:
  assumes ok: "indexed_ok g" and frame: "frame_ok img offset sz" and room: "vx sz \<le> int (malloc_max g)"
  shows "\<exists>g'. gpu_draw_xpm img pos offset sz g = Ok g' \<and>
    painted g (box (vx pos) (vy pos) (vx sz) (vy sz) (\<lambda>a b. Some (img_pixel img (vx offset + a) (vy offset + b)))) g'"
proof -
  let ?line = "\<lambda>y. take (nat (vx sz)) (drop (nat (y * uint (img_width img) + vx offset)) (img_bytes img))"
  have bpp: "BPP g = 1" using ok by (simp add: indexed_ok_def)
  have sz: "0 \<le> vx sz" using frame by (simp add: frame_ok_def)
  have loop: "gpu_draw_xpm img pos offset sz g =
      for_loop (vy offset) (vy offset + vy sz) (\<lambda>y. gpu_draw_line (VEC2 (vx pos) (y + (vy pos - vy offset))) (?line y) (vx sz)) g"
    unfolding gpu_draw_xpm_def Let_def bpp mult_1_right
    by (rule for_loop_cong [OF refl refl])
      (use sz room frame_row(1) [OF frame] in \<open>simp add: algebra_simps del: obind_eq_Ok\<close>)
  have start: "vy offset + (vy pos - vy offset) = vy pos" by simp
  have pic: "box (vx pos) (vy offset + (vy pos - vy offset)) (vx sz) (vy sz) (\<lambda>a b. Some (?line (vy offset + b) ! nat a)) =
      box (vx pos) (vy pos) (vx sz) (vy sz) (\<lambda>a b. Some (img_pixel img (vx offset + a) (vy offset + b)))"
    unfolding start by (rule box_cong, rule arg_cong [where f = Some], rule frame_row(3) [OF frame]) auto
  have "int (length (?line y)) = vx sz" if "vy offset \<le> y" "y < vy offset + vy sz" for y
    using frame_row(2) [OF frame that] sz by simp
  from lines.draw_rows [OF ok, of "vy offset" "vy sz" ?line "vx sz" "vx pos" "vy pos - vy offset", OF this]
  show ?thesis by (simp only: loop pic)
qed

text \<open>Colour 99 is transparent.\<close>

definition opaque :: "u8 \<Rightarrow> u8 option" where
  "opaque c = (if c \<noteq> 99 then Some c else None)"

lemma gpu_draw_transparent_xpm_painted:
  assumes ok: "indexed_ok g" and frame: "frame_ok img offset sz"
    and win: "window16 g (vx pos) (vy pos)" "vx pos + vx sz \<le> 65536" "vy pos + vy sz \<le> 65536"
  shows "\<exists>g'. gpu_draw_transparent_xpm img pos offset sz g = Ok g' \<and>
    painted g (box (vx pos) (vy pos) (vx sz) (vy sz) (\<lambda>a b. opaque (img_pixel img (vx offset + a) (vy offset + b)))) g'"
proof -
  let ?f = "\<lambda>a b. opaque (img_pixel img (vx offset + a) (vy offset + b))"
  have loop: "gpu_draw_transparent_xpm img pos offset sz g =
      for_loop 0 (vy sz) (\<lambda>j. for_loop 0 (vx sz) (\<lambda>i g. case ?f i j of None \<Rightarrow> Ok g
        | Some c \<Rightarrow> gpu_draw_pixel (word_of_int (vx pos + i)) (word_of_int (vy pos + j)) (ucast c) g)) g"
    unfolding gpu_draw_transparent_xpm_def
    by (rule for_loop_cong [OF refl refl], rule for_loop_cong [OF refl refl])
      (use frame_cell [OF frame] in \<open>simp add: opaque_def del: obind_eq_Ok\<close>)
  have "window16 g (vx pos + i) (vy pos + j)" if "0 \<le> i" "i < vx sz" "0 \<le> j" "j < vy sz" for i j
    using win that by (simp add: window16_def)
  from dots.draw_dots [OF ok this, where f = ?f] show ?thesis by (simp only: loop)
qed

text \<open>Drawing a run of colours pixel by pixel, and that drawing a pixel is undefined or succeeds.\<close>

lemma draw_colors_painted:
  assumes ok: "indexed_ok g" and len: "uint w * uint h \<le> int (length colors)"
    and win: "uint x + uint w \<le> 65536" "uint y + uint h \<le> 65536"
  shows "\<exists>g'. draw_colors colors w h x y g = Ok g' \<and>
    painted g (box (uint x) (uint y) (uint w) (uint h) (\<lambda>a b. Some (colors ! nat (b * uint w + a)))) g'"
proof -
  let ?f = "\<lambda>a b. Some (colors ! nat (b * uint w + a))"
  have cell: "aread_int colors (j * uint w + i) = Ok (colors ! nat (j * uint w + i))"
    if "0 \<le> i" "i < uint w" "0 \<le> j" "j < uint h" for i j
    using cell_bound [of i "uint w" j "uint h"] that len by (simp add: aread_int_def aread_def nat_less_iff)
  have coord: "z + word_of_int i = word_of_int (uint z + i)" for z :: u16 and i by simp
  have loop: "draw_colors colors w h x y g =
      for_loop 0 (uint h) (\<lambda>j. for_loop 0 (uint w) (\<lambda>i g. case ?f i j of None \<Rightarrow> Ok g
        | Some c \<Rightarrow> gpu_draw_pixel (word_of_int (uint x + i)) (word_of_int (uint y + j)) (ucast c) g)) g"
    unfolding draw_colors_def coord
    by (rule for_loop_cong [OF refl refl], rule for_loop_cong [OF refl refl]) (simp add: cell del: of_int_add obind_eq_Ok)
  have "uint x < 65536" "uint y < 65536" "X_RES g < 65536" "Y_RES g < 65536"
    using uint_lt2p [of x] uint_lt2p [of y] uint_lt2p [of "x_res (gpu_res_info g)"] uint_lt2p [of "y_res (gpu_res_info g)"] by simp_all
  then have "window16 g (uint x + i) (uint y + j)" if "0 \<le> i" "i < uint w" "0 \<le> j" "j < uint h" for i j
    using win that uint_ge_0 [of x] uint_ge_0 [of y] unfolding window16_def by linarith
  from dots.draw_dots [OF ok this, where f = ?f] show ?thesis by (simp only: loop)
qed

lemma gpu_draw_pixel_partial: "gpu_draw_pixel x y c g = Undefined \<or> (\<exists>g'. gpu_draw_pixel x y c g = Ok g')"
  by (auto simp: gpu_draw_pixel_def memcpy_def Let_def)

lemma draw_colors_partial: "draw_colors colors w h x y g = Undefined \<or> (\<exists>g'. draw_colors colors w h x y g = Ok g')"
proof -
  have dot: "obind (aread_int colors k) (\<lambda>c. gpu_draw_pixel a b (ucast c) g) = Undefined \<or>
      (\<exists>g'. obind (aread_int colors k) (\<lambda>c. gpu_draw_pixel a b (ucast c) g) = Ok g' \<and> True)" for k a b g
    using gpu_draw_pixel_partial by (auto simp: aread_int_def aread_def)
  have "for_loop 0 (uint h) (\<lambda>j. for_loop 0 (uint w) (\<lambda>i g.
      obind (aread_int colors (j * uint w + i)) (\<lambda>c. gpu_draw_pixel (x + word_of_int i) (y + word_of_int j) (ucast c) g))) g = Undefined \<or>
    (\<exists>g'. for_loop 0 (uint h) (\<lambda>j. for_loop 0 (uint w) (\<lambda>i g.
      obind (aread_int colors (j * uint w + i)) (\<lambda>c. gpu_draw_pixel (x + word_of_int i) (y + word_of_int j) (ucast c) g))) g = Ok g' \<and> True)"
    by (intro for_loop_partial [where I = "\<lambda>_. True"] TrueI dot)
  then show ?thesis by (simp add: draw_colors_def)
qed

section \<open>Properties of the primitives\<close>

definition in_box :: "vec2 \<Rightarrow> vec2 \<Rightarrow> int \<Rightarrow> int \<Rightarrow> bool" where
  "in_box pos sz a b \<longleftrightarrow> vx pos \<le> a \<and> a < vx pos + vx sz \<and> vy pos \<le> b \<and> b < vy pos + vy sz"

lemma painted_box_pixel:
  assumes "painted g (box (vx pos) (vy pos) (vx sz) (vy sz) f) g'" "on_screen g a b"
  shows "pixel g' a b = (case (if in_box pos sz a b then f (a - vx pos) (b - vy pos) else None) of
    None \<Rightarrow> pixel g a b | Some c \<Rightarrow> c)"
  using assms by (auto simp: painted_def box_def in_box_def)

text \<open>C15: drawing a frame of an indexed image, at any position, puts exactly the pixels of the frame that are on
  the screen into the back buffer and leaves all other pixels alone.\<close>

theorem gpu_draw_xpm_pixels:
  assumes "indexed_ok g" "frame_ok img offset sz" "vx sz \<le> int (malloc_max g)"
  shows "\<exists>g'. gpu_draw_xpm img pos offset sz g = Ok g' \<and> indexed_ok g' \<and> (\<forall>a b. on_screen g a b \<longrightarrow>
    pixel g' a b = (if in_box pos sz a b then img_pixel img (vx offset + (a - vx pos)) (vy offset + (b - vy pos))
                    else pixel g a b))"
proof -
  from gpu_draw_xpm_painted [OF assms] obtain g' where g': "gpu_draw_xpm img pos offset sz g = Ok g'"
    and pnt: "painted g (box (vx pos) (vy pos) (vx sz) (vy sz) (\<lambda>a b. Some (img_pixel img (vx offset + a) (vy offset + b)))) g'"
    by blast
  have "indexed_ok g'" using screen.painted_ready [OF pnt assms(1)] .
  with g' painted_box_pixel [OF pnt] show ?thesis by simp
qed

text \<open>Drawing a frame with transparency paints exactly the on-screen pixels of the frame whose colour is not 99, as long as
  the position does not wrap around 16 bits.\<close>

theorem gpu_draw_transparent_xpm_pixels:
  assumes "indexed_ok g" "frame_ok img offset sz"
    "window16 g (vx pos) (vy pos)" "vx pos + vx sz \<le> 65536" "vy pos + vy sz \<le> 65536"
  shows "\<exists>g'. gpu_draw_transparent_xpm img pos offset sz g = Ok g' \<and> indexed_ok g' \<and> (\<forall>a b. on_screen g a b \<longrightarrow>
    pixel g' a b = (let c = img_pixel img (vx offset + (a - vx pos)) (vy offset + (b - vy pos))
                    in if in_box pos sz a b \<and> c \<noteq> 99 then c else pixel g a b))"
proof -
  from gpu_draw_transparent_xpm_painted [OF assms] obtain g' where
    g': "gpu_draw_transparent_xpm img pos offset sz g = Ok g'"
    and pnt: "painted g (box (vx pos) (vy pos) (vx sz) (vy sz)
      (\<lambda>a b. opaque (img_pixel img (vx offset + a) (vy offset + b)))) g'"
    by blast
  have "indexed_ok g'" using screen.painted_ready [OF pnt assms(1)] .
  with g' painted_box_pixel [OF pnt] show ?thesis by (simp add: opaque_def Let_def)
qed

text \<open>In indexed mode, drawing a rectangle fills exactly its on-screen part.\<close>

theorem gpu_draw_rect_pixels:
  assumes "indexed_ok g" "color_mode g = INDEX_MODE" "0 < vx sz"
  shows "\<exists>g'. gpu_draw_rect pos sz color g = Ok g' \<and> indexed_ok g' \<and> (\<forall>a b. on_screen g a b \<longrightarrow>
    pixel g' a b = (if in_box pos sz a b then color else pixel g a b))"
proof -
  from gpu_draw_rect_painted [OF assms] obtain g' where g': "gpu_draw_rect pos sz color g = Ok g'"
    and pnt: "painted g (box (vx pos) (vy pos) (vx sz) (vy sz) (\<lambda>a b. Some color)) g'" by blast
  have "indexed_ok g'" using screen.painted_ready [OF pnt assms(1)] .
  with g' painted_box_pixel [OF pnt] show ?thesis by simp
qed

lemma memcpy_whole: "length dst = length src \<Longrightarrow> n = int (length src) \<Longrightarrow> memcpy dst 0 src 0 n = Ok src"
  by (simp add: memcpy_def splice_def)

lemma gpu_buffer_commit_ok: "gpu_ok g \<Longrightarrow> gpu_buffer_commit g = Ok (g\<lparr>video_mem := backbuffer g\<rparr>)"
  by (simp add: gpu_buffer_commit_def memcpy_whole gpu_ok_def)

lemma gpu_buffer_clear_ok:
  assumes "gpu_ok g"
  shows "gpu_buffer_clear g = Ok (g\<lparr>backbuffer := replicate (length (backbuffer g)) 0\<rparr>)"
proof -
  have "uint (vram_size g) = int (length (backbuffer g))" using assms by (simp add: gpu_ok_def)
  moreover from this have "unat (vram_size g) = length (backbuffer g)" by (simp add: unat_eq_nat_uint)
  ultimately show ?thesis by (simp add: gpu_buffer_clear_def memcpy_whole)
qed

text \<open>At the end of a frame, commit and clear show the finished picture, leave an all-black back buffer
  and keep the driver's invariant.\<close>

theorem gpu_frame_presented:
  assumes "gpu_ok g"
  shows "\<exists>g'. obind (gpu_buffer_commit g) gpu_buffer_clear = Ok g' \<and> gpu_ok g' \<and>
    video_mem g' = backbuffer g \<and> (\<forall>c \<in> set (backbuffer g'). c = 0)"
proof -
  have "gpu_ok (g\<lparr>video_mem := backbuffer g\<rparr>)" using assms by (simp add: gpu_ok_def)
  with assms show ?thesis
    by (simp add: gpu_buffer_commit_ok gpu_buffer_clear_ok) (simp add: gpu_ok_def)
qed

text \<open>The documented contract of \<open>vm_map_phys\<close> and \<open>malloc\<close>: a block has the size that was asked for.\<close>

definition blocks_ok :: "gpu_env \<Rightarrow> bool" where
  "blocks_ok E \<longleftrightarrow> (\<forall>a n m. vm_map_phys E a n = Some m \<longrightarrow> length m = unat n) \<and>
     (\<forall>n m. malloc_bytes E n = Some m \<longrightarrow> length m = unat n)"

text \<open>The bytes of a screen in a mode, and whether the kernel or the allocator refuses them.\<close>

definition mode_bytes :: "vbe_mode_info \<Rightarrow> int" where
  "mode_bytes vmi = uint (XResolution vmi) * uint (YResolution vmi) * ((uint (BitsPerPixel vmi) + 7) div 8)"

definition memory_refused :: "gpu_env \<Rightarrow> vbe_mode_info \<Rightarrow> bool" where
  "memory_refused E vmi \<longleftrightarrow>
     (let base = PhysBasePtr vmi; n = word_of_int (mode_bytes vmi)
      in \<not> sys_privctl_add_mem E base (base + n) \<or> vm_map_phys E base n = None \<or> malloc_bytes E n = None)"

lemma gpu_init_exact:
  assumes "blocks_ok E" "vbe_get_mode_info E mode = Some vmi" "0 < BitsPerPixel vmi" "BitsPerPixel vmi \<le> 32"
  shows "if 2 ^ 31 \<le> mode_bytes vmi then gpu_init_mem_indexation E mode g = Undefined
    else if memory_refused E vmi then gpu_init_mem_indexation E mode g = Panicked
    else \<exists>g'. gpu_init_mem_indexation E mode g = Ok (0, g') \<and> gpu_ok g' \<and> X_RES g' = uint (XResolution vmi) \<and>
      Y_RES g' = uint (YResolution vmi) \<and> (indexed_ok g' \<longleftrightarrow> BitsPerPixel vmi \<le> 8) \<and>
      vm_map_phys E (PhysBasePtr vmi) (word_of_int (mode_bytes vmi)) = Some (video_mem g') \<and>
      malloc_bytes E (word_of_int (mode_bytes vmi)) = Some (backbuffer g')"
proof -
  let ?b = "(uint (BitsPerPixel vmi) + 7) div 8" and ?xy = "uint (XResolution vmi) * uint (YResolution vmi)" and ?n = "mode_bytes vmi"
  have bits: "0 < uint (BitsPerPixel vmi)" "uint (BitsPerPixel vmi) \<le> 32"
    using assms(3,4) by (auto simp: word_less_def word_le_def)
  then have b: "1 \<le> ?b" "?b \<le> 4" and b1: "?b = 1 \<longleftrightarrow> uint (BitsPerPixel vmi) \<le> 8" by linarith+
  then have bpp: "uint (word_of_int ?b :: u8) = ?b" by (simp add: uint_word_of_int_eq take_bit_eq_mod)
  have product: "?xy * uint (word_of_int ?b :: u8) = ?n" unfolding bpp mode_bytes_def ..
  have "?xy * 1 \<le> ?xy * ?b" using b by (intro mult_left_mono) simp_all
  then have xy: "?xy \<le> ?n" "0 \<le> ?n" using b by (simp_all add: mode_bytes_def)
  have size: "uint (word_of_int ?n :: u32) = ?n" "unat (word_of_int ?n :: u32) = nat ?n" if "?n < 2 ^ 31"
    using that xy(2) uint_u32_of_int [of ?n] by (simp_all add: unat_eq_nat_uint)
  have ok: "gpu_ok g' \<and> (indexed_ok g' \<longleftrightarrow> BitsPerPixel vmi \<le> 8)"
    if "\<not> 2 ^ 31 \<le> ?n" "vm_map_phys E (PhysBasePtr vmi) (word_of_int ?n) = Some (video_mem g')"
      "malloc_bytes E (word_of_int ?n) = Some (backbuffer g')"
      "gpu_res_info g' = \<lparr>x_res = XResolution vmi, y_res = YResolution vmi\<rparr>" "bytes_per_pixel g' = word_of_int ?b"
      "vram_size g' = word_of_int ?n" for g'
  proof -
    have small: "?n < 2 ^ 31" using that(1) by simp
    have "length (video_mem g') = nat ?n" "length (backbuffer g') = nat ?n"
      using assms(1) that(2,3) size(2) [OF small] unfolding blocks_ok_def by metis+
    then have "gpu_ok g'"
      unfolding gpu_ok_def that(4-6) using small b bpp size(1) [OF small] xy(2) by (simp add: mode_bytes_def)
    moreover have "bytes_per_pixel g' = 1 \<longleftrightarrow> uint (bytes_per_pixel g') = uint (1 :: u8)" by (rule word_uint_eq_iff)
    ultimately show ?thesis
      using that(5) bpp b1 by (simp add: indexed_ok_def word_le_def)
  qed
  have over: "2 ^ 31 \<le> ?xy \<or> 2 ^ 31 \<le> ?n \<longleftrightarrow> 2 ^ 31 \<le> ?n" using xy(1) by linarith
  show ?thesis
    unfolding gpu_init_mem_indexation_def assms(2) option.case Let_def product over memory_refused_def
    by (simp split: option.splits del: of_int_mult add: ok [THEN conjunct1] ok [THEN conjunct2])
qed

text \<open>The same as a case distinction on the result.\<close>

lemma gpu_init_ok:
  assumes "blocks_ok E" "vbe_get_mode_info E mode = Some vmi" "0 < BitsPerPixel vmi" "BitsPerPixel vmi \<le> 32"
  shows "case gpu_init_mem_indexation E mode g of
      Ok (r, g') \<Rightarrow> r = 0 \<and> gpu_ok g' \<and> X_RES g' = uint (XResolution vmi) \<and> Y_RES g' = uint (YResolution vmi) \<and>
        (indexed_ok g' \<longleftrightarrow> BitsPerPixel vmi \<le> 8)
    | Undefined \<Rightarrow> 2 ^ 31 \<le> uint (XResolution vmi) * uint (YResolution vmi) * ((uint (BitsPerPixel vmi) + 7) div 8)
    | Panicked \<Rightarrow> True
    | _ \<Rightarrow> False"
  using gpu_init_exact [OF assms, of g] by (auto simp: mode_bytes_def split: if_splits)

text \<open>C27: initialisation returns 1 and changes nothing when the mode is unknown; for a mode of at most 32 bits per pixel it is undefined exactly when the screen is
  too large for C's \<open>int\<close>, otherwise it panics exactly when the memory range, the mapping or the back buffer is refused, and otherwise it returns 0 with
  the mode's resolution, the mapped memory as the screen and the allocated block as the back buffer, both of the size of the screen.\<close>

theorem gpu_init_mem_indexation_establishes:
  assumes "blocks_ok E" "\<And>vmi. vbe_get_mode_info E mode = Some vmi \<Longrightarrow> 0 < BitsPerPixel vmi \<and> BitsPerPixel vmi \<le> 32"
  shows "case vbe_get_mode_info E mode of
      None \<Rightarrow> gpu_init_mem_indexation E mode g = Ok (1, g)
    | Some vmi \<Rightarrow>
        if 2 ^ 31 \<le> mode_bytes vmi then gpu_init_mem_indexation E mode g = Undefined
        else if memory_refused E vmi then gpu_init_mem_indexation E mode g = Panicked
        else \<exists>g'. gpu_init_mem_indexation E mode g = Ok (0, g') \<and> gpu_ok g' \<and> X_RES g' = uint (XResolution vmi) \<and>
          Y_RES g' = uint (YResolution vmi) \<and> (indexed_ok g' \<longleftrightarrow> BitsPerPixel vmi \<le> 8) \<and>
          vm_map_phys E (PhysBasePtr vmi) (word_of_int (mode_bytes vmi)) = Some (video_mem g') \<and>
          malloc_bytes E (word_of_int (mode_bytes vmi)) = Some (backbuffer g')"
proof (cases "vbe_get_mode_info E mode")
  case None
  then show ?thesis by (simp add: gpu_init_mem_indexation_def)
next
  case (Some vmi)
  then show ?thesis unfolding Some option.case using assms(2) [OF Some] by (intro gpu_init_exact [OF assms(1) Some]) simp_all
qed

section \<open>A small screen\<close>

definition tiny_gpu :: gpu where
  "tiny_gpu = (gpu_start 100)\<lparr>gpu_res_info := \<lparr>x_res = 4, y_res = 3\<rparr>, bits_per_pixel := 8, bytes_per_pixel := 1,
     vram_size := 12, video_mem := replicate 12 0, backbuffer := replicate 12 0\<rparr>"

definition tiny_img :: xpm_image where
  "tiny_img = \<lparr>img_type = XPM_INDEXED, img_width = 2, img_height = 2, img_bytes = [1, 99, 3, 4]\<rparr>"

definition tiny_vmi :: vbe_mode_info where
  "tiny_vmi = \<lparr>XResolution = 4, YResolution = 3, BitsPerPixel = 8, RedMaskSize = 0, GreenMaskSize = 0, BlueMaskSize = 0,
     RedFieldPosition = 0, GreenFieldPosition = 0, BlueFieldPosition = 0, MemoryModel = 4, PhysBasePtr = 0xE0000000\<rparr>"

definition tiny_env :: gpu_env where
  "tiny_env = \<lparr>vbe_get_mode_info = (\<lambda>_. Some tiny_vmi), sys_privctl_add_mem = (\<lambda>_ _. True),
     vm_map_phys = (\<lambda>_ n. Some (replicate (unat n) 0)), malloc_bytes = (\<lambda>n. Some (replicate (unat n) 0))\<rparr>"

lemma tiny_gpu_fields [simp]:
  "gpu_res_info tiny_gpu = \<lparr>x_res = 4, y_res = 3\<rparr>" "bytes_per_pixel tiny_gpu = 1" "vram_size tiny_gpu = 12"
  "video_mem tiny_gpu = replicate 12 0" "backbuffer tiny_gpu = replicate 12 0" "malloc_max tiny_gpu = 100"
  "color_mode tiny_gpu = 0"
  by (simp_all add: tiny_gpu_def gpu_start_def)

lemma tiny_gpu_ok: "gpu_ok tiny_gpu" "indexed_ok tiny_gpu"
  by (simp_all add: gpu_ok_def indexed_ok_def)

lemma tiny_img_frame: "frame_ok tiny_img (VEC2 0 0) (VEC2 2 2)"
  by (simp add: frame_ok_def tiny_img_def)

theorem gpu_draw_line_safe_witness:
  "\<exists>g'. gpu_draw_line (VEC2 (- 1) 2) [7, 8, 9] 3 tiny_gpu = Ok g' \<and> redrawn tiny_gpu g'"
  using gpu_draw_line_safe [OF tiny_gpu_ok(1), of 3 "[7, 8, 9]" "VEC2 (- 1) 2"] by simp

theorem gpu_draw_xpm_pixels_witness:
  "\<exists>g'. gpu_draw_xpm tiny_img (VEC2 3 1) (VEC2 0 0) (VEC2 2 2) tiny_gpu = Ok g' \<and> indexed_ok g' \<and>
    pixel g' 3 2 = 3 \<and> pixel g' 2 2 = 0"
proof -
  have pixels: "img_pixel tiny_img 0 1 = 3" "pixel tiny_gpu 2 2 = 0"
    by (simp_all add: img_pixel_def tiny_img_def pixel_def)
  obtain g' where g': "gpu_draw_xpm tiny_img (VEC2 3 1) (VEC2 0 0) (VEC2 2 2) tiny_gpu = Ok g'" "indexed_ok g'"
    and px: "\<forall>a b. on_screen tiny_gpu a b \<longrightarrow> pixel g' a b =
      (if in_box (VEC2 3 1) (VEC2 2 2) a b then img_pixel tiny_img (0 + (a - 3)) (0 + (b - 1)) else pixel tiny_gpu a b)"
    using gpu_draw_xpm_pixels [OF tiny_gpu_ok(2) tiny_img_frame, of "VEC2 3 1"] by auto
  from g' px [rule_format, of 3 2] px [rule_format, of 2 2] pixels show ?thesis
    by (simp add: on_screen_def in_box_def)
qed

theorem gpu_draw_transparent_xpm_pixels_witness:
  "\<exists>g'. gpu_draw_transparent_xpm tiny_img (VEC2 (- 1) 1) (VEC2 0 0) (VEC2 2 2) tiny_gpu = Ok g' \<and> indexed_ok g' \<and>
    pixel g' 0 1 = 0 \<and> pixel g' 0 2 = 4"
proof -
  have pixels: "img_pixel tiny_img 1 0 = 99" "img_pixel tiny_img 1 1 = 4" "pixel tiny_gpu 0 1 = 0"
    by (simp_all add: img_pixel_def tiny_img_def pixel_def)
  obtain g' where g': "gpu_draw_transparent_xpm tiny_img (VEC2 (- 1) 1) (VEC2 0 0) (VEC2 2 2) tiny_gpu = Ok g'" "indexed_ok g'"
    and px: "\<forall>a b. on_screen tiny_gpu a b \<longrightarrow> pixel g' a b =
      (let c = img_pixel tiny_img (0 + (a - (- 1))) (0 + (b - 1))
       in if in_box (VEC2 (- 1) 1) (VEC2 2 2) a b \<and> c \<noteq> 99 then c else pixel tiny_gpu a b)"
    using gpu_draw_transparent_xpm_pixels [OF tiny_gpu_ok(2) tiny_img_frame, of "VEC2 (- 1) 1"]
    by (auto simp: window16_def)
  from g' px [rule_format, of 0 1] px [rule_format, of 0 2] pixels show ?thesis
    by (simp add: on_screen_def in_box_def)
qed

theorem gpu_draw_rect_pixels_witness:
  "\<exists>g'. gpu_draw_rect (VEC2 2 (- 1)) (VEC2 5 2) 42 tiny_gpu = Ok g' \<and> indexed_ok g' \<and> pixel g' 3 0 = 42 \<and> pixel g' 3 1 = 0"
proof -
  have pixels: "pixel tiny_gpu 3 1 = 0" by (simp add: pixel_def)
  obtain g' where g': "gpu_draw_rect (VEC2 2 (- 1)) (VEC2 5 2) 42 tiny_gpu = Ok g'" "indexed_ok g'"
    and px: "\<forall>a b. on_screen tiny_gpu a b \<longrightarrow> pixel g' a b =
      (if in_box (VEC2 2 (- 1)) (VEC2 5 2) a b then 42 else pixel tiny_gpu a b)"
    using gpu_draw_rect_pixels [OF tiny_gpu_ok(2), of "VEC2 5 2" "VEC2 2 (- 1)" 42] by (auto simp: INDEX_MODE_def)
  from g' px [rule_format, of 3 0] px [rule_format, of 3 1] pixels show ?thesis
    by (simp add: on_screen_def in_box_def)
qed

theorem gpu_frame_presented_witness:
  "\<exists>g'. obind (gpu_buffer_commit tiny_gpu) gpu_buffer_clear = Ok g' \<and> gpu_ok g' \<and> video_mem g' = replicate 12 0"
  using gpu_frame_presented [OF tiny_gpu_ok(1)] by fastforce

theorem gpu_init_mem_indexation_establishes_witness:
  "\<exists>g'. gpu_init_mem_indexation tiny_env 0x105 (gpu_start 100) = Ok (0, g') \<and> indexed_ok g' \<and> X_RES g' = 4 \<and> Y_RES g' = 3"
proof -
  have "blocks_ok tiny_env" by (simp add: blocks_ok_def tiny_env_def)
  moreover have "0 < BitsPerPixel vmi \<and> BitsPerPixel vmi \<le> 32" if "vbe_get_mode_info tiny_env 0x105 = Some vmi" for vmi
    using that by (auto simp: tiny_env_def tiny_vmi_def)
  ultimately show ?thesis
    using gpu_init_mem_indexation_establishes [of tiny_env "0x105" "gpu_start 100"]
    by (auto simp: tiny_env_def tiny_vmi_def mode_bytes_def memory_refused_def)
qed

end
