(* ===== verification/Sprite.thy ===== *)
theory Sprite
  imports Gpu
begin

text \<open>
  Sprites, \<open>sprite/sprite.c\<close>: an image with a list of frames and a frame counter that a delay slows down.
  Memory comes from \<open>malloc\<close>; the number of allocations that will still succeed is passed along, and \<open>raw\<close> is whatever
  a fresh block contains.  The lemmas describe what a draw paints and which frame is current
  after any number of draws.
\<close>

record Sprite =
  img :: "xpm_image option"
  offsets :: "vec2 list"
  sizes :: "vec2 list"
  framesc :: u32
  delay :: u32
  current_frame :: u32
  current_delay :: u32
  transparent :: bool

definition Sprite_xpm_load :: "('x \<Rightarrow> u8 list option \<times> xpm_image) \<Rightarrow> 'x \<Rightarrow> Sprite \<Rightarrow> Sprite" where
  "Sprite_xpm_load xpm_load xpm s = s\<lparr>img := Some (snd (xpm_load xpm))\<rparr>"

text \<open>\<open>Sprite_init\<close> allocates three blocks without a check; a failure or a frame array that is too short is
  undefined.  The field \<open>transparent\<close> is not written.\<close>

definition Sprite_init ::
  "('x \<Rightarrow> u8 list option \<times> xpm_image) \<Rightarrow> Sprite option \<Rightarrow> 'x \<Rightarrow> vec2 list \<Rightarrow> vec2 list \<Rightarrow> u32 \<Rightarrow> u32 \<Rightarrow> nat \<Rightarrow>
   (Sprite option \<times> nat) outcome" where
  "Sprite_init xpm_load sprite xpm offs szs n d mem =
     (case sprite of
        None \<Rightarrow> Ok (None, mem)
      | Some s \<Rightarrow>
          if mem < 3 \<or> length offs < unat n \<or> length szs < unat n then Undefined
          else Ok (Some ((Sprite_xpm_load xpm_load xpm s)
                 \<lparr>offsets := take (unat n) offs, sizes := take (unat n) szs, framesc := n,
                  current_frame := 0, current_delay := 0, delay := d\<rparr>), mem - 3))"

definition Sprite_create ::
  "('x \<Rightarrow> u8 list option \<times> xpm_image) \<Rightarrow> Sprite \<Rightarrow> 'x \<Rightarrow> vec2 list \<Rightarrow> vec2 list \<Rightarrow> u32 \<Rightarrow> u32 \<Rightarrow> nat \<Rightarrow>
   (Sprite option \<times> nat) outcome" where
  "Sprite_create xpm_load raw xpm offs szs n d mem =
     (if mem = 0 then Ok (None, 0)
      else Sprite_init xpm_load (Some raw) xpm offs szs n d (mem - 1))"

text \<open>The end of \<open>Sprite_draw\<close>: the next frame, when there is a delay.\<close>

definition sprite_tick :: "Sprite \<Rightarrow> Sprite outcome" where
  "sprite_tick s =
     (if delay s = 0 then Ok s
      else if current_delay s = delay s
      then if framesc s = 0 then Undefined
           else Ok (s\<lparr>current_delay := 0, current_frame := (current_frame s + 1) mod framesc s\<rparr>)
      else Ok (s\<lparr>current_delay := current_delay s + 1\<rparr>))"

definition Sprite_draw :: "Sprite \<Rightarrow> vec2 \<Rightarrow> gpu \<Rightarrow> (Sprite \<times> gpu) outcome" where
  "Sprite_draw s pos g =
     (case img s of
        None \<Rightarrow> Ok (s, g)
      | Some im \<Rightarrow>
          if img_type im = INVALID_XPM then Ok (s\<lparr>img := None\<rparr>, g)
          else obind (aread (offsets s) (unat (current_frame s))) (\<lambda>off.
               obind (aread (sizes s) (unat (current_frame s))) (\<lambda>sz.
               obind (if transparent s then gpu_draw_transparent_xpm im pos off sz g
                      else gpu_draw_xpm im pos off sz g) (\<lambda>g'.
               obind (sprite_tick s) (\<lambda>s'. Ok (s', g'))))))"

section \<open>Invariant\<close>

text \<open>A sprite whose frames lie inside its image and fit the drawing buffer of \<open>room\<close> bytes.\<close>

definition sprite_ok :: "nat \<Rightarrow> Sprite \<Rightarrow> bool" where
  "sprite_ok room s \<longleftrightarrow> length (offsets s) = unat (framesc s) \<and> length (sizes s) = unat (framesc s) \<and>
     current_frame s < framesc s \<and> current_delay s \<le> delay s \<and>
     (\<exists>im. img s = Some im \<and> img_type im \<noteq> INVALID_XPM \<and>
       (\<forall>i < unat (framesc s). frame_ok im (offsets s ! i) (sizes s ! i) \<and> vx (sizes s ! i) \<le> int room))"

lemma mod_less_word: "(0 :: u32) < n \<Longrightarrow> a mod n < n"
  by (simp add: word_less_nat_alt unat_mod)

lemma sprite_tick_ok:
  assumes "sprite_ok room s"
  shows "\<exists>s'. sprite_tick s = Ok s' \<and> sprite_ok room s' \<and> img s' = img s \<and> offsets s' = offsets s \<and>
    sizes s' = sizes s \<and> transparent s' = transparent s"
proof -
  have n: "0 < framesc s" using assms by (auto simp: sprite_ok_def word_gt_0)
  show ?thesis
  proof (cases "delay s = 0 \<or> current_delay s \<noteq> delay s")
    case True
    moreover have "current_delay s + 1 \<le> delay s" if "current_delay s \<noteq> delay s"
      using assms that inc_le [of "current_delay s" "delay s"] by (auto simp: sprite_ok_def)
    ultimately show ?thesis using assms by (auto simp: sprite_tick_def sprite_ok_def)
  next
    case False
    with n assms show ?thesis
      by (auto simp: sprite_tick_def sprite_ok_def mod_less_word word_gt_0)
  qed
qed

text \<open>What the current frame paints.\<close>

definition sprite_picture :: "Sprite \<Rightarrow> vec2 \<Rightarrow> picture" where
  "sprite_picture s pos =
     (let i = unat (current_frame s); off = offsets s ! i; sz = sizes s ! i; im = the (img s)
      in box (vx pos) (vy pos) (vx sz) (vy sz) (\<lambda>a b.
           let c = img_pixel im (vx off + a) (vy off + b) in if transparent s then opaque c else Some c))"

text \<open>Positions from which a frame of at most 1024 by 1024 pixels does not wrap around.\<close>

definition near_screen :: "gpu \<Rightarrow> vec2 \<Rightarrow> bool" where
  "near_screen g pos \<longleftrightarrow> X_RES g - 65536 \<le> vx pos \<and> vx pos \<le> 64000 \<and> Y_RES g - 65536 \<le> vy pos \<and> vy pos \<le> 64000"

lemma Sprite_draw_painted:
  assumes s: "sprite_ok (malloc_max g) s" and g: "indexed_ok g" and pos: "near_screen g pos"
    and small: "\<forall>z \<in> set (sizes s). vx z \<le> 1536 \<and> vy z \<le> 1536"
  shows "\<exists>s' g'. Sprite_draw s pos g = Ok (s', g') \<and> painted g (sprite_picture s pos) g' \<and>
    sprite_tick s = Ok s' \<and> sprite_ok (malloc_max g') s'"
proof -
  let ?i = "unat (current_frame s)"
  from s obtain im where im: "img s = Some im" "img_type im \<noteq> INVALID_XPM"
    and i: "?i < unat (framesc s)" "length (offsets s) = unat (framesc s)" "length (sizes s) = unat (framesc s)"
    and frame: "frame_ok im (offsets s ! ?i) (sizes s ! ?i)" and room: "vx (sizes s ! ?i) \<le> int (malloc_max g)"
    by (auto simp: sprite_ok_def word_less_nat_alt)
  have sz: "vx (sizes s ! ?i) \<le> 1536" "vy (sizes s ! ?i) \<le> 1536" using small i by auto
  obtain s' where s': "sprite_tick s = Ok s'" "sprite_ok (malloc_max g) s'" using sprite_tick_ok [OF s] by blast
  have "\<exists>g'. (if transparent s then gpu_draw_transparent_xpm im pos (offsets s ! ?i) (sizes s ! ?i) g
              else gpu_draw_xpm im pos (offsets s ! ?i) (sizes s ! ?i) g) = Ok g' \<and> painted g (sprite_picture s pos) g'"
  proof (cases "transparent s")
    case True
    then show ?thesis
      using gpu_draw_transparent_xpm_painted [OF g frame, of pos] pos sz im
      by (simp add: sprite_picture_def Let_def near_screen_def window16_def)
  next
    case False
    then show ?thesis
      using gpu_draw_xpm_painted [OF g frame room, of pos] im by (simp add: sprite_picture_def Let_def)
  qed
  then obtain g' where g': "(if transparent s then gpu_draw_transparent_xpm im pos (offsets s ! ?i) (sizes s ! ?i) g
      else gpu_draw_xpm im pos (offsets s ! ?i) (sizes s ! ?i) g) = Ok g'" and pnt: "painted g (sprite_picture s pos) g'"
    by blast
  have "Sprite_draw s pos g = Ok (s', g')"
    using im i g' s'(1) by (simp add: Sprite_draw_def aread_def)
  then show ?thesis using pnt s' redrawn_fields(6) [OF painted_redrawn [OF pnt]] by auto
qed

section \<open>Animation\<close>

fun draw_times :: "nat \<Rightarrow> vec2 \<Rightarrow> Sprite \<Rightarrow> gpu \<Rightarrow> (Sprite \<times> gpu) outcome" where
  "draw_times 0 pos s g = Ok (s, g)"
| "draw_times (Suc n) pos s g = obind (draw_times n pos s g) (\<lambda>(s', g'). Sprite_draw s' pos g')"

lemma unat_inc: "(a :: u32) < b \<Longrightarrow> unat (a + 1) = unat a + 1"
proof -
  assume "a < b"
  then have "unat a + 1 < 2 ^ 32" using unsigned_less [of b, where ?'a = nat] by (simp add: word_less_nat_alt)
  then show ?thesis by (simp add: unat_word_ariths)
qed

text \<open>One tick, in numbers.\<close>

lemma sprite_tick_numbers:
  assumes "sprite_ok room s" "delay s \<noteq> 0" "sprite_tick s = Ok s'"
  shows "unat (current_delay s') = (if current_delay s = delay s then 0 else unat (current_delay s) + 1)"
    "unat (current_frame s') = (if current_delay s = delay s then (unat (current_frame s) + 1) mod unat (framesc s)
                                else unat (current_frame s))"
    "delay s' = delay s" "framesc s' = framesc s" "sizes s' = sizes s" "sprite_ok room s'"
proof -
  have "current_delay s < delay s" if "current_delay s \<noteq> delay s"
    using that assms(1) by (simp add: sprite_ok_def order_less_le)
  moreover have "current_frame s < framesc s" using assms(1) by (simp add: sprite_ok_def)
  ultimately show "unat (current_delay s') = (if current_delay s = delay s then 0 else unat (current_delay s) + 1)"
    "unat (current_frame s') = (if current_delay s = delay s then (unat (current_frame s) + 1) mod unat (framesc s)
                                else unat (current_frame s))"
    using assms(2,3) unat_inc [of "current_delay s" "delay s"] unat_inc [of "current_frame s" "framesc s"]
    by (auto simp: sprite_tick_def unat_mod split: if_splits)
  show "delay s' = delay s" "framesc s' = framesc s" using assms(3) by (auto simp: sprite_tick_def split: if_splits)
  show "sizes s' = sizes s" "sprite_ok room s'" using sprite_tick_ok [OF assms(1)] assms(3) by auto
qed

lemma count_step:
  fixes n d f :: nat
  assumes "0 < f"
  shows "n mod (d + 1) = d \<Longrightarrow> Suc n mod (d + 1) = 0 \<and> Suc n div (d + 1) mod f = (n div (d + 1) mod f + 1) mod f"
    and "n mod (d + 1) \<noteq> d \<Longrightarrow> Suc n mod (d + 1) = n mod (d + 1) + 1 \<and> Suc n div (d + 1) = n div (d + 1)"
  by (auto simp: mod_Suc div_Suc mod_Suc_eq)

text \<open>A sprite with a delay that is drawn \<open>n\<close> times in a row shows each frame for \<open>delay + 1\<close> draws and runs through its
  frames cyclically, and no draw fails.\<close>

theorem Sprite_animation:
  assumes s: "sprite_ok (malloc_max g) s" "current_frame s = 0" "current_delay s = 0" "delay s \<noteq> 0"
    and small: "\<forall>z \<in> set (sizes s). vx z \<le> 1536 \<and> vy z \<le> 1536"
    and g: "indexed_ok g" and pos: "near_screen g pos"
  shows "\<exists>s' g'. draw_times n pos s g = Ok (s', g') \<and> indexed_ok g' \<and>
    unat (current_frame s') = n div (unat (delay s) + 1) mod unat (framesc s)"
proof -
  let ?d = "unat (delay s)" and ?f = "unat (framesc s)"
  have f: "0 < ?f" using s(1) by (auto simp: sprite_ok_def word_gt_0 unat_gt_0)
  have "\<exists>s' g'. draw_times n pos s g = Ok (s', g') \<and> redrawn g g' \<and> sprite_ok (malloc_max g) s' \<and>
      delay s' = delay s \<and> framesc s' = framesc s \<and> sizes s' = sizes s \<and>
      unat (current_delay s') = n mod (?d + 1) \<and> unat (current_frame s') = n div (?d + 1) mod ?f"
  proof (induction n)
    case 0
    then show ?case using s by simp
  next
    case (Suc n)
    then obtain t h where t: "draw_times n pos s g = Ok (t, h)" "redrawn g h" "sprite_ok (malloc_max g) t"
      "delay t = delay s" "framesc t = framesc s" "sizes t = sizes s"
      "unat (current_delay t) = n mod (?d + 1)" "unat (current_frame t) = n div (?d + 1) mod ?f"
      by blast
    have h: "indexed_ok h" "malloc_max h = malloc_max g" "near_screen h pos"
      using redrawn_indexed_ok [OF t(2)] g redrawn_fields [OF t(2)] pos by (simp_all add: near_screen_def)
    with t small obtain t' h' where d: "Sprite_draw t pos h = Ok (t', h')" "redrawn h h'" "sprite_tick t = Ok t'"
      using Sprite_draw_painted [of h t pos] painted_redrawn by metis
    note tick = sprite_tick_numbers [OF t(3) _ d(3)]
    have eq: "current_delay t = delay t \<longleftrightarrow> n mod (?d + 1) = ?d" using t(4,7) by (simp add: word_unat_eq_iff)
    have "unat (current_delay t') = Suc n mod (?d + 1) \<and> unat (current_frame t') = Suc n div (?d + 1) mod ?f"
      using tick(1,2) s(4) t(4,5,7,8) eq count_step [OF f, of n ?d] by (cases "n mod (?d + 1) = ?d") simp_all
    with t d(1) tick(3-6) s(4) redrawn_trans [OF t(2) d(2)] show ?case by simp
  qed
  then show ?thesis using g redrawn_indexed_ok by blast
qed

definition tiny_sprite :: Sprite where
  "tiny_sprite = \<lparr>img = Some tiny_img, offsets = [VEC2 0 0, VEC2 1 0], sizes = [VEC2 1 2, VEC2 1 2], framesc = 2, delay = 3,
     current_frame = 0, current_delay = 0, transparent = False\<rparr>"

theorem Sprite_animation_witness:
  "\<exists>s' g'. draw_times 5 (VEC2 1 1) tiny_sprite tiny_gpu = Ok (s', g') \<and> unat (current_frame s') = 1"
proof -
  have "sprite_ok (malloc_max tiny_gpu) tiny_sprite"
    by (auto simp: sprite_ok_def tiny_sprite_def tiny_img_def frame_ok_def less_2_cases_iff)
  then show ?thesis
    using Sprite_animation [of tiny_gpu tiny_sprite "VEC2 1 1" 5] tiny_gpu_ok
    by (auto simp: tiny_sprite_def near_screen_def)
qed

text \<open>\<open>Sprite_create\<close> never writes \<open>transparent\<close>: the created sprite keeps whatever the fresh memory contained, so
  the same call may give an opaque or a transparent sprite.\<close>

theorem Sprite_create_transparent_undetermined:
  "case Sprite_create xpm_load raw xpm offs szs n d mem of
     Ok (Some s, mem') \<Rightarrow> transparent s = transparent raw \<and> current_frame s = 0 \<and> framesc s = n \<and> mem = mem' + 4
   | Ok (None, mem') \<Rightarrow> mem = 0
   | Undefined \<Rightarrow> mem < 4 \<or> length offs < unat n \<or> length szs < unat n
   | _ \<Rightarrow> False"
  by (auto simp: Sprite_create_def Sprite_init_def Sprite_xpm_load_def)

end
