(* ===== verification/Ui.thy ===== *)
theory Ui
  imports Sprite
begin

text \<open>
  User interface elements, \<open>ui/ui_element.c\<close>: a box, a sprite and a callback.  Each element owns its sprite, so
  the sprite is kept by value in the element.  \<open>xpm_load\<close> is a parameter; the pixmaps it is applied to
  are named.
\<close>

section \<open>Elements\<close>

datatype asset = block_xpm | player_xpm | mouse_xpm | logo_xpm | play_button_xpm | leaderboard_button_xpm
  | quit_button_xpm | trophy_xpm | alphabet_sprites

type_synonym loader = "asset \<Rightarrow> u8 list option \<times> xpm_image"

text \<open>The functions an element's \<open>on_click\<close> can point to.\<close>

datatype callback = spoof | on_click_leaderboard | on_click_quit

record ui_element =
  el_aabb :: aabb
  el_sprite :: "Sprite option"
  on_click :: "callback option"

definition ui_element_init :: "ui_element option \<Rightarrow> aabb \<Rightarrow> Sprite option \<Rightarrow> callback option \<Rightarrow> ui_element option" where
  "ui_element_init element area sprite cb =
     (case element of None \<Rightarrow> None | Some e \<Rightarrow> Some (e\<lparr>el_aabb := area, el_sprite := sprite, on_click := cb\<rparr>))"

definition ui_element_create ::
  "ui_element \<Rightarrow> aabb \<Rightarrow> Sprite option \<Rightarrow> callback option \<Rightarrow> nat \<Rightarrow> ui_element option \<times> nat" where
  "ui_element_create raw area sprite cb mem =
     (if mem = 0 then (None, 0) else (ui_element_init (Some raw) area sprite cb, mem - 1))"

definition ui_element_on_click :: "(callback \<Rightarrow> 's \<Rightarrow> 's) \<Rightarrow> ui_element option \<Rightarrow> 's \<Rightarrow> 's" where
  "ui_element_on_click call element st =
     (case element of
        None \<Rightarrow> st
      | Some e \<Rightarrow> (case on_click e of None \<Rightarrow> st | Some f \<Rightarrow> call f st))"

definition ui_element_draw :: "ui_element option \<Rightarrow> gpu \<Rightarrow> (ui_element option \<times> gpu) outcome" where
  "ui_element_draw element g =
     (case element of
        None \<Rightarrow> Undefined
      | Some e \<Rightarrow>
          (case el_sprite e of
             None \<Rightarrow> Undefined
           | Some s \<Rightarrow> obind (Sprite_draw s (position (el_aabb e)) g) (\<lambda>(s', g'). Ok (Some (e\<lparr>el_sprite := Some s'\<rparr>), g'))))"

section \<open>What an element needs to be drawn\<close>

text \<open>An element whose sprite is sound and which sits where 16-bit coordinates do not wrap.\<close>

definition element_ok :: "gpu \<Rightarrow> ui_element option \<Rightarrow> bool" where
  "element_ok g element \<longleftrightarrow> (\<exists>e s. element = Some e \<and> el_sprite e = Some s \<and> sprite_ok (malloc_max g) s \<and>
     near_screen g (position (el_aabb e)) \<and> (\<forall>z \<in> set (sizes s). vx z \<le> 1536 \<and> vy z \<le> 1536))"

definition element_picture :: "ui_element option \<Rightarrow> picture" where
  "element_picture element = (case element of None \<Rightarrow> blank
     | Some e \<Rightarrow> (case el_sprite e of None \<Rightarrow> blank | Some s \<Rightarrow> sprite_picture s (position (el_aabb e))))"

lemma element_ok_redrawn: "redrawn g g' \<Longrightarrow> element_ok g' e = element_ok g e"
  using redrawn_fields [of g g'] by (simp add: element_ok_def near_screen_def)

lemma ui_element_draw_painted:
  assumes "element_ok g element" "indexed_ok g"
  shows "\<exists>element' g'. ui_element_draw element g = Ok (element', g') \<and> element_ok g element' \<and>
    painted g (element_picture element) g' \<and>
    map_option el_aabb element' = map_option el_aabb element \<and> map_option on_click element' = map_option on_click element"
proof -
  from assms(1) obtain e s where e: "element = Some e" "el_sprite e = Some s" "sprite_ok (malloc_max g) s"
    "near_screen g (position (el_aabb e))" "\<forall>z \<in> set (sizes s). vx z \<le> 1536 \<and> vy z \<le> 1536"
    by (auto simp: element_ok_def)
  obtain s' g' where d: "Sprite_draw s (position (el_aabb e)) g = Ok (s', g')"
    "painted g (sprite_picture s (position (el_aabb e))) g'" "sprite_tick s = Ok s'"
    using Sprite_draw_painted [OF e(3) assms(2) e(4,5)] by blast
  have "sprite_ok (malloc_max g) s'" "sizes s' = sizes s" using sprite_tick_ok [OF e(3)] d(3) by auto
  with e d show ?thesis
    by (simp add: ui_element_draw_def element_ok_def element_picture_def)
qed

end
