(* ===== verification/Menu.thy ===== *)
theory Menu
  imports Ui Linked_List Leaderboard
begin

text \<open>
  Menus, \<open>ui/menu.c\<close>, with the glyph table of \<open>assets/sprites/alphabet/alphabet_sprites_cord.h\<close>.  A menu
  is a linked list of elements on the heap of \<open>Linked_List\<close>, the elements kept by value in the nodes.  All
  memory comes from the heap's allocation budget, and \<open>raw n\<close> is what a fresh block contains when \<open>n\<close> allocations
  are left.  The lemmas show which elements the constructors put into a menu and what drawing a
  menu paints.
\<close>

section \<open>Glyphs\<close>

record CharSprite =
  cs_x :: int
  cs_y :: int
  cs_width :: int
  cs_height :: int

definition CHAR_HEIGHT :: int where [c_consts]: "CHAR_HEIGHT = 83"
definition CHAR_WIDTH :: int where [c_consts]: "CHAR_WIDTH = 44"

text \<open>The chain of conditions for the index; \<open>None\<close> is the early return of the empty glyph.\<close>

definition char_index :: "char \<Rightarrow> int option" where
  "char_index c =
     (let n = int (of_char c) in
      if c = CHR '','' then Some 0
      else if c = CHR ''-'' then Some 1
      else if c = CHR ''.'' then Some 2
      else if c = CHR ''/'' then Some 3
      else if 48 \<le> n \<and> n \<le> 57 then Some (4 + (n - 48))
      else if c = CHR '':'' then Some 14
      else if 65 \<le> n \<and> n \<le> 90 then Some (15 + (n - 65))
      else if c = CHR ''|'' then Some 41
      else None)"

definition calculate_char_coord :: "char \<Rightarrow> CharSprite" where
  "calculate_char_coord c =
     (case char_index c of
        None \<Rightarrow> \<lparr>cs_x = 0, cs_y = 0, cs_width = 0, cs_height = 0\<rparr>
      | Some index \<Rightarrow> \<lparr>cs_x = 0, cs_y = index * CHAR_HEIGHT, cs_width = CHAR_WIDTH, cs_height = CHAR_HEIGHT\<rparr>)"

section \<open>Menus\<close>

record Menu =
  element :: "nat option"

type_synonym ui_heap = "ui_element option nheap"

text \<open>The while loop of \<open>Menu_draw\<close>, with fuel as in \<open>Linked_List\<close>.\<close>

fun menu_draw_loop :: "nat \<Rightarrow> ui_element option cells \<Rightarrow> nat option \<Rightarrow> gpu \<Rightarrow> (ui_element option cells \<times> gpu) outcome" where
  "menu_draw_loop 0 c node g = Diverges"
| "menu_draw_loop (Suc fuel) c None g = Ok (c, g)"
| "menu_draw_loop (Suc fuel) c (Some t) g =
     (case c t of
        None \<Rightarrow> Undefined
      | Some n \<Rightarrow>
          obind (ui_element_draw (node_data n) g) (\<lambda>(e, g').
            menu_draw_loop fuel (c(t \<mapsto> n\<lparr>node_data := e\<rparr>)) (node_next n) g'))"

text \<open>A \<open>Menu*\<close> is \<open>None\<close> when it is \<open>NULL\<close>.\<close>

definition Menu_draw :: "Menu option \<Rightarrow> ui_heap \<Rightarrow> gpu \<Rightarrow> (ui_heap \<times> gpu) outcome" where
  "Menu_draw menu h g =
     (case menu of
        None \<Rightarrow> Undefined
      | Some m \<Rightarrow> obind (menu_draw_loop (Suc (Suc (brk h))) (cells h) (element m) g) (\<lambda>(c, g').
                   Ok (h\<lparr>cells := c\<rparr>, g')))"

text \<open>The calls of \<open>Sprite_create\<close> for a sprite with one frame, and of \<open>ui_element_create\<close>, on the heap.\<close>

definition new_sprite ::
  "loader \<Rightarrow> (nat \<Rightarrow> Sprite) \<Rightarrow> asset \<Rightarrow> vec2 \<Rightarrow> vec2 \<Rightarrow> ui_heap \<Rightarrow> (Sprite option \<times> ui_heap) outcome" where
  "new_sprite xpm_load raw xpm offset sz h =
     obind (Sprite_create xpm_load (raw (avail h)) xpm [offset] [sz] 1 0 (avail h)) (\<lambda>(s, m). Ok (s, h\<lparr>avail := m\<rparr>))"

definition raw_element :: ui_element where
  "raw_element = \<lparr>el_aabb = AABB (VEC2 0 0) (VEC2 0 0), el_sprite = None, on_click = None\<rparr>"

definition new_element :: "aabb \<Rightarrow> Sprite option \<Rightarrow> callback option \<Rightarrow> ui_heap \<Rightarrow> ui_element option \<times> ui_heap" where
  "new_element area sprite cb h =
     (case ui_element_create raw_element area sprite cb (avail h) of (e, m) \<Rightarrow> (e, h\<lparr>avail := m\<rparr>))"

text \<open>\<open>malloc(sizeof(Menu))\<close>; the result is dereferenced without a check.\<close>

definition new_menu :: "ui_heap \<Rightarrow> ui_heap outcome" where
  "new_menu h = (if avail h = 0 then Undefined else Ok (h\<lparr>avail := avail h - 1\<rparr>))"

text \<open>The loop over the string, with \<open>x_offset\<close>.\<close>

fun Menu_create_ui_from_string ::
  "loader \<Rightarrow> (nat \<Rightarrow> Sprite) \<Rightarrow> Menu \<Rightarrow> string \<Rightarrow> int \<Rightarrow> int \<Rightarrow> ui_heap \<Rightarrow> (Menu \<times> ui_heap) outcome" where
  "Menu_create_ui_from_string xpm_load raw menu [] x_offset start_y h = Ok (menu, h)"
| "Menu_create_ui_from_string xpm_load raw menu (c # str) x_offset start_y h =
     (let coord = calculate_char_coord c in
      obind (new_sprite xpm_load raw alphabet_sprites (VEC2 (cs_x coord) (cs_y coord))
               (VEC2 (cs_width coord) (cs_height coord)) h) (\<lambda>(char_sprite, h1).
      case new_element (AABB (VEC2 x_offset start_y) (VEC2 60 80)) char_sprite None h1 of (character, h2) \<Rightarrow>
      obind (Node_append h2 (element menu) character) (\<lambda>(h3, head).
        Menu_create_ui_from_string xpm_load raw (menu\<lparr>element := head\<rparr>) str (x_offset + cs_width coord) start_y h3)))"

definition Menu_create_main_menu :: "loader \<Rightarrow> (nat \<Rightarrow> Sprite) \<Rightarrow> ui_heap \<Rightarrow> (Menu \<times> ui_heap) outcome" where
  "Menu_create_main_menu xpm_load raw h =
     obind (new_menu h) (\<lambda>h.
     obind (new_sprite xpm_load raw logo_xpm (VEC2 0 0) (VEC2 540 108) h) (\<lambda>(logo_sprite, h).
     case new_element (AABB (VEC2 242 80) (VEC2 540 108)) logo_sprite None h of (logo, h) \<Rightarrow>
     obind (new_sprite xpm_load raw play_button_xpm (VEC2 0 0) (VEC2 402 97) h) (\<lambda>(play_button, h).
     obind (new_sprite xpm_load raw leaderboard_button_xpm (VEC2 0 0) (VEC2 402 97) h) (\<lambda>(leaderboard_button, h).
     obind (new_sprite xpm_load raw quit_button_xpm (VEC2 0 0) (VEC2 402 97) h) (\<lambda>(quit_button, h).
     case new_element (AABB (VEC2 311 340) (VEC2 402 97)) play_button (Some spoof) h of (play, h) \<Rightarrow>
     case new_element (AABB (VEC2 311 480) (VEC2 402 97)) leaderboard_button (Some on_click_leaderboard) h of (leaderboard, h) \<Rightarrow>
     case new_element (AABB (VEC2 311 620) (VEC2 402 97)) quit_button (Some on_click_quit) h of (quit, h) \<Rightarrow>
     obind (Node_create h logo) (\<lambda>(node, h).
     obind (Node_append h (Some node) play) (\<lambda>(h, head).
     obind (Node_append h head leaderboard) (\<lambda>(h, head).
     obind (Node_append h head quit) (\<lambda>(h, head).
     Ok (\<lparr>element = head\<rparr>, h))))))))))"

text \<open>\<open>snprintf(buf, n, ...)\<close> keeps at most \<open>n - 1\<close> characters.\<close>

definition snprintf :: "nat \<Rightarrow> string \<Rightarrow> string" where
  "snprintf n s = take (n - 1) s"

definition hms :: "rtc_date_time \<Rightarrow> string" where
  "hms d = show_padded 2 (unat (rtc_hours d)) @ '':'' @ show_padded 2 (unat (rtc_minutes d)) @ '':'' @
     show_padded 2 (unat (rtc_seconds d))"

text \<open>The two formatted lines of entry \<open>i\<close>; of the local \<open>rdt\<close> only fields that the conversion has written are read.\<close>

definition first_line_format :: "nat \<Rightarrow> LeaderboardEntry \<Rightarrow> rtc_date_time \<Rightarrow> string" where
  "first_line_format i entry rdt = show_nat (i + 1) @ ''.'' @ entry_name entry @ ''|'' @ hms rdt"

definition second_line_text :: "LeaderboardEntry \<Rightarrow> string" where
  "second_line_text entry =
     (let d = dt_of_entry entry in
      show_padded 2 (unat (rtc_day d)) @ ''/'' @ show_padded 2 (unat (rtc_month d)) @ ''/'' @
      show_padded 4 (unat (rtc_year d)) @ '', '' @ hms d)"

text \<open>The loop over the entries, from \<open>i\<close> with \<open>k\<close> to go; the time of the entry is converted like a date.\<close>

fun leaderboard_rows ::
  "loader \<Rightarrow> (nat \<Rightarrow> Sprite) \<Rightarrow> LeaderboardEntry list \<Rightarrow> nat \<Rightarrow> nat \<Rightarrow> Menu \<Rightarrow> ui_heap \<Rightarrow> (Menu \<times> ui_heap) outcome" where
  "leaderboard_rows xpm_load raw es i 0 menu h = Ok (menu, h)"
| "leaderboard_rows xpm_load raw es i (Suc k) menu h =
     obind (aread es i) (\<lambda>entry.
     obind (unix_to_rtc_date_time (time_entry entry) dt_zero) (\<lambda>rdt.
     let y_position = 240 + int i * 170;
         first_line = snprintf 15 (first_line_format i entry rdt);
         second_line = snprintf 21 (second_line_text entry)
     in obind (Menu_create_ui_from_string xpm_load raw menu first_line 30 y_position h) (\<lambda>(menu, h).
        obind (Menu_create_ui_from_string xpm_load raw menu second_line 118 (y_position + 80) h) (\<lambda>(menu, h).
        leaderboard_rows xpm_load raw es (Suc i) k menu h))))"

definition Menu_create_leaderboard ::
  "loader \<Rightarrow> (nat \<Rightarrow> Sprite) \<Rightarrow> Leaderboard \<Rightarrow> ui_heap \<Rightarrow> (Menu \<times> ui_heap) outcome" where
  "Menu_create_leaderboard xpm_load raw leaderboard h =
     obind (new_menu h) (\<lambda>h.
     obind (new_sprite xpm_load raw trophy_xpm (VEC2 0 0) (VEC2 300 300) h) (\<lambda>(logo_sprite, h).
     case new_element (AABB (VEC2 102 (- 20)) (VEC2 800 150)) logo_sprite None h of (logo, h) \<Rightarrow>
     obind (new_sprite xpm_load raw leaderboard_button_xpm (VEC2 0 0) (VEC2 402 97) h) (\<lambda>(leaderboard_button, h).
     case new_element (AABB (VEC2 415 70) (VEC2 402 97)) leaderboard_button (Some on_click_leaderboard) h of (leaderboard_ui, h) \<Rightarrow>
     obind (Node_create h logo) (\<lambda>(node, h).
     obind (Node_append h (Some node) leaderboard_ui) (\<lambda>(h, head).
     leaderboard_rows xpm_load raw (entries leaderboard) 0 (entry_count leaderboard) \<lparr>element = head\<rparr> h)))))"

section \<open>Drawing a menu\<close>

text \<open>The picture of a list of elements, later ones over earlier ones.\<close>

primrec menu_picture :: "ui_element option list \<Rightarrow> picture" where
  "menu_picture [] = blank"
| "menu_picture (e # es) = over (menu_picture es) (element_picture e)"

text \<open>What the mouse looks at: boxes and callbacks.\<close>

definition shape :: "ui_element option list \<Rightarrow> (aabb option \<times> callback option option) list" where
  "shape es = map (\<lambda>e. (map_option el_aabb e, map_option on_click e)) es"

lemma menu_draw_loop_path:
  assumes "path c p as None" "list_all (element_ok g) (contents c as)" "indexed_ok g" "length as < fuel"
  shows "\<exists>c' g'. menu_draw_loop fuel c p g = Ok (c', g') \<and> path c' p as None \<and>
    painted g (menu_picture (contents c as)) g' \<and> list_all (element_ok g) (contents c' as) \<and>
    shape (contents c' as) = shape (contents c as) \<and> (\<forall>a. a \<notin> set as \<longrightarrow> c' a = c a)"
  using assms
proof (induction as arbitrary: c p g fuel)
  case Nil
  then obtain k where "fuel = Suc k" by (cases fuel) auto
  with Nil show ?case by (simp add: screen.painted_blank shape_def)
next
  case (Cons a as)
  then obtain k where k: "fuel = Suc k" "length as < k" by (cases fuel) auto
  from Cons.prems(1) obtain n where n: "p = Some a" "c a = Some n" "path c (node_next n) as None" by auto
  have a: "a \<notin> set as" using path_distinct [OF Cons.prems(1)] by simp
  have e: "contents c (a # as) = node_data n # contents c as" using n(2) by (simp add: contents_def)
  obtain e' g1 where d: "ui_element_draw (node_data n) g = Ok (e', g1)" "element_ok g e'"
      "painted g (element_picture (node_data n)) g1"
      "map_option el_aabb e' = map_option el_aabb (node_data n)" "map_option on_click e' = map_option on_click (node_data n)"
    using ui_element_draw_painted [of g "node_data n"] Cons.prems(2,3) e by auto
  define c1 where "c1 = c(a \<mapsto> n\<lparr>node_data := e'\<rparr>)"
  have c1: "path c1 (node_next n) as None" "contents c1 as = contents c as"
    unfolding c1_def using n(3) a by (simp_all add: path_frame contents_frame)
  have g1: "indexed_ok g1" "\<And>e. element_ok g1 e = element_ok g e"
    using screen.painted_ready [OF d(3) Cons.prems(3)] element_ok_redrawn [OF painted_redrawn [OF d(3)]] by blast+
  obtain c' g' where r: "menu_draw_loop k c1 (node_next n) g1 = Ok (c', g')" "path c' (node_next n) as None"
      "painted g1 (menu_picture (contents c as)) g'" "list_all (element_ok g) (contents c' as)"
      "shape (contents c' as) = shape (contents c as)" "\<forall>b. b \<notin> set as \<longrightarrow> c' b = c1 b"
    using Cons.IH [OF c1(1) _ g1(1) k(2)] Cons.prems(2) e c1(2) g1(2) by auto
  have "c' a = Some (n\<lparr>node_data := e'\<rparr>)" using r(6) a by (simp add: c1_def)
  then have "path c' p (a # as) None" "contents c' (a # as) = e' # contents c' as"
    using n(1) r(2) by (simp_all add: contents_def)
  moreover have "painted g (menu_picture (contents c (a # as))) g'"
    using screen.painted_over [OF d(3) r(3)] by (simp add: e)
  moreover have "\<forall>b. b \<notin> set (a # as) \<longrightarrow> c' b = c b" using r(6) by (simp add: c1_def)
  moreover have "menu_draw_loop fuel c p g = Ok (c', g')" using k(1) n(1,2) d(1) r(1) by (simp add: c1_def)
  ultimately show ?case using d(2,4,5) r(4,5) e by (auto simp: shape_def)
qed

lemma Menu_draw_painted:
  assumes rep: "node_rep h (element m) A xs" and ok: "list_all (element_ok g) xs" and g: "indexed_ok g"
  shows "\<exists>h' g' xs'. Menu_draw (Some m) h g = Ok (h', g') \<and> painted g (menu_picture xs) g' \<and>
    node_rep h' (element m) A xs' \<and> list_all (element_ok g) xs' \<and> shape xs' = shape xs \<and>
    (\<forall>q B ys. node_rep h q B ys \<longrightarrow> A \<inter> B = {} \<longrightarrow> node_rep h' q B ys)"
proof -
  from rep obtain as where as: "heap_ok h" "path (cells h) (element m) as None" "contents (cells h) as = xs" "A = set as"
    by (auto simp: node_rep_def holds_def)
  have "length as < Suc (Suc (brk h))" using path_length [OF as(1,2)] by simp
  with as ok g obtain c' g' where d: "menu_draw_loop (Suc (Suc (brk h))) (cells h) (element m) g = Ok (c', g')"
      "path c' (element m) as None" "painted g (menu_picture xs) g'" "list_all (element_ok g) (contents c' as)"
      "shape (contents c' as) = shape xs" "\<forall>a. a \<notin> set as \<longrightarrow> c' a = cells h a"
    using menu_draw_loop_path [of "cells h" "element m" as g "Suc (Suc (brk h))"] by blast
  let ?h' = "h\<lparr>cells := c'\<rparr>"
  have heap: "heap_ok ?h'"
  proof (unfold heap_ok_def, intro allI impI)
    fix a assume "brk ?h' \<le> a"
    then have "cells h a = None" using as(1) by (simp add: heap_ok_def)
    moreover from this have "a \<notin> set as" using path_dom [OF as(2)] by auto
    ultimately show "cells ?h' a = None" using d(6) by simp
  qed
  have "node_rep ?h' (element m) A (contents c' as)"
    using heap d(2) as(4) by (auto simp: node_rep_def holds_def)
  moreover have "node_rep ?h' q B ys" if "node_rep h q B ys" "A \<inter> B = {}" for q B ys
  proof -
    from that(1) obtain bs where bs: "holds h q bs ys" "B = set bs" by (auto simp: node_rep_def)
    have "holds ?h' q bs ys" by (rule holds_frame [OF bs(1) _ heap]) (use d(6) that(2) bs(2) as(4) in auto)
    with bs(2) show ?thesis by (auto simp: node_rep_def)
  qed
  moreover have "Menu_draw (Some m) h g = Ok (?h', g')" using d(1) by (simp add: Menu_draw_def)
  ultimately show ?thesis using d(3-5) by blast
qed

section \<open>Building a menu\<close>

text \<open>What an element is supposed to be: its box, the pixmap and the frame of its sprite, and its callback.\<close>

record widget =
  w_area :: aabb
  w_asset :: asset
  w_offset :: vec2
  w_size :: vec2
  w_click :: "callback option"

definition widget_sprite :: "loader \<Rightarrow> widget \<Rightarrow> Sprite \<Rightarrow> bool" where
  "widget_sprite xpm_load w s \<longleftrightarrow> img s = Some (snd (xpm_load (w_asset w))) \<and> offsets s = [w_offset w] \<and>
     sizes s = [w_size w] \<and> framesc s = 1 \<and> delay s = 0 \<and> current_frame s = 0 \<and> current_delay s = 0"

definition realises :: "loader \<Rightarrow> widget \<Rightarrow> ui_element option \<Rightarrow> bool" where
  "realises xpm_load w e \<longleftrightarrow> (\<exists>s. e = Some \<lparr>el_aabb = w_area w, el_sprite = Some s, on_click = w_click w\<rparr> \<and>
     widget_sprite xpm_load w s)"

definition widgets_shape :: "widget list \<Rightarrow> (aabb option \<times> callback option option) list" where
  "widgets_shape ws = map (\<lambda>w. (Some (w_area w), Some (w_click w))) ws"

lemma realises_shape: "list_all2 (realises xpm_load) ws xs \<Longrightarrow> shape xs = widgets_shape ws"
  by (induction rule: list_all2_induct) (auto simp: shape_def widgets_shape_def realises_def)

text \<open>Lists that own none of the nodes \<open>A\<close> are untouched, and remain apart from \<open>A'\<close>.\<close>

definition leaves_others :: "ui_heap \<Rightarrow> nat set \<Rightarrow> ui_heap \<Rightarrow> nat set \<Rightarrow> bool" where
  "leaves_others h A h' A' \<longleftrightarrow> (\<forall>q B ys. node_rep h q B ys \<longrightarrow> A \<inter> B = {} \<longrightarrow> node_rep h' q B ys \<and> A' \<inter> B = {})"

lemma leaves_others_refl [simp]: "leaves_others h A h A"
  by (simp add: leaves_others_def)

lemma leaves_others_trans: "leaves_others h A h1 A1 \<Longrightarrow> leaves_others h1 A1 h2 A2 \<Longrightarrow> leaves_others h A h2 A2"
  unfolding leaves_others_def by (intro allI impI) metis

lemma node_rep_avail [simp]: "node_rep (h\<lparr>avail := n\<rparr>) p A xs = node_rep h p A xs"
  by (simp add: node_rep_def holds_def heap_ok_def)

lemma leaves_others_avail [simp]:
  "leaves_others (h\<lparr>avail := n\<rparr>) A h' A' = leaves_others h A h' A'"
  by (simp add: leaves_others_def)

lemma Node_append_leaves:
  assumes "node_rep h p A xs" "0 < avail h"
  shows "\<exists>h' p' A'. Node_append h p e = Ok (h', p') \<and> node_rep h' p' A' (xs @ [e]) \<and> avail h' = avail h - 1 \<and>
    leaves_others h A h' A'"
  using nodes.append [OF assms, of e] unfolding leaves_others_def by blast

lemma Node_create_append: "obind (Node_create h d) (\<lambda>(a, h'). f h' (Some a)) = obind (Node_append h None d) (\<lambda>(h', p). f h' p)"
  by (simp add: Node_append_def Node_create_def)

lemma new_sprite_ok:
  assumes "4 \<le> avail h"
  shows "\<exists>s. new_sprite xpm_load raw xpm off sz h = Ok (Some s, h\<lparr>avail := avail h - 4\<rparr>) \<and>
    (\<forall>w. w_asset w = xpm \<longrightarrow> w_offset w = off \<longrightarrow> w_size w = sz \<longrightarrow> widget_sprite xpm_load w s)"
  using assms by (auto simp: new_sprite_def Sprite_create_def Sprite_init_def Sprite_xpm_load_def widget_sprite_def)

lemma new_element_ok:
  "1 \<le> avail h \<Longrightarrow> new_element area s cb h = (Some \<lparr>el_aabb = area, el_sprite = s, on_click = cb\<rparr>, h\<lparr>avail := avail h - 1\<rparr>)"
  by (simp add: new_element_def ui_element_create_def ui_element_init_def raw_element_def)

text \<open>Text: one glyph per character, each placed after the widths of its predecessors.\<close>

definition glyph :: "char \<Rightarrow> int \<Rightarrow> int \<Rightarrow> widget" where
  "glyph c x y = (let coord = calculate_char_coord c in
     \<lparr>w_area = AABB (VEC2 x y) (VEC2 60 80), w_asset = alphabet_sprites, w_offset = VEC2 (cs_x coord) (cs_y coord),
      w_size = VEC2 (cs_width coord) (cs_height coord), w_click = None\<rparr>)"

primrec text_widgets :: "string \<Rightarrow> int \<Rightarrow> int \<Rightarrow> widget list" where
  "text_widgets [] x y = []"
| "text_widgets (c # str) x y = glyph c x y # text_widgets str (x + cs_width (calculate_char_coord c)) y"

lemma Menu_create_ui_from_string_ok:
  assumes "node_rep h (element m) A xs" "6 * length str \<le> avail h"
  shows "\<exists>m' h' A' es. Menu_create_ui_from_string xpm_load raw m str x y h = Ok (m', h') \<and>
    node_rep h' (element m') A' (xs @ es) \<and> list_all2 (realises xpm_load) (text_widgets str x y) es \<and>
    avail h' = avail h - 6 * length str \<and> leaves_others h A h' A'"
  using assms
proof (induction str arbitrary: m x h A xs)
  case Nil
  then show ?case by (metis Menu_create_ui_from_string.simps(1) append_Nil2 diff_zero leaves_others_refl list.size(3)
    list_all2_Nil mult_0_right text_widgets.simps(1))
next
  case (Cons c str)
  let ?w = "glyph c x y"
  obtain s where s: "new_sprite xpm_load raw alphabet_sprites (w_offset ?w) (w_size ?w) h = Ok (Some s, h\<lparr>avail := avail h - 4\<rparr>)"
      "widget_sprite xpm_load ?w s"
    using new_sprite_ok [of h xpm_load raw alphabet_sprites "w_offset ?w" "w_size ?w"] Cons.prems(2)
    by (auto simp: glyph_def Let_def)
  let ?e = "Some \<lparr>el_aabb = w_area ?w, el_sprite = Some s, on_click = None\<rparr>"
  let ?h2 = "h\<lparr>avail := avail h - 5\<rparr>"
  have e: "realises xpm_load ?w ?e" using s(2) by (simp add: realises_def glyph_def Let_def)
  obtain h3 p3 A3 where app: "Node_append ?h2 (element m) ?e = Ok (h3, p3)" "node_rep h3 p3 A3 (xs @ [?e])"
      "avail h3 = avail h - 6" "leaves_others h A h3 A3"
    using Node_append_leaves [of ?h2 "element m" A xs ?e] Cons.prems by auto
  let ?m = "m\<lparr>element := p3\<rparr>"
  have "6 * length str \<le> avail h3" using app(3) Cons.prems(2) by simp
  with Cons.IH [of h3 ?m A3 "xs @ [?e]" "x + cs_width (calculate_char_coord c)"] app(2,3)
  obtain m' h' A' es where r: "Menu_create_ui_from_string xpm_load raw ?m str (x + cs_width (calculate_char_coord c)) y h3 = Ok (m', h')"
      "node_rep h' (element m') A' (xs @ ?e # es)"
      "list_all2 (realises xpm_load) (text_widgets str (x + cs_width (calculate_char_coord c)) y) es"
      "avail h' = avail h - 6 * length (c # str)" "leaves_others h3 A3 h' A'"
    by auto
  have "Menu_create_ui_from_string xpm_load raw m (c # str) x y h = Ok (m', h')"
    using s(1) app(1) r(1) Cons.prems(2) by (simp add: Let_def glyph_def new_element_ok)
  moreover have "list_all2 (realises xpm_load) (text_widgets (c # str) x y) (?e # es)" using e r(3) by simp
  ultimately show ?case using r(2,4) leaves_others_trans [OF app(4) r(5)] by blast
qed

text \<open>The rows of the leaderboard, and the leaderboards that can be shown.\<close>

definition first_line_text :: "nat \<Rightarrow> LeaderboardEntry \<Rightarrow> string" where
  "first_line_text i entry = first_line_format i entry (utc_date (time_entry entry) dt_zero)"

definition board_fits :: "Leaderboard \<Rightarrow> bool" where
  "board_fits lb \<longleftrightarrow> entry_count lb \<le> 3 \<and> length (entries lb) = 3 \<and> (\<forall>i < entry_count lb. date_fits (time_entry (entries lb ! i)))"

definition row_widgets :: "nat \<Rightarrow> LeaderboardEntry \<Rightarrow> widget list" where
  "row_widgets i entry = text_widgets (snprintf 15 (first_line_text i entry)) 30 (240 + int i * 170) @
     text_widgets (snprintf 21 (second_line_text entry)) 118 (240 + int i * 170 + 80)"

fun rows_widgets :: "LeaderboardEntry list \<Rightarrow> nat \<Rightarrow> nat \<Rightarrow> widget list" where
  "rows_widgets es i 0 = []"
| "rows_widgets es i (Suc k) = row_widgets i (es ! i) @ rows_widgets es (Suc i) k"

lemma length_snprintf: "length (snprintf n s) \<le> n - 1"
  by (simp add: snprintf_def)

lemma leaderboard_rows_ok:
  assumes "node_rep h (element m) A xs" "i + k \<le> length es" "204 * k \<le> avail h" "\<forall>j < i + k. date_fits (time_entry (es ! j))"
  shows "\<exists>m' h' A' ws. leaderboard_rows xpm_load raw es i k m h = Ok (m', h') \<and>
    node_rep h' (element m') A' (xs @ ws) \<and> list_all2 (realises xpm_load) (rows_widgets es i k) ws \<and>
    leaves_others h A h' A'"
  using assms
proof (induction k arbitrary: i m h A xs)
  case 0
  then show ?case by (auto intro: exI [of _ "[]"])
next
  case (Suc k)
  let ?t1 = "snprintf 15 (first_line_text i (es ! i))" and ?t2 = "snprintf 21 (second_line_text (es ! i))"
  let ?y = "240 + int i * 170"
  have len: "length ?t1 \<le> 14" "length ?t2 \<le> 20"
    using length_snprintf [of 15 "first_line_text i (es ! i)"] length_snprintf [of 21 "second_line_text (es ! i)"] by simp_all
  have "6 * length ?t1 \<le> avail h" using len(1) Suc.prems(3) by simp
  from Menu_create_ui_from_string_ok [OF Suc.prems(1) this, of xpm_load raw 30 ?y] obtain m1 h1 A1 e1 where
    1: "Menu_create_ui_from_string xpm_load raw m ?t1 30 ?y h = Ok (m1, h1)" "node_rep h1 (element m1) A1 (xs @ e1)"
      "list_all2 (realises xpm_load) (text_widgets ?t1 30 ?y) e1" "avail h1 = avail h - 6 * length ?t1" "leaves_others h A h1 A1"
    by blast
  have "6 * length ?t2 \<le> avail h1" using len 1(4) Suc.prems(3) by simp
  from Menu_create_ui_from_string_ok [OF 1(2) this, of xpm_load raw 118 "?y + 80"] obtain m2 h2 A2 e2 where
    2: "Menu_create_ui_from_string xpm_load raw m1 ?t2 118 (?y + 80) h1 = Ok (m2, h2)"
      "node_rep h2 (element m2) A2 ((xs @ e1) @ e2)"
      "list_all2 (realises xpm_load) (text_widgets ?t2 118 (?y + 80)) e2" "avail h2 = avail h1 - 6 * length ?t2"
      "leaves_others h1 A1 h2 A2"
    by blast
  have "204 * k \<le> avail h2" using len 1(4) 2(4) Suc.prems(3) by simp
  from Suc.IH [OF 2(2) _ this, of "Suc i"] Suc.prems(2,4) obtain m' h' A' ws where
    3: "leaderboard_rows xpm_load raw es (Suc i) k m2 h2 = Ok (m', h')" "node_rep h' (element m') A' (((xs @ e1) @ e2) @ ws)"
      "list_all2 (realises xpm_load) (rows_widgets es (Suc i) k) ws" "leaves_others h2 A2 h' A'"
    by auto
  have "leaderboard_rows xpm_load raw es i (Suc k) m h = Ok (m', h')"
    using 1(1) 2(1) 3(1) Suc.prems(2,4) by (simp add: aread_def Let_def unix_to_rtc_date_time_fits(1) flip: first_line_text_def)
  moreover have "list_all2 (realises xpm_load) (rows_widgets es i (Suc k)) ((e1 @ e2) @ ws)"
    using 1(3) 2(3) 3(3) by (simp add: row_widgets_def list_all2_appendI)
  moreover have "leaves_others h A h' A'"
    using leaves_others_trans [OF leaves_others_trans [OF 1(5) 2(5)] 3(4)] .
  ultimately show ?case using 3(2) by (metis append.assoc)
qed

section \<open>The two menus\<close>

definition main_widgets :: "widget list" where
  "main_widgets =
    [\<lparr>w_area = AABB (VEC2 242 80) (VEC2 540 108), w_asset = logo_xpm, w_offset = VEC2 0 0, w_size = VEC2 540 108, w_click = None\<rparr>,
     \<lparr>w_area = AABB (VEC2 311 340) (VEC2 402 97), w_asset = play_button_xpm, w_offset = VEC2 0 0, w_size = VEC2 402 97,
      w_click = Some spoof\<rparr>,
     \<lparr>w_area = AABB (VEC2 311 480) (VEC2 402 97), w_asset = leaderboard_button_xpm, w_offset = VEC2 0 0, w_size = VEC2 402 97,
      w_click = Some on_click_leaderboard\<rparr>,
     \<lparr>w_area = AABB (VEC2 311 620) (VEC2 402 97), w_asset = quit_button_xpm, w_offset = VEC2 0 0, w_size = VEC2 402 97,
      w_click = Some on_click_quit\<rparr>]"

definition board_header :: "widget list" where
  "board_header =
    [\<lparr>w_area = AABB (VEC2 102 (- 20)) (VEC2 800 150), w_asset = trophy_xpm, w_offset = VEC2 0 0, w_size = VEC2 300 300, w_click = None\<rparr>,
     \<lparr>w_area = AABB (VEC2 415 70) (VEC2 402 97), w_asset = leaderboard_button_xpm, w_offset = VEC2 0 0, w_size = VEC2 402 97,
      w_click = Some on_click_leaderboard\<rparr>]"

definition board_widgets :: "Leaderboard \<Rightarrow> widget list" where
  "board_widgets lb = board_header @ rows_widgets (entries lb) 0 (entry_count lb)"

lemma Node_create_leaves:
  assumes "heap_ok h" "0 < avail h"
  shows "\<exists>a h' A'. Node_create h e = Ok (a, h') \<and> node_rep h' (Some a) A' [e] \<and> avail h' = avail h - 1 \<and>
    leaves_others h {} h' A'"
proof -
  have "node_rep h None {} []" using assms(1) by (simp add: node_rep_def holds_def)
  from Node_append_leaves [OF this assms(2), of e] obtain h' p' A' where
    n: "Node_append h None e = Ok (h', p')" "node_rep h' p' A' [e]" "avail h' = avail h - 1" "leaves_others h {} h' A'"
    by auto
  from n(1) obtain a where "Node_create h e = Ok (a, h')" "p' = Some a" by (auto simp: Node_append_def)
  with n(2-4) show ?thesis by blast
qed

lemma new_widget_element: "widget_sprite xpm_load w s \<Longrightarrow>
  realises xpm_load w (Some \<lparr>el_aabb = w_area w, el_sprite = Some s, on_click = w_click w\<rparr>)"
  by (simp add: realises_def)

lemma new_sprite_at:
  assumes "n + 4 \<le> avail h"
  shows "\<exists>s. new_sprite xpm_load raw (w_asset w) (w_offset w) (w_size w) (h\<lparr>avail := avail h - n\<rparr>) =
      Ok (Some s, h\<lparr>avail := avail h - (n + 4)\<rparr>) \<and> widget_sprite xpm_load w s"
proof -
  have "4 \<le> avail (h\<lparr>avail := avail h - n\<rparr>)" using assms by simp
  from new_sprite_ok [OF this, of xpm_load raw "w_asset w" "w_offset w" "w_size w"] show ?thesis by auto
qed

definition element_of :: "widget \<Rightarrow> Sprite \<Rightarrow> ui_element option" where
  "element_of w s = Some \<lparr>el_aabb = w_area w, el_sprite = Some s, on_click = w_click w\<rparr>"

lemma element_of_realises: "widget_sprite xpm_load w s \<Longrightarrow> realises xpm_load w (element_of w s)"
  by (simp add: realises_def element_of_def)

lemma Menu_create_main_menu_ok:
  assumes "heap_ok h" "25 \<le> avail h"
  shows "\<exists>m h' A xs. Menu_create_main_menu xpm_load raw h = Ok (m, h') \<and> node_rep h' (element m) A xs \<and>
    list_all2 (realises xpm_load) main_widgets xs \<and> avail h' = avail h - 25 \<and> leaves_others h {} h' A"
proof -
  let ?h = "\<lambda>n. h\<lparr>avail := avail h - n\<rparr>" and ?w = "\<lambda>i. main_widgets ! i"
  let ?new = "\<lambda>i n. new_sprite xpm_load raw (w_asset (?w i)) (w_offset (?w i)) (w_size (?w i)) (?h n)"
  have sprite: "\<exists>s. ?new i n = Ok (Some s, ?h (n + 4)) \<and> widget_sprite xpm_load (?w i) s" if "n + 4 \<le> avail h" for i n
    using new_sprite_at [OF that] .
  obtain s0 where s0: "?new 0 1 = Ok (Some s0, ?h (1 + 4))" "widget_sprite xpm_load (?w 0) s0" using sprite [of 1 0] assms(2) by auto
  obtain s1 where s1: "?new 1 6 = Ok (Some s1, ?h (6 + 4))" "widget_sprite xpm_load (?w 1) s1" using sprite [of 6 1] assms(2) by auto
  obtain s2 where s2: "?new 2 10 = Ok (Some s2, ?h (10 + 4))" "widget_sprite xpm_load (?w 2) s2" using sprite [of 10 2] assms(2) by auto
  obtain s3 where s3: "?new 3 14 = Ok (Some s3, ?h (14 + 4))" "widget_sprite xpm_load (?w 3) s3" using sprite [of 14 3] assms(2) by auto
  let ?e = "\<lambda>i. element_of (?w i)"
  have "heap_ok (?h 21)" "0 < avail (?h 21)" using assms by (simp_all add: heap_ok_def)
  from Node_create_leaves [OF this, of "?e 0 s0"] obtain a h1 A1 where
    n: "Node_create (?h 21) (?e 0 s0) = Ok (a, h1)" "node_rep h1 (Some a) A1 [?e 0 s0]" "avail h1 = avail h - 22"
      "leaves_others h {} h1 A1" by auto
  have "length [?e 1 s1, ?e 2 s2, ?e 3 s3] \<le> avail h1" using n(3) assms(2) by simp
  from nodes.append_all_rep [OF n(2) this] obtain h' p' A' where
    r: "append_all Node_append h1 (Some a) [?e 1 s1, ?e 2 s2, ?e 3 s3] = Ok (h', p')"
      "node_rep h' p' A' ([?e 0 s0] @ [?e 1 s1, ?e 2 s2, ?e 3 s3])"
      "avail h' = avail h1 - length [?e 1 s1, ?e 2 s2, ?e 3 s3]" "leaves_others h1 A1 h' A'"
    unfolding leaves_others_def by blast
  have "Menu_create_main_menu xpm_load raw h = Ok (\<lparr>element = p'\<rparr>, h')"
    using assms(2) s0(1) s1(1) s2(1) s3(1) n(1) r(1)
    by (simp add: Menu_create_main_menu_def new_menu_def new_element_ok main_widgets_def element_of_def)
  moreover have "list_all2 (realises xpm_load) main_widgets ([?e 0 s0] @ [?e 1 s1, ?e 2 s2, ?e 3 s3])"
    using s0(2) s1(2) s2(2) s3(2) by (simp add: main_widgets_def element_of_realises)
  moreover have "avail h' = avail h - 25" using n(3) r(3) by simp
  ultimately show ?thesis using r(2) leaves_others_trans [OF n(4) r(4)]
    by (intro exI [of _ "\<lparr>element = p'\<rparr>"] exI [of _ h'] exI [of _ A']) auto
qed

lemma Menu_create_leaderboard_ok:
  assumes "heap_ok h" "13 + 204 * entry_count lb \<le> avail h" "board_fits lb"
  shows "\<exists>m h' A xs. Menu_create_leaderboard xpm_load raw lb h = Ok (m, h') \<and> node_rep h' (element m) A xs \<and>
    list_all2 (realises xpm_load) (board_widgets lb) xs \<and> leaves_others h {} h' A"
proof -
  let ?h = "\<lambda>n. h\<lparr>avail := avail h - n\<rparr>" and ?w = "\<lambda>i. board_header ! i"
  let ?new = "\<lambda>i n. new_sprite xpm_load raw (w_asset (?w i)) (w_offset (?w i)) (w_size (?w i)) (?h n)"
  have sprite: "\<exists>s. ?new i n = Ok (Some s, ?h (n + 4)) \<and> widget_sprite xpm_load (?w i) s" if "n + 4 \<le> avail h" for i n
    using new_sprite_at [OF that] .
  obtain s0 where s0: "?new 0 1 = Ok (Some s0, ?h (1 + 4))" "widget_sprite xpm_load (?w 0) s0" using sprite [of 1 0] assms(2) by auto
  obtain s1 where s1: "?new 1 6 = Ok (Some s1, ?h (6 + 4))" "widget_sprite xpm_load (?w 1) s1" using sprite [of 6 1] assms(2) by auto
  let ?e = "\<lambda>i. element_of (?w i)"
  have "heap_ok (?h 11)" "0 < avail (?h 11)" using assms by (simp_all add: heap_ok_def)
  from Node_create_leaves [OF this, of "?e 0 s0"] obtain a h1 A1 where
    n: "Node_create (?h 11) (?e 0 s0) = Ok (a, h1)" "node_rep h1 (Some a) A1 [?e 0 s0]" "avail h1 = avail h - 12"
      "leaves_others h {} h1 A1" by auto
  have "0 < avail h1" using n(3) assms(2) by simp
  from Node_append_leaves [OF n(2) this, of "?e 1 s1"] obtain h2 p2 A2 where
    r: "Node_append h1 (Some a) (?e 1 s1) = Ok (h2, p2)" "node_rep h2 p2 A2 [?e 0 s0, ?e 1 s1]" "avail h2 = avail h1 - 1"
      "leaves_others h1 A1 h2 A2" by auto
  have room: "204 * entry_count lb \<le> avail h2" "0 + entry_count lb \<le> length (entries lb)"
      "\<forall>j < 0 + entry_count lb. date_fits (time_entry (entries lb ! j))"
    using n(3) r(3) assms(2,3) by (simp_all add: board_fits_def)
  have "node_rep h2 (element \<lparr>element = p2\<rparr>) A2 [?e 0 s0, ?e 1 s1]" using r(2) by simp
  from leaderboard_rows_ok [OF this room(2,1,3), of xpm_load raw] obtain m h' A ws where
    q: "leaderboard_rows xpm_load raw (entries lb) 0 (entry_count lb) \<lparr>element = p2\<rparr> h2 = Ok (m, h')"
      "node_rep h' (element m) A ([?e 0 s0, ?e 1 s1] @ ws)"
      "list_all2 (realises xpm_load) (rows_widgets (entries lb) 0 (entry_count lb)) ws" "leaves_others h2 A2 h' A"
    by blast
  have "Menu_create_leaderboard xpm_load raw lb h = Ok (m, h')"
    using assms(2) s0(1) s1(1) n(1) r(1) q(1)
    by (simp add: Menu_create_leaderboard_def new_menu_def new_element_ok board_header_def element_of_def)
  moreover have "list_all2 (realises xpm_load) (board_widgets lb) ([?e 0 s0, ?e 1 s1] @ ws)"
    unfolding board_widgets_def using s0(2) s1(2) q(3)
    by (intro list_all2_appendI) (simp_all add: board_header_def element_of_realises)
  ultimately show ?thesis
    using q(2) leaves_others_trans [OF leaves_others_trans [OF n(4) r(4)] q(4)] by blast
qed

section \<open>The pixmaps\<close>

text \<open>Columns and rows of the pixmaps, from the first string of each.\<close>

definition block_dims :: "int \<times> int" where "block_dims = (64, 128)"
definition player_dims :: "int \<times> int" where "player_dims = (64, 64)"
definition mouse_dims :: "int \<times> int" where "mouse_dims = (58, 42)"
definition logo_dims :: "int \<times> int" where "logo_dims = (540, 108)"
definition play_button_dims :: "int \<times> int" where "play_button_dims = (402, 97)"
definition leaderboard_button_dims :: "int \<times> int" where "leaderboard_button_dims = (402, 97)"
definition quit_button_dims :: "int \<times> int" where "quit_button_dims = (402, 97)"
definition trophy_dims :: "int \<times> int" where "trophy_dims = (300, 300)"
definition alphabet_dims :: "int \<times> int" where "alphabet_dims = (44, 3486)"

lemmas dims_defs = block_dims_def player_dims_def mouse_dims_def logo_dims_def play_button_dims_def
  leaderboard_button_dims_def quit_button_dims_def trophy_dims_def alphabet_dims_def

fun xpm_dims :: "asset \<Rightarrow> int \<times> int" where
  "xpm_dims block_xpm = block_dims"
| "xpm_dims player_xpm = player_dims"
| "xpm_dims mouse_xpm = mouse_dims"
| "xpm_dims logo_xpm = logo_dims"
| "xpm_dims play_button_xpm = play_button_dims"
| "xpm_dims leaderboard_button_xpm = leaderboard_button_dims"
| "xpm_dims quit_button_xpm = quit_button_dims"
| "xpm_dims trophy_xpm = trophy_dims"
| "xpm_dims alphabet_sprites = alphabet_dims"

text \<open>The documented behaviour of \<open>xpm_load\<close> on a valid pixmap in indexed mode: an image of the pixmap's columns and
  rows with one byte per pixel, whose address is returned.\<close>

definition loader_ok :: "loader \<Rightarrow> bool" where
  "loader_ok xpm_load \<longleftrightarrow> (\<forall>a. case xpm_load a of (colors, im) \<Rightarrow> img_type im = XPM_INDEXED \<and> colors = Some (img_bytes im) \<and>
     uint (img_width im) = fst (xpm_dims a) \<and> uint (img_height im) = snd (xpm_dims a) \<and>
     int (length (img_bytes im)) = fst (xpm_dims a) * snd (xpm_dims a))"

definition widget_fits :: "widget \<Rightarrow> bool" where
  "widget_fits w \<longleftrightarrow> 0 \<le> vx (w_offset w) \<and> 0 \<le> vy (w_offset w) \<and> 0 \<le> vx (w_size w) \<and> 0 \<le> vy (w_size w) \<and>
     vx (w_offset w) + vx (w_size w) \<le> fst (xpm_dims (w_asset w)) \<and>
     vy (w_offset w) + vy (w_size w) \<le> snd (xpm_dims (w_asset w)) \<and> vx (w_size w) \<le> 540 \<and> vy (w_size w) \<le> 300 \<and>
     - 20 \<le> vx (position (w_area w)) \<and> vx (position (w_area w)) \<le> 1024 \<and>
     - 20 \<le> vy (position (w_area w)) \<and> vy (position (w_area w)) \<le> 1024 \<and>
     0 \<le> vx (size_of (w_area w)) \<and> vx (size_of (w_area w)) \<le> 1024 \<and> 0 \<le> vy (size_of (w_area w)) \<and> vy (size_of (w_area w)) \<le> 1024"

text \<open>Screens of the sizes in question.\<close>

definition screen_ok :: "gpu \<Rightarrow> bool" where
  "screen_ok g \<longleftrightarrow> indexed_ok g \<and> 540 \<le> malloc_max g \<and> X_RES g \<le> 64000 \<and> Y_RES g \<le> 64000"

lemma screen_ok_redrawn: "redrawn g g' \<Longrightarrow> screen_ok g' = screen_ok g"
  using redrawn_indexed_ok [of g g'] redrawn_fields [of g g'] by (simp add: screen_ok_def)

lemma loader_okD:
  assumes "loader_ok xpm_load" "xpm_load a = (colors, im)"
  shows "img_type im = XPM_INDEXED" "colors = Some (img_bytes im)" "uint (img_width im) = fst (xpm_dims a)"
    "uint (img_height im) = snd (xpm_dims a)" "int (length (img_bytes im)) = fst (xpm_dims a) * snd (xpm_dims a)"
  using assms(1) [unfolded loader_ok_def, rule_format, of a] assms(2) by auto

lemma realises_ok:
  assumes "loader_ok xpm_load" "screen_ok g" "widget_fits w" "realises xpm_load w e"
  shows "element_ok g e"
proof -
  from assms(4) obtain s where s: "e = Some \<lparr>el_aabb = w_area w, el_sprite = Some s, on_click = w_click w\<rparr>" "widget_sprite xpm_load w s"
    by (auto simp: realises_def)
  obtain colors im where im: "xpm_load (w_asset w) = (colors, im)" by (cases "xpm_load (w_asset w)")
  note im_ok = loader_okD [OF assms(1) im]
  have "frame_ok im (w_offset w) (w_size w)" using assms(3) im_ok by (simp add: frame_ok_def widget_fits_def)
  then have "sprite_ok (malloc_max g) s"
    using s(2) im im_ok(1) assms(2,3) by (auto simp: sprite_ok_def widget_sprite_def widget_fits_def screen_ok_def)
  moreover have "near_screen g (position (w_area w))" using assms(2,3) by (simp add: near_screen_def widget_fits_def screen_ok_def)
  ultimately show ?thesis using s assms(3) by (simp add: element_ok_def widget_sprite_def widget_fits_def)
qed

lemma list_realises_ok:
  assumes "loader_ok xpm_load" "screen_ok g" "list_all widget_fits ws" "list_all2 (realises xpm_load) ws xs"
  shows "list_all (element_ok g) xs"
  using assms(4,3) by (induction rule: list_all2_induct) (auto intro: realises_ok [OF assms(1,2)])

lemma main_widgets_fit: "list_all widget_fits main_widgets"
  by (simp add: main_widgets_def widget_fits_def dims_defs)

lemma char_index_bounds: "char_index c = Some i \<Longrightarrow> 0 \<le> i \<and> i \<le> 41"
  by (auto simp: char_index_def Let_def split: if_splits)

lemma calculate_char_coord_fits:
  "cs_x (calculate_char_coord c) = 0" "0 \<le> cs_y (calculate_char_coord c)" "0 \<le> cs_width (calculate_char_coord c)"
  "cs_width (calculate_char_coord c) \<le> fst alphabet_dims" "0 \<le> cs_height (calculate_char_coord c)"
  "cs_y (calculate_char_coord c) + cs_height (calculate_char_coord c) \<le> snd alphabet_dims"
  "cs_height (calculate_char_coord c) \<le> 83"
  using char_index_bounds [of c]
  by (auto simp: calculate_char_coord_def c_consts alphabet_dims_def split: option.splits)

lemma text_widgets_fit:
  assumes "0 \<le> x" "x + 44 * int (length str) \<le> 1024" "0 \<le> y" "y \<le> 1024"
  shows "list_all widget_fits (text_widgets str x y)"
  using assms(1,2)
proof (induction str arbitrary: x)
  case Nil
  then show ?case by simp
next
  case (Cons c str)
  let ?w = "cs_width (calculate_char_coord c)"
  have w: "0 \<le> ?w" "?w \<le> 44" using calculate_char_coord_fits [of c] by (simp_all add: alphabet_dims_def)
  then have "list_all widget_fits (text_widgets str (x + ?w) y)" using Cons by auto
  moreover have "widget_fits (glyph c x y)"
    using calculate_char_coord_fits [of c] w Cons.prems assms(3,4) by (simp add: widget_fits_def glyph_def Let_def)
  ultimately show ?case by simp
qed

lemma rows_widgets_fit:
  assumes "i + k \<le> 3"
  shows "list_all widget_fits (rows_widgets es i k)"
  using assms
proof (induction k arbitrary: i)
  case 0
  then show ?case by simp
next
  case (Suc k)
  have "list_all widget_fits (row_widgets i (es ! i))"
    using Suc.prems length_snprintf [of 15 "first_line_text i (es ! i)"] length_snprintf [of 21 "second_line_text (es ! i)"]
    by (auto simp: row_widgets_def intro!: text_widgets_fit)
  with Suc show ?case by simp
qed

lemma board_widgets_fit: "entry_count lb \<le> 3 \<Longrightarrow> list_all widget_fits (board_widgets lb)"
  by (simp add: board_widgets_def rows_widgets_fit) (simp add: board_header_def widget_fits_def dims_defs)

section \<open>Properties of the menus\<close>

text \<open>Every character has a glyph that lies inside the alphabet sheet, and two different characters that have a glyph at
  all have different ones.\<close>

theorem calculate_char_coord_in_sheet:
  "cs_x (calculate_char_coord c) + cs_width (calculate_char_coord c) \<le> fst alphabet_dims \<and>
   0 \<le> cs_y (calculate_char_coord c) \<and>
   cs_y (calculate_char_coord c) + cs_height (calculate_char_coord c) \<le> snd alphabet_dims \<and>
   (cs_width (calculate_char_coord c) \<noteq> 0 \<and> calculate_char_coord c = calculate_char_coord d \<longrightarrow> c = d)"
proof -
  have "c = d" if "char_index c = Some i" "char_index d = Some i" for i
  proof -
    have "of_char c = (of_char d :: nat)"
      using that by (auto simp: char_index_def Let_def split: if_splits)
    then show ?thesis by simp
  qed
  then have "cs_width (calculate_char_coord c) \<noteq> 0 \<and> calculate_char_coord c = calculate_char_coord d \<longrightarrow> c = d"
    by (auto simp: calculate_char_coord_def c_consts split: option.splits)
  then show ?thesis using calculate_char_coord_fits [of c] by simp
qed

text \<open>With memory for its 25 allocations, \<open>Menu_create_main_menu\<close> builds a menu whose list holds exactly the logo and the
  play, leaderboard and quit buttons, in this order, with their boxes, frames and callbacks, and touches no other list.\<close>

theorem Menu_create_main_menu_correct:
  assumes "heap_ok h" "25 \<le> avail h"
  shows "\<exists>m h' A xs. Menu_create_main_menu xpm_load raw h = Ok (m, h') \<and> node_rep h' (element m) A xs \<and>
    list_all2 (realises xpm_load) main_widgets xs \<and>
    (\<forall>q B ys. node_rep h q B ys \<longrightarrow> node_rep h' q B ys \<and> A \<inter> B = {})"
  using Menu_create_main_menu_ok [OF assms, of xpm_load raw] unfolding leaves_others_def by (metis Int_empty_left)

text \<open>With enough memory, \<open>Menu_create_leaderboard\<close> builds the header and, for each of its entries, the two lines of text,
  one glyph per character, placed one after the other.\<close>

theorem Menu_create_leaderboard_correct:
  assumes "heap_ok h" "13 + 204 * entry_count lb \<le> avail h" "board_fits lb"
  shows "\<exists>m h' A xs. Menu_create_leaderboard xpm_load raw lb h = Ok (m, h') \<and> node_rep h' (element m) A xs \<and>
    list_all2 (realises xpm_load) (board_widgets lb) xs \<and>
    (\<forall>q B ys. node_rep h q B ys \<longrightarrow> node_rep h' q B ys \<and> A \<inter> B = {})"
  using Menu_create_leaderboard_ok [OF assms, of xpm_load raw] unfolding leaves_others_def by (metis Int_empty_left)

text \<open>C14: drawing a menu of sound elements succeeds, paints the elements in list order, and leaves the list with the
  same boxes and callbacks, still sound.\<close>

theorem Menu_draw_paints:
  assumes "node_rep h (element m) A xs" "list_all (element_ok g) xs" "indexed_ok g"
  shows "\<exists>h' g' xs'. Menu_draw (Some m) h g = Ok (h', g') \<and> indexed_ok g' \<and>
    (\<forall>a b. on_screen g a b \<longrightarrow> pixel g' a b = (case menu_picture xs a b of None \<Rightarrow> pixel g a b | Some c \<Rightarrow> c)) \<and>
    node_rep h' (element m) A xs' \<and> list_all (element_ok g') xs' \<and> shape xs' = shape xs"
proof -
  from Menu_draw_painted [OF assms] obtain h' g' xs' where
    d: "Menu_draw (Some m) h g = Ok (h', g')" "painted g (menu_picture xs) g'" "node_rep h' (element m) A xs'"
      "list_all (element_ok g) xs'" "shape xs' = shape xs"
    by blast
  moreover have "indexed_ok g'" "\<And>e. element_ok g' e = element_ok g e"
    using screen.painted_ready [OF d(2) assms(3)] element_ok_redrawn [OF painted_redrawn [OF d(2)]] by blast+
  ultimately show ?thesis by (auto simp: painted_def list_all_iff)
qed

lemma length_padded2: "n < 100 \<Longrightarrow> length (show_padded 2 n) = 2"
  using length_show_nat [of 2 n] by (simp add: show_padded_def)

lemma length_padded4: "n < 10000 \<Longrightarrow> length (show_padded 4 n) = 4"
  using length_show_nat [of 4 n] by (simp add: show_padded_def)

definition clock_ok :: "rtc_date_time \<Rightarrow> bool" where
  "clock_ok d \<longleftrightarrow> rtc_hours d < 100 \<and> rtc_minutes d < 100 \<and> rtc_seconds d < 100"

lemma length_hms: "clock_ok d \<Longrightarrow> length (hms d) = 8"
  by (simp add: hms_def clock_ok_def length_padded2 word_less_nat_alt)

lemma unix_clock_ok: "clock_ok (utc_date t d)"
  using utc_bounds [of t] uint_u8 [of "tm_hour (utc_time t)"] uint_u8 [of "tm_min (utc_time t)"] uint_u8 [of "tm_sec (utc_time t)"]
  by (simp add: clock_ok_def utc_date_def word_less_def)

text \<open>The two line buffers are large enough: neither line of an entry with a name of at most three characters and a
  date with a four-digit year is cut off by \<open>snprintf\<close>.\<close>

theorem leaderboard_lines_not_truncated:
  assumes "i < 9" "length (entry_name e) \<le> 3"
    "rtc_day (dt_of_entry e) < 100" "rtc_month (dt_of_entry e) < 100" "rtc_year (dt_of_entry e) < 10000" "clock_ok (dt_of_entry e)"
  shows "snprintf 15 (first_line_text i e) = first_line_text i e \<and> snprintf 21 (second_line_text e) = second_line_text e"
proof -
  have "length (show_nat (i + 1)) \<le> 1" using length_show_nat [of 1 "i + 1"] assms(1) by simp
  then have "length (first_line_text i e) \<le> 14"
    using assms(2) length_hms [OF unix_clock_ok] by (simp add: first_line_text_def first_line_format_def)
  moreover have "length (second_line_text e) \<le> 20"
    using assms(3-5) length_hms [OF assms(6)]
    by (simp add: second_line_text_def Let_def length_padded2 length_padded4 word_less_nat_alt)
  ultimately show ?thesis by (simp add: snprintf_def)
qed

section \<open>Concrete instances\<close>

definition black :: "int \<Rightarrow> u8 list" where
  "black n = replicate (nat n) 0"

lemma length_black [simp]: "length (black n) = nat n"
  by (simp add: black_def)

text \<open>The screen in mode 0x105, and a loader that gives every pixmap in black.\<close>

definition mode105_gpu :: gpu where
  "mode105_gpu = (gpu_start 100000)\<lparr>gpu_res_info := \<lparr>x_res = 1024, y_res = 768\<rparr>, bits_per_pixel := 8, bytes_per_pixel := 1,
     vram_size := 786432, video_mem := black 786432, backbuffer := black 786432\<rparr>"

definition black_loader :: loader where
  "black_loader a = (case xpm_dims a of (w, h) \<Rightarrow> (Some (black (w * h)),
     \<lparr>img_type = XPM_INDEXED, img_width = word_of_int w, img_height = word_of_int h, img_bytes = black (w * h)\<rparr>))"

definition raw_sprite :: Sprite where
  "raw_sprite = \<lparr>img = None, offsets = [], sizes = [], framesc = 0, delay = 0, current_frame = 0, current_delay = 0, transparent = False\<rparr>"

lemma mode105_fields [simp]:
  "gpu_res_info mode105_gpu = \<lparr>x_res = 1024, y_res = 768\<rparr>" "bytes_per_pixel mode105_gpu = 1" "vram_size mode105_gpu = 786432"
  "backbuffer mode105_gpu = black 786432" "video_mem mode105_gpu = black 786432" "malloc_max mode105_gpu = 100000"
  by (simp_all add: mode105_gpu_def gpu_start_def)

lemma mode105_screen_ok: "screen_ok mode105_gpu"
  by (simp add: screen_ok_def indexed_ok_def gpu_ok_def)

lemma black_loader_ok: "loader_ok black_loader"
proof (unfold loader_ok_def, rule allI)
  fix a
  show "case black_loader a of (colors, im) \<Rightarrow> img_type im = XPM_INDEXED \<and> colors = Some (img_bytes im) \<and>
     uint (img_width im) = fst (xpm_dims a) \<and> uint (img_height im) = snd (xpm_dims a) \<and>
     int (length (img_bytes im)) = fst (xpm_dims a) * snd (xpm_dims a)"
    by (cases a) (simp_all add: black_loader_def dims_defs)
qed

lemma heap_start_ok: "heap_ok (heap_start n)"
  by (simp add: heap_ok_def heap_start_def)

lemma sample_board_fits: "board_fits sample_board"
  by (simp add: board_fits_def sample_board_def sample_entry_def date_fits_def less_Suc_eq numeral_eq_Suc)

theorem calculate_char_coord_in_sheet_witness:
  "calculate_char_coord (CHR ''7'') \<noteq> calculate_char_coord (CHR ''A'')"
proof -
  have "cs_width (calculate_char_coord (CHR ''7'')) \<noteq> 0"
    by (simp add: calculate_char_coord_def char_index_def c_consts)
  then show ?thesis using calculate_char_coord_in_sheet [of "CHR ''7''" "CHR ''A''"] by auto
qed

theorem Menu_create_main_menu_correct_witness:
  "\<exists>m h' A xs. Menu_create_main_menu black_loader (\<lambda>_. raw_sprite) (heap_start 25) = Ok (m, h') \<and>
    node_rep h' (element m) A xs \<and> list_all2 (realises black_loader) main_widgets xs"
proof -
  have "25 \<le> avail (heap_start 25)" by (simp add: heap_start_def)
  from Menu_create_main_menu_correct [OF heap_start_ok this, of black_loader "\<lambda>_. raw_sprite"] show ?thesis by blast
qed

theorem Menu_create_leaderboard_correct_witness:
  "\<exists>m h' A xs. Menu_create_leaderboard black_loader (\<lambda>_. raw_sprite) sample_board (heap_start 1000) = Ok (m, h') \<and>
    node_rep h' (element m) A xs \<and> list_all2 (realises black_loader) (board_widgets sample_board) xs"
proof -
  have "13 + 204 * entry_count sample_board \<le> avail (heap_start 1000)" by (simp add: heap_start_def sample_board_def)
  from Menu_create_leaderboard_correct [OF heap_start_ok this sample_board_fits, of black_loader "\<lambda>_. raw_sprite"] show ?thesis by blast
qed

theorem Menu_draw_paints_witness:
  "\<exists>m h xs h' g'. Menu_create_main_menu black_loader (\<lambda>_. raw_sprite) (heap_start 25) = Ok (m, h) \<and>
    list_all2 (realises black_loader) main_widgets xs \<and> Menu_draw (Some m) h mode105_gpu = Ok (h', g') \<and>
    (\<forall>a b. on_screen mode105_gpu a b \<longrightarrow> pixel g' a b = (case menu_picture xs a b of None \<Rightarrow> pixel mode105_gpu a b | Some c \<Rightarrow> c))"
proof -
  have "25 \<le> avail (heap_start 25)" by (simp add: heap_start_def)
  from Menu_create_main_menu_ok [OF heap_start_ok this, of black_loader "\<lambda>_. raw_sprite"] obtain m h A xs where
    m: "Menu_create_main_menu black_loader (\<lambda>_. raw_sprite) (heap_start 25) = Ok (m, h)" "node_rep h (element m) A xs"
      "list_all2 (realises black_loader) main_widgets xs"
    by blast
  have "list_all (element_ok mode105_gpu) xs"
    by (rule list_realises_ok [OF black_loader_ok mode105_screen_ok main_widgets_fit m(3)])
  moreover have "indexed_ok mode105_gpu" using mode105_screen_ok by (simp add: screen_ok_def)
  ultimately show ?thesis using Menu_draw_paints [OF m(2)] m(1,3) by blast
qed

theorem leaderboard_lines_not_truncated_witness:
  "snprintf 15 (first_line_text 2 (sample_entry ''ZE'' 60)) = first_line_text 2 (sample_entry ''ZE'' 60)"
  using leaderboard_lines_not_truncated [of 2 "sample_entry ''ZE'' 60"]
  by (simp add: sample_entry_def dt_zero_def clock_ok_def)

end
