(* ===== verification/Gamestate.thy ===== *)
theory Gamestate
  imports Menu
begin

text \<open>
  The game state manager, \<open>gamestate/gamestate_manager.c\<close>: the state of the game, the two menus and the current
  one.  The lemmas show that the current menu always belongs to the state, and what initialisation builds.
\<close>

datatype GAMESTATE = GS_MAIN | GS_LEVEL | GS_LEADERBOARD | GS_QUIT

record gamestate =
  gs_state :: GAMESTATE
  gs_level :: int
  current_menu :: "Menu option"
  main_menu :: "Menu option"
  leaderboard_menu :: "Menu option"

definition gamestate_start :: gamestate where
  "gamestate_start = \<lparr>gs_state = GS_MAIN, gs_level = 0, current_menu = None, main_menu = None, leaderboard_menu = None\<rparr>"

definition Gamestate_change :: "GAMESTATE \<Rightarrow> gamestate \<Rightarrow> gamestate" where
  "Gamestate_change st gs =
     (case st of
        GS_MAIN \<Rightarrow> gs\<lparr>gs_state := st, current_menu := main_menu gs\<rparr>
      | GS_LEADERBOARD \<Rightarrow> gs\<lparr>gs_state := st, current_menu := leaderboard_menu gs\<rparr>
      | _ \<Rightarrow> gs\<lparr>gs_state := st\<rparr>)"

definition Gamestate_get_current_menu :: "gamestate \<Rightarrow> Menu option" where
  "Gamestate_get_current_menu gs =
     (if gs_state gs = GS_MAIN then current_menu gs
      else if gs_state gs = GS_LEADERBOARD then current_menu gs
      else None)"

definition Gamestate_get_state :: "gamestate \<Rightarrow> GAMESTATE" where
  "Gamestate_get_state gs = gs_state gs"

definition Gamestate_main_menu :: "gamestate \<Rightarrow> gamestate" where
  "Gamestate_main_menu = Gamestate_change GS_MAIN"

definition Gamestate_leaderboard :: "gamestate \<Rightarrow> gamestate" where
  "Gamestate_leaderboard = Gamestate_change GS_LEADERBOARD"

definition Gamestate_quit :: "gamestate \<Rightarrow> gamestate" where
  "Gamestate_quit = Gamestate_change GS_QUIT"

text \<open>The functions the callbacks stand for.\<close>

fun run_callback :: "callback \<Rightarrow> gamestate \<Rightarrow> gamestate" where
  "run_callback spoof gs = gs"
| "run_callback on_click_leaderboard gs = Gamestate_leaderboard gs"
| "run_callback on_click_quit gs = Gamestate_quit gs"

text \<open>\<open>file\<close> is the text of the leaderboard file, \<open>None\<close> if it cannot be opened, and \<open>theLeaderboard\<close> the contents of the
  uninitialised local; the status of the read is ignored.\<close>

definition Gamestate_init ::
  "loader \<Rightarrow> (nat \<Rightarrow> Sprite) \<Rightarrow> string option \<Rightarrow> Leaderboard \<Rightarrow> gamestate \<Rightarrow> ui_heap \<Rightarrow> (gamestate \<times> ui_heap) outcome" where
  "Gamestate_init xpm_load raw file theLeaderboard gs h =
     obind (Menu_create_main_menu xpm_load raw h) (\<lambda>(m, h).
     let gs = gs\<lparr>main_menu := Some m\<rparr> in
     obind (Leaderboard_read_file file theLeaderboard) (\<lambda>(_, theLeaderboard).
     obind (Menu_create_leaderboard xpm_load raw theLeaderboard h) (\<lambda>(m, h).
     let gs = gs\<lparr>leaderboard_menu := Some m\<rparr> in
     Ok (Gamestate_main_menu gs, h))))"

section \<open>Invariant\<close>

definition gamestate_ok :: "gamestate \<Rightarrow> bool" where
  "gamestate_ok gs \<longleftrightarrow> main_menu gs \<noteq> None \<and> leaderboard_menu gs \<noteq> None \<and>
     (gs_state gs = GS_MAIN \<longrightarrow> current_menu gs = main_menu gs) \<and>
     (gs_state gs = GS_LEADERBOARD \<longrightarrow> current_menu gs = leaderboard_menu gs)"

lemma Gamestate_change_ok: "gamestate_ok gs \<Longrightarrow> gamestate_ok (Gamestate_change st gs)"
  by (cases st) (simp_all add: gamestate_ok_def Gamestate_change_def)

lemma Gamestate_change_menus [simp]:
  "main_menu (Gamestate_change st gs) = main_menu gs" "leaderboard_menu (Gamestate_change st gs) = leaderboard_menu gs"
  "gs_state (Gamestate_change st gs) = st"
  by (cases st; simp add: Gamestate_change_def)+

lemmas gamestate_changes = Gamestate_main_menu_def Gamestate_leaderboard_def Gamestate_quit_def

lemma run_callback_ok: "gamestate_ok gs \<Longrightarrow> gamestate_ok (run_callback f gs)"
  by (cases f) (simp_all add: gamestate_changes Gamestate_change_ok)

lemma run_callback_menus [simp]:
  "main_menu (run_callback f gs) = main_menu gs" "leaderboard_menu (run_callback f gs) = leaderboard_menu gs"
  by (cases f; simp add: gamestate_changes)+

text \<open>Both menus are lists of sound elements with nodes of their own; the main menu is laid out as \<open>main_widgets\<close>, the other as \<open>board_widgets\<close>
  of some leaderboard.\<close>

definition menus_ok :: "gpu \<Rightarrow> gamestate \<Rightarrow> ui_heap \<Rightarrow> bool" where
  "menus_ok g gs h \<longleftrightarrow> (\<exists>m l A B xs ys. main_menu gs = Some m \<and> leaderboard_menu gs = Some l \<and>
     node_rep h (element m) A xs \<and> node_rep h (element l) B ys \<and> A \<inter> B = {} \<and> shape xs = widgets_shape main_widgets \<and>
     (\<exists>board. shape ys = widgets_shape (board_widgets board)) \<and> list_all (element_ok g) xs \<and> list_all (element_ok g) ys)"

lemma menus_okI:
  "main_menu gs = Some m \<Longrightarrow> leaderboard_menu gs = Some l \<Longrightarrow> node_rep h (element m) A xs \<Longrightarrow> node_rep h (element l) B ys \<Longrightarrow>
    A \<inter> B = {} \<Longrightarrow> shape xs = widgets_shape main_widgets \<Longrightarrow> shape ys = widgets_shape (board_widgets board) \<Longrightarrow>
    list_all (element_ok g) xs \<Longrightarrow> list_all (element_ok g) ys \<Longrightarrow> menus_ok g gs h"
  unfolding menus_ok_def by blast

lemma Gamestate_init_ok:
  assumes h: "heap_ok h" "650 \<le> avail h" and load: "loader_ok xpm_load" and g: "screen_ok g"
    and read: "Leaderboard_read_file file lb0 = Ok (r, lb)" and lb: "board_fits lb"
  shows "\<exists>gs' h'. Gamestate_init xpm_load raw file lb0 gs h = Ok (gs', h') \<and> gamestate_ok gs' \<and> gs_state gs' = GS_MAIN \<and>
    menus_ok g gs' h'"
proof -
  have "25 \<le> avail h" using h(2) by simp
  from Menu_create_main_menu_ok [OF h(1) this, of xpm_load raw] obtain m h1 A xs where
    m: "Menu_create_main_menu xpm_load raw h = Ok (m, h1)" "node_rep h1 (element m) A xs"
      "list_all2 (realises xpm_load) main_widgets xs" "avail h1 = avail h - 25"
    by blast
  have "heap_ok h1" using m(2) by (auto simp: node_rep_def holds_def)
  moreover have count: "entry_count lb \<le> 3" using lb by (simp add: board_fits_def)
  then have "13 + 204 * entry_count lb \<le> avail h1" using m(4) h(2) by simp
  ultimately obtain l h2 B ys where
    l: "Menu_create_leaderboard xpm_load raw lb h1 = Ok (l, h2)" "node_rep h2 (element l) B ys"
      "list_all2 (realises xpm_load) (board_widgets lb) ys" "leaves_others h1 {} h2 B"
    using Menu_create_leaderboard_ok [of h1 lb xpm_load raw] lb by blast
  have apart: "node_rep h2 (element m) A xs" "A \<inter> B = {}" using l(4) m(2) unfolding leaves_others_def by blast+
  have "list_all (element_ok g) xs" "list_all (element_ok g) ys"
    using list_realises_ok [OF load g main_widgets_fit m(3)] list_realises_ok [OF load g board_widgets_fit [OF count] l(3)] .
  moreover have "Gamestate_init xpm_load raw file lb0 gs h =
      Ok (Gamestate_main_menu (gs\<lparr>main_menu := Some m, leaderboard_menu := Some l\<rparr>), h2)"
    using m(1) l(1) read by (simp add: Gamestate_init_def Let_def)
  ultimately show ?thesis
    using menus_okI [OF _ _ apart(1) l(2) apart(2) realises_shape [OF m(3)] realises_shape [OF l(3)]]
    by (simp add: gamestate_ok_def Gamestate_main_menu_def Gamestate_change_def)
qed

end
