(* ===== verification/Keyboard_Manager.thy ===== *)
theory Keyboard_Manager
  imports Keyboard
begin

text \<open>
  The keyboard manager, \<open>input/keyboard_manager.c\<close>: translation of scancodes to keys and the table of pressed
  keys.  The lemmas show that the table follows the make and break codes of any sequence of key events.
\<close>

datatype KB_KEY = KB_ESC | KB_UP | KB_DOWN | KB_LEFT | KB_RIGHT | KB_INVALID

text \<open>The values of the enumeration; keys compare by them, as C's enumerators do.\<close>

fun key_value :: "KB_KEY \<Rightarrow> nat" where
  "key_value KB_ESC = 0"
| "key_value KB_UP = 1"
| "key_value KB_DOWN = 2"
| "key_value KB_LEFT = 3"
| "key_value KB_RIGHT = 4"
| "key_value KB_INVALID = 999"

lemma key_value_inject [simp]: "key_value a = key_value b \<longleftrightarrow> a = b"
  by (cases a; cases b) simp_all

instantiation KB_KEY :: linorder
begin

definition less_eq_KB_KEY :: "KB_KEY \<Rightarrow> KB_KEY \<Rightarrow> bool" where
  "less_eq_KB_KEY a b \<longleftrightarrow> key_value a \<le> key_value b"

definition less_KB_KEY :: "KB_KEY \<Rightarrow> KB_KEY \<Rightarrow> bool" where
  "less_KB_KEY a b \<longleftrightarrow> key_value a < key_value b"

instance
  by standard (auto simp: less_eq_KB_KEY_def less_KB_KEY_def)

end

record keyboard_mgr =
  double_width :: bool
  keys :: "bool list"

definition keyboard_mgr_start :: keyboard_mgr where
  "keyboard_mgr_start = \<lparr>double_width = False, keys = replicate 20 False\<rparr>"

text \<open>\<open>memset(keys, 0, sizeof(bool))\<close> clears one element.\<close>

definition Keyboard_init :: "keyboard_mgr \<Rightarrow> keyboard_mgr" where
  "Keyboard_init m = m\<lparr>keys := (keys m)[0 := False], double_width := False\<rparr>"

definition Keyboard_translate :: "u8 \<Rightarrow> bool \<Rightarrow> KB_KEY \<times> bool" where
  "Keyboard_translate scancode wide =
     (let is_make = \<not> flag scancode 0x80;
          code = (if \<not> is_make then scancode AND 0x7f else scancode)
      in (if wide
          then if code = 0x48 then KB_UP
               else if code = 0x4B then KB_LEFT
               else if code = 0x50 then KB_DOWN
               else if code = 0x4D then KB_RIGHT
               else KB_INVALID
          else if code = 0x01 then KB_ESC else KB_INVALID, is_make))"

text \<open>The part of \<open>Keyboard_handle\<close> after the scancode has been read.\<close>

definition keyboard_scancode :: "u8 \<Rightarrow> keyboard_mgr \<Rightarrow> keyboard_mgr" where
  "keyboard_scancode scancode m =
     (if scancode = 0xe0 \<and> \<not> double_width m then m\<lparr>double_width := True\<rparr>
      else case Keyboard_translate scancode (double_width m) of
             (key, is_make) \<Rightarrow>
               (if key \<noteq> KB_INVALID then m\<lparr>keys := (keys m)[key_value key := is_make]\<rparr> else m)\<lparr>double_width := False\<rparr>)"

text \<open>The status of the read is ignored: \<open>uninit\<close> is the value of the local \<open>scancode\<close> before it.\<close>

definition Keyboard_handle :: "kernel \<Rightarrow> u8 \<Rightarrow> keyboard_mgr \<times> trace \<Rightarrow> keyboard_mgr \<times> trace" where
  "Keyboard_handle K uninit = (\<lambda>(m, tr).
     case keyboard_read_scancode K uninit tr of ((ok, scancode), tr') \<Rightarrow> (keyboard_scancode scancode m, tr'))"

definition Keyboard_pressed :: "KB_KEY \<Rightarrow> keyboard_mgr \<Rightarrow> bool outcome" where
  "Keyboard_pressed key m = aread (keys m) (key_value key)"

section \<open>The table of keys\<close>

definition keyboard_ok :: "keyboard_mgr \<Rightarrow> bool" where
  "keyboard_ok m \<longleftrightarrow> length (keys m) = 20"

lemma keyboard_scancode_ok: "keyboard_ok m \<Longrightarrow> keyboard_ok (keyboard_scancode c m)"
  by (simp add: keyboard_ok_def keyboard_scancode_def split: prod.splits)

lemma Keyboard_handle_ok: "keyboard_ok m \<Longrightarrow> keyboard_ok (fst (Keyboard_handle K u (m, tr)))"
  by (simp add: Keyboard_handle_def keyboard_scancode_ok split: prod.splits)

lemma Keyboard_init_ok: "keyboard_ok m \<Longrightarrow> keyboard_ok (Keyboard_init m)"
  by (simp add: keyboard_ok_def Keyboard_init_def)

text \<open>The scancodes a keyboard sends for a key.\<close>

fun key_code :: "KB_KEY \<Rightarrow> u8" where
  "key_code KB_ESC = 0x01"
| "key_code KB_UP = 0x48"
| "key_code KB_DOWN = 0x50"
| "key_code KB_LEFT = 0x4B"
| "key_code KB_RIGHT = 0x4D"
| "key_code KB_INVALID = 0x7f"

definition key_event_codes :: "KB_KEY \<times> bool \<Rightarrow> u8 list" where
  "key_event_codes = (\<lambda>(k, is_make). (if k = KB_ESC then [] else [0xe0]) @ [if is_make then key_code k else key_code k + 0x80])"

text \<open>The abstract table: which keys are held down.\<close>

definition pressed_after :: "(KB_KEY \<times> bool) list \<Rightarrow> (KB_KEY \<Rightarrow> bool) \<Rightarrow> KB_KEY \<Rightarrow> bool" where
  "pressed_after evs s = fold (\<lambda>(k, is_make) s. s(k := is_make)) evs s"

definition table :: "keyboard_mgr \<Rightarrow> KB_KEY \<Rightarrow> bool" where
  "table m k = (k \<noteq> KB_INVALID \<and> keys m ! key_value k)"

lemma key_value_less: "k \<noteq> KB_INVALID \<Longrightarrow> key_value k < 20"
  by (cases k) simp_all

lemma Keyboard_translate_codes:
  "Keyboard_translate (if is_make then 0x01 else 0x01 + 0x80) False = (KB_ESC, is_make)"
  "k \<notin> {KB_ESC, KB_INVALID} \<Longrightarrow> Keyboard_translate (if is_make then key_code k else key_code k + 0x80) True = (k, is_make)"
  by (cases k; cases is_make; simp add: Keyboard_translate_def flag_def Let_def)+

lemma keyboard_event_step:
  assumes "keyboard_ok m" "\<not> double_width m" "k \<noteq> KB_INVALID"
  shows "fold keyboard_scancode (key_event_codes (k, is_make)) m = m\<lparr>keys := (keys m)[key_value k := is_make]\<rparr>"
proof (cases "k = KB_ESC")
  case True
  then show ?thesis
    using assms Keyboard_translate_codes(1) [of is_make]
    by (cases is_make) (simp_all add: key_event_codes_def keyboard_scancode_def)
next
  case False
  then have "Keyboard_translate (if is_make then key_code k else key_code k + 0x80) True = (k, is_make)"
    using Keyboard_translate_codes(2) assms(3) by simp
  with False assms show ?thesis
    by (simp add: key_event_codes_def keyboard_scancode_def)
qed

lemma table_update:
  assumes "keyboard_ok m" "k \<noteq> KB_INVALID"
  shows "table (m\<lparr>keys := (keys m)[key_value k := is_make]\<rparr>) = (table m)(k := is_make)"
proof
  fix j
  have "key_value k < length (keys m)" using assms key_value_less by (simp add: keyboard_ok_def)
  then show "table (m\<lparr>keys := (keys m)[key_value k := is_make]\<rparr>) j = ((table m)(k := is_make)) j"
    using assms(2) by (auto simp: table_def nth_list_update)
qed

text \<open>C28: for every sequence of key presses and releases, the manager that is fed the scancodes of these events, arrow keys with
  their prefix byte, ends with exactly the keys held down that the events say, and waits for no second byte.\<close>

theorem Keyboard_follows_events:
  assumes "keyboard_ok m" "\<not> double_width m" "\<forall>e \<in> set evs. fst e \<noteq> KB_INVALID"
  shows "\<exists>m'. fold keyboard_scancode (concat (map key_event_codes evs)) m = m' \<and> table m' = pressed_after evs (table m) \<and>
    \<not> double_width m' \<and> keyboard_ok m'"
  using assms
proof (induction evs arbitrary: m)
  case Nil
  then show ?case by (simp add: pressed_after_def)
next
  case (Cons e evs)
  obtain k is_make where e: "e = (k, is_make)" by (cases e)
  let ?m = "m\<lparr>keys := (keys m)[key_value k := is_make]\<rparr>"
  have "keyboard_ok ?m" "\<not> double_width ?m" using Cons.prems by (simp_all add: keyboard_ok_def)
  with Cons.IH [of ?m] Cons.prems e show ?case
    by (simp add: keyboard_event_step table_update pressed_after_def)
qed

theorem Keyboard_follows_events_witness:
  "table (fold keyboard_scancode [0xe0, 0x48, 0x01, 0xe0, 0xc8] keyboard_mgr_start) KB_UP = False \<and>
   table (fold keyboard_scancode [0xe0, 0x48, 0x01, 0xe0, 0xc8] keyboard_mgr_start) KB_ESC = True"
  using Keyboard_follows_events [of keyboard_mgr_start "[(KB_UP, True), (KB_ESC, True), (KB_UP, False)]"]
  by (simp add: keyboard_ok_def keyboard_mgr_start_def key_event_codes_def pressed_after_def)

end
