(* ===== verification/Mouse_Manager.thy ===== *)
theory Mouse_Manager
  imports Mouse Gamestate
begin

text \<open>
  The mouse manager, \<open>input/mouse_manager.c\<close>: the cursor's position and buttons, updated from the driver's packets, the
  search for the element under the cursor, clicks, and the drawing of the cursor.  The lemmas show that the cursor
  follows the device within the screen and that a click runs the callback of the first clickable element
  under it.
\<close>

datatype MOUSE_STATE = MOUSE_CLICK | MOUSE_NORMAL

fun mouse_state_value :: "MOUSE_STATE \<Rightarrow> u32" where
  "mouse_state_value MOUSE_CLICK = 0"
| "mouse_state_value MOUSE_NORMAL = 1"

datatype MOUSE_BUTTON = MOUSE_LB | MOUSE_MB | MOUSE_RB

fun mouse_button_value :: "MOUSE_BUTTON \<Rightarrow> nat" where
  "mouse_button_value MOUSE_LB = 0"
| "mouse_button_value MOUSE_MB = 1"
| "mouse_button_value MOUSE_RB = 2"

record mouse_mgr =
  mouse_pos :: vec2
  mouse_sprite :: "Sprite option"
  hidden :: bool
  buttons :: "bool list"
  prev_buttons :: "bool list"
  mouse_packet :: packet

definition mouse_mgr_start :: mouse_mgr where
  "mouse_mgr_start = \<lparr>mouse_pos = VEC2 0 0, mouse_sprite = None, hidden = False, buttons = [False, False, False],
     prev_buttons = [False, False, False], mouse_packet = packet_zero\<rparr>"

text \<open>The two \<open>memset\<close>s of \<open>sizeof(bool)\<close> bytes clear one element each.\<close>

definition Mouse_init :: "loader \<Rightarrow> (nat \<Rightarrow> Sprite) \<Rightarrow> mouse_mgr \<Rightarrow> ui_heap \<Rightarrow> (mouse_mgr \<times> ui_heap) outcome" where
  "Mouse_init xpm_load raw m h =
     obind (Sprite_create xpm_load (raw (avail h)) mouse_xpm [VEC2 0 0, VEC2 34 0] [VEC2 34 42, VEC2 24 38] 2 0 (avail h))
       (\<lambda>(sprite, mem).
         case sprite of
           None \<Rightarrow> Undefined
         | Some s \<Rightarrow>
             Ok (m\<lparr>mouse_pos := VEC2 0 0, hidden := False, buttons := (buttons m)[0 := False],
                   prev_buttons := (prev_buttons m)[0 := False],
                   mouse_sprite := Some (s\<lparr>current_frame := mouse_state_value MOUSE_NORMAL, transparent := True\<rparr>)\<rparr>,
                 h\<lparr>avail := mem\<rparr>))"

text \<open>\<open>Mouse_handle\<close> after the call of \<open>mouse_read_packet\<close>, whose status is ignored.\<close>

definition clamp :: "int \<Rightarrow> u16 \<Rightarrow> int" where
  "clamp v res = (let w = (if v > 0 then v else 0) in if w < uint res then w else uint res - 1)"

definition mouse_apply_packet :: "gpu \<Rightarrow> mouse_mgr \<times> mouse_drv \<Rightarrow> mouse_mgr \<times> mouse_drv" where
  "mouse_apply_packet g = (\<lambda>(m, d).
     if mouse_packet_ready d
     then case mouse_get_packet d of
            None \<Rightarrow> (m, d)
          | Some (p, d') \<Rightarrow>
              (m\<lparr>mouse_packet := p,
                 mouse_pos := VEC2 (clamp (vx (mouse_pos m) + sint (delta_x p)) (x_res (gpu_get_gpu_res_info g)))
                                   (clamp (vy (mouse_pos m) - sint (delta_y p)) (y_res (gpu_get_gpu_res_info g))),
                 prev_buttons := [buttons m ! 0, buttons m ! 1, buttons m ! 2],
                 buttons := [lb p, mb p, rb p]\<rparr>, d')
     else (m, d))"

definition Mouse_handle :: "kernel \<Rightarrow> gpu \<Rightarrow> mouse_mgr \<times> mouse_drv \<times> trace \<Rightarrow> mouse_mgr \<times> mouse_drv \<times> trace" where
  "Mouse_handle K g = (\<lambda>(m, d, tr).
     case mouse_read_packet K (d, tr) of (_, (d1, tr1)) \<Rightarrow>
     case mouse_apply_packet g (m, d1) of (m', d') \<Rightarrow> (m', d', tr1))"

definition Mouse_state :: "MOUSE_STATE \<Rightarrow> mouse_mgr \<Rightarrow> mouse_mgr outcome" where
  "Mouse_state st m =
     (case mouse_sprite m of
        None \<Rightarrow> Undefined
      | Some s \<Rightarrow> Ok (m\<lparr>mouse_sprite := Some (s\<lparr>current_frame := mouse_state_value st\<rparr>)\<rparr>))"

text \<open>The loop of \<open>Mouse_draw\<close>: the callback of the element it breaks at, \<open>None\<close> if it runs to the end.\<close>

fun mouse_hit_loop :: "nat \<Rightarrow> ui_element option cells \<Rightarrow> nat option \<Rightarrow> vec2 \<Rightarrow> callback option outcome" where
  "mouse_hit_loop 0 c node pos = Diverges"
| "mouse_hit_loop (Suc fuel) c None pos = Ok None"
| "mouse_hit_loop (Suc fuel) c (Some t) pos =
     (case c t of
        None \<Rightarrow> Undefined
      | Some n \<Rightarrow>
          (case node_data n of
             None \<Rightarrow> Undefined
           | Some e \<Rightarrow>
               if AABB_contains (el_aabb e) pos \<and> on_click e \<noteq> None then Ok (on_click e)
               else mouse_hit_loop fuel c (node_next n) pos))"

definition Mouse_button :: "MOUSE_BUTTON \<Rightarrow> mouse_mgr \<Rightarrow> bool" where
  "Mouse_button b m = buttons m ! mouse_button_value b"

definition left_click :: "mouse_mgr \<Rightarrow> bool" where
  "left_click m \<longleftrightarrow> buttons m ! 0 \<and> prev_buttons m ! 0 \<noteq> buttons m ! 0"

text \<open>The first half of \<open>Mouse_draw\<close>: look up the element under the cursor, click it, choose the cursor's shape.\<close>

definition mouse_interact :: "mouse_mgr \<Rightarrow> gamestate \<Rightarrow> ui_heap \<Rightarrow> (mouse_mgr \<times> gamestate) outcome" where
  "mouse_interact m gs h =
     (if Gamestate_get_state gs = GS_MAIN \<or> Gamestate_get_state gs = GS_LEADERBOARD
      then case Gamestate_get_current_menu gs of
             None \<Rightarrow> Undefined
           | Some menu \<Rightarrow>
               obind (Mouse_state MOUSE_NORMAL m) (\<lambda>m.
               obind (mouse_hit_loop (Suc (Suc (brk h))) (cells h) (element menu) (mouse_pos m)) (\<lambda>hit.
                 case hit of
                   None \<Rightarrow> Ok (m, gs)
                 | Some f \<Rightarrow>
                     let gs' = (if left_click m then run_callback f gs else gs)
                     in obind (Mouse_state MOUSE_CLICK m) (\<lambda>m. Ok (m, gs'))))
      else Ok (m, gs))"

text \<open>The second half: draw the cursor; the hand's finger tip is 9 pixels from its left edge.\<close>

definition mouse_draw_cursor :: "mouse_mgr \<Rightarrow> gpu \<Rightarrow> (mouse_mgr \<times> gpu) outcome" where
  "mouse_draw_cursor m g =
     (if \<not> hidden m
      then case mouse_sprite m of
             None \<Rightarrow> Undefined
           | Some s \<Rightarrow>
               let pos = (if current_frame s = mouse_state_value MOUSE_CLICK
                          then VEC2 (vx (mouse_pos m) - 9) (vy (mouse_pos m)) else mouse_pos m)
               in obind (Sprite_draw s pos g) (\<lambda>(s', g'). Ok (m\<lparr>mouse_sprite := Some s'\<rparr>, g'))
      else Ok (m, g))"

definition Mouse_draw ::
  "mouse_mgr \<Rightarrow> gamestate \<Rightarrow> ui_heap \<Rightarrow> gpu \<Rightarrow> (mouse_mgr \<times> gamestate \<times> gpu) outcome" where
  "Mouse_draw m gs h g =
     obind (mouse_interact m gs h) (\<lambda>(m, gs).
     obind (mouse_draw_cursor m g) (\<lambda>(m, g). Ok (m, gs, g)))"

definition Mouse_show :: "mouse_mgr \<Rightarrow> mouse_mgr" where
  "Mouse_show m = m\<lparr>hidden := False\<rparr>"

definition Mouse_hide :: "mouse_mgr \<Rightarrow> mouse_mgr" where
  "Mouse_hide m = m\<lparr>hidden := True\<rparr>"

definition Mouse_reset :: "mouse_mgr \<Rightarrow> mouse_mgr" where
  "Mouse_reset m = m\<lparr>mouse_pos := VEC2 0 0\<rparr>"

definition Mouse_position :: "mouse_mgr \<Rightarrow> vec2" where
  "Mouse_position m = mouse_pos m"

section \<open>Invariant\<close>

text \<open>The cursor is on the screen and its sprite has the two frames of the mouse pixmap.\<close>

definition cursor_sprite :: "Sprite \<Rightarrow> bool" where
  "cursor_sprite s \<longleftrightarrow> framesc s = 2 \<and> delay s = 0 \<and> current_delay s = 0 \<and> current_frame s < 2 \<and>
     offsets s = [VEC2 0 0, VEC2 34 0] \<and> sizes s = [VEC2 34 42, VEC2 24 38] \<and>
     (\<exists>im. img s = Some im \<and> img_type im = XPM_INDEXED \<and> uint (img_width im) = fst mouse_dims \<and>
        uint (img_height im) = snd mouse_dims \<and> int (length (img_bytes im)) = fst mouse_dims * snd mouse_dims)"

definition mouse_ok :: "gpu \<Rightarrow> mouse_mgr \<Rightarrow> bool" where
  "mouse_ok g m \<longleftrightarrow> on_screen g (vx (mouse_pos m)) (vy (mouse_pos m)) \<and> length (buttons m) = 3 \<and> length (prev_buttons m) = 3 \<and>
     (\<exists>s. mouse_sprite m = Some s \<and> cursor_sprite s)"

lemma cursor_sprite_ok: "cursor_sprite s \<Longrightarrow> 540 \<le> room \<Longrightarrow> sprite_ok room s"
  by (auto simp: cursor_sprite_def sprite_ok_def frame_ok_def mouse_dims_def less_2_cases_iff)

lemma clamp_range: "0 < uint res \<Longrightarrow> 0 \<le> clamp v res \<and> clamp v res < uint res"
  by (auto simp: clamp_def Let_def)

lemma clamp_inside: "0 \<le> v \<Longrightarrow> v < uint res \<Longrightarrow> clamp v res = v"
  by (auto simp: clamp_def Let_def)

lemma mouse_apply_packet_ok:
  assumes "mouse_ok g m"
  shows "mouse_ok g (fst (mouse_apply_packet g (m, d)))"
proof -
  have "0 < X_RES g" "0 < Y_RES g" using assms by (auto simp: mouse_ok_def on_screen_def)
  with assms clamp_range show ?thesis
    by (auto simp: mouse_apply_packet_def mouse_ok_def on_screen_def gpu_get_gpu_res_info_def split: option.splits)
qed

lemma Mouse_handle_ok: "mouse_ok g m \<Longrightarrow> mouse_ok g (fst (Mouse_handle K g (m, d, tr)))"
  using mouse_apply_packet_ok [of g m]
  by (auto simp: Mouse_handle_def split: prod.splits) (metis fst_conv)

lemma mouse_apply_packet_drv: "mouse_drv_ok d \<Longrightarrow> mouse_drv_ok (snd (mouse_apply_packet g (m, d)))"
  by (auto simp: mouse_apply_packet_def split: option.splits intro: mouse_get_packet_ok)

lemma Mouse_handle_drv_ok: "mouse_drv_ok d \<Longrightarrow> mouse_drv_ok (fst (snd (Mouse_handle K g (m, d, tr))))"
  using mouse_read_packet_ok [of d K tr] mouse_apply_packet_drv
  by (auto simp: Mouse_handle_def split: prod.splits) (metis snd_conv)

lemma Mouse_state_ok:
  assumes "mouse_ok g m"
  shows "\<exists>m'. Mouse_state st m = Ok m' \<and> mouse_ok g m' \<and> m' = m\<lparr>mouse_sprite := mouse_sprite m'\<rparr>"
  using assms by (cases st) (auto simp: Mouse_state_def mouse_ok_def cursor_sprite_def)

lemma Mouse_init_ok:
  assumes "loader_ok xpm_load" "4 \<le> avail h" "length (buttons m) = 3" "length (prev_buttons m) = 3"
    "0 < X_RES g" "0 < Y_RES g"
  shows "\<exists>m'. Mouse_init xpm_load raw m h = Ok (m', h\<lparr>avail := avail h - 4\<rparr>) \<and> mouse_ok g m'"
proof -
  obtain colors im where im: "xpm_load mouse_xpm = (colors, im)" by (cases "xpm_load mouse_xpm")
  note im_ok = loader_okD [OF assms(1) im]
  have "cursor_sprite (((raw (avail h))\<lparr>img := Some im, offsets := [VEC2 0 0, VEC2 34 0], sizes := [VEC2 34 42, VEC2 24 38],
      framesc := 2, current_frame := 0, current_delay := 0, delay := 0\<rparr>)\<lparr>current_frame := 1, transparent := True\<rparr>)"
    using im_ok by (simp add: cursor_sprite_def)
  with assms(2-6) im show ?thesis
    by (auto simp: Mouse_init_def Sprite_create_def Sprite_init_def Sprite_xpm_load_def mouse_ok_def on_screen_def)
qed

section \<open>The element under the cursor\<close>

text \<open>The first element with a callback whose box contains the point, by boxes and callbacks alone.\<close>

fun hit :: "(aabb option \<times> callback option option) list \<Rightarrow> vec2 \<Rightarrow> callback option" where
  "hit [] pos = None"
| "hit ((Some area, Some (Some f)) # es) pos = (if AABB_contains area pos then Some f else hit es pos)"
| "hit (_ # es) pos = hit es pos"

lemma mouse_hit_loop_path:
  assumes "path c p as None" "list_all (element_ok g) (contents c as)" "length as < fuel"
  shows "mouse_hit_loop fuel c p pos = Ok (hit (shape (contents c as)) pos)"
  using assms
proof (induction as arbitrary: p fuel)
  case Nil
  then show ?case by (cases fuel) (simp_all add: shape_def)
next
  case (Cons a as)
  then obtain k where k: "fuel = Suc k" "length as < k" by (cases fuel) auto
  from Cons.prems(1) obtain n where n: "p = Some a" "c a = Some n" "path c (node_next n) as None" by auto
  from Cons.prems(2) n(2) obtain e where e: "node_data n = Some e" by (auto simp: contents_def element_ok_def)
  have IH: "mouse_hit_loop k c (node_next n) pos = Ok (hit (shape (contents c as)) pos)"
    using Cons.IH [OF n(3) _ k(2)] Cons.prems(2) by (simp add: contents_def)
  have "contents c (a # as) = Some e # contents c as" using n(2) e by (simp add: contents_def)
  then show ?case
    using IH k(1) n(1,2) e by (cases "on_click e") (simp_all add: shape_def)
qed

lemma mouse_hit_rep:
  assumes "node_rep h (element menu) A xs" "list_all (element_ok g) xs"
  shows "mouse_hit_loop (Suc (Suc (brk h))) (cells h) (element menu) pos = Ok (hit (shape xs) pos)"
proof -
  from assms(1) obtain as where as: "heap_ok h" "path (cells h) (element menu) as None" "contents (cells h) as = xs"
    by (auto simp: node_rep_def holds_def)
  have "length as < Suc (Suc (brk h))" using path_length [OF as(1,2)] by simp
  from mouse_hit_loop_path [OF as(2) _ this] as(3) assms(2) show ?thesis by simp
qed

text \<open>The buttons of the two menus at a point, and of the menu that belongs to a state.\<close>

definition main_button :: "vec2 \<Rightarrow> callback option" where
  "main_button pos =
     (if AABB_contains (AABB (VEC2 311 340) (VEC2 402 97)) pos then Some spoof
      else if AABB_contains (AABB (VEC2 311 480) (VEC2 402 97)) pos then Some on_click_leaderboard
      else if AABB_contains (AABB (VEC2 311 620) (VEC2 402 97)) pos then Some on_click_quit
      else None)"

definition board_button :: "vec2 \<Rightarrow> callback option" where
  "board_button pos = (if AABB_contains (AABB (VEC2 415 70) (VEC2 402 97)) pos then Some on_click_leaderboard else None)"

fun button_under :: "GAMESTATE \<Rightarrow> vec2 \<Rightarrow> callback option" where
  "button_under GS_MAIN pos = main_button pos"
| "button_under GS_LEADERBOARD pos = board_button pos"
| "button_under _ pos = None"

lemma main_hit: "hit (widgets_shape main_widgets) pos = main_button pos"
  by (simp add: widgets_shape_def main_widgets_def main_button_def)

lemma hit_append: "hit (es @ es') pos = (case hit es pos of None \<Rightarrow> hit es' pos | Some f \<Rightarrow> Some f)"
  by (induction es pos rule: hit.induct) simp_all

lemma hit_passive: "list_all (\<lambda>w. w_click w = None) ws \<Longrightarrow> hit (widgets_shape ws) pos = None"
  by (induction ws) (simp_all add: widgets_shape_def)

lemma rows_passive: "list_all (\<lambda>w. w_click w = None) (rows_widgets es i k)"
proof -
  have "list_all (\<lambda>w. w_click w = None) (text_widgets str x y)" for str x y
    by (induction str arbitrary: x) (simp_all add: glyph_def Let_def)
  then show ?thesis by (induction es i k rule: rows_widgets.induct) (simp_all add: row_widgets_def)
qed

lemma board_hit: "hit (widgets_shape (board_widgets board)) pos = board_button pos"
proof -
  let ?rows = "rows_widgets (entries board) 0 (entry_count board)"
  have "widgets_shape (board_widgets board) = widgets_shape board_header @ widgets_shape ?rows"
    by (simp add: widgets_shape_def board_widgets_def)
  moreover have "hit (widgets_shape board_header) pos = board_button pos"
    by (simp add: widgets_shape_def board_header_def board_button_def)
  ultimately show ?thesis by (simp only: hit_append hit_passive [OF rows_passive]) (cases "board_button pos"; simp)
qed

text \<open>What looking for a button under the cursor leaves: the game state after the click, and the cursor with the shape of a hand over a button.\<close>

definition clicked :: "mouse_mgr \<Rightarrow> gamestate \<Rightarrow> gamestate" where
  "clicked m gs = (case button_under (gs_state gs) (mouse_pos m) of
     None \<Rightarrow> gs | Some f \<Rightarrow> if left_click m then run_callback f gs else gs)"

definition pointed :: "mouse_mgr \<Rightarrow> gamestate \<Rightarrow> mouse_mgr" where
  "pointed m gs =
     (if gs_state gs = GS_MAIN \<or> gs_state gs = GS_LEADERBOARD
      then m\<lparr>mouse_sprite := map_option (\<lambda>s. s\<lparr>current_frame := mouse_state_value
             (if button_under (gs_state gs) (mouse_pos m) = None then MOUSE_NORMAL else MOUSE_CLICK)\<rparr>) (mouse_sprite m)\<rparr>
      else m)"

lemma pointed_ok: "mouse_ok g m \<Longrightarrow> mouse_ok g (pointed m gs)"
  by (auto simp: pointed_def mouse_ok_def cursor_sprite_def)

lemma clicked_ok:
  "gamestate_ok gs \<Longrightarrow> gamestate_ok (clicked m gs)"
  "main_menu (clicked m gs) = main_menu gs" "leaderboard_menu (clicked m gs) = leaderboard_menu gs"
  by (simp_all add: clicked_def run_callback_ok split: option.splits)

lemma mouse_interact_menu:
  assumes m: "mouse_ok g m" and st: "gs_state gs = GS_MAIN \<or> gs_state gs = GS_LEADERBOARD"
    and menu: "current_menu gs = Some menu" "node_rep h (element menu) A xs" "list_all (element_ok g) xs"
    and shape: "hit (shape xs) = button_under (gs_state gs)"
  shows "mouse_interact m gs h = Ok (pointed m gs, clicked m gs)"
proof -
  from m obtain s where s: "mouse_sprite m = Some s" by (auto simp: mouse_ok_def)
  have cur: "Gamestate_get_current_menu gs = Some menu" using st menu(1) by (auto simp: Gamestate_get_current_menu_def)
  have hit: "mouse_hit_loop (Suc (Suc (brk h))) (cells h) (element menu) (mouse_pos m) = Ok (button_under (gs_state gs) (mouse_pos m))"
    using mouse_hit_rep [OF menu(2,3)] shape by simp
  show ?thesis
    using st cur hit s
    by (cases "button_under (gs_state gs) (mouse_pos m)")
      (auto simp: mouse_interact_def Mouse_state_def Gamestate_get_state_def Let_def clicked_def pointed_def left_click_def)
qed

text \<open>The same for the menus of the game, or for no menu at all.\<close>

lemma mouse_interact_ok:
  assumes m: "mouse_ok g m" and gs: "gamestate_ok gs" and menus: "menus_ok g gs h"
  shows "mouse_interact m gs h = Ok (pointed m gs, clicked m gs)"
proof -
  from menus obtain mm l A B xs ys board where r: "main_menu gs = Some mm" "leaderboard_menu gs = Some l"
      "node_rep h (element mm) A xs" "node_rep h (element l) B ys" "shape xs = widgets_shape main_widgets"
      "shape ys = widgets_shape (board_widgets board)" "list_all (element_ok g) xs" "list_all (element_ok g) ys"
    unfolding menus_ok_def by blast
  consider "gs_state gs = GS_MAIN" | "gs_state gs = GS_LEADERBOARD" | "gs_state gs = GS_LEVEL \<or> gs_state gs = GS_QUIT"
    by (cases "gs_state gs") auto
  then show ?thesis
  proof cases
    case 1
    then have "current_menu gs = Some mm" using gs r(1) by (simp add: gamestate_ok_def)
    from mouse_interact_menu [OF m _ this r(3,7)] show ?thesis using 1 r(5) main_hit by fastforce
  next
    case 2
    then have "current_menu gs = Some l" using gs r(2) by (simp add: gamestate_ok_def)
    from mouse_interact_menu [OF m _ this r(4,8)] show ?thesis using 2 r(6) board_hit by fastforce
  next
    case 3
    then show ?thesis by (auto simp: mouse_interact_def Gamestate_get_state_def pointed_def clicked_def)
  qed
qed

text \<open>The cursor's picture.\<close>

definition cursor_picture :: "mouse_mgr \<Rightarrow> picture" where
  "cursor_picture m = (case mouse_sprite m of None \<Rightarrow> blank | Some s \<Rightarrow>
     if hidden m then blank
     else sprite_picture s (VEC2 (vx (mouse_pos m) - (if current_frame s = mouse_state_value MOUSE_CLICK then 9 else 0)) (vy (mouse_pos m))))"

lemma cursor_tick: "cursor_sprite s \<Longrightarrow> sprite_tick s = Ok s"
  by (simp add: cursor_sprite_def sprite_tick_def)

lemma mouse_draw_cursor_painted:
  assumes m: "mouse_ok g m" and g: "screen_ok g"
  shows "\<exists>g'. mouse_draw_cursor m g = Ok (m, g') \<and> painted g (cursor_picture m) g'"
proof (cases "hidden m")
  case True
  then show ?thesis using screen.painted_blank m by (auto simp: mouse_draw_cursor_def cursor_picture_def mouse_ok_def)
next
  case False
  from m obtain s where s: "mouse_sprite m = Some s" "cursor_sprite s" by (auto simp: mouse_ok_def)
  let ?pos = "VEC2 (vx (mouse_pos m) - (if current_frame s = mouse_state_value MOUSE_CLICK then 9 else 0)) (vy (mouse_pos m))"
  have pos: "(if current_frame s = mouse_state_value MOUSE_CLICK then VEC2 (vx (mouse_pos m) - 9) (vy (mouse_pos m)) else mouse_pos m) = ?pos"
    by (simp add: VEC2_def)
  have "near_screen g ?pos" using m g by (auto simp: near_screen_def screen_ok_def mouse_ok_def on_screen_def)
  moreover have "\<forall>z \<in> set (sizes s). vx z \<le> 1536 \<and> vy z \<le> 1536" using s(2) by (simp add: cursor_sprite_def)
  moreover have "sprite_ok (malloc_max g) s" "indexed_ok g" using cursor_sprite_ok [OF s(2)] g by (simp_all add: screen_ok_def)
  ultimately obtain g' where g': "Sprite_draw s ?pos g = Ok (s, g')" "painted g (sprite_picture s ?pos) g'"
    using Sprite_draw_painted [of g s ?pos] cursor_tick [OF s(2)] by auto
  have "m\<lparr>mouse_sprite := Some s\<rparr> = m" unfolding s(1) [symmetric] by simp
  then have "mouse_draw_cursor m g = Ok (m, g')"
    unfolding mouse_draw_cursor_def s(1) option.case Let_def pos using False g'(1) by simp
  moreover have "cursor_picture m = sprite_picture s ?pos" using False s(1) by (simp add: cursor_picture_def)
  ultimately show ?thesis using g'(2) by simp
qed

section \<open>Properties of the mouse\<close>

text \<open>When the device reports a movement and its buttons, even after stray bytes, the cursor moves by exactly that displacement, y
  upwards, but not beyond the screen's edges, and the old button states become the previous ones.\<close>

theorem Mouse_follows_device:
  assumes "mouse_ok g m" "mouse_drv_ok d" "current_byte_index d = 0" "list_all (\<lambda>b. \<not> bit b 3) junk"
    "- 256 \<le> dx" "dx \<le> 255" "- 256 \<le> dy" "dy \<le> 255"
  shows "\<exists>m' d'. mouse_apply_packet g (m, fold mouse_feed (junk @ ps2_encode l r mid dx dy) d) = (m', d') \<and> mouse_ok g m' \<and>
    vx (Mouse_position m') = min (max (vx (Mouse_position m) + dx) 0) (X_RES g - 1) \<and>
    vy (Mouse_position m') = min (max (vy (Mouse_position m) - dy) 0) (Y_RES g - 1) \<and>
    Mouse_button MOUSE_LB m' = l \<and> Mouse_button MOUSE_MB m' = mid \<and> Mouse_button MOUSE_RB m' = r \<and> prev_buttons m' = buttons m"
proof -
  let ?d = "fold mouse_feed (junk @ ps2_encode l r mid dx dy) d"
  from mouse_packet_decodes [OF assms(2-8), of l r mid] obtain p d' where
    p: "mouse_get_packet ?d = Some (p, d')" "lb p = l" "rb p = r" "mb p = mid" "sint (delta_x p) = dx" "sint (delta_y p) = dy"
      "packet_ready ?d"
    by blast
  from assms(1) obtain x y z where b: "buttons m = [x, y, z]" by (auto simp: mouse_ok_def length_Suc_conv numeral_eq_Suc)
  have clamp: "clamp v res = min (max v 0) (uint res - 1)" if "0 < uint res" for v res
    using that by (auto simp: clamp_def Let_def)
  have res: "0 < X_RES g" "0 < Y_RES g" using assms(1) by (auto simp: mouse_ok_def on_screen_def)
  obtain m' where m': "mouse_apply_packet g (m, ?d) = (m', d')" "m' = fst (mouse_apply_packet g (m, ?d))"
    using p(1,7) by (simp add: mouse_apply_packet_def mouse_packet_ready_def)
  moreover from this have "mouse_ok g m'" using mouse_apply_packet_ok [OF assms(1)] by simp
  ultimately show ?thesis
    using p b res
    by (auto simp: mouse_apply_packet_def mouse_packet_ready_def gpu_get_gpu_res_info_def Mouse_position_def Mouse_button_def clamp)
qed

text \<open>Taking a packet changes nothing that the packet depends on.\<close>

lemma mouse_get_packet_again:
  "mouse_get_packet d = Some (p, d') \<Longrightarrow> mouse_get_packet (d'\<lparr>current_byte := b\<rparr>) = Some (p, d'\<lparr>current_byte := b\<rparr>) \<and> packet_ready d'"
  by (auto simp: mouse_get_packet_def Let_def split: if_splits)

text \<open>C13: a report is not used up when it is applied: a mouse interrupt whose byte cannot be read moves the cursor by the last
  displacement once more, and makes a left button that was just pressed look as if it had been held.\<close>

theorem Mouse_repeats_report:
  assumes "mouse_ok g m" "mouse_drv_ok d" "current_byte_index d = 0" "- 256 \<le> dx" "dx \<le> 255" "- 256 \<le> dy" "dy \<le> 255"
  shows "\<exists>m1 d1. mouse_apply_packet g (m, fold mouse_feed (ps2_encode l r mid dx dy) d) = (m1, d1) \<and>
    (\<forall>K tr b tr'. kbc_read_outbuff K True (current_byte d1) tr = ((False, b), tr') \<longrightarrow>
       (\<exists>m2 d2. Mouse_handle K g (m1, d1, tr) = (m2, d2, tr') \<and>
          vx (Mouse_position m2) = min (max (vx (Mouse_position m1) + dx) 0) (X_RES g - 1) \<and>
          vy (Mouse_position m2) = min (max (vy (Mouse_position m1) - dy) 0) (Y_RES g - 1) \<and>
          Mouse_button MOUSE_LB m2 = l \<and> \<not> left_click m2))"
proof -
  let ?d = "fold mouse_feed (ps2_encode l r mid dx dy) d"
  have p0: "list_all (\<lambda>b. \<not> bit b 3) ([] :: u8 list)" by simp
  from mouse_packet_decodes [OF assms(2,3) p0 assms(4-7), of l r mid] obtain p d' where
    p: "mouse_get_packet ?d = Some (p, d')" "lb p = l" "sint (delta_x p) = dx" "sint (delta_y p) = dy" "packet_ready ?d"
    by auto
  have res: "0 < X_RES g" "0 < Y_RES g" using assms(1) by (auto simp: mouse_ok_def on_screen_def)
  have clamp: "clamp v res = min (max v 0) (uint res - 1)" if "0 < uint res" for v res
    using that by (auto simp: clamp_def Let_def)
  obtain m1 where m1: "mouse_apply_packet g (m, ?d) = (m1, d')" "buttons m1 = [lb p, mb p, rb p]"
    using p(1,5) by (simp add: mouse_apply_packet_def mouse_packet_ready_def)
  note again = mouse_get_packet_again [OF p(1)]
  have "\<exists>m2 d2. Mouse_handle K g (m1, d', tr) = (m2, d2, tr') \<and>
      vx (Mouse_position m2) = min (max (vx (Mouse_position m1) + dx) 0) (X_RES g - 1) \<and>
      vy (Mouse_position m2) = min (max (vy (Mouse_position m1) - dy) 0) (Y_RES g - 1) \<and> Mouse_button MOUSE_LB m2 = l \<and> \<not> left_click m2"
    if "kbc_read_outbuff K True (current_byte d') tr = ((False, b), tr')" for K tr b tr'
    using that again [of b] p(2-4) res m1(2)
    by (simp add: Mouse_handle_def mouse_read_packet_def mouse_apply_packet_def mouse_packet_ready_def gpu_get_gpu_res_info_def Mouse_position_def
        Mouse_button_def left_click_def clamp)
  with m1(1) show ?thesis by blast
qed

text \<open>Drawing the mouse over the main menu paints the cursor and, when the left button has just gone down, runs exactly the button
  under it: the game goes to the leaderboard, quits or stays; without a fresh press the game state does not change.\<close>

theorem Mouse_draw_main_menu:
  assumes m: "mouse_ok g m" and g: "screen_ok g" and gs: "gamestate_ok gs" "gs_state gs = GS_MAIN" and menus: "menus_ok g gs h"
  shows "\<exists>m' gs' g'. Mouse_draw m gs h g = Ok (m', gs', g') \<and> mouse_ok g' m' \<and> gamestate_ok gs' \<and> screen_ok g' \<and>
    gs_state gs' = (if left_click m \<and> main_button (mouse_pos m) = Some on_click_leaderboard then GS_LEADERBOARD
                    else if left_click m \<and> main_button (mouse_pos m) = Some on_click_quit then GS_QUIT
                    else GS_MAIN) \<and>
    (\<forall>a b. on_screen g a b \<longrightarrow> pixel g' a b = (case cursor_picture m' a b of None \<Rightarrow> pixel g a b | Some c \<Rightarrow> c))"
proof -
  let ?m = "pointed m gs" and ?gs = "clicked m gs"
  note m' = mouse_interact_ok [OF m gs(1) menus] pointed_ok [OF m, of gs]
  obtain g' where g': "mouse_draw_cursor ?m g = Ok (?m, g')" "painted g (cursor_picture ?m) g'"
    using mouse_draw_cursor_painted [OF m'(2) g] by blast
  have "Mouse_draw m gs h g = Ok (?m, ?gs, g')" using m'(1) g'(1) by (simp add: Mouse_draw_def)
  moreover have "gamestate_ok ?gs" using gs(1) by (rule clicked_ok)
  moreover have "gs_state ?gs = (if left_click m \<and> main_button (mouse_pos m) = Some on_click_leaderboard then GS_LEADERBOARD
      else if left_click m \<and> main_button (mouse_pos m) = Some on_click_quit then GS_QUIT else GS_MAIN)"
    using gs(2) by (auto simp: clicked_def main_button_def gamestate_changes)
  moreover have "screen_ok g'" "mouse_ok g' ?m"
    using screen_ok_redrawn [OF painted_redrawn [OF g'(2)]] g redrawn_fields(1) [OF painted_redrawn [OF g'(2)]] m'(2)
    by (simp_all add: mouse_ok_def on_screen_def)
  moreover have "\<forall>a b. on_screen g a b \<longrightarrow> pixel g' a b = (case cursor_picture ?m a b of None \<Rightarrow> pixel g a b | Some c \<Rightarrow> c)"
    using g'(2) by (simp add: painted_def)
  ultimately show ?thesis by blast
qed

section \<open>A game on the mode 0x105 screen\<close>

lemma start_mouse:
  "\<exists>m h'. Mouse_init black_loader (\<lambda>_. raw_sprite) mouse_mgr_start (heap_start 1000) = Ok (m, h') \<and> mouse_ok mode105_gpu m"
  using Mouse_init_ok [OF black_loader_ok, of "heap_start 1000" mouse_mgr_start mode105_gpu "\<lambda>_. raw_sprite"]
  by (auto simp: heap_start_def mouse_mgr_start_def)

lemma start_game:
  "\<exists>gs h. Gamestate_init black_loader (\<lambda>_. raw_sprite) None sample_board gamestate_start (heap_start 1000) = Ok (gs, h) \<and>
    gamestate_ok gs \<and> gs_state gs = GS_MAIN \<and> menus_ok mode105_gpu gs h"
proof (rule Gamestate_init_ok)
  show "heap_ok (heap_start 1000)" by (rule heap_start_ok)
  show "Leaderboard_read_file None sample_board = Ok (1, sample_board)" by (simp add: Leaderboard_read_file_def)
qed (simp_all add: heap_start_def sample_board_fits black_loader_ok mode105_screen_ok)

theorem Mouse_follows_device_witness:
  "\<exists>m m' d'. mouse_apply_packet mode105_gpu (m, fold mouse_feed ([0] @ ps2_encode True False False 100 (- 50)) mouse_drv_start) = (m', d') \<and>
    Mouse_button MOUSE_LB m' = True \<and> vx (Mouse_position m') = min (max (vx (Mouse_position m) + 100) 0) 1023"
proof -
  from start_mouse obtain m where "mouse_ok mode105_gpu m" by blast
  from Mouse_follows_device [OF this mouse_drv_start_ok, of "[0]" 100 "- 50" True False False] show ?thesis
    by (fastforce simp: mouse_drv_start_def)
qed

text \<open>After a failed read the cursor has moved by 200 pixels although the device has reported 100.\<close>

theorem Mouse_repeats_report_witness:
  "\<exists>m m1 d1 m2 d2 tr. mouse_apply_packet mode105_gpu (m, fold mouse_feed (ps2_encode True False False 100 0) mouse_drv_start) = (m1, d1) \<and>
    Mouse_handle (idle_mouse\<lparr>k_inb := \<lambda>_ _. None\<rparr>) mode105_gpu (m1, d1, []) = (m2, d2, tr) \<and>
    vx (Mouse_position m2) = min (max (vx (Mouse_position m1) + 100) 0) 1023 \<and> \<not> left_click m2"
proof -
  from start_mouse obtain m where "mouse_ok mode105_gpu m" by blast
  from Mouse_repeats_report [OF this mouse_drv_start_ok, of 100 0 True False False] obtain m1 d1 where
    m1: "mouse_apply_packet mode105_gpu (m, fold mouse_feed (ps2_encode True False False 100 0) mouse_drv_start) = (m1, d1)" and
    again: "\<And>K tr b tr'. kbc_read_outbuff K True (current_byte d1) tr = ((False, b), tr') \<Longrightarrow>
       (\<exists>m2 d2. Mouse_handle K mode105_gpu (m1, d1, tr) = (m2, d2, tr') \<and>
          vx (Mouse_position m2) = min (max (vx (Mouse_position m1) + 100) 0) (X_RES mode105_gpu - 1) \<and> \<not> left_click m2)"
    by (fastforce simp: mouse_drv_start_def)
  let ?K = "idle_mouse\<lparr>k_inb := \<lambda>_ _. None\<rparr>"
  have "\<exists>tr'. kbc_read_outbuff_loop ?K True n c tr = ((False, c), tr')" for n c tr
    by (induction n arbitrary: tr) (simp_all add: kbc_read_status_apply tickdelay_def)
  then obtain tr' where "kbc_read_outbuff ?K True (current_byte d1) [] = ((False, current_byte d1), tr')"
    unfolding kbc_read_outbuff_def by blast
  from again [OF this] obtain m2 d2 where "Mouse_handle ?K mode105_gpu (m1, d1, []) = (m2, d2, tr')"
      "vx (Mouse_position m2) = min (max (vx (Mouse_position m1) + 100) 0) 1023" "\<not> left_click m2" by auto
  with m1 show ?thesis by blast
qed

theorem Mouse_draw_main_menu_witness:
  "\<exists>m gs h m' gs' g'. Gamestate_init black_loader (\<lambda>_. raw_sprite) None sample_board gamestate_start (heap_start 1000) = Ok (gs, h) \<and>
    mouse_pos m = VEC2 400 650 \<and> left_click m \<and> Mouse_draw m gs h mode105_gpu = Ok (m', gs', g') \<and> gs_state gs' = GS_QUIT"
proof -
  from start_mouse obtain m0 where m0: "mouse_ok mode105_gpu m0" by blast
  from start_game obtain gs h where gs: "Gamestate_init black_loader (\<lambda>_. raw_sprite) None sample_board gamestate_start (heap_start 1000) = Ok (gs, h)"
    "gamestate_ok gs" "gs_state gs = GS_MAIN" "menus_ok mode105_gpu gs h" by blast
  define m where "m = m0\<lparr>mouse_pos := VEC2 400 650, buttons := [True, False, False], prev_buttons := [False, False, False]\<rparr>"
  have m: "mouse_ok mode105_gpu m" "mouse_pos m = VEC2 400 650" "left_click m"
    using m0 by (auto simp: m_def mouse_ok_def on_screen_def left_click_def)
  have "main_button (VEC2 400 650) = Some on_click_quit" by (simp add: main_button_def AABB_contains_def)
  with Mouse_draw_main_menu [OF m(1) mode105_screen_ok gs(2-4)] gs(1) m(2,3) show ?thesis by fastforce
qed

end
