(* ===== verification/Messages.thy ===== *)
theory Messages
  imports C_Prelude
begin

text \<open>
  The interrupt loops.  Every main loop of the project and of the labs has the form
  \<open>while (going) { driver_receive(...); handle }\<close>: one turn handles what one \<open>driver_receive\<close> delivers.  A loop is run on a finite
  sequence of messages, at the end of which it has ended or waits for the next message.  The locales give, once for all handlers, that
  an invariant of the handler is one of the loop, that a loop whose turns follow a specification follows it as a whole, and that ignored
  messages can be left out.
\<close>

text \<open>A failed receive, a message that is not a notification, a notification of another source than the hardware, or the mask of pending
  interrupts.\<close>

datatype message = Receive_failed | Standard_message | Other_notification | Interrupts u32

definition pending :: "u32 \<Rightarrow> u8 \<Rightarrow> bool" where
  "pending interrupts bit_no \<longleftrightarrow> flag interrupts (ucast bit_no)"

text \<open>A message that is an interrupt notification with the given bit.\<close>

fun notifies :: "u8 \<Rightarrow> message \<Rightarrow> bool" where
  "notifies bit_no (Interrupts irqs) = pending irqs bit_no"
| "notifies bit_no _ = False"

definition notifications :: "u8 \<Rightarrow> message list \<Rightarrow> nat" where
  "notifications bit_no msgs = length (filter (notifies bit_no) msgs)"

lemma notifications_simps [simp]:
  "notifications bit_no [] = 0"
  "notifications bit_no (msg # msgs) = (if notifies bit_no msg then 1 else 0) + notifications bit_no msgs"
  by (simp_all add: notifications_def)

text \<open>The loop, over messages of any kind; the first component of the result says whether it has ended.\<close>

fun message_loop :: "('s \<Rightarrow> bool) \<Rightarrow> ('m \<Rightarrow> 's \<Rightarrow> 's outcome) \<Rightarrow> 'm list \<Rightarrow> 's \<Rightarrow> (bool \<times> 's) outcome" where
  "message_loop going handle [] s = Ok (\<not> going s, s)"
| "message_loop going handle (msg # msgs) s =
     (if going s then obind (handle msg s) (message_loop going handle msgs) else Ok (True, s))"

lemma message_loop_ended [simp]: "\<not> going s \<Longrightarrow> message_loop going handle msgs s = Ok (True, s)"
  by (cases msgs) simp_all

lemma message_loop_append:
  "message_loop going handle (xs @ ys) s =
     obind (message_loop going handle xs s) (\<lambda>(ended, s'). if ended then Ok (True, s') else message_loop going handle ys s')"
proof (induction xs arbitrary: s)
  case (Cons x xs)
  have "message_loop going handle (xs @ ys) = (\<lambda>s. obind (message_loop going handle xs s)
      (\<lambda>(ended, s'). if ended then Ok (True, s') else message_loop going handle ys s'))"
    by (rule ext) (rule Cons.IH)
  then show ?case by (simp add: obind_assoc)
qed simp

text \<open>A loop over translated messages.\<close>

lemma message_loop_map:
  assumes "\<And>m s. handle' m s = handle (f m) s"
  shows "message_loop going handle' ms s = message_loop going handle (map f ms) s"
  using assms by (induction ms arbitrary: s) (simp_all cong: obind_cong)

section \<open>Handlers with an invariant\<close>

locale message_driven =
  fixes going :: "'s \<Rightarrow> bool" and handle :: "message \<Rightarrow> 's \<Rightarrow> 's outcome" and inv :: "'s \<Rightarrow> bool"
  assumes handled: "inv s \<Longrightarrow> going s \<Longrightarrow> \<exists>s'. handle msg s = Ok s' \<and> inv s'"
begin

lemma loop_ok:
  "inv s \<Longrightarrow> \<exists>ended s'. message_loop going handle msgs s = Ok (ended, s') \<and> inv s' \<and> (ended \<longleftrightarrow> \<not> going s')"
proof (induction msgs arbitrary: s)
  case (Cons msg msgs)
  show ?case
  proof (cases "going s")
    case True
    from handled [OF Cons.prems True] obtain s' where "handle msg s = Ok s'" "inv s'" by blast
    with Cons.IH [of s'] True show ?thesis by simp
  qed (use Cons.prems in auto)
qed simp

end

text \<open>A property that every successful turn keeps, when the handler may also fail.\<close>

lemma message_loop_keeps:
  assumes "\<And>msg s s'. I s \<Longrightarrow> handle msg s = Ok s' \<Longrightarrow> I s'"
  shows "I s \<Longrightarrow> message_loop going handle msgs s = Ok (ended, s') \<Longrightarrow> I s'"
  by (induction msgs arbitrary: s) (auto split: if_splits intro: assms)

section \<open>Handlers that simulate a specification\<close>

text \<open>What a handler has observed of its devices in each turn of a run.\<close>

fun observed :: "('s \<Rightarrow> bool) \<Rightarrow> (message \<Rightarrow> 's \<Rightarrow> 's outcome) \<Rightarrow> (message \<Rightarrow> 's \<Rightarrow> 'e list) \<Rightarrow> message list \<Rightarrow> 's \<Rightarrow> 'e list" where
  "observed going handle observe [] s = []"
| "observed going handle observe (msg # msgs) s =
     (if going s
      then observe msg s @ (case handle msg s of Ok s' \<Rightarrow> observed going handle observe msgs s' | _ \<Rightarrow> [])
      else [])"

text \<open>A handler whose every turn is, seen through \<open>view\<close>, the specification's reaction to what was observed.\<close>

locale message_simulation = message_driven +
  fixes observe :: "message \<Rightarrow> 'a \<Rightarrow> 'e list" and view :: "'a \<Rightarrow> 'v" and react :: "'e \<Rightarrow> 'v \<Rightarrow> 'v"
  assumes simulates: "inv s \<Longrightarrow> going s \<Longrightarrow> handle msg s = Ok s' \<Longrightarrow> view s' = fold react (observe msg s) (view s)"
begin

lemma loop_simulates:
  assumes "inv s" "message_loop going handle msgs s = Ok (ended, s')"
  shows "view s' = fold react (observed going handle observe msgs s) (view s)"
  using assms
proof (induction msgs arbitrary: s)
  case (Cons msg msgs)
  show ?case
  proof (cases "going s")
    case True
    from handled [OF Cons.prems(1) True] obtain s1 where s1: "handle msg s = Ok s1" "inv s1" by blast
    with Cons.prems(2) True have "message_loop going handle msgs s1 = Ok (ended, s')" by simp
    from Cons.IH [OF s1(2) this] simulates [OF Cons.prems(1) True s1(1)] True s1(1) show ?thesis by simp
  qed (use Cons.prems in auto)
qed auto

end

section \<open>Ignored messages\<close>

locale message_filter =
  fixes handle :: "message \<Rightarrow> 's \<Rightarrow> 's outcome" and relevant :: "message \<Rightarrow> bool"
  assumes ignored: "\<not> relevant msg \<Longrightarrow> handle msg s = Ok s"
begin

lemma loop_filter: "message_loop going handle msgs s = message_loop going handle (filter relevant msgs) s"
proof (induction msgs arbitrary: s)
  case (Cons msg msgs)
  then have "message_loop going handle msgs = message_loop going handle (filter relevant msgs)" by blast
  then show ?case by (cases "going s") (auto simp: ignored)
qed simp

end

end
