(* ===== verification/Proj.thy ===== *)
theory Proj
  imports Timer Keyboard_Manager Mouse_Manager Messages
begin

text \<open>
  The program, \<open>proj.c\<close>: initialisation, the interrupt-driven main loop and shutdown.  The state of all components is one
  record.  A message is what one \<open>driver_receive\<close> delivers; the loop runs over a finite sequence of messages, at the end of
  which it is still waiting unless the game has been quit.  The lemmas show that no message sequence makes the
  running program do anything undefined, what a frame shows, and how the game ends.
\<close>

section \<open>State\<close>

record game =
  g_timer :: timer_drv
  g_kbd :: keyboard_drv
  g_mouse :: mouse_drv
  g_keys :: keyboard_mgr
  g_cursor :: mouse_mgr
  g_state :: gamestate
  g_heap :: ui_heap
  g_gpu :: gpu
  g_trace :: trace
  timer_bit_no :: u8
  kbc_bit_no :: u8
  mouse_bit_no :: u8
  skip_frame :: bool

definition game_start :: "nat \<Rightarrow> nat \<Rightarrow> game" where
  "game_start budget room = \<lparr>g_timer = timer_drv_start, g_kbd = keyboard_drv_start, g_mouse = mouse_drv_start,
     g_keys = keyboard_mgr_start, g_cursor = mouse_mgr_start, g_state = gamestate_start, g_heap = heap_start budget,
     g_gpu = gpu_start room, g_trace = [], timer_bit_no = 0, kbc_bit_no = 0, mouse_bit_no = 0, skip_frame = False\<rparr>"

definition GRAPHICS_MODE :: u16 where [c_consts]: "GRAPHICS_MODE = 0x105"

text \<open>What the environment contributes: the kernel, the graphics calls, \<open>xpm_load\<close>, the contents of fresh memory, of the uninitialised
  locals, and the leaderboard file.\<close>

record environment =
  e_kernel :: kernel
  e_gpu :: gpu_env
  e_load :: loader
  e_raw :: "nat \<Rightarrow> Sprite"
  e_aknl :: "trace \<Rightarrow> u8"
  e_scancode :: "trace \<Rightarrow> u8"
  e_file :: "string option"
  e_board :: Leaderboard
  e_vg_exit :: bool

section \<open>Initialisation and shutdown\<close>

text \<open>Driver calls on their part of the state.\<close>

definition on_trace :: "(trace, 'a) io \<Rightarrow> (game, 'a) io" where
  "on_trace f st = (case f (g_trace st) of (r, tr) \<Rightarrow> (r, st\<lparr>g_trace := tr\<rparr>))"

definition on_kbd :: "(keyboard_drv \<times> trace, 'a) io \<Rightarrow> (game, 'a) io" where
  "on_kbd f st = (case f (g_kbd st, g_trace st) of (r, (d, tr)) \<Rightarrow> (r, st\<lparr>g_kbd := d, g_trace := tr\<rparr>))"

definition on_timer :: "(timer_drv \<times> trace, 'a) io \<Rightarrow> (game, 'a) io" where
  "on_timer f st = (case f (g_timer st, g_trace st) of (r, (d, tr)) \<Rightarrow> (r, st\<lparr>g_timer := d, g_trace := tr\<rparr>))"

definition on_mouse :: "(mouse_drv \<times> trace, 'a) io \<Rightarrow> (game, 'a) io" where
  "on_mouse f st = (case f (g_mouse st, g_trace st) of (r, (d, tr)) \<Rightarrow> (r, st\<lparr>g_mouse := d, g_trace := tr\<rparr>))"

definition store :: "(game \<Rightarrow> game) \<Rightarrow> (game, unit) io" where
  "store f st = (Some (), f st)"

text \<open>The part of \<open>proj_init\<close> up to the mode switch; every call that fails ends it.\<close>

definition proj_init_devices :: "environment \<Rightarrow> (game, unit) io" where
  "proj_init_devices env =
     (let K = e_kernel env; mouse_command = (\<lambda>c st. on_trace (mouse_write_command K (e_aknl env (g_trace st)) c) st) in
      andthen (on_kbd (keyboard_subscribe K)) (\<lambda>b.
      andthen (store (\<lambda>st. st\<lparr>kbc_bit_no := b\<rparr>)) (\<lambda>_.
      andthen (on_timer (timer_subscribe K)) (\<lambda>b.
      andthen (store (\<lambda>st. st\<lparr>timer_bit_no := b\<rparr>)) (\<lambda>_.
      andthen (on_mouse (mouse_subscribe K)) (\<lambda>b.
      andthen (store (\<lambda>st. st\<lparr>mouse_bit_no := b\<rparr>)) (\<lambda>_.
      andthen (mouse_command 0xF3) (\<lambda>_.
      andthen (mouse_command 40) (\<lambda>_.
      andthen (\<lambda>st. on_trace (mouse_enable_data K (e_aknl env (g_trace st))) st) (\<lambda>_.
      on_trace (gpu_set_mode K GRAPHICS_MODE)))))))))))"

text \<open>The rest, once the devices are set up.\<close>

definition proj_init_game :: "environment \<Rightarrow> game \<Rightarrow> (int \<times> game) outcome" where
  "proj_init_game env st =
     obind (gpu_init_mem_indexation (e_gpu env) GRAPHICS_MODE (g_gpu st)) (\<lambda>(r, g).
       let st = st\<lparr>g_gpu := g\<rparr> in
       if r \<noteq> 0 then Ok (1, st)
       else obind (Mouse_init (e_load env) (e_raw env) (g_cursor st) (g_heap st)) (\<lambda>(m, h).
            let st = st\<lparr>g_cursor := m, g_heap := h, g_keys := Keyboard_init (g_keys st)\<rparr> in
            obind (Gamestate_init (e_load env) (e_raw env) (e_file env) (e_board env) (g_state st) (g_heap st)) (\<lambda>(gs, h).
            Ok (0, st\<lparr>g_state := gs, g_heap := h\<rparr>))))"

definition proj_init :: "environment \<Rightarrow> game \<Rightarrow> (int \<times> game) outcome" where
  "proj_init env st =
     (case proj_init_devices env st of (None, st) \<Rightarrow> Ok (1, st) | (Some _, st) \<Rightarrow> proj_init_game env st)"

definition proj_shutdown :: "environment \<Rightarrow> game \<Rightarrow> int \<times> game" where
  "proj_shutdown env st =
     (let K = e_kernel env in
      case andthen (\<lambda>st. on_trace (mouse_disable_data K (e_aknl env (g_trace st))) st) (\<lambda>_.
           andthen (on_kbd (keyboard_unsubscribe K)) (\<lambda>_.
           andthen (on_timer (timer_unsubscribe K)) (\<lambda>_.
           on_mouse (mouse_unsubscribe K)))) st of
        (None, st) \<Rightarrow> (1, st)
      | (Some _, st) \<Rightarrow> (if e_vg_exit env then 0 else 1, st))"

section \<open>The main loop\<close>

definition in_menu :: "gamestate \<Rightarrow> bool" where
  "in_menu gs \<longleftrightarrow> Gamestate_get_state gs = GS_MAIN \<or> Gamestate_get_state gs = GS_LEADERBOARD"

definition on_mouse_interrupt :: "environment \<Rightarrow> game \<Rightarrow> game" where
  "on_mouse_interrupt env st =
     (case Mouse_handle (e_kernel env) (g_gpu st) (g_cursor st, g_mouse st, g_trace st) of
        (m, d, tr) \<Rightarrow> st\<lparr>g_cursor := m, g_mouse := d, g_trace := tr\<rparr>)"

definition on_keyboard_interrupt :: "environment \<Rightarrow> game \<Rightarrow> game outcome" where
  "on_keyboard_interrupt env st =
     (case Keyboard_handle (e_kernel env) (e_scancode env (g_trace st)) (g_keys st, g_trace st) of
        (k, tr) \<Rightarrow>
          let st = st\<lparr>g_keys := k, g_trace := tr\<rparr> in
          if in_menu (g_state st)
          then obind (Keyboard_pressed KB_ESC (g_keys st)) (\<lambda>esc.
                 Ok (if esc then st\<lparr>g_state := Gamestate_quit (g_state st)\<rparr> else st))
          else Ok st)"

definition draw_frame :: "game \<Rightarrow> game outcome" where
  "draw_frame st =
     obind (if in_menu (g_state st) then Menu_draw (Gamestate_get_current_menu (g_state st)) (g_heap st) (g_gpu st)
            else Ok (g_heap st, g_gpu st)) (\<lambda>(h, g).
     obind (Mouse_draw (g_cursor st) (g_state st) h g) (\<lambda>(m, gs, g).
     obind (gpu_buffer_commit g) (\<lambda>g.
     obind (gpu_buffer_clear g) (\<lambda>g.
     Ok (st\<lparr>g_heap := h, g_cursor := m, g_state := gs, g_gpu := g\<rparr>)))))"

definition on_timer_interrupt :: "game \<Rightarrow> game outcome" where
  "on_timer_interrupt st =
     obind (if \<not> skip_frame st then draw_frame st else Ok st) (\<lambda>st. Ok (st\<lparr>skip_frame := \<not> skip_frame st\<rparr>))"

definition handle_message :: "environment \<Rightarrow> message \<Rightarrow> game \<Rightarrow> game outcome" where
  "handle_message env msg st =
     (case msg of
        Interrupts irqs \<Rightarrow>
          let st = (if pending irqs (mouse_bit_no st) then on_mouse_interrupt env st else st) in
          obind (if pending irqs (kbc_bit_no st) then on_keyboard_interrupt env st else Ok st) (\<lambda>st.
          if pending irqs (timer_bit_no st) then on_timer_interrupt st else Ok st)
      | _ \<Rightarrow> Ok st)"

text \<open>The loop; the result says whether it has ended.\<close>

definition game_loop :: "environment \<Rightarrow> message list \<Rightarrow> game \<Rightarrow> (bool \<times> game) outcome" where
  "game_loop env = message_loop (\<lambda>st. Gamestate_get_state (g_state st) \<noteq> GS_QUIT) (handle_message env)"

lemma game_loop_simps [simp]:
  "game_loop env [] st = Ok (Gamestate_get_state (g_state st) = GS_QUIT, st)"
  "game_loop env (msg # msgs) st =
     (if Gamestate_get_state (g_state st) = GS_QUIT then Ok (True, st)
      else obind (handle_message env msg st) (game_loop env msgs))"
  by (simp_all add: game_loop_def)

text \<open>The return code of \<open>proj_main_loop\<close>, or \<open>None\<close> while it still waits for messages.\<close>

definition proj_main_loop :: "environment \<Rightarrow> message list \<Rightarrow> game \<Rightarrow> (int option \<times> game) outcome" where
  "proj_main_loop env msgs st =
     obind (proj_init env st) (\<lambda>(r, st).
       if r \<noteq> 0 then Ok (Some 1, st)
       else obind (game_loop env msgs (st\<lparr>skip_frame := False\<rparr>)) (\<lambda>(ended, st).
            if \<not> ended then Ok (None, st)
            else case proj_shutdown env st of (r, st) \<Rightarrow> Ok (Some (if r \<noteq> 0 then 1 else 0), st)))"

section \<open>The invariant of the running game\<close>

definition game_ok :: "game \<Rightarrow> bool" where
  "game_ok st \<longleftrightarrow> screen_ok (g_gpu st) \<and> mouse_ok (g_gpu st) (g_cursor st) \<and> keyboard_ok (g_keys st) \<and>
     gamestate_ok (g_state st) \<and> menus_ok (g_gpu st) (g_state st) (g_heap st) \<and> mouse_drv_ok (g_mouse st)"

lemma menus_ok_state:
  "main_menu gs' = main_menu gs \<Longrightarrow> leaderboard_menu gs' = leaderboard_menu gs \<Longrightarrow> menus_ok g gs' h = menus_ok g gs h"
  by (simp add: menus_ok_def)

text \<open>Nothing of the invariant depends on the contents of the two screen buffers.\<close>

definition same_screen :: "gpu \<Rightarrow> gpu \<Rightarrow> bool" where
  "same_screen g g' \<longleftrightarrow> (\<exists>b v. g' = g\<lparr>backbuffer := b, video_mem := v\<rparr> \<and> length b = length (backbuffer g) \<and> length v = length (video_mem g))"

lemma same_screen_update:
  "g' = g\<lparr>backbuffer := b, video_mem := v\<rparr> \<Longrightarrow> length b = length (backbuffer g) \<Longrightarrow> length v = length (video_mem g) \<Longrightarrow>
    same_screen g g'"
  unfolding same_screen_def by blast

lemma same_screenI:
  assumes "redrawn g g'"
  shows "same_screen g g'"
proof -
  from assms obtain b where "g' = g\<lparr>backbuffer := b\<rparr>" "length b = length (backbuffer g)" by (auto simp: redrawn_def)
  then show ?thesis by (intro same_screen_update [where b = b and v = "video_mem g"]) simp_all
qed

lemma same_screen_trans:
  assumes "same_screen g g'" "same_screen g' g''"
  shows "same_screen g g''"
proof -
  from assms(1) obtain b v where 1: "g' = g\<lparr>backbuffer := b, video_mem := v\<rparr>" "length b = length (backbuffer g)" "length v = length (video_mem g)"
    by (auto simp: same_screen_def)
  from assms(2) obtain b' v' where "g'' = g'\<lparr>backbuffer := b', video_mem := v'\<rparr>" "length b' = length (backbuffer g')"
      "length v' = length (video_mem g')"
    by (auto simp: same_screen_def)
  with 1 show ?thesis by (intro same_screen_update [where b = b' and v = v']) simp_all
qed

lemma same_screen_fields:
  "same_screen g g' \<Longrightarrow> gpu_res_info g' = gpu_res_info g \<and> malloc_max g' = malloc_max g \<and> (screen_ok g' \<longleftrightarrow> screen_ok g) \<and>
    (gpu_ok g' \<longleftrightarrow> gpu_ok g)"
  by (auto simp: same_screen_def screen_ok_def indexed_ok_def gpu_ok_def)

lemma same_screen_ok:
  assumes "same_screen g g'"
  shows "screen_ok g' = screen_ok g" "mouse_ok g' m = mouse_ok g m" "menus_ok g' gs h = menus_ok g gs h"
proof -
  note f = same_screen_fields [OF assms]
  from f show "screen_ok g' = screen_ok g" "mouse_ok g' m = mouse_ok g m" by (simp_all add: mouse_ok_def on_screen_def)
  have "element_ok g' = element_ok g" using f by (intro ext) (simp add: element_ok_def near_screen_def)
  then show "menus_ok g' gs h = menus_ok g gs h" by (simp add: menus_ok_def)
qed

text \<open>The current menu, and that drawing it keeps both menus.\<close>

lemma current_menu_rep:
  assumes "gamestate_ok gs" "menus_ok g gs h" "in_menu gs"
  obtains menu A xs where "Gamestate_get_current_menu gs = Some menu" "current_menu gs = Some menu"
    "node_rep h (element menu) A xs" "list_all (element_ok g) xs"
    "\<And>h' xs'. node_rep h' (element menu) A xs' \<Longrightarrow> list_all (element_ok g) xs' \<Longrightarrow> shape xs' = shape xs \<Longrightarrow>
       (\<forall>q B ys. node_rep h q B ys \<longrightarrow> A \<inter> B = {} \<longrightarrow> node_rep h' q B ys) \<Longrightarrow> menus_ok g gs h'"
proof -
  from assms(2) obtain m l A B xs ys where
    m: "main_menu gs = Some m" "leaderboard_menu gs = Some l" "node_rep h (element m) A xs" "node_rep h (element l) B ys"
      "A \<inter> B = {}" "shape xs = widgets_shape main_widgets" "\<exists>board. shape ys = widgets_shape (board_widgets board)" "list_all (element_ok g) xs" "list_all (element_ok g) ys"
    unfolding menus_ok_def by blast
  from assms(3) consider "gs_state gs = GS_MAIN" | "gs_state gs = GS_LEADERBOARD" by (auto simp: in_menu_def Gamestate_get_state_def)
  then show thesis
  proof cases
    case 1
    have keep: "menus_ok g gs h'" if "node_rep h' (element m) A xs'" "list_all (element_ok g) xs'" "shape xs' = shape xs"
      "\<forall>q B ys. node_rep h q B ys \<longrightarrow> A \<inter> B = {} \<longrightarrow> node_rep h' q B ys" for h' xs'
      using m that by (metis menus_okI)
    show ?thesis
      using 1 m keep assms(1) by (intro that [of m A xs]) (simp_all add: gamestate_ok_def Gamestate_get_current_menu_def)
  next
    case 2
    have keep: "menus_ok g gs h'" if "node_rep h' (element l) B ys'" "list_all (element_ok g) ys'" "shape ys' = shape ys"
      "\<forall>q A xs. node_rep h q A xs \<longrightarrow> B \<inter> A = {} \<longrightarrow> node_rep h' q A xs" for h' ys'
      using m that by (metis menus_okI Int_commute)
    show ?thesis
      using 2 m keep assms(1) by (intro that [of l B ys]) (simp_all add: gamestate_ok_def Gamestate_get_current_menu_def)
  qed
qed

text \<open>The mouse on whatever menu is shown, or on none.\<close>

lemma Mouse_draw_ok:
  assumes m: "mouse_ok g m" and g: "screen_ok g" and gs: "gamestate_ok gs" and menus: "menus_ok g gs h"
  shows "\<exists>g'. Mouse_draw m gs h g = Ok (pointed m gs, clicked m gs, g') \<and> mouse_ok g' (pointed m gs) \<and>
    painted g (cursor_picture (pointed m gs)) g'"
proof -
  note ok = pointed_ok [OF m, of gs]
  obtain g' where g': "mouse_draw_cursor (pointed m gs) g = Ok (pointed m gs, g')" "painted g (cursor_picture (pointed m gs)) g'"
    using mouse_draw_cursor_painted [OF ok g] by blast
  have "mouse_ok g' (pointed m gs)" using ok same_screen_ok(2) [OF same_screenI [OF painted_redrawn [OF g'(2)]]] by simp
  then show ?thesis using mouse_interact_ok [OF m gs menus] g' by (simp add: Mouse_draw_def)
qed

lemma present_frame:
  assumes "gpu_ok g"
  shows "\<exists>g'. obind (gpu_buffer_commit g) gpu_buffer_clear = Ok g' \<and> same_screen g g' \<and>
    (\<forall>a b. shown g' a b = pixel g a b) \<and> backbuffer g' = replicate (length (backbuffer g)) 0"
proof -
  let ?g1 = "g\<lparr>video_mem := backbuffer g\<rparr>"
  let ?g2 = "?g1\<lparr>backbuffer := replicate (length (backbuffer g)) 0\<rparr>"
  have len: "length (video_mem g) = length (backbuffer g)" using assms by (auto simp: gpu_ok_def)
  then have "gpu_ok ?g1" using assms by (simp add: gpu_ok_def)
  then have "obind (gpu_buffer_commit g) gpu_buffer_clear = Ok ?g2"
    using assms gpu_buffer_clear_ok [of ?g1] by (simp add: gpu_buffer_commit_ok)
  moreover have "same_screen g ?g2" using len by (intro same_screen_update [where b = "replicate (length (backbuffer g)) 0" and v = "backbuffer g"]) simp_all
  ultimately show ?thesis by (intro exI [of _ ?g2]) (simp add: shown_def pixel_def)
qed

text \<open>The picture of a frame: the current menu, if there is one, under the cursor.\<close>

definition menu_layer :: "game \<Rightarrow> picture \<Rightarrow> bool" where
  "menu_layer st P \<longleftrightarrow> (case Gamestate_get_current_menu (g_state st) of
     None \<Rightarrow> P = blank
   | Some menu \<Rightarrow> \<exists>A xs. node_rep (g_heap st) (element menu) A xs \<and> P = menu_picture xs)"

lemma draw_frame_ok:
  assumes ok: "game_ok st"
  shows "\<exists>st' P. draw_frame st = Ok st' \<and> game_ok st' \<and> menu_layer st P \<and>
    (\<exists>h g. st' = st\<lparr>g_heap := h, g_cursor := pointed (g_cursor st) (g_state st), g_state := clicked (g_cursor st) (g_state st), g_gpu := g\<rparr> \<and>
       gpu_res_info g = gpu_res_info (g_gpu st)) \<and>
    (\<forall>a b. on_screen (g_gpu st) a b \<longrightarrow> shown (g_gpu st') a b =
       (case over (cursor_picture (g_cursor st')) P a b of None \<Rightarrow> pixel (g_gpu st) a b | Some c \<Rightarrow> c)) \<and>
    set (backbuffer (g_gpu st')) \<subseteq> {0} \<and> g_trace st' = g_trace st"
proof -
  let ?g = "g_gpu st" and ?gs = "g_state st" and ?h = "g_heap st"
  have s: "screen_ok ?g" "indexed_ok ?g" "mouse_ok ?g (g_cursor st)" "keyboard_ok (g_keys st)" "gamestate_ok ?gs" "menus_ok ?g ?gs ?h"
      "mouse_drv_ok (g_mouse st)"
    using ok by (simp_all add: game_ok_def screen_ok_def)
  have "\<exists>h1 g1 P. (if in_menu ?gs then Menu_draw (Gamestate_get_current_menu ?gs) ?h ?g else Ok (?h, ?g)) = Ok (h1, g1) \<and>
      painted ?g P g1 \<and> menus_ok ?g ?gs h1 \<and> menu_layer st P"
  proof (cases "in_menu ?gs")
    case True
    then obtain menu A xs where c: "Gamestate_get_current_menu ?gs = Some menu" "node_rep ?h (element menu) A xs"
        "list_all (element_ok ?g) xs"
        "\<And>h' xs'. node_rep h' (element menu) A xs' \<Longrightarrow> list_all (element_ok ?g) xs' \<Longrightarrow> shape xs' = shape xs \<Longrightarrow>
          (\<forall>q B ys. node_rep ?h q B ys \<longrightarrow> A \<inter> B = {} \<longrightarrow> node_rep h' q B ys) \<Longrightarrow> menus_ok ?g ?gs h'"
      by (rule current_menu_rep [OF s(5,6)]) blast
    from Menu_draw_painted [OF c(2,3) s(2)] obtain h' g' xs' where
      "Menu_draw (Some menu) ?h ?g = Ok (h', g')" "painted ?g (menu_picture xs) g'" "node_rep h' (element menu) A xs'"
        "list_all (element_ok ?g) xs'" "shape xs' = shape xs"
        "\<forall>q B ys. node_rep ?h q B ys \<longrightarrow> A \<inter> B = {} \<longrightarrow> node_rep h' q B ys"
      by blast
    moreover from this c(1,2) have "menu_layer st (menu_picture xs)" by (auto simp: menu_layer_def)
    ultimately show ?thesis using c(1,4) True by auto
  next
    case False
    then have "Gamestate_get_current_menu ?gs = None"
      by (simp add: in_menu_def Gamestate_get_current_menu_def Gamestate_get_state_def)
    then have "menu_layer st blank" by (simp add: menu_layer_def)
    with False s(6) screen.painted_blank show ?thesis by auto
  qed
  then obtain h1 g1 P where 1: "(if in_menu ?gs then Menu_draw (Gamestate_get_current_menu ?gs) ?h ?g else Ok (?h, ?g)) = Ok (h1, g1)"
      "painted ?g P g1" "menus_ok ?g ?gs h1" "menu_layer st P"
    by blast
  note s1 = same_screenI [OF painted_redrawn [OF 1(2)]]
  have "mouse_ok g1 (g_cursor st)" "screen_ok g1" "menus_ok g1 ?gs h1" using same_screen_ok [OF s1] s(1,3) 1(3) by simp_all
  let ?m = "pointed (g_cursor st) ?gs" and ?gs' = "clicked (g_cursor st) ?gs"
  from Mouse_draw_ok [OF \<open>mouse_ok g1 (g_cursor st)\<close> \<open>screen_ok g1\<close> s(5) \<open>menus_ok g1 ?gs h1\<close>] obtain g2 where
    2: "Mouse_draw (g_cursor st) ?gs h1 g1 = Ok (?m, ?gs', g2)" "mouse_ok g2 ?m" "painted g1 (cursor_picture ?m) g2"
    by blast
  note s2 = same_screen_trans [OF s1 same_screenI [OF painted_redrawn [OF 2(3)]]]
  have "gpu_ok g2" using same_screen_fields [OF s2] s(2) by (simp add: indexed_ok_def)
  from present_frame [OF this] obtain g3 where
    3: "obind (gpu_buffer_commit g2) gpu_buffer_clear = Ok g3" "same_screen g2 g3" "\<forall>a b. shown g3 a b = pixel g2 a b"
      "backbuffer g3 = replicate (length (backbuffer g2)) 0"
    by blast
  note s3 = same_screen_trans [OF s2 3(2)]
  let ?st' = "st\<lparr>g_heap := h1, g_cursor := ?m, g_state := ?gs', g_gpu := g3\<rparr>"
  have "draw_frame st = Ok ?st'"
    unfolding draw_frame_def 1(1) obind.simps prod.case 2(1) using 3(1) by (cases "gpu_buffer_commit g2") auto
  moreover have "game_ok ?st'"
    using same_screen_ok [OF s3] same_screen_ok(2) [OF 3(2)] s(1,4,7) 1(3) 2(2) clicked_ok(1) [OF s(5), of "g_cursor st"] clicked_ok(2,3) menus_ok_state [of ?gs' ?gs]
    by (simp add: game_ok_def)
  moreover have "\<forall>a b. on_screen ?g a b \<longrightarrow> shown g3 a b = (case over (cursor_picture ?m) P a b of None \<Rightarrow> pixel ?g a b | Some c \<Rightarrow> c)"
    using screen.painted_over [OF 1(2) 2(3)] 3(3) by (simp add: painted_def)
  ultimately show ?thesis using 1(4) 3(4) same_screen_fields [OF s3] by (intro exI [of _ ?st'] exI [of _ P]) (auto simp: set_replicate_conv_if)
qed

section \<open>Every message is handled\<close>

lemma on_mouse_interrupt_ok: "game_ok st \<Longrightarrow> game_ok (on_mouse_interrupt env st)"
  using Mouse_handle_ok [of "g_gpu st" "g_cursor st" "e_kernel env" "g_mouse st" "g_trace st"]
    Mouse_handle_drv_ok [of "g_mouse st" "e_kernel env" "g_gpu st" "g_cursor st" "g_trace st"]
  by (auto simp: on_mouse_interrupt_def game_ok_def split: prod.splits)

lemma on_keyboard_interrupt_ok:
  assumes "game_ok st"
  shows "\<exists>st'. on_keyboard_interrupt env st = Ok st' \<and> game_ok st' \<and> (g_state st' = g_state st \<or> gs_state (g_state st') = GS_QUIT)"
proof -
  obtain k tr where k: "Keyboard_handle (e_kernel env) (e_scancode env (g_trace st)) (g_keys st, g_trace st) = (k, tr)" by fastforce
  then have kok: "keyboard_ok k"
    using Keyboard_handle_ok [of "g_keys st"] assms by (metis fst_conv game_ok_def)
  then have "Keyboard_pressed KB_ESC k = Ok (keys k ! 0)" by (cases "keys k") (simp_all add: Keyboard_pressed_def keyboard_ok_def)
  moreover have "game_ok (st\<lparr>g_keys := k, g_trace := tr\<rparr>)" using assms kok by (simp add: game_ok_def)
  moreover have "game_ok (st\<lparr>g_keys := k, g_trace := tr, g_state := Gamestate_quit (g_state st)\<rparr>)"
    using assms kok Gamestate_change_ok [of "g_state st" GS_QUIT] menus_ok_state [of "Gamestate_quit (g_state st)" "g_state st"]
    by (simp add: game_ok_def Gamestate_quit_def)
  ultimately show ?thesis using k by (auto simp: on_keyboard_interrupt_def Let_def Gamestate_quit_def)
qed

lemma on_timer_interrupt_ok:
  assumes "game_ok st"
  shows "\<exists>st'. on_timer_interrupt st = Ok st' \<and> game_ok st' \<and> skip_frame st' = (\<not> skip_frame st)"
proof (cases "skip_frame st")
  case True
  then show ?thesis using assms by (simp add: on_timer_interrupt_def game_ok_def)
next
  case False
  with draw_frame_ok [OF assms] obtain st' where st': "draw_frame st = Ok st'" "game_ok st'" by blast
  then have "skip_frame st' = skip_frame st" by (auto simp: draw_frame_def split: prod.splits)
  with st' False show ?thesis by (simp add: on_timer_interrupt_def game_ok_def)
qed

lemma handle_message_ok:
  assumes "game_ok st"
  shows "\<exists>st'. handle_message env msg st = Ok st' \<and> game_ok st'"
proof (cases msg)
  case (Interrupts irqs)
  let ?st1 = "if pending irqs (mouse_bit_no st) then on_mouse_interrupt env st else st"
  have 1: "game_ok ?st1" using assms on_mouse_interrupt_ok by simp
  obtain st2 where 2: "(if pending irqs (kbc_bit_no ?st1) then on_keyboard_interrupt env ?st1 else Ok ?st1) = Ok st2" "game_ok st2"
    using on_keyboard_interrupt_ok [OF 1, of env] 1 by (metis (full_types))
  obtain st3 where 3: "(if pending irqs (timer_bit_no st2) then on_timer_interrupt st2 else Ok st2) = Ok st3" "game_ok st3"
    using on_timer_interrupt_ok [OF 2(2)] 2(2) by (metis (full_types))
  have "handle_message env msg st = Ok st3"
    unfolding handle_message_def Interrupts message.case Let_def 2(1) obind.simps 3(1) ..
  with 3(2) show ?thesis by blast
qed (use assms in \<open>simp_all add: handle_message_def\<close>)

interpretation game_messages: message_driven "\<lambda>st. Gamestate_get_state (g_state st) \<noteq> GS_QUIT" "handle_message env" game_ok for env
  by unfold_locales (rule handle_message_ok)

lemma game_loop_ok:
  "game_ok st \<Longrightarrow> \<exists>ended st'. game_loop env msgs st = Ok (ended, st') \<and> game_ok st' \<and> (ended \<longleftrightarrow> gs_state (g_state st') = GS_QUIT)"
  using game_messages.loop_ok [of st env msgs] by (simp add: game_loop_def Gamestate_get_state_def)

section \<open>Initialisation establishes the invariant\<close>

text \<open>An environment in which initialisation can succeed: blocks of the right size, a mode with one byte per pixel, valid
  pixmaps, and a leaderboard file that can be read.\<close>

definition env_ok :: "environment \<Rightarrow> bool" where
  "env_ok env \<longleftrightarrow> blocks_ok (e_gpu env) \<and> loader_ok (e_load env) \<and>
     (case vbe_get_mode_info (e_gpu env) GRAPHICS_MODE of None \<Rightarrow> True
      | Some vmi \<Rightarrow> 0 < BitsPerPixel vmi \<and> BitsPerPixel vmi \<le> 8 \<and> 0 < XResolution vmi \<and> XResolution vmi \<le> 32000 \<and>
          0 < YResolution vmi \<and> YResolution vmi \<le> 32000) \<and>
     (\<exists>r lb. Leaderboard_read_file (e_file env) (e_board env) = Ok (r, lb) \<and> board_fits lb)"

definition fresh_game :: "game \<Rightarrow> bool" where
  "fresh_game st \<longleftrightarrow> heap_ok (g_heap st) \<and> 654 \<le> avail (g_heap st) \<and> length (buttons (g_cursor st)) = 3 \<and>
     length (prev_buttons (g_cursor st)) = 3 \<and> keyboard_ok (g_keys st) \<and> 540 \<le> malloc_max (g_gpu st) \<and> mouse_drv_ok (g_mouse st)"

lemma proj_init_devices_frame:
  "snd (proj_init_devices env st) = st\<lparr>g_kbd := g_kbd st', g_timer := g_timer st',
     g_mouse := (g_mouse st)\<lparr>mouse_hook_id := mouse_hook_id (g_mouse st')\<rparr>, g_trace := g_trace st',
     timer_bit_no := timer_bit_no st', kbc_bit_no := kbc_bit_no st', mouse_bit_no := mouse_bit_no st'\<rparr>"
  if "st' = snd (proj_init_devices env st)"
  unfolding that
  by (simp add: proj_init_devices_def Let_def io_defs on_kbd_def on_timer_def on_mouse_def on_trace_def store_def
      mouse_subscribe_def
      split: prod.splits option.splits)

lemma fresh_game_frame:
  "fresh_game (st\<lparr>g_kbd := a, g_timer := b, g_mouse := (g_mouse st)\<lparr>mouse_hook_id := c\<rparr>, g_trace := d, timer_bit_no := e,
     kbc_bit_no := f, mouse_bit_no := i\<rparr>) = fresh_game st"
  by (simp add: fresh_game_def mouse_drv_ok_def)

lemma gpu_init_malloc_max:
  "gpu_init_mem_indexation E mode g = Ok (r, g') \<Longrightarrow> malloc_max g' = malloc_max g"
  by (auto simp: gpu_init_mem_indexation_def Let_def split: option.splits if_splits)

lemma gpu_init_state:
  assumes "blocks_ok E" "vbe_get_mode_info E mode = Some vmi" "0 < BitsPerPixel vmi" "BitsPerPixel vmi \<le> 8"
  shows "case gpu_init_mem_indexation E mode g of
      Ok (r, g') \<Rightarrow> r = 0 \<and> indexed_ok g' \<and> X_RES g' = uint (XResolution vmi) \<and> Y_RES g' = uint (YResolution vmi)
    | Undefined \<Rightarrow> 2 ^ 31 \<le> uint (XResolution vmi) * uint (YResolution vmi)
    | Panicked \<Rightarrow> True
    | _ \<Rightarrow> False"
proof -
  have b: "(uint (BitsPerPixel vmi) + 7) div 8 = 1" using assms(3,4) by (simp add: word_less_def word_le_def)
  have "BitsPerPixel vmi \<le> 32" using assms(4) by (simp add: word_le_def)
  from gpu_init_ok [OF assms(1-3) this, of g] assms(4) b show ?thesis by (simp split: outcome.splits prod.splits)
qed

text \<open>The screen that a successful \<open>gpu_init_mem_indexation\<close> leaves, and the game on that screen.\<close>

lemma gpu_init_screen:
  assumes env: "env_ok env" and room: "540 \<le> malloc_max g0"
  shows "case gpu_init_mem_indexation (e_gpu env) GRAPHICS_MODE g0 of
      Ok (r, g) \<Rightarrow> r = 1 \<or> r = 0 \<and> screen_ok g \<and> 0 < X_RES g \<and> 0 < Y_RES g
    | Panicked \<Rightarrow> True
    | _ \<Rightarrow> False"
proof (cases "vbe_get_mode_info (e_gpu env) GRAPHICS_MODE")
  case None
  then show ?thesis by (simp add: gpu_init_mem_indexation_def)
next
  case (Some vmi)
  let ?init = "gpu_init_mem_indexation (e_gpu env) GRAPHICS_MODE g0"
  have vmi: "0 < BitsPerPixel vmi" "BitsPerPixel vmi \<le> 8" "0 < uint (XResolution vmi)" "uint (XResolution vmi) \<le> 32000"
      "0 < uint (YResolution vmi)" "uint (YResolution vmi) \<le> 32000"
    using env Some by (auto simp: env_ok_def word_less_def word_le_def)
  have blocks: "blocks_ok (e_gpu env)" using env by (simp add: env_ok_def)
  note init = gpu_init_state [OF blocks Some vmi(1,2), of g0]
  have "uint (XResolution vmi) * uint (YResolution vmi) \<le> 32000 * 32000" using vmi by (intro mult_mono) auto
  then have small: "uint (XResolution vmi) * uint (YResolution vmi) < 2 ^ 31" by simp
  show ?thesis
  proof (cases ?init)
    case (Ok p)
    obtain r g where p: "p = (r, g)" by (cases p)
    have g: "r = 0" "indexed_ok g" "X_RES g = uint (XResolution vmi)" "Y_RES g = uint (YResolution vmi)"
      using init Ok p by auto
    moreover have "malloc_max g = malloc_max g0" using gpu_init_malloc_max Ok p by blast
    ultimately show ?thesis using vmi(3-6) room Ok p by (simp add: screen_ok_def)
  next
    case Undefined
    then show ?thesis using init small by simp
  qed (use init in auto)
qed

lemma proj_init_game_starts:
  assumes env: "env_ok env" and st: "fresh_game st" and g: "screen_ok g" "0 < X_RES g" "0 < Y_RES g"
    and gpu: "gpu_init_mem_indexation (e_gpu env) GRAPHICS_MODE (g_gpu st) = Ok (0, g)"
  shows "\<exists>m gs h st'. proj_init_game env st = Ok (0, st') \<and> game_ok st' \<and> gs_state gs = GS_MAIN \<and>
    Mouse_init (e_load env) (e_raw env) (g_cursor st) (g_heap st) = Ok (m, (g_heap st)\<lparr>avail := avail (g_heap st) - 4\<rparr>) \<and>
    st' = st\<lparr>g_gpu := g, g_cursor := m, g_keys := Keyboard_init (g_keys st), g_state := gs, g_heap := h\<rparr>"
proof -
  have load: "loader_ok (e_load env)" using env by (simp add: env_ok_def)
  from env obtain r lb where lb: "Leaderboard_read_file (e_file env) (e_board env) = Ok (r, lb)" "board_fits lb"
    by (auto simp: env_ok_def)
  have "4 \<le> avail (g_heap st)" "length (buttons (g_cursor st)) = 3" "length (prev_buttons (g_cursor st)) = 3"
    using st by (simp_all add: fresh_game_def)
  from Mouse_init_ok [OF load this g(2,3), of "e_raw env"] obtain m where
    m: "Mouse_init (e_load env) (e_raw env) (g_cursor st) (g_heap st) = Ok (m, (g_heap st)\<lparr>avail := avail (g_heap st) - 4\<rparr>)" "mouse_ok g m"
    by blast
  let ?h = "(g_heap st)\<lparr>avail := avail (g_heap st) - 4\<rparr>"
  have "heap_ok ?h" "650 \<le> avail ?h" using st by (auto simp: fresh_game_def heap_ok_def)
  from Gamestate_init_ok [OF this load g(1) lb, of "e_raw env" "g_state st"] obtain gs' h' where
    gs: "Gamestate_init (e_load env) (e_raw env) (e_file env) (e_board env) (g_state st) ?h = Ok (gs', h')" "gamestate_ok gs'"
      "gs_state gs' = GS_MAIN" "menus_ok g gs' h'" by blast
  have "keyboard_ok (Keyboard_init (g_keys st))" "mouse_drv_ok (g_mouse st)" using st by (simp_all add: fresh_game_def Keyboard_init_ok)
  then show ?thesis
    using gpu g(1) m gs by (simp add: proj_init_game_def Let_def game_ok_def) blast
qed

lemma proj_init_game_ok:
  assumes env: "env_ok env" and st: "fresh_game st"
  shows "case proj_init_game env st of Ok (r, st') \<Rightarrow> r = 0 \<and> game_ok st' \<and> gs_state (g_state st') = GS_MAIN \<or> r = 1
    | Panicked \<Rightarrow> True | _ \<Rightarrow> False"
proof -
  have "540 \<le> malloc_max (g_gpu st)" using st by (simp add: fresh_game_def)
  note init = gpu_init_screen [OF env this]
  show ?thesis
  proof (cases "gpu_init_mem_indexation (e_gpu env) GRAPHICS_MODE (g_gpu st)")
    case (Ok p)
    obtain r g where p: "p = (r, g)" by (cases p)
    show ?thesis
    proof (cases "r = 0")
      case True
      with init Ok p have "screen_ok g" "0 < X_RES g" "0 < Y_RES g" by auto
      from proj_init_game_starts [OF env st this] Ok p True show ?thesis by auto
    qed (use Ok p in \<open>simp add: proj_init_game_def Let_def\<close>)
  qed (use init in \<open>auto simp: proj_init_game_def\<close>)
qed

lemma proj_init_ok:
  assumes "env_ok env" "fresh_game st"
  shows "case proj_init env st of Ok (r, st') \<Rightarrow> r = 0 \<and> game_ok st' \<and> gs_state (g_state st') = GS_MAIN \<or> r = 1
    | Panicked \<Rightarrow> True | _ \<Rightarrow> False"
proof -
  obtain r st1 where 1: "proj_init_devices env st = (r, st1)" by (cases "proj_init_devices env st")
  then have "st1 = st\<lparr>g_kbd := g_kbd st1, g_timer := g_timer st1,
     g_mouse := (g_mouse st)\<lparr>mouse_hook_id := mouse_hook_id (g_mouse st1)\<rparr>, g_trace := g_trace st1,
     timer_bit_no := timer_bit_no st1, kbc_bit_no := kbc_bit_no st1, mouse_bit_no := mouse_bit_no st1\<rparr>"
    using proj_init_devices_frame [of st1 env st] by simp
  from arg_cong [OF this, of fresh_game] have "fresh_game st1" using assms(2) by (simp only: fresh_game_frame)
  from proj_init_game_ok [OF assms(1) this] 1 show ?thesis by (cases r) (simp_all add: proj_init_def)
qed

section \<open>Traces of the whole program\<close>

text \<open>A property of traces that survives everything the program does to its devices: guarded writes to the keyboard
  controller, reads, waits, interrupt subscriptions and the BIOS call.\<close>

locale program_trace = guarded_writes +
  assumes irqset: "I tr \<Longrightarrow> I (Irqset line policy hook r # tr)"
    and irqrm: "I tr \<Longrightarrow> I (Irqrm hook r # tr)"
    and int86: "I tr \<Longrightarrow> I (Int86 ax bx intno ok # tr)"
begin

lemma on_trace_keeps: "keeps I f \<Longrightarrow> keeps (\<lambda>st. I (g_trace st)) (on_trace f)"
  by (auto simp: keeps_def on_trace_def split: prod.splits)

lemma subscriptions_keep:
  "keeps (\<lambda>st. I (g_trace st)) (on_kbd (keyboard_subscribe K))" "keeps (\<lambda>st. I (g_trace st)) (on_kbd (keyboard_unsubscribe K))"
  "keeps (\<lambda>st. I (g_trace st)) (on_timer (timer_subscribe K))" "keeps (\<lambda>st. I (g_trace st)) (on_timer (timer_unsubscribe K))"
  "keeps (\<lambda>st. I (g_trace st)) (on_mouse (mouse_subscribe K))" "keeps (\<lambda>st. I (g_trace st)) (on_mouse (mouse_unsubscribe K))"
  by (auto simp: keeps_def on_kbd_def on_timer_def on_mouse_def keyboard_subscribe_def keyboard_unsubscribe_def timer_subscribe_def
      timer_unsubscribe_def mouse_subscribe_def mouse_unsubscribe_def sys_defs irqset irqrm split: prod.splits option.splits)

lemma mouse_commands_keep: "keeps (\<lambda>st. I (g_trace st)) (\<lambda>st. on_trace (mouse_write_command K (a st) c) st)"
  using on_trace_keeps [OF keeps_mouse_write_command] unfolding keeps_def by blast

lemma store_keeps: "(\<And>st. g_trace (f st) = g_trace st) \<Longrightarrow> keeps (\<lambda>st. I (g_trace st)) (store f)"
  by (simp add: keeps_def store_def)

lemma set_mode_keeps: "keeps (\<lambda>st. I (g_trace st)) (on_trace (gpu_set_mode K mode))"
  by (rule on_trace_keeps) (simp add: keeps_def gpu_set_mode_def sys_defs int86)

lemmas device_steps = subscriptions_keep mouse_commands_keep store_keeps set_mode_keeps

lemma init_devices_keeps: "keeps (\<lambda>st. I (g_trace st)) (proj_init_devices env)"
  unfolding proj_init_devices_def Let_def mouse_enable_data_def
  by (intro keeps_andthen device_steps) simp_all

lemma shutdown_keeps: "I (g_trace st) \<Longrightarrow> I (g_trace (snd (proj_shutdown env st)))"
proof -
  assume I: "I (g_trace st)"
  have "keeps (\<lambda>st. I (g_trace st)) (andthen (\<lambda>st. on_trace (mouse_disable_data (e_kernel env) (e_aknl env (g_trace st))) st) (\<lambda>_.
      andthen (on_kbd (keyboard_unsubscribe (e_kernel env))) (\<lambda>_. andthen (on_timer (timer_unsubscribe (e_kernel env))) (\<lambda>_.
      on_mouse (mouse_unsubscribe (e_kernel env))))))"
    unfolding mouse_disable_data_def by (intro keeps_andthen device_steps)
  from keepsD [OF this I] show ?thesis by (auto simp: proj_shutdown_def Let_def split: prod.splits option.splits)
qed

lemma init_game_keeps: "proj_init_game env st = Ok (r, st') \<Longrightarrow> g_trace st' = g_trace st"
  by (auto simp: proj_init_game_def Let_def split: prod.splits if_splits)

lemma mouse_interrupt_keeps: "I (g_trace st) \<Longrightarrow> I (g_trace (on_mouse_interrupt env st))"
  using kbc_read_outbuff_keeps [of "g_trace st" "e_kernel env" True "current_byte (g_mouse st)"]
  by (auto simp: on_mouse_interrupt_def Mouse_handle_def mouse_read_packet_def split: prod.splits)

lemma keyboard_interrupt_keeps: "I (g_trace st) \<Longrightarrow> on_keyboard_interrupt env st = Ok st' \<Longrightarrow> I (g_trace st')"
proof -
  assume I: "I (g_trace st)" and st': "on_keyboard_interrupt env st = Ok st'"
  let ?tr = "snd (Keyboard_handle (e_kernel env) (e_scancode env (g_trace st)) (g_keys st, g_trace st))"
  have "I ?tr"
    using I kbc_read_outbuff_keeps inb
    by (auto simp: Keyboard_handle_def keyboard_read_scancode_def kbc_read_status_apply split: prod.splits option.splits) (metis snd_conv)+
  moreover have "g_trace st' = ?tr"
    using st' by (auto simp: on_keyboard_interrupt_def Let_def split: prod.splits if_splits)
  ultimately show ?thesis by simp
qed

lemma timer_interrupt_keeps: "on_timer_interrupt st = Ok st' \<Longrightarrow> g_trace st' = g_trace st"
  by (auto simp: on_timer_interrupt_def draw_frame_def split: if_splits prod.splits)

lemma message_keeps: "I (g_trace st) \<Longrightarrow> handle_message env msg st = Ok st' \<Longrightarrow> I (g_trace st')"
  by (cases msg)
    (auto simp: handle_message_def Let_def split: if_splits
      dest!: timer_interrupt_keeps intro: mouse_interrupt_keeps keyboard_interrupt_keeps
      keyboard_interrupt_keeps [OF mouse_interrupt_keeps])

lemma loop_keeps: "I (g_trace st) \<Longrightarrow> game_loop env msgs st = Ok (ended, st') \<Longrightarrow> I (g_trace st')"
  unfolding game_loop_def by (rule message_loop_keeps [where I = "\<lambda>st. I (g_trace st)"]) (rule message_keeps)

lemma program_keeps:
  assumes "I (g_trace st)" "proj_main_loop env msgs st = Ok (r, st')"
  shows "I (g_trace st')"
proof -
  obtain d st1 where d: "proj_init_devices env st = (d, st1)" by (cases "proj_init_devices env st")
  with keepsD [OF init_devices_keeps assms(1)] have 1: "I (g_trace st1)" by (metis snd_conv)
  have init: "I (g_trace st2)" if "proj_init env st = Ok (x, st2)" for x st2
    using that d 1 init_game_keeps by (cases d) (auto simp: proj_init_def)
  from assms(2) obtain x st2 where st2: "proj_init env st = Ok (x, st2)" by (auto simp: proj_main_loop_def split: prod.splits)
  show ?thesis
  proof (cases "x = 0")
    case False
    then show ?thesis using assms(2) st2 init [OF st2] by (simp add: proj_main_loop_def)
  next
    case True
    with assms(2) st2 obtain ended st3 where st3: "game_loop env msgs (st2\<lparr>skip_frame := False\<rparr>) = Ok (ended, st3)"
      by (auto simp: proj_main_loop_def)
    have "I (g_trace st3)" by (rule loop_keeps [OF _ st3]) (use init [OF st2] in simp)
    with assms(2) st2 st3 True shutdown_keeps [of st3 env] show ?thesis
      by (cases "proj_shutdown env st3") (auto simp: proj_main_loop_def split: if_splits)
  qed
qed

end

interpretation polite_program: program_trace kbc_polite
  by unfold_locales auto

interpretation ports_program: program_trace kbc_ports_only
  by unfold_locales (auto simp: kbc_ports_only_def)

section \<open>The states of the game\<close>

text \<open>One turn of the loop as a step relation, and the states it can reach.\<close>

inductive turn :: "environment \<Rightarrow> game \<Rightarrow> game \<Rightarrow> bool" for env where
  turn: "gs_state (g_state st) \<noteq> GS_QUIT \<Longrightarrow> handle_message env msg st = Ok st' \<Longrightarrow> turn env st st'"

inductive reachable :: "environment \<Rightarrow> game \<Rightarrow> game \<Rightarrow> bool" for env st where
  start: "reachable env st st"
| step: "reachable env st st1 \<Longrightarrow> turn env st1 st2 \<Longrightarrow> reachable env st st2"

inductive_cases turnE: "turn env st st'"
inductive_simps turn_iff: "turn env st st'"

lemma game_loop_reachable:
  "reachable env st0 st \<Longrightarrow> game_loop env msgs st = Ok (ended, st') \<Longrightarrow> reachable env st0 st'"
proof (induction msgs arbitrary: st)
  case Nil
  then show ?case by simp
next
  case (Cons msg msgs)
  then show ?case
    by (auto simp: Gamestate_get_state_def split: if_splits dest: turn.turn reachable.step [OF Cons.prems(1)])
qed

text \<open>How far the game is: the main menu comes before the leaderboard, which comes before the end.\<close>

fun stage :: "GAMESTATE \<Rightarrow> nat" where
  "stage GS_MAIN = 0"
| "stage GS_LEVEL = 0"
| "stage GS_LEADERBOARD = 1"
| "stage GS_QUIT = 2"

definition follows :: "gamestate \<Rightarrow> gamestate \<Rightarrow> bool" where
  "follows gs gs' \<longleftrightarrow> gs_state gs' = gs_state gs \<or> (in_menu gs \<and> gs_state gs' \<in> {GS_LEADERBOARD, GS_QUIT})"

lemma follows_refl [simp]: "follows gs gs"
  by (simp add: follows_def)

lemma follows_trans: "follows gs gs' \<Longrightarrow> follows gs' gs'' \<Longrightarrow> follows gs gs''"
  by (auto simp: follows_def in_menu_def Gamestate_get_state_def)

lemma mouse_interact_follows: "mouse_interact m gs h = Ok (m', gs') \<Longrightarrow> follows gs gs'"
proof (cases "in_menu gs")
  case False
  moreover assume "mouse_interact m gs h = Ok (m', gs')"
  ultimately show ?thesis by (simp add: mouse_interact_def in_menu_def)
next
  case True
  have cb: "follows gs (run_callback f gs)" for f using True by (cases f) (simp_all add: follows_def gamestate_changes)
  assume "mouse_interact m gs h = Ok (m', gs')"
  with cb show ?thesis by (auto simp: mouse_interact_def Let_def split: if_splits option.splits)
qed

lemma draw_frame_follows: "draw_frame st = Ok st' \<Longrightarrow> follows (g_state st) (g_state st')"
  by (auto simp: draw_frame_def Mouse_draw_def split: prod.splits dest: mouse_interact_follows)

lemma on_timer_interrupt_follows: "on_timer_interrupt st = Ok st' \<Longrightarrow> follows (g_state st) (g_state st')"
  by (auto simp: on_timer_interrupt_def split: if_splits dest: draw_frame_follows)

lemma on_keyboard_interrupt_follows: "on_keyboard_interrupt env st = Ok st' \<Longrightarrow> follows (g_state st) (g_state st')"
  by (auto simp: on_keyboard_interrupt_def Let_def follows_def gamestate_changes split: prod.splits if_splits)

lemma on_mouse_interrupt_state [simp]: "g_state (on_mouse_interrupt env st) = g_state st"
  by (simp add: on_mouse_interrupt_def split: prod.splits)

lemma handle_message_follows: "handle_message env msg st = Ok st' \<Longrightarrow> follows (g_state st) (g_state st')"
  by (cases msg)
    (auto simp: handle_message_def Let_def split: if_splits
      dest!: on_keyboard_interrupt_follows on_timer_interrupt_follows intro: follows_trans)

section \<open>A machine to run on\<close>

text \<open>A controller that always offers the make code of escape, a screen of mode 0x105, black pixmaps and no leaderboard file.\<close>

definition demo_env :: environment where
  "demo_env = \<lparr>
     e_kernel = \<lparr>k_inb = \<lambda>_ _. Some 1, k_outb = \<lambda>_ _ _. True, k_irqset = \<lambda>_ _ _ hook. Some hook,
       k_irqrm = \<lambda>_ hook. Some hook, k_int86 = \<lambda>_ _ _ _. True\<rparr>,
     e_gpu = \<lparr>vbe_get_mode_info = \<lambda>_. Some (tiny_vmi\<lparr>XResolution := 1024, YResolution := 768\<rparr>),
       sys_privctl_add_mem = \<lambda>_ _. True, vm_map_phys = \<lambda>_ n. Some (replicate (unat n) 0), malloc_bytes = \<lambda>n. Some (replicate (unat n) 0)\<rparr>,
     e_load = black_loader, e_raw = \<lambda>_. raw_sprite, e_aknl = \<lambda>_. 0, e_scancode = \<lambda>_. 0, e_file = None, e_board = sample_board,
     e_vg_exit = True\<rparr>"

lemma demo_env_ok: "env_ok demo_env"
  by (simp add: env_ok_def blocks_ok_def demo_env_def tiny_vmi_def black_loader_ok Leaderboard_read_file_def sample_board_fits)

lemma demo_fresh: "fresh_game (game_start 1000 100000)"
  using heap_start_ok [of 1000] mouse_drv_start_ok
  by (simp add: fresh_game_def game_start_def mouse_mgr_start_def keyboard_mgr_start_def keyboard_ok_def gpu_start_def heap_start_def)

lemma demo_game:
  "\<exists>st. game_ok st \<and> gs_state (g_state st) = GS_MAIN \<and> \<not> skip_frame st \<and> \<not> double_width (g_keys st) \<and>
     mouse_bit_no st = 4 \<and> kbc_bit_no st = 2 \<and> timer_bit_no st = 1 \<and> g_trace st = [] \<and> g_mouse st = mouse_drv_start \<and>
     g_gpu st = mode105_gpu \<and> \<not> keys (g_keys st) ! 0"
proof -
  from start_mouse obtain m where m: "mouse_ok mode105_gpu m" by blast
  from start_game obtain gs h where gs: "gamestate_ok gs" "gs_state gs = GS_MAIN" "menus_ok mode105_gpu gs h" by blast
  let ?st = "(game_start 1000 100000)\<lparr>g_cursor := m, g_state := gs, g_heap := h, g_gpu := mode105_gpu, mouse_bit_no := 4, kbc_bit_no := 2, timer_bit_no := 1\<rparr>"
  have "game_ok ?st"
    using m gs mode105_screen_ok demo_fresh by (simp add: game_ok_def fresh_game_def)
  then show ?thesis
    using gs(2) by (intro exI [of _ ?st]) (simp add: game_start_def keyboard_mgr_start_def)
qed

lemma demo_read:
  "\<exists>tr. keyboard_read_scancode (e_kernel demo_env) (e_scancode demo_env []) [] = ((True, 0x01), tr)"
proof -
  have "kbc_read_outbuff (e_kernel demo_env) False 0 [Inb KBC_REG_STAT (Some 1)] =
      ((True, ucast (1 :: u32)), Inb KBC_REG_OUT_BUF (Some 1) # Inb KBC_REG_STAT (Some 1) # [Inb KBC_REG_STAT (Some 1)])"
    by (rule kbc_read_at_once) (simp_all add: demo_env_def c_consts readable_def corrupt_def flag_or flag_BIT)
  then show ?thesis
    by (simp add: keyboard_read_scancode_def kbc_read_status_apply demo_env_def c_consts flag_or flag_BIT)
qed

end
