(* ===== verification/Session.thy ===== *)
theory Session
  imports Gamestate
begin

text \<open>
  The game as its player sees it, the specification of the running program: which page is shown, where the cursor is, whether the
  left button has just been pressed, and how these change with every byte of the mouse and the keyboard and every tick of the timer.
  No pointers, sprites, lists or ports occur.  The byte protocols are stated by what they mean: a mouse report is a marked byte and two more, a movement is a
  number between -256 and 255, a key is escape or not.
\<close>

datatype player_event =
    Mouse_byte "u8 option"   \<comment> \<open>the byte of a mouse interrupt, \<open>None\<close> if it could not be read\<close>
  | Key_byte u8
  | Tick

record session =
  page :: GAMESTATE
  cursor_x :: int
  cursor_y :: int
  left_down :: bool
  left_before :: bool
  hand :: bool
  escape_down :: bool
  prefixed :: bool
  report :: "u8 list"
  odd_tick :: bool
  width :: int
  height :: int

definition on_menu :: "session \<Rightarrow> bool" where
  "on_menu s \<longleftrightarrow> page s \<in> {GS_MAIN, GS_LEADERBOARD}"

section \<open>The mouse\<close>

text \<open>The bytes of the current report: a complete report stays until a marked byte begins the next one.\<close>

definition report_after :: "u8 option \<Rightarrow> u8 list \<Rightarrow> u8 list" where
  "report_after r bs =
     (case r of
        None \<Rightarrow> bs
      | Some b \<Rightarrow> if length bs = 1 \<or> length bs = 2 then bs @ [b] else if bit b 3 then [b] else bs)"

definition movement :: "bool \<Rightarrow> u8 \<Rightarrow> int" where
  "movement negative b = uint b - (if negative then 256 else 0)"

definition confine :: "int \<Rightarrow> int \<Rightarrow> int" where
  "confine n v = min (max v 0) (n - 1)"

fun take_report :: "u8 list \<Rightarrow> session \<Rightarrow> session" where
  "take_report [b0, b1, b2] s =
     s\<lparr>cursor_x := confine (width s) (cursor_x s + movement (bit b0 4) b1),
       cursor_y := confine (height s) (cursor_y s - movement (bit b0 5) b2),
       left_before := left_down s, left_down := bit b0 0\<rparr>"
| "take_report _ s = s"

definition mouse_event :: "u8 option \<Rightarrow> session \<Rightarrow> session" where
  "mouse_event r s = (let bs = report_after r (report s) in take_report bs (s\<lparr>report := bs\<rparr>))"

section \<open>The keyboard\<close>

text \<open>Escape is 0x01 and 0x81; a code after the prefix 0xE0 is another key.\<close>

definition escape_after :: "u8 \<Rightarrow> session \<Rightarrow> bool" where
  "escape_after c s = (if prefixed s then escape_down s else if c = 0x01 then True else if c = 0x81 then False else escape_down s)"

definition key_event :: "u8 \<Rightarrow> session \<Rightarrow> session" where
  "key_event c s =
     (let s' = s\<lparr>escape_down := escape_after c s, prefixed := (c = 0xE0 \<and> \<not> prefixed s)\<rparr>
      in if on_menu s' \<and> escape_down s' then s'\<lparr>page := GS_QUIT\<rparr> else s')"

section \<open>The frames\<close>

text \<open>Buttons are 402 by 97 pixels, edges included.  The page a button leads to: the play button leads nowhere.\<close>

definition on_button :: "int \<Rightarrow> int \<Rightarrow> session \<Rightarrow> bool" where
  "on_button x y s \<longleftrightarrow> x \<le> cursor_x s \<and> cursor_x s \<le> x + 402 \<and> y \<le> cursor_y s \<and> cursor_y s \<le> y + 97"

definition button_target :: "session \<Rightarrow> GAMESTATE option" where
  "button_target s =
     (case page s of
        GS_MAIN \<Rightarrow>
          if on_button 311 340 s then Some GS_MAIN
          else if on_button 311 480 s then Some GS_LEADERBOARD
          else if on_button 311 620 s then Some GS_QUIT
          else None
      | GS_LEADERBOARD \<Rightarrow> if on_button 415 70 s then Some GS_LEADERBOARD else None
      | _ \<Rightarrow> None)"

definition frame_event :: "session \<Rightarrow> session" where
  "frame_event s =
     (if on_menu s
      then s\<lparr>page := (case button_target s of None \<Rightarrow> page s | Some p \<Rightarrow> if left_down s \<and> \<not> left_before s then p else page s),
             hand := (button_target s \<noteq> None)\<rparr>
      else s)"

definition tick_event :: "session \<Rightarrow> session" where
  "tick_event s = (if odd_tick s then s else frame_event s)\<lparr>odd_tick := \<not> odd_tick s\<rparr>"

fun react :: "player_event \<Rightarrow> session \<Rightarrow> session" where
  "react (Mouse_byte r) s = mouse_event r s"
| "react (Key_byte c) s = key_event c s"
| "react Tick s = tick_event s"

end
