(* ===== verification/Session_Refinement.thy ===== *)
theory Session_Refinement
  imports Proj Session
begin

text \<open>
  The running program refines the specification \<open>Session\<close>: the view of the state, what a message makes the program observe of its devices, and the proof
  that every handler, seen through the view, is the specification's reaction to what it observed.
\<close>

section \<open>The view of a game and what a turn observes\<close>

text \<open>The bytes the driver has of the current packet.\<close>

definition packet_so_far :: "mouse_drv \<Rightarrow> u8 list" where
  "packet_so_far d = take (if packet_ready d then 3 else unat (current_byte_index d)) (mouse_bytes d)"

definition view :: "game \<Rightarrow> session" where
  "view st = \<lparr>page = gs_state (g_state st),
     cursor_x = vx (mouse_pos (g_cursor st)), cursor_y = vy (mouse_pos (g_cursor st)),
     left_down = buttons (g_cursor st) ! 0, left_before = prev_buttons (g_cursor st) ! 0,
     hand = (case mouse_sprite (g_cursor st) of None \<Rightarrow> False | Some s \<Rightarrow> current_frame s = mouse_state_value MOUSE_CLICK),
     escape_down = keys (g_keys st) ! 0, prefixed = double_width (g_keys st),
     report = packet_so_far (g_mouse st),
     odd_tick = skip_frame st, width = X_RES (g_gpu st), height = Y_RES (g_gpu st)\<rparr>"

lemma view_sel [simp]:
  "page (view st) = gs_state (g_state st)" "report (view st) = packet_so_far (g_mouse st)"
  "left_down (view st) = buttons (g_cursor st) ! 0" "left_before (view st) = prev_buttons (g_cursor st) ! 0"
  "odd_tick (view st) = skip_frame st"
  by (simp_all add: view_def)

lemma on_menu_view [simp]: "on_menu (view st) \<longleftrightarrow> in_menu (g_state st)"
  by (auto simp: on_menu_def in_menu_def Gamestate_get_state_def)

definition mouse_input :: "environment \<Rightarrow> game \<Rightarrow> player_event" where
  "mouse_input env st =
     (case kbc_read_outbuff (e_kernel env) True (current_byte (g_mouse st)) (g_trace st) of
        ((ok, b), _) \<Rightarrow> Mouse_byte (if ok then Some b else None))"

definition key_input :: "environment \<Rightarrow> game \<Rightarrow> player_event" where
  "key_input env st =
     (case keyboard_read_scancode (e_kernel env) (e_scancode env (g_trace st)) (g_trace st) of ((_, c), _) \<Rightarrow> Key_byte c)"

fun observe :: "environment \<Rightarrow> message \<Rightarrow> game \<Rightarrow> player_event list" where
  "observe env (Interrupts irqs) st =
     (let st1 = (if pending irqs (mouse_bit_no st) then on_mouse_interrupt env st else st) in
      (if pending irqs (mouse_bit_no st) then [mouse_input env st] else []) @
      (if pending irqs (kbc_bit_no st) then [key_input env st1] else []) @
      (if pending irqs (timer_bit_no st) then [Tick] else []))"
| "observe env _ st = []"

section \<open>The mouse\<close>

lemma index_cases:
  assumes "mouse_drv_ok d"
  obtains "current_byte_index d = 0" | "current_byte_index d = 1" "\<not> packet_ready d" | "current_byte_index d = 2" "\<not> packet_ready d"
proof -
  have "unat (current_byte_index d) \<le> 2" using assms by (simp add: mouse_drv_ok_def word_le_nat_alt)
  then have "unat (current_byte_index d) = 0 \<or> unat (current_byte_index d) = 1 \<or> unat (current_byte_index d) = 2" by arith
  then have "current_byte_index d = 0 \<or> current_byte_index d = 1 \<or> current_byte_index d = 2"
    by (auto simp: word_unat_eq_iff)
  with assms that show thesis by (auto simp: mouse_drv_ok_def)
qed

lemma packet_so_far_feed:
  assumes ok: "mouse_drv_ok d"
  shows "packet_so_far (mouse_feed b d) = report_after (Some b) (packet_so_far d)"
proof -
  from ok obtain x y z where b: "mouse_bytes d = [x, y, z]" by (auto simp: mouse_drv_ok_def length_Suc_conv numeral_eq_Suc)
  show ?thesis
    using ok by (rule index_cases)
      (auto simp: packet_so_far_def mouse_feed_def mouse_accept_byte_def report_after_def b flag_BIT)
qed

text \<open>Taking the driver's packet is taking the report.\<close>

lemma delta_movement:
  "sint (if flag b0 MOUSE_DP_MSB_X then 0xFF00 OR ucast b1 else ucast b1 :: u16) = movement (bit b0 4) b1"
  "sint (if flag b0 MOUSE_DP_MSB_Y then 0xFF00 OR ucast b1 else ucast b1 :: u16) = movement (bit b0 5) b1"
  by (simp_all add: movement_def sint_byte sint_byte_extended c_consts flag_BIT)

lemma clamp_confine: "0 < uint res \<Longrightarrow> clamp v res = confine (uint res) v"
  by (auto simp: clamp_def confine_def Let_def)

lemma mouse_apply_packet_view:
  assumes m: "mouse_ok (g_gpu st) m" and d: "mouse_drv_ok d"
    and a: "mouse_apply_packet (g_gpu st) (m, d) = (m', d')"
  shows "view (st\<lparr>g_cursor := m', g_mouse := d', g_trace := tr\<rparr>) =
    take_report (packet_so_far d) (view (st\<lparr>g_cursor := m, g_mouse := d\<rparr>))"
proof -
  from d obtain b0 b1 b2 where b: "mouse_bytes d = [b0, b1, b2]" by (auto simp: mouse_drv_ok_def length_Suc_conv numeral_eq_Suc)
  have res: "0 < X_RES (g_gpu st)" "0 < Y_RES (g_gpu st)" using m by (auto simp: mouse_ok_def on_screen_def)
  show ?thesis
  proof (cases "packet_ready d")
    case True
    then show ?thesis
      using a res
      by (auto simp: mouse_apply_packet_def mouse_packet_ready_def mouse_get_packet_def Let_def b view_def packet_so_far_def delta_movement
          clamp_confine gpu_get_gpu_res_info_def) (simp_all add: c_consts flag_BIT)
  next
    case False
    then have "m' = m" "d' = d" using a by (simp_all add: mouse_apply_packet_def mouse_packet_ready_def)
    moreover have "take_report (packet_so_far d) s = s" for s
      using d False by (elim index_cases) (simp_all add: packet_so_far_def b)
    ultimately show ?thesis by (simp add: view_def)
  qed
qed

lemma on_mouse_interrupt_view:
  assumes "game_ok st"
  shows "view (on_mouse_interrupt env st) = react (mouse_input env st) (view st)"
proof -
  have ok: "mouse_ok (g_gpu st) (g_cursor st)" "mouse_drv_ok (g_mouse st)" using assms by (simp_all add: game_ok_def)
  obtain got b tr where r: "kbc_read_outbuff (e_kernel env) True (current_byte (g_mouse st)) (g_trace st) = ((got, b), tr)"
    by (metis surj_pair)
  let ?d = "if got then mouse_feed b (g_mouse st) else (g_mouse st)\<lparr>current_byte := b\<rparr>"
  let ?r = "if got then Some b else None"
  have d: "mouse_drv_ok ?d" using ok(2) mouse_feed_ok by (simp add: mouse_drv_ok_def)
  have so_far: "packet_so_far ?d = report_after ?r (packet_so_far (g_mouse st))"
  proof (cases got)
    case False
    then show ?thesis by (simp add: report_after_def packet_so_far_def)
  qed (simp add: packet_so_far_feed [OF ok(2)])
  obtain m' d' where a: "mouse_apply_packet (g_gpu st) (g_cursor st, ?d) = (m', d')" by fastforce
  have "on_mouse_interrupt env st = st\<lparr>g_cursor := m', g_mouse := d', g_trace := tr\<rparr>"
    using r a by (auto simp: on_mouse_interrupt_def Mouse_handle_def mouse_read_packet_def mouse_feed_def)
  moreover have "view (st\<lparr>g_cursor := g_cursor st, g_mouse := ?d\<rparr>) = (view st)\<lparr>report := packet_so_far ?d\<rparr>" by (simp add: view_def)
  moreover have "report (view st) = packet_so_far (g_mouse st)" by (simp add: view_def)
  ultimately show ?thesis
    using mouse_apply_packet_view [OF ok(1) d a, of tr] r so_far by (simp add: mouse_input_def mouse_event_def Let_def)
qed

section \<open>The keyboard\<close>

lemma escape_break_code:
  fixes c :: u8
  assumes "flag c 0x80"
  shows "c AND 0x7F = 0x01 \<longleftrightarrow> c = 0x81"
proof -
  have "bit c 7" using assms flag_BIT [of c 7] by (simp add: BIT_numeral_simps)
  then have "c AND BIT 7 = BIT 7" by (intro bit_eqI) (auto simp: bit_and_iff bit_BIT)
  moreover have "(0x7F OR BIT 7 :: u8) = - 1" by (simp add: BIT_numeral_simps)
  then have "c = c AND (0x7F OR BIT 7)" by simp
  ultimately have "c = (c AND 0x7F) OR BIT 7" by (metis bit.conj_disj_distrib)
  then show ?thesis by (auto simp: BIT_numeral_simps)
qed

lemma keyboard_scancode_view:
  assumes "keyboard_ok k"
  shows "double_width (keyboard_scancode c k) \<longleftrightarrow> c = 0xE0 \<and> \<not> double_width k"
    "keys (keyboard_scancode c k) ! 0 =
      (if double_width k then keys k ! 0 else if c = 0x01 then True else if c = 0x81 then False else keys k ! 0)"
proof -
  obtain x xs where k: "keys k = x # xs" using assms by (cases "keys k") (simp_all add: keyboard_ok_def)
  show "double_width (keyboard_scancode c k) \<longleftrightarrow> c = 0xE0 \<and> \<not> double_width k"
    by (simp add: keyboard_scancode_def split: prod.splits)
  have "\<not> flag (0x01 :: u8) 0x80" "flag (0x81 :: u8) 0x80" by (simp_all add: flag_def)
  then show "keys (keyboard_scancode c k) ! 0 =
      (if double_width k then keys k ! 0 else if c = 0x01 then True else if c = 0x81 then False else keys k ! 0)"
    using escape_break_code [of c] by (auto simp: keyboard_scancode_def Keyboard_translate_def Let_def k)
qed

lemma on_keyboard_interrupt_view:
  assumes ok: "game_ok st" and st': "on_keyboard_interrupt env st = Ok st'"
  shows "view st' = react (key_input env st) (view st)"
proof -
  have k: "keyboard_ok (g_keys st)" using ok by (simp add: game_ok_def)
  obtain got c tr where r: "keyboard_read_scancode (e_kernel env) (e_scancode env (g_trace st)) (g_trace st) = ((got, c), tr)"
    by (metis surj_pair)
  let ?k = "keyboard_scancode c (g_keys st)"
  have esc: "Keyboard_pressed KB_ESC ?k = Ok (keys ?k ! 0)"
    using keyboard_scancode_ok [OF k, of c] by (cases "keys ?k") (simp_all add: Keyboard_pressed_def keyboard_ok_def)
  let ?st = "st\<lparr>g_keys := ?k, g_trace := tr\<rparr>"
  have "st' = (if in_menu (g_state st) \<and> keys ?k ! 0 then ?st\<lparr>g_state := Gamestate_quit (g_state st)\<rparr> else ?st)"
    using st' r esc by (simp add: on_keyboard_interrupt_def Keyboard_handle_def Let_def split: if_splits)
  then show ?thesis
    using r keyboard_scancode_view [OF k, of c]
    by (auto simp: key_input_def key_event_def Let_def view_def on_menu_def in_menu_def Gamestate_get_state_def escape_after_def
        Gamestate_quit_def)
qed

section \<open>The frames\<close>

lemma button_target_view:
  "button_target (view st) = map_option (\<lambda>f. gs_state (run_callback f (g_state st))) (button_under (gs_state (g_state st)) (mouse_pos (g_cursor st)))"
  by (cases "gs_state (g_state st)")
    (simp_all add: button_target_def on_button_def view_def main_button_def board_button_def AABB_contains_def gamestate_changes)

lemma draw_frame_view:
  assumes ok: "game_ok st" and st': "draw_frame st = Ok st'"
  shows "view st' = frame_event (view st)"
proof -
  from draw_frame_ok [OF ok] st' obtain h g where eq: "st' = st\<lparr>g_heap := h, g_cursor := pointed (g_cursor st) (g_state st),
      g_state := clicked (g_cursor st) (g_state st), g_gpu := g\<rparr>" "gpu_res_info g = gpu_res_info (g_gpu st)"
    by auto
  from ok obtain s where s: "mouse_sprite (g_cursor st) = Some s" by (auto simp: game_ok_def mouse_ok_def)
  have "view st' = (view st)\<lparr>page := gs_state (clicked (g_cursor st) (g_state st)),
      hand := (if in_menu (g_state st) then button_target (view st) \<noteq> None else hand (view st))\<rparr>"
    unfolding button_target_view eq(1) by (simp add: view_def pointed_def s in_menu_def Gamestate_get_state_def eq(2))
  moreover have "gs_state (clicked (g_cursor st) (g_state st)) =
      (case button_target (view st) of None \<Rightarrow> page (view st) | Some p \<Rightarrow>
         if left_down (view st) \<and> \<not> left_before (view st) then p else page (view st))"
    by (auto simp: clicked_def button_target_view left_click_def split: option.split)
  moreover have "button_target (view st) = None" if "\<not> in_menu (g_state st)"
    using that by (cases "gs_state (g_state st)") (simp_all add: button_target_def in_menu_def Gamestate_get_state_def)
  ultimately show ?thesis by (cases "in_menu (g_state st)") (simp_all add: frame_event_def del: view_sel)
qed

lemma on_timer_interrupt_view:
  assumes "game_ok st" "on_timer_interrupt st = Ok st'"
  shows "view st' = react Tick (view st)"
proof (cases "skip_frame st")
  case True
  then have "st' = st\<lparr>skip_frame := False\<rparr>" using assms(2) by (simp add: on_timer_interrupt_def)
  with True show ?thesis by (simp add: tick_event_def) (simp add: view_def)
next
  case False
  with assms(2) obtain st1 where 1: "draw_frame st = Ok st1" "st' = st1\<lparr>skip_frame := \<not> skip_frame st1\<rparr>"
    by (auto simp: on_timer_interrupt_def)
  have "skip_frame st1 = skip_frame st" using 1(1) by (auto simp: draw_frame_def split: prod.splits)
  then have "view st' = (view st1)\<lparr>odd_tick := True\<rparr>" using 1(2) False by (simp add: view_def)
  with draw_frame_view [OF assms(1) 1(1)] False show ?thesis by (simp add: tick_event_def)
qed

section \<open>The main loop\<close>

lemma interrupt_bits [simp]:
  "kbc_bit_no (on_mouse_interrupt env st) = kbc_bit_no st" "timer_bit_no (on_mouse_interrupt env st) = timer_bit_no st"
  by (simp_all add: on_mouse_interrupt_def split: prod.splits)

lemma on_keyboard_interrupt_timer_bit: "on_keyboard_interrupt env st = Ok st' \<Longrightarrow> timer_bit_no st' = timer_bit_no st"
  by (auto simp: on_keyboard_interrupt_def Let_def split: prod.splits if_splits)

lemma handle_message_view:
  assumes ok: "game_ok st" and h: "handle_message env msg st = Ok st'"
  shows "view st' = fold react (observe env msg st) (view st)"
proof (cases msg)
  case (Interrupts irqs)
  let ?st1 = "if pending irqs (mouse_bit_no st) then on_mouse_interrupt env st else st"
  have 1: "game_ok ?st1" "view ?st1 = fold react (if pending irqs (mouse_bit_no st) then [mouse_input env st] else []) (view st)"
      "kbc_bit_no ?st1 = kbc_bit_no st" "timer_bit_no ?st1 = timer_bit_no st"
    using ok on_mouse_interrupt_ok on_mouse_interrupt_view [OF ok] by simp_all
  from h Interrupts obtain st2 where 2: "(if pending irqs (kbc_bit_no ?st1) then on_keyboard_interrupt env ?st1 else Ok ?st1) = Ok st2"
      "(if pending irqs (timer_bit_no st2) then on_timer_interrupt st2 else Ok st2) = Ok st'"
    unfolding handle_message_def by (cases "if pending irqs (kbc_bit_no ?st1) then on_keyboard_interrupt env ?st1 else Ok ?st1") (simp_all add: Let_def)
  have 3: "game_ok st2" "view st2 = fold react (if pending irqs (kbc_bit_no st) then [key_input env ?st1] else []) (view ?st1)"
      "timer_bit_no st2 = timer_bit_no st"
    using 1 2(1) on_keyboard_interrupt_ok [OF 1(1), of env] on_keyboard_interrupt_view [OF 1(1), of env st2]
      on_keyboard_interrupt_timer_bit [of env ?st1 st2]
    by (auto split: if_splits)
  have "view st' = fold react (if pending irqs (timer_bit_no st) then [Tick] else []) (view st2)"
    using 2(2) 3(3) on_timer_interrupt_view [OF 3(1), of st'] by (auto split: if_splits)
  with 1(2) 3(2) Interrupts show ?thesis by (simp add: Let_def)
qed (use h in \<open>simp_all add: handle_message_def\<close>)

interpretation game_session:
  message_simulation "\<lambda>st. Gamestate_get_state (g_state st) \<noteq> GS_QUIT" "handle_message env" game_ok "observe env" view react for env
  by unfold_locales (rule handle_message_view)

text \<open>What the program has observed of its devices while it handled the messages.\<close>

definition game_inputs :: "environment \<Rightarrow> message list \<Rightarrow> game \<Rightarrow> player_event list" where
  "game_inputs env = observed (\<lambda>st. Gamestate_get_state (g_state st) \<noteq> GS_QUIT) (handle_message env) (observe env)"

lemma game_loop_view:
  assumes "game_ok st"
  shows "\<exists>ended st'. game_loop env msgs st = Ok (ended, st') \<and> game_ok st' \<and>
    view st' = fold react (game_inputs env msgs st) (view st) \<and> (ended \<longleftrightarrow> page (view st') = GS_QUIT)"
proof -
  from game_loop_ok [OF assms, of env msgs] obtain ended st' where
    st': "game_loop env msgs st = Ok (ended, st')" "game_ok st'" "ended \<longleftrightarrow> gs_state (g_state st') = GS_QUIT" by blast
  moreover have "view st' = fold react (game_inputs env msgs st) (view st)"
    unfolding game_inputs_def by (rule game_session.loop_simulates [OF assms]) (use st'(1) in \<open>simp add: game_loop_def\<close>)
  ultimately show ?thesis by simp
qed

text \<open>C4: the main loop refines the specification \<open>Session\<close>: for every behaviour of the machine and every sequence of messages, the game the loop leaves,
  as its player sees it, is the specification's reaction to exactly the bytes and ticks the program observed, and the loop has ended exactly when that
  session has been quit.\<close>

theorem game_loop_refines_session:
  assumes "game_ok st"
  shows "\<exists>ended st'. game_loop env msgs st = Ok (ended, st') \<and> game_ok st' \<and>
    view st' = fold react (game_inputs env msgs st) (view st) \<and> (ended \<longleftrightarrow> page (view st') = GS_QUIT)"
  using game_loop_view [OF assms] .

theorem game_loop_refines_session_witness:
  "\<exists>st ended st'. gs_state (g_state st) = GS_MAIN \<and> game_loop demo_env [Interrupts 1, Interrupts 4] st = Ok (ended, st') \<and>
    view st' = fold react (game_inputs demo_env [Interrupts 1, Interrupts 4] st) (view st)"
proof -
  from demo_game obtain st where "game_ok st" "gs_state (g_state st) = GS_MAIN" by blast
  with game_loop_refines_session [OF this(1), of demo_env "[Interrupts 1, Interrupts 4]"] show ?thesis by blast
qed

section \<open>Leaving the leaderboard\<close>

lemma react_leaderboard:
  "page s = GS_LEADERBOARD \<Longrightarrow> \<not> escape_down s \<Longrightarrow> ev \<noteq> Key_byte 0x01 \<Longrightarrow>
    page (react ev s) = GS_LEADERBOARD \<and> \<not> escape_down (react ev s)"
proof (cases ev)
  case (Mouse_byte r)
  assume "page s = GS_LEADERBOARD" "\<not> escape_down s"
  moreover have "page (take_report bs t) = page t" "escape_down (take_report bs t) = escape_down t" for bs t
    by (cases "(bs, t)" rule: take_report.cases; simp)+
  ultimately show ?thesis using Mouse_byte by (simp add: mouse_event_def Let_def)
next
  case Tick
  moreover assume "page s = GS_LEADERBOARD" "\<not> escape_down s"
  ultimately show ?thesis by (simp add: tick_event_def frame_event_def button_target_def)
qed (simp add: key_event_def escape_after_def Let_def)

text \<open>C10: only escape leads out of the leaderboard: as long as no make code of escape is read, no mouse input, no other key and no tick
  leaves that page, so that a player with only a mouse is caught there.\<close>

theorem leaderboard_only_escape:
  assumes "game_ok st" "gs_state (g_state st) = GS_LEADERBOARD" "\<not> keys (g_keys st) ! 0" "Key_byte 0x01 \<notin> set (game_inputs env msgs st)"
  shows "\<exists>st'. game_loop env msgs st = Ok (False, st') \<and> gs_state (g_state st') = GS_LEADERBOARD"
proof -
  have fold: "page (fold react evs s) = GS_LEADERBOARD" if "page s = GS_LEADERBOARD" "\<not> escape_down s" "Key_byte 0x01 \<notin> set evs" for evs s
    using that react_leaderboard by (induction evs arbitrary: s) auto
  have "page (fold react (game_inputs env msgs st) (view st)) = GS_LEADERBOARD"
    by (rule fold) (use assms in \<open>simp_all add: view_def\<close>)
  moreover from game_loop_view [OF assms(1), of env msgs] obtain ended st' where
    "game_loop env msgs st = Ok (ended, st')" "view st' = fold react (game_inputs env msgs st) (view st)" "ended \<longleftrightarrow> page (view st') = GS_QUIT"
    by blast
  ultimately show ?thesis by (auto simp flip: view_sel(1))
qed

theorem leaderboard_only_escape_witness:
  "\<exists>st st'. gs_state (g_state st) = GS_LEADERBOARD \<and> game_loop demo_env [Interrupts 1, Interrupts 1] st = Ok (False, st') \<and>
    gs_state (g_state st') = GS_LEADERBOARD"
proof -
  from demo_game obtain st0 where st0: "game_ok st0" "mouse_bit_no st0 = 4" "kbc_bit_no st0 = 2" "\<not> keys (g_keys st0) ! 0" by blast
  define st where "st = st0\<lparr>g_state := Gamestate_leaderboard (g_state st0)\<rparr>"
  have ok: "game_ok st"
    using st0(1) Gamestate_change_ok [of "g_state st0" GS_LEADERBOARD] menus_ok_state [of "Gamestate_leaderboard (g_state st0)" "g_state st0"]
    by (simp add: st_def game_ok_def Gamestate_leaderboard_def)
  have st: "gs_state (g_state st) = GS_LEADERBOARD" "\<not> keys (g_keys st) ! 0" using st0(4) by (simp_all add: st_def Gamestate_leaderboard_def)
  have quiet: "Key_byte c \<notin> set (observe demo_env (Interrupts 1) s)" if "kbc_bit_no s = 2" "mouse_bit_no s = 4" for s c
    using that by (simp add: Let_def pending_def flag_def)
  from handle_message_ok [OF ok] obtain st1 where 1: "handle_message demo_env (Interrupts 1) st = Ok st1" by blast
  have bits: "kbc_bit_no st = 2" "mouse_bit_no st = 4" using st0 by (simp_all add: st_def)
  then have "on_timer_interrupt st = Ok st1 \<or> st1 = st" using 1 by (auto simp: handle_message_def Let_def pending_def flag_def split: if_splits)
  then have "kbc_bit_no st1 = 2" "mouse_bit_no st1 = 4"
    using bits by (auto simp: on_timer_interrupt_def draw_frame_def split: if_splits prod.splits)
  then have "Key_byte 0x01 \<notin> set (game_inputs demo_env [Interrupts 1, Interrupts 1] st)"
    using quiet [of st] quiet [of st1] bits 1 by (auto simp: game_inputs_def split: outcome.splits simp del: observe.simps)
  from leaderboard_only_escape [OF ok st this] st(1) show ?thesis by blast
qed

end
