(* ===== verification/Machine.thy ===== *)
theory Machine
  imports Session_Refinement
begin

text \<open>
  The program on a machine: a keyboard controller that hands out the bytes of a script, one per read of its output buffer, tells by its status which device
  the next byte comes from, and raises the interrupt of that device for every byte.  On this machine the complete program, from initialisation to shutdown, does what the
  specification \<open>Session\<close> says of the scripted events.
\<close>

section \<open>The controller\<close>

text \<open>The bytes taken from the output buffer so far.\<close>

fun taken :: "trace \<Rightarrow> nat" where
  "taken [] = 0"
| "taken (Inb port (Some v) # tr) = (if port = KBC_REG_OUT_BUF then 1 else 0) + taken tr"
| "taken (_ # tr) = taken tr"

text \<open>A script lists the bytes with their device, \<open>True\<close> for the mouse.  After its last byte the controller answers commands only.\<close>

definition i8042_status :: "(bool \<times> u8) list \<Rightarrow> nat \<Rightarrow> u32" where
  "i8042_status script n = (if n < length script then if fst (script ! n) then 0x21 else 0x01 else 0)"

definition i8042_data :: "(bool \<times> u8) list \<Rightarrow> nat \<Rightarrow> u32" where
  "i8042_data script n = (if n < length script then ucast (snd (script ! n)) else 0xFA)"

definition i8042 :: "(bool \<times> u8) list \<Rightarrow> kernel" where
  "i8042 script =
     \<lparr>k_inb = (\<lambda>tr port. Some (if port = KBC_REG_STAT then i8042_status script (taken tr)
                            else if port = KBC_REG_OUT_BUF then i8042_data script (taken tr) else 0)),
      k_outb = (\<lambda>_ _ _. True), k_irqset = (\<lambda>_ _ _ hook. Some hook), k_irqrm = (\<lambda>_ hook. Some hook),
      k_int86 = (\<lambda>_ _ _ _. True)\<rparr>"

lemma i8042_sel [simp]:
  "k_inb (i8042 script) tr KBC_REG_STAT = Some (i8042_status script (taken tr))"
  "k_inb (i8042 script) tr KBC_REG_OUT_BUF = Some (i8042_data script (taken tr))"
  "k_outb (i8042 script) tr port b" "k_irqset (i8042 script) tr line policy hook = Some hook"
  "k_irqrm (i8042 script) tr hook = Some hook" "k_int86 (i8042 script) tr ax bx intno"
  by (simp_all add: i8042_def c_consts)

lemma ports_differ [simp]: "KBC_REG_STAT \<noteq> KBC_REG_OUT_BUF"
  by (simp add: c_consts)

lemma taken_status [simp]: "taken (Inb KBC_REG_STAT v # tr) = taken tr"
  by (cases v) (simp_all add: c_consts)

lemma i8042_status_flags:
  "\<not> flag (ucast (i8042_status script n) :: u8) KBC_STAT_IBF" "\<not> corrupt (ucast (i8042_status script n))"
  "flag (ucast (i8042_status script n) :: u8) KBC_STAT_OBF \<longleftrightarrow> n < length script"
  "n < length script \<Longrightarrow> readable mouse (ucast (i8042_status script n)) \<longleftrightarrow> mouse = fst (script ! n)"
  by (auto simp: i8042_status_def c_consts corrupt_def readable_def flag_or flag_BIT bit_simps)

text \<open>A read of the right device takes the next byte; a command is acknowledged when the next byte is the acknowledgement.\<close>

lemma i8042_read:
  assumes "taken tr < length script"
  shows "\<exists>tr'. kbc_read_outbuff (i8042 script) (fst (script ! taken tr)) data tr = ((True, snd (script ! taken tr)), tr') \<and> taken tr' = Suc (taken tr)"
proof -
  let ?s = "i8042_status script (taken tr)" and ?v = "i8042_data script (taken tr)"
  have "kbc_read_outbuff (i8042 script) (fst (script ! taken tr)) data tr =
      ((True, ucast ?v), Inb KBC_REG_OUT_BUF (Some ?v) # Inb KBC_REG_STAT (Some ?s) # tr)"
    by (rule kbc_read_at_once) (simp_all add: i8042_status_flags assms)
  then show ?thesis using assms by (simp add: i8042_data_def)
qed

lemma i8042_command:
  assumes "i8042_data script (taken tr) = 0xFA" "aknl \<noteq> MOUSE_RES_ACK"
  shows "\<exists>tr'. mouse_write_command (i8042 script) aknl c tr = (Some (), tr') \<and> taken tr' = Suc (taken tr)"
proof -
  have w: "kbc_write (i8042 script) port b tr =
      (Some (), Outb port b True # Inb KBC_REG_STAT (Some (i8042_status script (taken tr))) # tr)" for port b tr
    by (rule kbc_write_at_once) (simp_all add: i8042_status_flags)
  have "\<exists>tr'. mouse_write_command_loop (i8042 script) c (Suc 19) aknl tr = (Some (), tr') \<and> taken tr' = Suc (taken tr)"
    using assms by (simp only: mouse_write_command_loop_Suc w) (simp add: Let_def MOUSE_RES_ACK_def)
  then show ?thesis by (simp add: mouse_write_command_def MAX_ATTEMPTS_def)
qed

section \<open>Events\<close>

datatype device_event = From_mouse u8 | From_keyboard u8 | Timer_tick

fun delivered :: "device_event \<Rightarrow> (bool \<times> u8) list" where
  "delivered (From_mouse b) = [(True, b)]"
| "delivered (From_keyboard c) = [(False, c)]"
| "delivered Timer_tick = []"

text \<open>The interrupt masks are those of the hook ids the drivers start with: bit 0 for the timer, 1 for the keyboard, 2 for the mouse.\<close>

fun raised :: "device_event \<Rightarrow> message" where
  "raised (From_mouse _) = Interrupts 4"
| "raised (From_keyboard _) = Interrupts 2"
| "raised Timer_tick = Interrupts 1"

fun seen :: "device_event \<Rightarrow> player_event" where
  "seen (From_mouse b) = Mouse_byte (Some b)"
| "seen (From_keyboard c) = Key_byte c"
| "seen Timer_tick = Tick"

text \<open>A session ends with the page \<open>GS_QUIT\<close>.\<close>

fun play :: "player_event list \<Rightarrow> session \<Rightarrow> session" where
  "play [] s = s"
| "play (ev # evs) s = (if page s = GS_QUIT then s else play evs (react ev s))"

lemma play_append: "play (xs @ ys) s = play ys (play xs s)"
proof (induction xs arbitrary: s)
  case (Cons x xs)
  have "play ys s = s" if "page s = GS_QUIT" using that by (cases ys) simp_all
  with Cons show ?case by simp
qed simp

text \<open>A running game on the machine: the bytes of \<open>evs\<close> are still to come.\<close>

definition attached :: "environment \<Rightarrow> device_event list \<Rightarrow> game \<Rightarrow> bool" where
  "attached env evs st \<longleftrightarrow> mouse_bit_no st = 4 \<and> kbc_bit_no st = 2 \<and> timer_bit_no st = 1 \<and>
     (\<exists>script. e_kernel env = i8042 script \<and> taken (g_trace st) \<le> length script \<and>
        drop (taken (g_trace st)) script = concat (map delivered evs))"

lemma next_byte:
  "n \<le> length script \<Longrightarrow> drop n script = x # xs \<Longrightarrow> n < length script \<and> script ! n = x \<and> drop (Suc n) script = xs"
  by (metis Cons_nth_drop_Suc drop_all leI list.distinct(1) list.inject)

lemma masks [simp]:
  "pending 4 4" "\<not> pending 4 2" "\<not> pending 4 1" "\<not> pending 2 4" "pending 2 2" "\<not> pending 2 1" "\<not> pending 1 4" "\<not> pending 1 2" "pending 1 1"
  by (simp_all add: pending_def flag_def)

lemma attached_mouse:
  assumes "attached env (From_mouse b # evs) st"
  shows "observe env (raised (From_mouse b)) st = [seen (From_mouse b)]"
    "handle_message env (raised (From_mouse b)) st = Ok st' \<Longrightarrow> attached env evs st'"
proof -
  from assms obtain script where a: "mouse_bit_no st = 4" "kbc_bit_no st = 2" "timer_bit_no st = 1" "e_kernel env = i8042 script"
      "taken (g_trace st) \<le> length script" "drop (taken (g_trace st)) script = (True, b) # concat (map delivered evs)"
    by (auto simp: attached_def)
  note n = next_byte [OF a(5,6)]
  from i8042_read [of "g_trace st" script "current_byte (g_mouse st)"] n obtain tr' where
    r: "kbc_read_outbuff (i8042 script) True (current_byte (g_mouse st)) (g_trace st) = ((True, b), tr')" "taken tr' = Suc (taken (g_trace st))"
    by auto
  show "observe env (raised (From_mouse b)) st = [seen (From_mouse b)]"
    using a r(1) by (simp add: mouse_input_def Let_def)
  assume "handle_message env (raised (From_mouse b)) st = Ok st'"
  then have "st' = on_mouse_interrupt env st" using a by (simp add: handle_message_def Let_def)
  moreover have "g_trace (on_mouse_interrupt env st) = tr'" "mouse_bit_no (on_mouse_interrupt env st) = mouse_bit_no st"
    using a(4) r(1) by (auto simp: on_mouse_interrupt_def Mouse_handle_def mouse_read_packet_def split: prod.splits)
  ultimately show "attached env evs st'" using a n r(2) by (auto simp: attached_def)
qed

lemma attached_keyboard:
  assumes "attached env (From_keyboard c # evs) st"
  shows "observe env (raised (From_keyboard c)) st = [seen (From_keyboard c)]"
    "handle_message env (raised (From_keyboard c)) st = Ok st' \<Longrightarrow> attached env evs st'"
proof -
  from assms obtain script where a: "mouse_bit_no st = 4" "kbc_bit_no st = 2" "timer_bit_no st = 1" "e_kernel env = i8042 script"
      "taken (g_trace st) \<le> length script" "drop (taken (g_trace st)) script = (False, c) # concat (map delivered evs)"
    by (auto simp: attached_def)
  note n = next_byte [OF a(5,6)]
  let ?s = "i8042_status script (taken (g_trace st))"
  from i8042_read [of "Inb KBC_REG_STAT (Some ?s) # g_trace st" script "e_scancode env (g_trace st)"] n obtain tr' where
    "kbc_read_outbuff (i8042 script) False (e_scancode env (g_trace st)) (Inb KBC_REG_STAT (Some ?s) # g_trace st) = ((True, c), tr')"
    "taken tr' = Suc (taken (g_trace st))"
    by auto
  then have r: "keyboard_read_scancode (e_kernel env) (e_scancode env (g_trace st)) (g_trace st) = ((True, c), tr')"
      "taken tr' = Suc (taken (g_trace st))"
    using n a(4) i8042_status_flags(2,3) [of script "taken (g_trace st)"] by (simp_all add: keyboard_read_scancode_def kbc_read_status_apply corrupt_def)
  show "observe env (raised (From_keyboard c)) st = [seen (From_keyboard c)]"
    using a r(1) by (simp add: key_input_def Let_def)
  assume "handle_message env (raised (From_keyboard c)) st = Ok st'"
  then obtain st1 where 1: "on_keyboard_interrupt env st = Ok st1" "st' = (if pending 2 (timer_bit_no st1) then st' else st1)"
    using a by (auto simp: handle_message_def Let_def split: if_splits)
  have f: "g_trace st1 = tr'" "mouse_bit_no st1 = mouse_bit_no st" "kbc_bit_no st1 = kbc_bit_no st" "timer_bit_no st1 = timer_bit_no st"
    using 1(1) r(1) by (auto simp: on_keyboard_interrupt_def Keyboard_handle_def Let_def split: if_splits)
  then have "st' = st1" using 1(2) a by simp
  then show "attached env evs st'" using a n r(2) f by (auto simp: attached_def)
qed

lemma attached_tick:
  assumes "attached env (Timer_tick # evs) st"
  shows "observe env (raised Timer_tick) st = [seen Timer_tick]"
    "handle_message env (raised Timer_tick) st = Ok st' \<Longrightarrow> attached env evs st'"
proof -
  have a: "mouse_bit_no st = 4" "kbc_bit_no st = 2" "timer_bit_no st = 1" using assms by (simp_all add: attached_def)
  show "observe env (raised Timer_tick) st = [seen Timer_tick]" using a by (simp add: Let_def)
  assume "handle_message env (raised Timer_tick) st = Ok st'"
  then have "on_timer_interrupt st = Ok st'" using a by (simp add: handle_message_def Let_def)
  then have "g_trace st' = g_trace st" "mouse_bit_no st' = mouse_bit_no st" "kbc_bit_no st' = kbc_bit_no st" "timer_bit_no st' = timer_bit_no st"
    by (auto simp: on_timer_interrupt_def draw_frame_def split: if_splits prod.splits)
  then show "attached env evs st'" using assms by (auto simp: attached_def)
qed

lemma attached_step:
  assumes "attached env (ev # evs) st"
  shows "observe env (raised ev) st = [seen ev]" "handle_message env (raised ev) st = Ok st' \<Longrightarrow> attached env evs st'"
proof -
  show "observe env (raised ev) st = [seen ev]"
    using assms attached_mouse(1) attached_keyboard(1) attached_tick(1) by (cases ev) blast+
  assume "handle_message env (raised ev) st = Ok st'"
  then show "attached env evs st'"
    using assms attached_mouse(2) attached_keyboard(2) attached_tick(2) by (cases ev) blast+
qed

text \<open>The loop on the machine plays the session of the scripted events.\<close>

lemma game_loop_plays:
  assumes "game_ok st" "attached env evs st"
  shows "\<exists>ended st'. game_loop env (map raised evs) st = Ok (ended, st') \<and> view st' = play (map seen evs) (view st) \<and>
    game_ok st' \<and> (ended \<longleftrightarrow> page (view st') = GS_QUIT) \<and>
    (page (play (map seen (butlast evs)) (view st)) \<noteq> GS_QUIT \<longrightarrow> attached env [] st')"
  using assms
proof (induction evs arbitrary: st)
  case (Cons ev evs)
  show ?case
  proof (cases "gs_state (g_state st) = GS_QUIT")
    case True
    then have "page (play es (view st)) = GS_QUIT" for es by (cases es) simp_all
    with True show ?thesis using Cons.prems by (auto simp: Gamestate_get_state_def)
  next
    case False
    from handle_message_ok [OF Cons.prems(1)] obtain st1 where 1: "handle_message env (raised ev) st = Ok st1" "game_ok st1" by blast
    have "view st1 = react (seen ev) (view st)" using handle_message_view [OF Cons.prems(1) 1(1)] attached_step(1) [OF Cons.prems(2)] by simp
    with Cons.IH [OF 1(2) attached_step(2) [OF Cons.prems(2) 1(1)]] 1(1) False attached_step(2) [OF Cons.prems(2) 1(1)] show ?thesis
      by (cases "evs = []") (simp_all add: Gamestate_get_state_def)
  qed
qed (auto simp: Gamestate_get_state_def)

section \<open>From initialisation to shutdown\<close>

text \<open>The mouse acknowledges the three commands of \<open>proj_init\<close>; then the events come.\<close>

definition machine_script :: "device_event list \<Rightarrow> (bool \<times> u8) list" where
  "machine_script evs = replicate 3 (True, MOUSE_RES_ACK) @ concat (map delivered evs)"

lemma script_acks: "n < 3 \<Longrightarrow> i8042_data (machine_script evs) n = 0xFA"
  by (simp add: i8042_data_def machine_script_def nth_append MOUSE_RES_ACK_def)

lemma machine_init_devices:
  assumes K: "e_kernel env = i8042 (machine_script evs)" and a: "\<And>tr. e_aknl env tr \<noteq> MOUSE_RES_ACK"
  shows "\<exists>tr. proj_init_devices env (game_start budget room) =
      (Some (), (game_start budget room)\<lparr>mouse_bit_no := 4, kbc_bit_no := 2, timer_bit_no := 1, g_trace := tr\<rparr>) \<and> taken tr = 3"
proof -
  let ?t0 = "[Irqset KBC_IRQ_MOUSE (IRQ_REENABLE OR IRQ_EXCLUSIVE) 2 (Some 2), Irqset TIMER0_IRQ IRQ_REENABLE 0 (Some 0),
    Irqset KBC_IRQ_KBD (IRQ_REENABLE OR IRQ_EXCLUSIVE) 1 (Some 1)]"
  have command: "\<exists>tr'. mouse_write_command (e_kernel env) (e_aknl env tr) c tr = (Some (), tr') \<and> taken tr' = Suc (taken tr)"
    if "taken tr < 3" for tr c
    unfolding K by (rule i8042_command) (use that a script_acks in auto)
  obtain t1 where t1: "mouse_write_command (e_kernel env) (e_aknl env ?t0) 0xF3 ?t0 = (Some (), t1)" "taken t1 = 1"
    using command [of ?t0 "0xF3"] by auto
  obtain t2 where t2: "mouse_write_command (e_kernel env) (e_aknl env t1) 40 t1 = (Some (), t2)" "taken t2 = 2"
    using command [of t1 40] t1(2) by auto
  obtain t3 where t3: "mouse_enable_data (e_kernel env) (e_aknl env t2) t2 = (Some (), t3)" "taken t3 = 3"
    using command [of t2] t2(2) by (auto simp: mouse_enable_data_def)
  have bits: "hook_bit 0 = 1" "hook_bit 1 = 2" "hook_bit 2 = 4" by (simp_all add: hook_bit_def BIT_def)
  show ?thesis
    using t1 t2 t3
    by (simp add: proj_init_devices_def io_defs on_kbd_def on_timer_def on_mouse_def on_trace_def store_def keyboard_subscribe_def
        timer_subscribe_def mouse_subscribe_def gpu_set_mode_def sys_defs K game_start_def keyboard_drv_start_def timer_drv_start_def
        mouse_drv_start_def bits)
qed

text \<open>The session at the start: the main menu, the cursor in the upper left corner.\<close>

definition first_page :: "int \<Rightarrow> int \<Rightarrow> session" where
  "first_page w h = \<lparr>page = GS_MAIN, cursor_x = 0, cursor_y = 0, left_down = False, left_before = False, hand = False,
     escape_down = False, prefixed = False, report = [], odd_tick = False, width = w, height = h\<rparr>"

lemma Mouse_init_view:
  assumes "Mouse_init load raw m h = Ok (m', h')" "length (buttons m) = 3" "length (prev_buttons m) = 3"
  shows "mouse_pos m' = VEC2 0 0" "\<not> buttons m' ! 0" "\<not> prev_buttons m' ! 0" "\<exists>s. mouse_sprite m' = Some s \<and> current_frame s = 1"
  using assms by (auto simp: Mouse_init_def split: option.splits)

lemma machine_init:
  assumes env: "env_ok env" and K: "e_kernel env = i8042 (machine_script evs)" and a: "\<And>tr. e_aknl env tr \<noteq> MOUSE_RES_ACK"
    and gpu: "gpu_init_mem_indexation (e_gpu env) GRAPHICS_MODE (gpu_start room) = Ok (0, g)" and mem: "654 \<le> budget" "540 \<le> room"
  shows "\<exists>st. proj_init env (game_start budget room) = Ok (0, st) \<and> game_ok st \<and> view st = first_page (X_RES g) (Y_RES g) \<and> attached env evs st"
proof -
  from machine_init_devices [OF K a] obtain tr where tr: "proj_init_devices env (game_start budget room) =
      (Some (), (game_start budget room)\<lparr>mouse_bit_no := 4, kbc_bit_no := 2, timer_bit_no := 1, g_trace := tr\<rparr>)" "taken tr = 3"
    by blast
  let ?st = "(game_start budget room)\<lparr>mouse_bit_no := 4, kbc_bit_no := 2, timer_bit_no := 1, g_trace := tr\<rparr>"
  have fresh: "fresh_game ?st"
    using heap_start_ok [of budget] mouse_drv_start_ok mem
    by (simp add: fresh_game_def game_start_def mouse_mgr_start_def keyboard_mgr_start_def keyboard_ok_def gpu_start_def heap_start_def)
  have g_gpu: "g_gpu ?st = gpu_start room" by (simp add: game_start_def)
  have room: "540 \<le> malloc_max (gpu_start room)" using mem by (simp add: gpu_start_def)
  from gpu_init_screen [OF env room] gpu have scr: "screen_ok g" "0 < X_RES g" "0 < Y_RES g" by auto
  from proj_init_game_starts [OF env fresh scr] gpu g_gpu obtain m gs h st' where
    i: "proj_init_game env ?st = Ok (0, st')" "game_ok st'" "gs_state gs = GS_MAIN"
      "Mouse_init (e_load env) (e_raw env) (g_cursor ?st) (g_heap ?st) = Ok (m, (g_heap ?st)\<lparr>avail := avail (g_heap ?st) - 4\<rparr>)"
      "st' = ?st\<lparr>g_gpu := g, g_cursor := m, g_keys := Keyboard_init (g_keys ?st), g_state := gs, g_heap := h\<rparr>"
    by auto
  have m: "mouse_pos m = VEC2 0 0" "\<not> buttons m ! 0" "\<not> prev_buttons m ! 0" "\<exists>s. mouse_sprite m = Some s \<and> current_frame s = 1"
    by (rule Mouse_init_view [OF i(4)]; simp add: game_start_def mouse_mgr_start_def)+
  have "view st' = first_page (X_RES g) (Y_RES g)"
    using i(3) m unfolding i(5)
    by (auto simp: view_def first_page_def game_start_def packet_so_far_def mouse_drv_start_def Keyboard_init_def keyboard_mgr_start_def)
  moreover have "attached env evs st'"
    unfolding attached_def i(5) using K tr(2) by (auto simp: machine_script_def)
  ultimately show ?thesis using tr(1) i(1,2) by (simp add: proj_init_def)
qed

lemma machine_shutdown:
  assumes "attached env [] st" "\<And>tr. e_aknl env tr \<noteq> MOUSE_RES_ACK"
  shows "\<exists>st'. proj_shutdown env st = (if e_vg_exit env then 0 else 1, st')"
proof -
  from assms(1) obtain script where K: "e_kernel env = i8042 script" "taken (g_trace st) = length script"
    by (auto simp: attached_def)
  have "i8042_data script (taken (g_trace st)) = 0xFA" by (simp add: i8042_data_def K(2))
  from i8042_command [OF this assms(2)] obtain tr where
    "mouse_write_command (i8042 script) (e_aknl env (g_trace st)) MOUSE_COMM_DISABLE_DATA_REPORTING (g_trace st) = (Some (), tr)" by blast
  then show ?thesis
    by (simp add: proj_shutdown_def K(1) io_defs on_trace_def mouse_disable_data_def on_kbd_def on_timer_def on_mouse_def
        keyboard_unsubscribe_def timer_unsubscribe_def mouse_unsubscribe_def sys_defs)
qed

text \<open>C1: on this machine the whole program, from initialisation to shutdown, plays the session of the scripted events: as long as the session lasts the program
  waits for the next message and its state, as the player sees it, is that of the specification; once the session has been quit the
  program returns, with the code of \<open>vg_exit\<close> if no event is left over.  The conditions: the environment is that of \<open>env_ok\<close> (the library behaves as documented,
  the pixmaps are loaded, reading the leaderboard file is defined and leaves entries whose times can be converted); the graphics initialisation
  succeeds; there is memory for 654 allocations and for line buffers of 540 bytes; and
  the local that \<open>mouse_write_command\<close> tests before it is assigned never happens to hold the acknowledgement 0xFA, for otherwise the
  command is not sent (\<open>Mouse.mouse_write_command_uninitialised\<close>).\<close>

theorem program_plays_session:
  assumes env: "env_ok env" and K: "e_kernel env = i8042 (machine_script evs)" and a: "\<And>tr. e_aknl env tr \<noteq> MOUSE_RES_ACK"
    and gpu: "gpu_init_mem_indexation (e_gpu env) GRAPHICS_MODE (gpu_start room) = Ok (0, g)" and mem: "654 \<le> budget" "540 \<le> room"
  shows "\<exists>r st'. proj_main_loop env (map raised evs) (game_start budget room) = Ok (r, st') \<and>
    (let s0 = first_page (X_RES g) (Y_RES g); s = play (map seen evs) s0 in
     if page s \<noteq> GS_QUIT then r = None \<and> view st' = s
     else r \<noteq> None \<and> (page (play (map seen (butlast evs)) s0) \<noteq> GS_QUIT \<longrightarrow> r = Some (if e_vg_exit env then 0 else 1)))"
proof -
  from machine_init [OF assms] obtain st where
    st: "proj_init env (game_start budget room) = Ok (0, st)" "game_ok st" "view st = first_page (X_RES g) (Y_RES g)" "attached env evs st" by blast
  have "\<not> skip_frame st" using arg_cong [OF st(3), of odd_tick] by (simp add: first_page_def)
  then have same: "st\<lparr>skip_frame := False\<rparr> = st" by simp
  from game_loop_plays [OF st(2,4)] obtain ended st1 where
    l: "game_loop env (map raised evs) st = Ok (ended, st1)" "view st1 = play (map seen evs) (view st)" "ended \<longleftrightarrow> page (view st1) = GS_QUIT"
      "page (play (map seen (butlast evs)) (view st)) \<noteq> GS_QUIT \<longrightarrow> attached env [] st1"
    by blast
  obtain x st2 where sd: "proj_shutdown env st1 = (x, st2)" by fastforce
  have "x = (if e_vg_exit env then 0 else 1)" if "page (play (map seen (butlast evs)) (view st)) \<noteq> GS_QUIT"
    using machine_shutdown [of env st1] that l(4) a sd by auto
  then show ?thesis
    using st(1,3) same l sd by (auto simp: proj_main_loop_def Let_def split: if_splits)
qed

section \<open>Playing with the mouse\<close>

text \<open>The bytes of one report with the left button up or down.\<close>

definition mouse_report :: "bool \<Rightarrow> int \<Rightarrow> int \<Rightarrow> device_event list" where
  "mouse_report left dx dy = map From_mouse (ps2_encode left False False dx dy)"

lemma movement_encoded: "- 256 \<le> i \<Longrightarrow> i \<le> 255 \<Longrightarrow> movement (i < 0) (word_of_int i) = i"
  by (simp add: movement_def uint_byte_of_int)

lemma play_report:
  assumes "page s \<noteq> GS_QUIT" "length (report s) = 0 \<or> length (report s) = 3" "- 256 \<le> dx" "dx \<le> 255" "- 256 \<le> dy" "dy \<le> 255"
  shows "play (map seen (mouse_report left dx dy)) s =
    s\<lparr>cursor_x := confine (width s) (cursor_x s + dx), cursor_y := confine (height s) (cursor_y s - dy), left_before := left_down s,
      left_down := left, report := ps2_encode left False False dx dy\<rparr>"
proof -
  obtain b0 where enc: "ps2_encode left False False dx dy = [b0, word_of_int dx, word_of_int dy]" and
    b: "bit b0 3" "bit b0 4 \<longleftrightarrow> dx < 0" "bit b0 5 \<longleftrightarrow> dy < 0" "bit b0 0 = left"
    by (auto simp: ps2_encode_def bit_or_iff bit_BIT)
  let ?s = "s\<lparr>cursor_x := confine (width s) (cursor_x s + dx), cursor_y := confine (height s) (cursor_y s - dy),
    left_before := left_down s, left_down := left\<rparr>"
  have 1: "mouse_event (Some b0) s = s\<lparr>report := [b0]\<rparr>" using assms(2) b(1) by (auto simp: mouse_event_def report_after_def)
  have 2: "mouse_event (Some c) (s\<lparr>report := [b0]\<rparr>) = s\<lparr>report := [b0, c]\<rparr>" for c
    by (simp add: mouse_event_def report_after_def)
  have 3: "mouse_event (Some (word_of_int dy)) (s\<lparr>report := [b0, word_of_int dx]\<rparr>) = ?s\<lparr>report := [b0, word_of_int dx, word_of_int dy]\<rparr>"
    using b movement_encoded [OF assms(3,4)] movement_encoded [OF assms(5,6)] by (simp add: mouse_event_def report_after_def)
  have "play (map seen (mouse_report left dx dy)) s = ?s\<lparr>report := [b0, word_of_int dx, word_of_int dy]\<rparr>"
    unfolding mouse_report_def enc using assms(1) by (simp add: 1 2 3)
  then show ?thesis unfolding enc by simp
qed

text \<open>Reports can bring the cursor anywhere on the screen.\<close>

lemma mouse_reaches:
  assumes "page s \<noteq> GS_QUIT" "length (report s) = 0 \<or> length (report s) = 3"
    "0 \<le> cursor_x s" "cursor_x s < width s" "0 \<le> cursor_y s" "cursor_y s < height s" "0 \<le> x" "x < width s" "0 \<le> y" "y < height s"
  shows "\<exists>moves. \<exists>s'. play (map seen (concat (map (\<lambda>(dx, dy). mouse_report False dx dy) moves))) s = s' \<and> cursor_x s' = x \<and> cursor_y s' = y \<and>
    \<not> left_down s' \<and> length (report s') = 3 \<and> page s' = page s \<and> odd_tick s' = odd_tick s \<and> width s' = width s \<and> height s' = height s"
  using assms
proof (induction "nat (\<bar>x - cursor_x s\<bar> + \<bar>y - cursor_y s\<bar>)" arbitrary: s rule: less_induct)
  case less
  define dx where "dx = max (- 255) (min 255 (x - cursor_x s))"
  define dy where "dy = max (- 255) (min 255 (cursor_y s - y))"
  let ?s = "play (map seen (mouse_report False dx dy)) s"
  have s: "?s = s\<lparr>cursor_x := cursor_x s + dx, cursor_y := cursor_y s - dy, left_before := left_down s, left_down := False,
      report := ps2_encode False False False dx dy\<rparr>"
    using play_report [OF less.prems(1,2), of dx dy False] less.prems(3-) by (auto simp: confine_def dx_def dy_def)
  show ?case
  proof (cases "cursor_x s = x \<and> cursor_y s = y")
    case True
    then have "dx = 0" "dy = 0" by (simp_all add: dx_def dy_def)
    with True s show ?thesis by (intro exI [of _ "[(dx, dy)]"]) (simp add: ps2_encode_def)
  next
    case False
    have "nat (\<bar>x - cursor_x ?s\<bar> + \<bar>y - cursor_y ?s\<bar>) < nat (\<bar>x - cursor_x s\<bar> + \<bar>y - cursor_y s\<bar>)"
      using False unfolding s by (auto simp: dx_def dy_def)
    moreover have "0 \<le> cursor_x ?s" "cursor_x ?s < width ?s" "0 \<le> cursor_y ?s" "cursor_y ?s < height ?s"
      unfolding s using less.prems(3-) by (auto simp: dx_def dy_def)
    moreover have keep: "page ?s = page s" "length (report ?s) = 3" "odd_tick ?s = odd_tick s" "width ?s = width s" "height ?s = height s"
      unfolding s by (simp_all add: ps2_encode_def)
    ultimately obtain moves s' where
      "play (map seen (concat (map (\<lambda>(dx, dy). mouse_report False dx dy) moves))) ?s = s'" "cursor_x s' = x" "cursor_y s' = y"
      "\<not> left_down s'" "length (report s') = 3" "page s' = page s" "odd_tick s' = odd_tick s" "width s' = width s" "height s' = height s"
      using less.hyps [of ?s] less.prems(1,7-) by auto
    then show ?thesis by (intro exI [of _ "(dx, dy) # moves"]) (simp add: play_append)
  qed
qed

text \<open>A report of which some bytes have come already can be completed.\<close>

lemma report_completed:
  assumes "page s \<noteq> GS_QUIT" "length (report s) \<le> 3" "0 \<le> cursor_x s" "cursor_x s < width s" "0 \<le> cursor_y s" "cursor_y s < height s"
  obtains bs s' where "play (map seen (map From_mouse bs)) s = s'" "length (report s') = 0 \<or> length (report s') = 3"
    "0 \<le> cursor_x s'" "cursor_x s' < width s" "0 \<le> cursor_y s'" "cursor_y s' < height s"
    "page s' = page s" "odd_tick s' = odd_tick s" "width s' = width s" "height s' = height s"
proof -
  have report: "mouse_event (Some b2) (t\<lparr>report := [b0, b1]\<rparr>) =
      t\<lparr>report := [b0, b1, b2], cursor_x := confine (width t) (cursor_x t + movement (bit b0 4) b1),
        cursor_y := confine (height t) (cursor_y t - movement (bit b0 5) b2), left_before := left_down t, left_down := bit b0 0\<rparr>"
    for t b0 b1 b2 by (simp add: mouse_event_def report_after_def)
  have confined: "0 < n \<Longrightarrow> 0 \<le> confine n v" "0 < n \<Longrightarrow> confine n v < n" for n v by (auto simp: confine_def)
  consider "length (report s) = 0 \<or> length (report s) = 3" | b0 where "report s = [b0]" | b0 b1 where "report s = [b0, b1]"
    using assms(2) by (auto simp: le_Suc_eq numeral_3_eq_3 length_Suc_conv)
  then show thesis
  proof cases
    case 1
    show thesis by (rule that [of "[]" s]) (use 1 assms in simp_all)
  next
    case (2 b0)
    then have first: "mouse_event (Some 0) s = s\<lparr>report := [b0, 0]\<rparr>" by (simp add: mouse_event_def report_after_def)
    show thesis
      by (rule that [OF refl, of "[0, 0]"]) (use assms in \<open>simp_all add: first report confined\<close>)
  next
    case (3 b0 b1)
    then have s: "s = s\<lparr>report := [b0, b1]\<rparr>" by simp
    show thesis
      by (rule that [OF refl, of "[0]"]; subst s) (use assms in \<open>simp_all add: report confined\<close>)
  qed
qed

lemma quit_button_quits:
  assumes "page s = GS_MAIN" "cursor_x s = 311" "cursor_y s = 620" "left_down s" "\<not> left_before s"
  shows "page (play (if odd_tick s then [Tick, Tick] else [Tick]) s) = GS_QUIT"
proof -
  have frame: "page (frame_event t) = GS_QUIT"
    if "page t = GS_MAIN" "cursor_x t = 311" "cursor_y t = 620" "left_down t" "\<not> left_before t" for t
    using that by (simp add: frame_event_def on_menu_def button_target_def on_button_def)
  then show ?thesis using assms by (simp add: tick_event_def)
qed

text \<open>C9: a player with only a mouse can always leave the main menu.  On every screen that shows a part of the quit button, that is with more than 311 columns and
  620 rows, and from every state that satisfies the invariant of the running game and shows the main menu, also in the middle of a mouse report, there is
  a sequence of mouse bytes and timer ticks, the same for every machine that delivers it, after which the program's loop has ended.\<close>

theorem mouse_can_quit:
  assumes ok: "game_ok st" and main: "gs_state (g_state st) = GS_MAIN" and res: "311 < X_RES (g_gpu st)" "620 < Y_RES (g_gpu st)"
  shows "\<exists>evs. (\<forall>c. From_keyboard c \<notin> set evs) \<and>
    (\<forall>env. attached env evs st \<longrightarrow> (\<exists>st'. game_loop env (map raised evs) st = Ok (True, st')))"
proof -
  let ?s = "view st"
  have m: "mouse_ok (g_gpu st) (g_cursor st)" "mouse_drv_ok (g_mouse st)" using ok by (simp_all add: game_ok_def)
  have "length (report ?s) \<le> 3" using m(2) by (simp add: packet_so_far_def mouse_drv_ok_def)
  moreover have "0 \<le> cursor_x ?s" "cursor_x ?s < width ?s" "0 \<le> cursor_y ?s" "cursor_y ?s < height ?s" "311 < width ?s" "620 < height ?s"
    using m(1) res by (simp_all add: view_def mouse_ok_def on_screen_def)
  moreover have "page ?s \<noteq> GS_QUIT" using main by simp
  ultimately obtain bs s0 where c: "play (map seen (map From_mouse bs)) ?s = s0" "length (report s0) = 0 \<or> length (report s0) = 3"
      "0 \<le> cursor_x s0" "cursor_x s0 < width s0" "0 \<le> cursor_y s0" "cursor_y s0 < height s0" "page s0 = GS_MAIN"
      "311 < width s0" "620 < height s0"
    using report_completed [of ?s] main by (metis view_sel(1))
  then obtain moves s' where mv: "play (map seen (concat (map (\<lambda>(dx, dy). mouse_report False dx dy) moves))) s0 = s'"
      "cursor_x s' = 311" "cursor_y s' = 620" "\<not> left_down s'" "length (report s') = 3" "page s' = GS_MAIN"
      "width s' = width s0" "height s' = height s0"
    using mouse_reaches [of s0 311 620] by auto
  let ?t = "play (map seen (mouse_report True 0 0)) s'"
  let ?ticks = "if odd_tick ?t then [Timer_tick, Timer_tick] else [Timer_tick]"
  let ?evs = "map From_mouse bs @ concat (map (\<lambda>(dx, dy). mouse_report False dx dy) moves) @ mouse_report True 0 0 @ ?ticks"
  have t: "page ?t = GS_MAIN" "cursor_x ?t = 311" "cursor_y ?t = 620" "left_down ?t" "\<not> left_before ?t"
    using play_report [of s' 0 0 True] mv(2-) c(8,9) by (simp_all add: confine_def)
  have "map seen ?ticks = (if odd_tick ?t then [Tick, Tick] else [Tick])" by simp
  then have quit: "page (play (map seen ?evs) ?s) = GS_QUIT"
    using quit_button_quits [OF t] mv(1) c(1) by (simp add: play_append del: view_sel)
  have "\<forall>c. From_keyboard c \<notin> set ?evs" by (auto simp: mouse_report_def)
  moreover have "\<exists>st'. game_loop env (map raised ?evs) st = Ok (True, st')" if "attached env ?evs st" for env
    using game_loop_plays [OF ok that] quit by (metis (full_types))
  ultimately show ?thesis by blast
qed

section \<open>The properties on a concrete machine\<close>

definition demo_machine :: "device_event list \<Rightarrow> environment" where
  "demo_machine evs = demo_env\<lparr>e_kernel := i8042 (machine_script evs)\<rparr>"

lemma demo_machine_ok: "env_ok (demo_machine evs)" "e_kernel (demo_machine evs) = i8042 (machine_script evs)"
  "e_aknl (demo_machine evs) tr \<noteq> MOUSE_RES_ACK" "e_vg_exit (demo_machine evs)" "e_gpu (demo_machine evs) = e_gpu demo_env"
  using demo_env_ok by (simp_all add: demo_machine_def demo_env_def env_ok_def MOUSE_RES_ACK_def)

lemma demo_machine_gpu:
  "\<exists>g. gpu_init_mem_indexation (e_gpu (demo_machine evs)) GRAPHICS_MODE (gpu_start room) = Ok (0, g) \<and> X_RES g = 1024 \<and> Y_RES g = 768"
  by (simp add: gpu_init_mem_indexation_def demo_machine_ok(5)) (simp add: demo_env_def tiny_vmi_def)

text \<open>The mouse moves to the quit button in three reports, presses, and the next tick ends the program with code 0.\<close>

definition demo_events :: "device_event list" where
  "demo_events = mouse_report False 200 (- 217) @ mouse_report False 200 (- 217) @ mouse_report False 0 (- 217) @
     mouse_report True 0 0 @ [Timer_tick]"

lemma demo_session:
  "page (play (map seen demo_events) (first_page 1024 768)) = GS_QUIT"
  "page (play (map seen (butlast demo_events)) (first_page 1024 768)) \<noteq> GS_QUIT"
  by (simp_all add: demo_events_def play_append play_report first_page_def confine_def butlast_append ps2_encode_def tick_event_def
      frame_event_def on_menu_def button_target_def on_button_def)

theorem program_plays_session_witness:
  "\<exists>st'. proj_main_loop (demo_machine demo_events) (map raised demo_events) (game_start 1000 100000) = Ok (Some 0, st')"
proof -
  from demo_machine_gpu [of demo_events 100000] obtain g where
    g: "gpu_init_mem_indexation (e_gpu (demo_machine demo_events)) GRAPHICS_MODE (gpu_start 100000) = Ok (0, g)" "X_RES g = 1024" "Y_RES g = 768"
    by blast
  have "654 \<le> (1000 :: nat)" "540 \<le> (100000 :: nat)" by simp_all
  from program_plays_session [OF demo_machine_ok(1-3) g(1) this] demo_session demo_machine_ok(4) [of demo_events] g(2,3)
  show ?thesis by (auto simp: Let_def)
qed

theorem mouse_can_quit_witness:
  "\<exists>st evs st'. gs_state (g_state st) = GS_MAIN \<and> (\<forall>c. From_keyboard c \<notin> set evs) \<and>
    game_loop (demo_env\<lparr>e_kernel := i8042 (concat (map delivered evs))\<rparr>) (map raised evs) st = Ok (True, st')"
proof -
  from demo_game obtain st where st: "game_ok st" "gs_state (g_state st) = GS_MAIN" "mouse_bit_no st = 4" "kbc_bit_no st = 2" "timer_bit_no st = 1"
    "g_trace st = []" "g_mouse st = mouse_drv_start" "g_gpu st = mode105_gpu" by blast
  have "311 < X_RES (g_gpu st)" "620 < Y_RES (g_gpu st)" using st(8) by simp_all
  from mouse_can_quit [OF st(1,2) this] obtain evs where evs: "\<forall>c. From_keyboard c \<notin> set evs"
    "\<And>env. attached env evs st \<Longrightarrow> \<exists>st'. game_loop env (map raised evs) st = Ok (True, st')" by blast
  have "attached (demo_env\<lparr>e_kernel := i8042 (concat (map delivered evs))\<rparr>) evs st"
    using st by (auto simp: attached_def)
  with evs st(2) show ?thesis by blast
qed

end
