(* ===== verification/Xpm.thy ===== *)
theory Xpm
  imports C_Prelude
begin

text \<open>
  XPM pixmaps as the \<open>assets/sprites/*.h\<close> headers hold them: a header line with columns, rows and colours, a palette that gives
  each character a colour number, and rows of characters.  Long rows are written by their runs: \<open>(n, c)\<close> stands for \<open>n\<close> times the
  character \<open>c\<close>, and \<open>(n, r)\<close> for \<open>n\<close> equal rows \<open>r\<close> one below the other.  The lemmas give the pixels of a well-formed pixmap
  and show that maximal runs determine what they stand for.
\<close>

section \<open>Runs\<close>

type_synonym 'a runs = "(nat \<times> 'a) list"

definition expand :: "'a runs \<Rightarrow> 'a list" where
  "expand rs = concat (map (\<lambda>(n, x). replicate n x) rs)"

definition total :: "'a runs \<Rightarrow> nat" where
  "total rs = sum_list (map fst rs)"

lemma expand_simps [simp]: "expand [] = []" "expand ((n, x) # rs) = replicate n x @ expand rs"
  by (simp_all add: expand_def)

lemma total_simps [simp]: "total [] = 0" "total ((n, x) # rs) = n + total rs"
  by (simp_all add: total_def)

lemma length_expand [simp]: "length (expand rs) = total rs"
  by (induction rs) auto

lemma expand_append [simp]: "expand (rs @ rs') = expand rs @ expand rs'"
  by (simp add: expand_def)

lemma set_expand: "set (expand rs) \<subseteq> snd ` set rs"
  by (induction rs) (auto simp: set_replicate_conv_if split: if_splits)

text \<open>Maximal runs: none is empty and neighbours differ.\<close>

fun maximal :: "'a runs \<Rightarrow> bool" where
  "maximal [] = True"
| "maximal [(n, x)] = (0 < n)"
| "maximal ((n, x) # (m, y) # rs) = (0 < n \<and> x \<noteq> y \<and> maximal ((m, y) # rs))"

lemma maximal_Cons:
  "maximal ((n, x) # rs) \<Longrightarrow> 0 < n \<and> maximal rs \<and> (rs = [] \<or> hd (expand rs) \<noteq> x) \<and> (rs = [] \<longrightarrow> expand rs = []) \<and> (rs \<noteq> [] \<longrightarrow> expand rs \<noteq> [])"
proof (cases rs)
  case (Cons p rs')
  assume m: "maximal ((n, x) # rs)"
  obtain k y where p: "p = (k, y)" by (cases p)
  with m Cons have "0 < k" by (cases rs') auto
  with m Cons p show ?thesis by (cases k) auto
qed simp

lemma replicate_prefix:
  assumes "replicate n x @ xs = replicate m x @ ys" "xs = [] \<or> hd xs \<noteq> x" "ys = [] \<or> hd ys \<noteq> x"
  shows "n = m \<and> xs = ys"
proof -
  have run: "takeWhile ((=) x) (replicate k x @ zs) = replicate k x" if "zs = [] \<or> hd zs \<noteq> x" for k zs
    using that by (induction k) (auto simp: takeWhile_eq_Nil_iff)
  have "replicate n x = replicate m x" using assms run by metis
  then have "n = m" by (metis length_replicate)
  with assms(1) show ?thesis by simp
qed

lemma expand_inj: "maximal rs \<Longrightarrow> maximal rs' \<Longrightarrow> expand rs = expand rs' \<Longrightarrow> rs = rs'"
proof (induction rs arbitrary: rs')
  case Nil
  then show ?case using maximal_Cons by (cases rs') force+
next
  case (Cons p rs)
  obtain n x where p: "p = (n, x)" by (cases p)
  note c = maximal_Cons [OF Cons.prems(1) [unfolded p]]
  then have "expand rs' \<noteq> []" using Cons.prems(3) p by (metis expand_simps(2) append_is_Nil_conv replicate_empty less_numeral_extra(3))
  then obtain m y rs'' where rs': "rs' = (m, y) # rs''" by (cases rs') auto
  note c' = maximal_Cons [OF Cons.prems(2) [unfolded rs']]
  have eq: "replicate n x @ expand rs = replicate m y @ expand rs''" using Cons.prems(3) p rs' by simp
  have "hd (replicate n x @ expand rs) = x" "hd (replicate m y @ expand rs'') = y" using c c' by (simp_all add: hd_append)
  with eq have "x = y" by simp
  with replicate_prefix [of n x "expand rs" m "expand rs''"] eq c c' have "n = m" "expand rs = expand rs''" by blast+
  with Cons.IH [of rs''] c c' p rs' \<open>x = y\<close> show ?case by simp
qed

section \<open>Pixmaps\<close>

record pixmap =
  px_columns :: nat
  px_lines :: nat
  px_ncolors :: nat
  px_palette :: "(char \<times> u8) list"
  px_rows :: "char runs runs"

text \<open>Well-formed: the palette has the announced number of distinct entries, there are as many rows as announced, and each has the
  announced width and uses only characters of the palette.\<close>

definition row_ok :: "nat \<Rightarrow> (char \<times> u8) list \<Rightarrow> char runs \<Rightarrow> bool" where
  "row_ok w pal r \<longleftrightarrow> total r = w \<and> list_all (\<lambda>(n, c). List.member (map fst pal) c) r"

definition pixmap_ok :: "pixmap \<Rightarrow> bool" where
  "pixmap_ok p \<longleftrightarrow> length (px_palette p) = px_ncolors p \<and> distinct (map fst (px_palette p)) \<and> total (px_rows p) = px_lines p \<and>
     list_all (\<lambda>(n, r). row_ok (px_columns p) (px_palette p) r) (px_rows p)"

text \<open>The colours of a pixmap, row by row.\<close>

definition colour :: "(char \<times> u8) list \<Rightarrow> char \<Rightarrow> u8" where
  "colour pal c = (case map_of pal c of None \<Rightarrow> 0 | Some v \<Rightarrow> v)"

definition px_row :: "pixmap \<Rightarrow> nat \<Rightarrow> u8 list" where
  "px_row p y = map (colour (px_palette p)) (expand (expand (px_rows p) ! y))"

definition px_bytes :: "pixmap \<Rightarrow> u8 list" where
  "px_bytes p = concat (map (\<lambda>r. map (colour (px_palette p)) (expand r)) (expand (px_rows p)))"

lemma concat_equal_length: "(\<And>xs. xs \<in> set xss \<Longrightarrow> length xs = w) \<Longrightarrow> length (concat xss) = length xss * w"
  by (induction xss) auto

lemma concat_block:
  "(\<And>xs. xs \<in> set xss \<Longrightarrow> length xs = w) \<Longrightarrow> y < length xss \<Longrightarrow> take w (drop (y * w) (concat xss)) = xss ! y"
proof (induction xss arbitrary: y)
  case (Cons xs xss)
  then show ?case by (cases y) (simp_all add: drop_drop [symmetric] add.commute del: drop_drop)
qed simp

lemma nth_concat_equal:
  assumes "\<And>xs. xs \<in> set xss \<Longrightarrow> length xs = w" "y < length xss" "x < w"
  shows "concat xss ! (y * w + x) = xss ! y ! x"
proof -
  have "xss ! y ! x = take w (drop (y * w) (concat xss)) ! x" using concat_block [of xss w y] assms by simp
  moreover have "y * w + w \<le> length (concat xss)"
    using concat_equal_length [of xss w] assms(1,2) mult_le_mono1 [of "Suc y" "length xss" w] by simp
  ultimately show ?thesis using assms(3) by simp
qed

lemma pixmap_row_length: "pixmap_ok p \<Longrightarrow> r \<in> set (expand (px_rows p)) \<Longrightarrow> total r = px_columns p"
  using set_expand [of "px_rows p"] by (fastforce simp: pixmap_ok_def row_ok_def list_all_iff)

lemma px_bytes_length: "pixmap_ok p \<Longrightarrow> length (px_bytes p) = px_lines p * px_columns p"
  unfolding px_bytes_def
  by (subst concat_equal_length [where w = "px_columns p"]) (auto simp: pixmap_row_length pixmap_ok_def)

lemma px_bytes_nth:
  assumes "pixmap_ok p" "y < px_lines p" "x < px_columns p"
  shows "px_bytes p ! (y * px_columns p + x) = px_row p y ! x"
proof -
  let ?rows = "map (\<lambda>r. map (colour (px_palette p)) (expand r)) (expand (px_rows p))"
  have "px_bytes p ! (y * px_columns p + x) = ?rows ! y ! x"
    unfolding px_bytes_def by (rule nth_concat_equal) (use assms pixmap_row_length in \<open>auto simp: pixmap_ok_def\<close>)
  moreover have "y < length (expand (px_rows p))" using assms(1,2) by (simp add: pixmap_ok_def)
  ultimately show ?thesis by (simp add: px_row_def)
qed

lemma px_row_zero: "px_rows p = (n, r) # rest \<Longrightarrow> 0 < n \<Longrightarrow> px_row p 0 = map (colour (px_palette p)) (expand r)"
  by (cases n) (simp_all add: px_row_def)

end
