(* ===== verification/Pixmaps.thy ===== *)
theory Pixmaps
  imports Xpm
begin

text \<open>
  The pixmaps of \<open>assets/sprites\<close> that the game loads, except for the alphabet: palette and rows of each header, the rows by
  their runs.
\<close>

abbreviation sp :: char where "sp \<equiv> CHR '' ''"
abbreviation dt :: char where "dt \<equiv> CHR ''.''"
abbreviation cX :: char where "cX \<equiv> CHR ''X''"
abbreviation cY :: char where "cY \<equiv> CHR ''Y''"
abbreviation co :: char where "co \<equiv> CHR ''o''"
abbreviation cO :: char where "cO \<equiv> CHR ''O''"
abbreviation pl :: char where "pl \<equiv> CHR ''+''"

section \<open>\<open>mouse.h\<close>\<close>

definition mouse_palette :: "(char \<times> u8) list" where
  "mouse_palette = [(sp, 99), (dt, 63), (cX, 0)]"

definition mouse_rows :: "char runs runs" where
  "mouse_rows = [
   (2, [(10, sp), (4, dt), (20, sp), (2, dt), (22, sp)]),
   (2, [(8, sp), (2, dt), (4, cX), (2, dt), (18, sp), (4, dt), (20, sp)]),
   (2, [(8, sp), (2, dt), (4, cX), (2, dt), (18, sp), (2, dt), (2, cX), (2, dt), (18, sp)]),
   (2, [(8, sp), (2, dt), (4, cX), (2, dt), (18, sp), (2, dt), (4, cX), (2, dt), (16, sp)]),
   (1, [(8, sp), (2, dt), (4, cX), (2, dt), (18, sp), (2, dt), (6, cX), (2, dt), (14, sp)]),
   (1, [(8, sp), (2, dt), (4, cX), (6, dt), (14, sp), (2, dt), (6, cX), (2, dt), (14, sp)]),
   (1, [(8, sp), (2, dt), (4, cX), (6, dt), (14, sp), (2, dt), (8, cX), (2, dt), (12, sp)]),
   (1, [(8, sp), (2, dt), (4, cX), (2, dt), (4, cX), (6, dt), (8, sp), (2, dt), (8, cX), (2, dt), (12, sp)]),
   (1, [(8, sp), (2, dt), (4, cX), (2, dt), (4, cX), (6, dt), (8, sp), (2, dt), (10, cX), (2, dt), (10, sp)]),
   (1, [(8, sp), (2, dt), (4, cX), (2, dt), (4, cX), (2, dt), (4, cX), (4, dt), (4, sp), (2, dt), (10, cX), (2, dt), (10, sp)]),
   (1, [(8, sp), (2, dt), (4, cX), (2, dt), (4, cX), (2, dt), (4, cX), (4, dt), (4, sp), (2, dt), (12, cX), (2, dt), (8, sp)]),
   (1, [(8, sp), (2, dt), (4, cX), (2, dt), (4, cX), (2, dt), (4, cX), (2, dt), (2, cX), (2, dt), (2, sp), (2, dt), (12, cX), (2,
        dt), (8, sp)]),
   (1, [(8, sp), (2, dt), (4, cX), (2, dt), (4, cX), (2, dt), (4, cX), (2, dt), (2, cX), (2, dt), (2, sp), (2, dt), (14, cX), (2,
        dt), (6, sp)]),
   (1, [(6, dt), (2, sp), (2, dt), (4, cX), (2, dt), (4, cX), (2, dt), (4, cX), (2, dt), (4, cX), (4, dt), (14, cX), (2, dt), (6,
        sp)]),
   (1, [(6, dt), (2, sp), (2, dt), (4, cX), (2, dt), (4, cX), (2, dt), (4, cX), (2, dt), (4, cX), (4, dt), (16, cX), (2, dt), (4,
        sp)]),
   (1, [(2, dt), (4, cX), (4, dt), (16, cX), (2, dt), (4, cX), (4, dt), (16, cX), (2, dt), (4, sp)]),
   (1, [(2, dt), (4, cX), (4, dt), (16, cX), (2, dt), (4, cX), (4, dt), (18, cX), (2, dt), (2, sp)]),
   (1, [(2, dt), (6, cX), (2, dt), (22, cX), (4, dt), (18, cX), (2, dt), (2, sp)]),
   (1, [(2, dt), (6, cX), (2, dt), (22, cX), (4, dt), (20, cX), (2, dt)]),
   (1, [(2, sp), (2, dt), (28, cX), (4, dt), (20, cX), (2, dt)]),
   (1, [(2, sp), (2, dt), (28, cX), (4, dt), (12, cX), (10, dt)]),
   (1, [(4, sp), (2, dt), (26, cX), (4, dt), (12, cX), (10, dt)]),
   (2, [(4, sp), (2, dt), (26, cX), (4, dt), (6, cX), (2, dt), (4, cX), (2, dt), (8, sp)]),
   (1, [(4, sp), (2, dt), (26, cX), (4, dt), (4, cX), (2, dt), (2, sp), (2, dt), (4, cX), (2, dt), (6, sp)]),
   (1, [(6, sp), (2, dt), (24, cX), (4, dt), (4, cX), (2, dt), (2, sp), (2, dt), (4, cX), (2, dt), (6, sp)]),
   (2, [(6, sp), (2, dt), (22, cX), (2, dt), (2, sp), (2, dt), (2, cX), (2, dt), (4, sp), (2, dt), (4, cX), (2, dt), (6, sp)]),
   (1, [(6, sp), (2, dt), (22, cX), (2, dt), (2, sp), (4, dt), (8, sp), (2, dt), (4, cX), (2, dt), (4, sp)]),
   (1, [(8, sp), (2, dt), (20, cX), (2, dt), (2, sp), (4, dt), (8, sp), (2, dt), (4, cX), (2, dt), (4, sp)]),
   (2, [(8, sp), (2, dt), (20, cX), (2, dt), (14, sp), (2, dt), (4, cX), (2, dt), (4, sp)]),
   (1, [(8, sp), (2, dt), (18, cX), (2, dt), (18, sp), (4, dt), (6, sp)]),
   (1, [(10, sp), (2, dt), (16, cX), (2, dt), (18, sp), (4, dt), (6, sp)]),
   (2, [(10, sp), (2, dt), (16, cX), (2, dt), (28, sp)]),
   (2, [(10, sp), (20, dt), (28, sp)])]"

definition mouse_pixmap :: pixmap where
  "mouse_pixmap = \<lparr>px_columns = 58, px_lines = 42, px_ncolors = 3, px_palette = mouse_palette, px_rows = mouse_rows\<rparr>"

section \<open>\<open>player_sprite.h\<close>\<close>

definition player_palette :: "(char \<times> u8) list" where
  "player_palette = [(sp, 0), (dt, 1), (cX, 2), (co, 3), (cO, 4), (pl, 5)]"

definition player_rows :: "char runs runs" where
  "player_rows = [
   (4, [(4, sp), (56, dt), (4, sp)]),
   (2, [(64, dt)]),
   (6, [(12, dt), (40, pl), (12, dt)]),
   (1, [(6, dt), (52, pl), (6, dt)]),
   (1, [(6, dt), (12, pl), (6, co), (16, pl), (6, co), (12, pl), (6, dt)]),
   (2, [(6, dt), (10, pl), (10, co), (12, pl), (10, co), (10, pl), (6, dt)]),
   (2, [(6, dt), (9, pl), (12, co), (10, pl), (12, co), (9, pl), (6, dt)]),
   (2, [(6, dt), (9, pl), (5, co), (2, dt), (5, co), (10, pl), (5, co), (2, dt), (5, co), (9, pl), (6, dt)]),
   (2, [(6, dt), (9, pl), (12, co), (10, pl), (12, co), (9, pl), (6, dt)]),
   (2, [(6, dt), (10, pl), (10, co), (12, pl), (10, co), (10, pl), (6, dt)]),
   (1, [(6, dt), (12, pl), (6, co), (16, pl), (6, co), (12, pl), (6, dt)]),
   (3, [(6, dt), (52, pl), (6, dt)]),
   (9, [(6, dt), (22, pl), (6, cO), (24, pl), (6, dt)]),
   (5, [(6, dt), (52, pl), (6, dt)]),
   (1, [(6, dt), (14, pl), (24, cX), (14, pl), (6, dt)]),
   (6, [(6, dt), (9, pl), (34, cX), (9, pl), (6, dt)]),
   (1, [(6, dt), (14, pl), (24, cX), (14, pl), (6, dt)]),
   (2, [(6, dt), (52, pl), (6, dt)]),
   (6, [(12, dt), (40, pl), (12, dt)]),
   (2, [(64, dt)]),
   (4, [(4, sp), (56, dt), (4, sp)])]"

definition player_pixmap :: pixmap where
  "player_pixmap = \<lparr>px_columns = 64, px_lines = 64, px_ncolors = 6, px_palette = player_palette, px_rows = player_rows\<rparr>"

section \<open>\<open>block.h\<close>\<close>

definition block_palette :: "(char \<times> u8) list" where
  "block_palette = [(sp, 1), (dt, 2), (cX, 3), (cY, 20)]"

definition block_rows :: "char runs runs" where
  "block_rows = [
   (3, [(64, sp)]),
   (1, [(34, sp), (4, dt), (26, sp)]),
   (1, [(9, sp), (1, dt), (8, sp), (6, dt), (8, sp), (9, dt), (7, sp), (9, dt), (7, sp)]),
   (1, [(4, sp), (55, dt), (5, sp)]),
   (2, [(4, sp), (56, dt), (4, sp)]),
   (1, [(4, sp), (6, dt), (4, cX), (46, dt), (4, sp)]),
   (2, [(4, sp), (5, dt), (6, cX), (44, dt), (5, sp)]),
   (1, [(4, sp), (6, dt), (4, cX), (45, dt), (5, sp)]),
   (2, [(4, sp), (55, dt), (5, sp)]),
   (1, [(4, sp), (39, dt), (4, cX), (12, dt), (5, sp)]),
   (1, [(4, sp), (38, dt), (6, cX), (11, dt), (5, sp)]),
   (1, [(4, sp), (16, dt), (2, cX), (20, dt), (6, cX), (11, dt), (5, sp)]),
   (1, [(4, sp), (15, dt), (4, cX), (20, dt), (4, cX), (12, dt), (5, sp)]),
   (1, [(3, sp), (16, dt), (4, cX), (36, dt), (5, sp)]),
   (2, [(3, sp), (16, dt), (4, cX), (37, dt), (4, sp)]),
   (1, [(4, sp), (16, dt), (2, cX), (38, dt), (4, sp)]),
   (1, [(4, sp), (56, dt), (4, sp)]),
   (1, [(5, sp), (55, dt), (4, sp)]),
   (2, [(5, sp), (54, dt), (5, sp)]),
   (1, [(5, sp), (28, dt), (2, cX), (24, dt), (5, sp)]),
   (1, [(5, sp), (27, dt), (4, cX), (11, dt), (4, cX), (8, dt), (5, sp)]),
   (1, [(5, sp), (27, dt), (4, cX), (10, dt), (6, cX), (7, dt), (5, sp)]),
   (1, [(5, sp), (28, dt), (2, cX), (11, dt), (6, cX), (7, dt), (5, sp)]),
   (1, [(5, sp), (42, dt), (4, cX), (8, dt), (5, sp)]),
   (1, [(5, sp), (12, dt), (2, cX), (41, dt), (4, sp)]),
   (4, [(4, sp), (12, dt), (4, cX), (40, dt), (4, sp)]),
   (1, [(4, sp), (13, dt), (2, cX), (41, dt), (4, sp)]),
   (1, [(3, sp), (57, dt), (4, sp)]),
   (1, [(3, sp), (39, dt), (4, cX), (14, dt), (4, sp)]),
   (1, [(3, sp), (38, dt), (6, cX), (13, dt), (4, sp)]),
   (2, [(4, sp), (36, dt), (8, cX), (12, dt), (4, sp)]),
   (1, [(4, sp), (37, dt), (6, cX), (13, dt), (4, sp)]),
   (1, [(4, sp), (38, dt), (4, cX), (13, dt), (5, sp)]),
   (2, [(4, sp), (55, dt), (5, sp)]),
   (1, [(4, sp), (21, dt), (4, cX), (30, dt), (5, sp)]),
   (2, [(4, sp), (20, dt), (6, cX), (29, dt), (5, sp)]),
   (1, [(4, sp), (21, dt), (4, cX), (30, dt), (5, sp)]),
   (1, [(4, sp), (55, dt), (5, sp)]),
   (2, [(4, sp), (6, dt), (2, cX), (47, dt), (5, sp)]),
   (1, [(4, sp), (45, dt), (4, cX), (6, dt), (5, sp)]),
   (1, [(4, sp), (44, dt), (6, cX), (5, dt), (5, sp)]),
   (1, [(4, sp), (44, dt), (6, cX), (6, dt), (4, sp)]),
   (1, [(4, sp), (45, dt), (4, cX), (7, dt), (4, sp)]),
   (3, [(3, sp), (57, dt), (4, sp)]),
   (1, [(5, sp), (2, dt), (12, sp), (3, dt), (17, sp), (14, dt), (11, sp)]),
   (6, [(64, sp)]),
   (1, [(34, sp), (4, dt), (26, sp)]),
   (1, [(9, sp), (1, dt), (8, sp), (6, dt), (8, sp), (9, dt), (7, sp), (9, dt), (7, sp)]),
   (1, [(4, sp), (55, dt), (5, sp)]),
   (2, [(4, sp), (56, dt), (4, sp)]),
   (1, [(4, sp), (6, dt), (4, cY), (46, dt), (4, sp)]),
   (2, [(4, sp), (5, dt), (6, cY), (44, dt), (5, sp)]),
   (1, [(4, sp), (6, dt), (4, cY), (45, dt), (5, sp)]),
   (2, [(4, sp), (55, dt), (5, sp)]),
   (1, [(4, sp), (39, dt), (4, cY), (12, dt), (5, sp)]),
   (1, [(4, sp), (38, dt), (6, cY), (11, dt), (5, sp)]),
   (1, [(4, sp), (16, dt), (2, cY), (20, dt), (6, cY), (11, dt), (5, sp)]),
   (1, [(4, sp), (15, dt), (4, cY), (20, dt), (4, cY), (12, dt), (5, sp)]),
   (1, [(3, sp), (16, dt), (4, cY), (36, dt), (5, sp)]),
   (2, [(3, sp), (16, dt), (4, cY), (37, dt), (4, sp)]),
   (1, [(4, sp), (16, dt), (2, cY), (38, dt), (4, sp)]),
   (1, [(4, sp), (56, dt), (4, sp)]),
   (1, [(5, sp), (55, dt), (4, sp)]),
   (2, [(5, sp), (54, dt), (5, sp)]),
   (1, [(5, sp), (28, dt), (2, cY), (24, dt), (5, sp)]),
   (1, [(5, sp), (27, dt), (4, cY), (11, dt), (4, cY), (8, dt), (5, sp)]),
   (1, [(5, sp), (27, dt), (4, cY), (10, dt), (6, cY), (7, dt), (5, sp)]),
   (1, [(5, sp), (28, dt), (2, cY), (11, dt), (6, cY), (7, dt), (5, sp)]),
   (1, [(5, sp), (42, dt), (4, cY), (8, dt), (5, sp)]),
   (1, [(5, sp), (12, dt), (2, cY), (41, dt), (4, sp)]),
   (4, [(4, sp), (12, dt), (4, cY), (40, dt), (4, sp)]),
   (1, [(4, sp), (13, dt), (2, cY), (41, dt), (4, sp)]),
   (1, [(3, sp), (57, dt), (4, sp)]),
   (1, [(3, sp), (39, dt), (4, cY), (14, dt), (4, sp)]),
   (1, [(3, sp), (38, dt), (6, cY), (13, dt), (4, sp)]),
   (2, [(4, sp), (36, dt), (8, cY), (12, dt), (4, sp)]),
   (1, [(4, sp), (37, dt), (6, cY), (13, dt), (4, sp)]),
   (1, [(4, sp), (38, dt), (4, cY), (13, dt), (5, sp)]),
   (2, [(4, sp), (55, dt), (5, sp)]),
   (1, [(4, sp), (21, dt), (4, cY), (30, dt), (5, sp)]),
   (2, [(4, sp), (20, dt), (6, cY), (29, dt), (5, sp)]),
   (1, [(4, sp), (21, dt), (4, cY), (30, dt), (5, sp)]),
   (1, [(4, sp), (55, dt), (5, sp)]),
   (2, [(4, sp), (6, dt), (2, cY), (47, dt), (5, sp)]),
   (1, [(4, sp), (45, dt), (4, cY), (6, dt), (5, sp)]),
   (1, [(4, sp), (44, dt), (6, cY), (5, dt), (5, sp)]),
   (1, [(4, sp), (44, dt), (6, cY), (6, dt), (4, sp)]),
   (1, [(4, sp), (45, dt), (4, cY), (7, dt), (4, sp)]),
   (3, [(3, sp), (57, dt), (4, sp)]),
   (1, [(5, sp), (2, dt), (12, sp), (3, dt), (17, sp), (14, dt), (11, sp)]),
   (3, [(64, sp)])]"

definition block_pixmap :: pixmap where
  "block_pixmap = \<lparr>px_columns = 64, px_lines = 128, px_ncolors = 4, px_palette = block_palette, px_rows = block_rows\<rparr>"

section \<open>\<open>logo.h\<close>\<close>

definition logo_palette :: "(char \<times> u8) list" where
  "logo_palette = [(sp, 99), (dt, 63), (cX, 0)]"

definition logo_rows :: "char runs runs" where
  "logo_rows = [
   (4, [(80, sp), (40, dt), (420, sp)]),
   (4, [(72, sp), (12, dt), (32, cX), (12, dt), (412, sp)]),
   (4, [(68, sp), (8, dt), (16, cX), (16, dt), (16, cX), (8, dt), (408, sp)]),
   (4, [(64, sp), (8, dt), (20, cX), (16, dt), (20, cX), (8, dt), (404, sp)]),
   (4, [(60, sp), (8, dt), (8, cX), (8, dt), (8, cX), (16, dt), (8, cX), (8, dt), (8, cX), (8, dt), (400, sp)]),
   (4, [(60, sp), (8, dt), (8, cX), (12, dt), (4, cX), (16, dt), (4, cX), (12, dt), (8, cX), (8, dt), (400, sp)]),
   (4, [(4, sp), (60, dt), (16, cX), (8, dt), (8, cX), (8, dt), (8, cX), (8, dt), (16, cX), (24, dt), (20, sp), (68, dt), (56,
        sp), (20, dt), (20, sp), (20, dt), (4, sp), (48, dt), (12, sp), (68, dt), (16, sp), (24, dt), (4, sp)]),
   (4, [(8, dt), (52, cX), (4, dt), (20, cX), (8, dt), (4, cX), (8, dt), (4, cX), (8, dt), (20, cX), (8, dt), (12, cX), (8, dt),
        (12, sp), (8, dt), (12, cX), (8, dt), (40, cX), (8, dt), (48, sp), (8, dt), (12, cX), (8, dt), (12, sp), (8, dt), (12,
        cX), (12, dt), (40, cX), (8, dt), (4, sp), (8, dt), (40, cX), (8, dt), (12, cX), (8, dt), (8, sp), (8, dt), (16, cX), (8,
        dt)]),
   (4, [(8, dt), (52, cX), (4, dt), (4, cX), (8, dt), (12, cX), (4, dt), (4, cX), (8, dt), (4, cX), (4, dt), (12, cX), (8, dt),
        (4, cX), (8, dt), (16, cX), (8, dt), (4, sp), (8, dt), (16, cX), (8, dt), (44, cX), (8, dt), (8, sp), (44, dt), (16, cX),
        (8, dt), (4, sp), (8, dt), (16, cX), (8, dt), (48, cX), (12, dt), (44, cX), (8, dt), (12, cX), (8, dt), (4, sp), (8, dt),
        (16, cX), (12, dt)]),
   (4, [(8, dt), (52, cX), (4, dt), (4, cX), (16, dt), (12, cX), (8, dt), (12, cX), (16, dt), (4, cX), (8, dt), (20, cX), (12,
        dt), (20, cX), (8, dt), (48, cX), (16, dt), (8, cX), (8, dt), (12, cX), (12, dt), (20, cX), (12, dt), (20, cX), (8, dt),
        (48, cX), (8, dt), (48, cX), (8, dt), (12, cX), (16, dt), (16, cX), (16, dt)]),
   (4, [(28, dt), (12, cX), (24, dt), (4, cX), (24, dt), (4, cX), (8, dt), (4, cX), (24, dt), (4, cX), (8, dt), (24, cX), (4,
        dt), (24, cX), (8, dt), (12, cX), (24, dt), (12, cX), (12, dt), (4, cX), (8, dt), (4, cX), (4, dt), (4, cX), (20, dt),
        (24, cX), (4, dt), (24, cX), (8, dt), (12, cX), (24, dt), (12, cX), (8, dt), (16, cX), (40, dt), (12, cX), (12, dt), (16,
        cX), (16, dt), (4, sp)]),
   (4, [(28, dt), (12, cX), (24, dt), (72, cX), (8, dt), (52, cX), (8, dt), (12, cX), (24, dt), (12, cX), (12, dt), (4, cX), (8,
        dt), (4, cX), (4, dt), (8, cX), (16, dt), (52, cX), (8, dt), (12, cX), (24, dt), (12, cX), (8, dt), (12, cX), (44, dt),
        (12, cX), (8, dt), (16, cX), (16, dt), (8, sp)]),
   (4, [(4, sp), (24, dt), (12, cX), (104, dt), (12, cX), (4, dt), (20, cX), (4, dt), (12, cX), (8, dt), (12, cX), (24, dt), (12,
        cX), (12, dt), (4, cX), (8, dt), (4, cX), (4, dt), (4, cX), (20, dt), (52, cX), (8, dt), (12, cX), (24, dt), (12, cX),
        (8, dt), (16, cX), (40, dt), (12, cX), (4, dt), (16, cX), (16, dt), (12, sp)]),
   (4, [(20, sp), (8, dt), (12, cX), (8, dt), (4, sp), (8, dt), (80, cX), (4, dt), (12, cX), (8, dt), (12, cX), (8, dt), (12,
        cX), (8, dt), (44, cX), (20, dt), (8, cX), (8, dt), (4, cX), (20, dt), (12, cX), (4, dt), (20, cX), (4, dt), (12, cX),
        (8, dt), (48, cX), (8, dt), (40, cX), (16, dt), (28, cX), (16, dt), (16, sp)]),
   (4, [(20, sp), (8, dt), (12, cX), (8, dt), (4, sp), (24, dt), (4, cX), (16, dt), (8, cX), (16, dt), (4, cX), (20, dt), (12,
        cX), (12, dt), (4, cX), (12, dt), (12, cX), (8, dt), (40, cX), (64, dt), (12, cX), (8, dt), (12, cX), (8, dt), (12, cX),
        (8, dt), (48, cX), (12, dt), (40, cX), (12, dt), (24, cX), (16, dt), (20, sp)]),
   (4, [(20, sp), (8, dt), (12, cX), (8, dt), (4, sp), (12, dt), (8, cX), (4, dt), (4, cX), (16, dt), (8, cX), (16, dt), (4, cX),
        (4, dt), (8, cX), (8, dt), (12, cX), (28, dt), (12, cX), (8, dt), (44, cX), (8, dt), (12, cX), (4, dt), (4, cX), (8, dt),
        (4, cX), (4, dt), (12, cX), (4, dt), (12, cX), (12, dt), (4, cX), (12, dt), (12, cX), (8, dt), (48, cX), (16, dt), (40,
        cX), (8, dt), (28, cX), (8, dt), (24, sp)]),
   (4, [(20, sp), (8, dt), (12, cX), (8, dt), (8, sp), (20, dt), (4, cX), (16, dt), (8, cX), (16, dt), (4, cX), (20, dt), (12,
        cX), (28, dt), (12, cX), (8, dt), (12, cX), (24, dt), (12, cX), (8, dt), (4, cX), (8, dt), (4, cX), (8, dt), (4, cX), (4,
        dt), (4, cX), (12, dt), (12, cX), (28, dt), (12, cX), (8, dt), (12, cX), (24, dt), (12, cX), (40, dt), (16, cX), (8, dt),
        (12, cX), (4, dt), (16, cX), (8, dt), (20, sp)]),
   (4, [(20, sp), (8, dt), (12, cX), (8, dt), (4, sp), (8, dt), (12, cX), (4, dt), (12, cX), (4, dt), (16, cX), (4, dt), (12,
        cX), (4, dt), (12, cX), (4, dt), (12, cX), (28, dt), (12, cX), (8, dt), (12, cX), (24, dt), (12, cX), (8, dt), (4, cX),
        (8, dt), (16, cX), (4, dt), (8, cX), (8, dt), (12, cX), (28, dt), (12, cX), (8, dt), (12, cX), (24, dt), (12, cX), (44,
        dt), (12, cX), (8, dt), (12, cX), (8, dt), (16, cX), (8, dt), (16, sp)]),
   (4, [(20, sp), (8, dt), (12, cX), (8, dt), (4, sp), (8, dt), (4, cX), (12, dt), (4, cX), (40, dt), (4, cX), (12, dt), (4, cX),
        (4, dt), (12, cX), (8, dt), (12, sp), (8, dt), (12, cX), (8, dt), (12, cX), (24, dt), (12, cX), (8, dt), (4, cX), (8,
        dt), (4, cX), (8, dt), (4, cX), (4, dt), (4, cX), (12, dt), (12, cX), (28, dt), (12, cX), (8, dt), (12, cX), (24, dt),
        (12, cX), (40, dt), (16, cX), (8, dt), (12, cX), (12, dt), (16, cX), (8, dt), (12, sp)]),
   (4, [(20, sp), (8, dt), (12, cX), (8, dt), (4, sp), (8, dt), (4, cX), (12, dt), (4, cX), (4, dt), (32, cX), (4, dt), (4, cX),
        (12, dt), (4, cX), (4, dt), (12, cX), (8, dt), (12, sp), (8, dt), (12, cX), (8, dt), (48, cX), (8, dt), (4, cX), (8, dt),
        (4, cX), (8, dt), (4, cX), (4, dt), (12, cX), (4, dt), (12, cX), (8, dt), (12, sp), (8, dt), (12, cX), (8, dt), (12, cX),
        (8, dt), (8, sp), (8, dt), (12, cX), (8, dt), (48, cX), (8, dt), (12, cX), (16, dt), (16, cX), (8, dt), (8, sp)]),
   (4, [(20, sp), (8, dt), (12, cX), (8, dt), (4, sp), (8, dt), (12, cX), (4, dt), (4, cX), (4, dt), (4, cX), (24, dt), (4, cX),
        (4, dt), (4, cX), (4, dt), (12, cX), (4, dt), (12, cX), (8, dt), (12, sp), (8, dt), (12, cX), (8, dt), (44, cX), (60,
        dt), (12, cX), (8, dt), (12, sp), (8, dt), (12, cX), (8, dt), (12, cX), (8, dt), (8, sp), (8, dt), (12, cX), (8, dt),
        (44, cX), (12, dt), (12, cX), (20, dt), (16, cX), (8, dt), (4, sp)]),
   (4, [(20, sp), (8, dt), (12, cX), (8, dt), (4, sp), (8, dt), (12, cX), (4, dt), (4, cX), (4, dt), (32, cX), (4, dt), (4, cX),
        (4, dt), (12, cX), (4, dt), (12, cX), (8, dt), (12, sp), (8, dt), (12, cX), (8, dt), (40, cX), (64, dt), (12, cX), (8,
        dt), (12, sp), (8, dt), (12, cX), (8, dt), (12, cX), (8, dt), (8, sp), (8, dt), (12, cX), (8, dt), (40, cX), (16, dt),
        (12, cX), (24, dt), (16, cX), (8, dt)]),
   (4, [(20, sp), (28, dt), (4, sp), (24, dt), (4, cX), (40, dt), (4, cX), (40, dt), (12, sp), (152, dt), (12, sp), (48, dt), (8,
        sp), (104, dt), (4, sp), (36, dt)]),
   (4, [(20, sp), (28, dt), (4, sp), (28, dt), (40, cX), (44, dt), (12, sp), (76, dt), (48, sp), (28, dt), (12, sp), (48, dt),
        (8, sp), (104, dt), (8, sp), (32, dt)]),
   (4, [(24, sp), (20, dt), (12, sp), (104, dt), (20, sp), (68, dt), (56, sp), (20, dt), (20, sp), (40, dt), (16, sp), (68, dt),
        (8, sp), (20, dt), (16, sp), (24, dt), (4, sp)]),
   (4, [(72, sp), (56, dt), (412, sp)]),
   (4, [(76, sp), (48, dt), (416, sp)])]"

definition logo_pixmap :: pixmap where
  "logo_pixmap = \<lparr>px_columns = 540, px_lines = 108, px_ncolors = 3, px_palette = logo_palette, px_rows = logo_rows\<rparr>"

section \<open>\<open>play_button.h\<close>\<close>

definition play_button_palette :: "(char \<times> u8) list" where
  "play_button_palette = [(sp, 0), (dt, 63), (cX, 0)]"

definition play_button_rows :: "char runs runs" where
  "play_button_rows = [
   (4, [(12, sp), (378, dt), (12, sp)]),
   (4, [(8, sp), (4, dt), (378, cX), (4, dt), (8, sp)]),
   (4, [(4, sp), (4, dt), (386, cX), (4, dt), (4, sp)]),
   (5, [(4, dt), (394, cX), (4, dt)]),
   (5, [(4, dt), (134, cX), (23, dt), (9, cX), (9, dt), (26, cX), (19, dt), (9, cX), (9, dt), (9, cX), (9, dt), (138, cX), (4,
        dt)]),
   (5, [(4, dt), (134, cX), (27, dt), (5, cX), (9, dt), (22, cX), (27, dt), (5, cX), (9, dt), (9, cX), (9, dt), (138, cX), (4,
        dt)]),
   (8, [(4, dt), (134, cX), (9, dt), (9, cX), (9, dt), (5, cX), (9, dt), (22, cX), (9, dt), (9, cX), (9, dt), (5, cX), (9, dt),
        (9, cX), (9, dt), (138, cX), (4, dt)]),
   (5, [(4, dt), (134, cX), (9, dt), (9, cX), (9, dt), (5, cX), (9, dt), (22, cX), (9, dt), (9, cX), (9, dt), (5, cX), (27, dt),
        (138, cX), (4, dt)]),
   (5, [(4, dt), (134, cX), (27, dt), (5, cX), (9, dt), (22, cX), (27, dt), (9, cX), (19, dt), (142, cX), (4, dt)]),
   (4, [(4, dt), (134, cX), (23, dt), (9, cX), (9, dt), (22, cX), (27, dt), (14, cX), (9, dt), (147, cX), (4, dt)]),
   (9, [(4, dt), (134, cX), (9, dt), (23, cX), (9, dt), (22, cX), (9, dt), (9, cX), (9, dt), (14, cX), (9, dt), (147, cX), (4,
        dt)]),
   (5, [(4, dt), (134, cX), (9, dt), (23, cX), (27, dt), (4, cX), (9, dt), (9, cX), (9, dt), (14, cX), (9, dt), (147, cX), (4,
        dt)]),
   (4, [(4, dt), (134, cX), (9, dt), (27, cX), (23, dt), (4, cX), (9, dt), (9, cX), (9, dt), (14, cX), (9, dt), (147, cX), (4,
        dt)]),
   (18, [(4, dt), (394, cX), (4, dt)]),
   (4, [(4, dt), (8, cX), (378, dt), (8, cX), (4, dt)]),
   (4, [(4, dt), (4, cX), (386, dt), (4, cX), (4, dt)]),
   (4, [(402, dt)])]"

definition play_button_pixmap :: pixmap where
  "play_button_pixmap = \<lparr>px_columns = 402, px_lines = 97, px_ncolors = 3, px_palette = play_button_palette, px_rows = play_button_rows\<rparr>"

section \<open>\<open>leaderboard_button.h\<close>\<close>

definition leaderboard_button_palette :: "(char \<times> u8) list" where
  "leaderboard_button_palette = [(sp, 0), (dt, 63), (cX, 0)]"

definition leaderboard_button_rows :: "char runs runs" where
  "leaderboard_button_rows = [
   (4, [(12, sp), (378, dt), (12, sp)]),
   (4, [(8, sp), (4, dt), (378, cX), (4, dt), (8, sp)]),
   (4, [(4, sp), (4, dt), (386, cX), (4, dt), (4, sp)]),
   (5, [(4, dt), (394, cX), (4, dt)]),
   (5, [(4, dt), (24, cX), (9, dt), (26, cX), (23, dt), (9, cX), (19, dt), (8, cX), (23, dt), (13, cX), (23, dt), (4, cX), (23,
        dt), (9, cX), (23, dt), (12, cX), (19, dt), (13, cX), (19, dt), (8, cX), (23, dt), (9, cX), (23, dt), (32, cX), (4,
        dt)]),
   (5, [(4, dt), (24, cX), (9, dt), (22, cX), (27, dt), (5, cX), (27, dt), (4, cX), (27, dt), (5, cX), (27, dt), (4, cX), (27,
        dt), (5, cX), (27, dt), (4, cX), (27, dt), (5, cX), (27, dt), (4, cX), (27, dt), (5, cX), (27, dt), (28, cX), (4, dt)]),
   (8, [(4, dt), (24, cX), (9, dt), (22, cX), (9, dt), (23, cX), (9, dt), (9, cX), (9, dt), (4, cX), (9, dt), (9, cX), (9, dt),
        (5, cX), (9, dt), (22, cX), (9, dt), (9, cX), (9, dt), (5, cX), (9, dt), (9, cX), (9, dt), (4, cX), (9, dt), (9, cX), (9,
        dt), (5, cX), (9, dt), (9, cX), (9, dt), (4, cX), (9, dt), (9, cX), (9, dt), (5, cX), (9, dt), (9, cX), (9, dt), (28,
        cX), (4, dt)]),
   (5, [(4, dt), (24, cX), (9, dt), (22, cX), (23, dt), (9, cX), (9, dt), (9, cX), (9, dt), (4, cX), (9, dt), (9, cX), (9, dt),
        (5, cX), (23, dt), (8, cX), (27, dt), (5, cX), (27, dt), (4, cX), (9, dt), (9, cX), (9, dt), (5, cX), (9, dt), (9, cX),
        (9, dt), (4, cX), (27, dt), (5, cX), (9, dt), (9, cX), (9, dt), (28, cX), (4, dt)]),
   (4, [(4, dt), (24, cX), (9, dt), (22, cX), (23, dt), (9, cX), (27, dt), (4, cX), (9, dt), (9, cX), (9, dt), (5, cX), (23, dt),
        (8, cX), (23, dt), (9, cX), (23, dt), (8, cX), (9, dt), (9, cX), (9, dt), (5, cX), (27, dt), (4, cX), (23, dt), (9, cX),
        (9, dt), (9, cX), (9, dt), (28, cX), (4, dt)]),
   (1, [(4, dt), (24, cX), (9, dt), (22, cX), (23, dt), (9, cX), (27, dt), (4, cX), (9, dt), (9, cX), (9, dt), (5, cX), (23, dt),
        (8, cX), (27, dt), (5, cX), (27, dt), (4, cX), (9, dt), (9, cX), (9, dt), (5, cX), (27, dt), (4, cX), (27, dt), (5, cX),
        (9, dt), (9, cX), (9, dt), (28, cX), (4, dt)]),
   (4, [(4, dt), (24, cX), (9, dt), (22, cX), (9, dt), (23, cX), (27, dt), (4, cX), (9, dt), (9, cX), (9, dt), (5, cX), (9, dt),
        (22, cX), (9, dt), (4, cX), (14, dt), (5, cX), (9, dt), (9, cX), (9, dt), (4, cX), (9, dt), (9, cX), (9, dt), (5, cX),
        (27, dt), (4, cX), (9, dt), (4, cX), (14, dt), (5, cX), (9, dt), (9, cX), (9, dt), (28, cX), (4, dt)]),
   (9, [(4, dt), (24, cX), (9, dt), (22, cX), (9, dt), (23, cX), (9, dt), (9, cX), (9, dt), (4, cX), (9, dt), (9, cX), (9, dt),
        (5, cX), (9, dt), (22, cX), (9, dt), (9, cX), (9, dt), (5, cX), (9, dt), (9, cX), (9, dt), (4, cX), (9, dt), (9, cX), (9,
        dt), (5, cX), (9, dt), (9, cX), (9, dt), (4, cX), (9, dt), (9, cX), (9, dt), (5, cX), (9, dt), (9, cX), (9, dt), (28,
        cX), (4, dt)]),
   (5, [(4, dt), (24, cX), (27, dt), (4, cX), (27, dt), (5, cX), (9, dt), (9, cX), (9, dt), (4, cX), (27, dt), (5, cX), (27, dt),
        (4, cX), (9, dt), (9, cX), (9, dt), (5, cX), (27, dt), (4, cX), (27, dt), (5, cX), (9, dt), (9, cX), (9, dt), (4, cX),
        (9, dt), (9, cX), (9, dt), (5, cX), (27, dt), (28, cX), (4, dt)]),
   (4, [(4, dt), (28, cX), (23, dt), (8, cX), (23, dt), (5, cX), (9, dt), (9, cX), (9, dt), (4, cX), (23, dt), (13, cX), (23,
        dt), (4, cX), (9, dt), (9, cX), (9, dt), (5, cX), (23, dt), (12, cX), (19, dt), (9, cX), (9, dt), (9, cX), (9, dt), (4,
        cX), (9, dt), (9, cX), (9, dt), (5, cX), (23, dt), (32, cX), (4, dt)]),
   (18, [(4, dt), (394, cX), (4, dt)]),
   (4, [(4, dt), (8, cX), (378, dt), (8, cX), (4, dt)]),
   (4, [(4, dt), (4, cX), (386, dt), (4, cX), (4, dt)]),
   (4, [(402, dt)])]"

definition leaderboard_button_pixmap :: pixmap where
  "leaderboard_button_pixmap = \<lparr>px_columns = 402, px_lines = 97, px_ncolors = 3, px_palette = leaderboard_button_palette, px_rows = leaderboard_button_rows\<rparr>"

section \<open>\<open>quit_button.h\<close>\<close>

definition quit_button_palette :: "(char \<times> u8) list" where
  "quit_button_palette = [(sp, 0), (dt, 63), (cX, 0)]"

definition quit_button_rows :: "char runs runs" where
  "quit_button_rows = [
   (4, [(12, sp), (378, dt), (12, sp)]),
   (4, [(8, sp), (4, dt), (378, cX), (4, dt), (8, sp)]),
   (4, [(4, sp), (4, dt), (386, cX), (4, dt), (4, sp)]),
   (4, [(4, dt), (394, cX), (4, dt)]),
   (5, [(4, dt), (136, cX), (19, dt), (13, cX), (9, dt), (9, cX), (9, dt), (4, cX), (27, dt), (5, cX), (27, dt), (136, cX), (4,
        dt)]),
   (5, [(4, dt), (132, cX), (27, dt), (9, cX), (9, dt), (9, cX), (9, dt), (4, cX), (27, dt), (5, cX), (27, dt), (136, cX), (4,
        dt)]),
   (26, [(4, dt), (132, cX), (9, dt), (9, cX), (9, dt), (9, cX), (9, dt), (9, cX), (9, dt), (13, cX), (9, dt), (23, cX), (9, dt),
        (145, cX), (4, dt)]),
   (5, [(4, dt), (132, cX), (9, dt), (4, cX), (14, dt), (9, cX), (9, dt), (9, cX), (9, dt), (13, cX), (9, dt), (23, cX), (9, dt),
        (145, cX), (4, dt)]),
   (5, [(4, dt), (132, cX), (32, dt), (4, cX), (27, dt), (4, cX), (27, dt), (14, cX), (9, dt), (145, cX), (4, dt)]),
   (4, [(4, dt), (136, cX), (14, dt), (4, cX), (10, dt), (8, cX), (19, dt), (8, cX), (27, dt), (14, cX), (9, dt), (145, cX), (4,
        dt)]),
   (19, [(4, dt), (394, cX), (4, dt)]),
   (4, [(4, dt), (8, cX), (378, dt), (8, cX), (4, dt)]),
   (4, [(4, dt), (4, cX), (386, dt), (4, cX), (4, dt)]),
   (4, [(402, dt)])]"

definition quit_button_pixmap :: pixmap where
  "quit_button_pixmap = \<lparr>px_columns = 402, px_lines = 97, px_ncolors = 3, px_palette = quit_button_palette, px_rows = quit_button_rows\<rparr>"

section \<open>\<open>trophy.h\<close>\<close>

definition trophy_palette :: "(char \<times> u8) list" where
  "trophy_palette = [(sp, 54), (dt, 0), (cX, 46), (co, 0)]"

definition trophy_rows_1 :: "char runs runs" where
  "trophy_rows_1 = [
   (56, [(300, co)]),
   (1, [(101, co), (98, cX), (101, co)]),
   (1, [(98, co), (103, sp), (1, cX), (98, co)]),
   (1, [(97, co), (106, sp), (97, co)]),
   (1, [(96, co), (107, sp), (1, cX), (96, co)]),
   (2, [(95, co), (1, cX), (108, sp), (96, co)]),
   (1, [(95, co), (109, sp), (96, co)]),
   (1, [(95, co), (1, cX), (108, sp), (96, co)]),
   (1, [(96, co), (108, sp), (96, co)]),
   (1, [(96, co), (1, cX), (106, sp), (97, co)]),
   (1, [(97, co), (105, sp), (1, cX), (97, co)]),
   (1, [(97, co), (1, cX), (104, sp), (98, co)]),
   (2, [(97, co), (106, sp), (97, co)]),
   (1, [(96, co), (107, sp), (97, co)]),
   (1, [(96, co), (107, sp), (1, cX), (96, co)]),
   (1, [(96, co), (108, sp), (96, co)]),
   (1, [(95, co), (1, cX), (108, sp), (96, co)]),
   (1, [(66, co), (1, cX), (9, sp), (2, cX), (17, co), (109, sp), (18, co), (1, cX), (10, sp), (1, cX), (66, co)]),
   (1, [(63, co), (1, cX), (17, sp), (1, cX), (13, co), (109, sp), (1, cX), (13, co), (1, cX), (17, sp), (1, cX), (63, co)]),
   (1, [(61, co), (22, sp), (1, cX), (11, co), (110, sp), (11, co), (1, cX), (21, sp), (1, cX), (61, co)]),
   (1, [(59, co), (1, cX), (25, sp), (1, cX), (9, co), (110, sp), (9, co), (1, cX), (25, sp), (1, cX), (59, co)]),
   (1, [(58, co), (29, sp), (7, co), (111, sp), (8, co), (29, sp), (58, co)]),
   (1, [(56, co), (1, cX), (31, sp), (1, cX), (5, co), (1, cX), (110, sp), (1, cX), (5, co), (1, cX), (31, sp), (1, cX), (56,
        co)]),
   (1, [(55, co), (1, cX), (33, sp), (1, cX), (4, co), (111, sp), (1, cX), (4, co), (1, cX), (33, sp), (1, cX), (55, co)]),
   (1, [(54, co), (1, cX), (35, sp), (1, cX), (3, co), (112, sp), (3, co), (36, sp), (1, cX), (54, co)]),
   (1, [(53, co), (1, cX), (17, sp), (1, cX), (19, sp), (1, cX), (2, co), (112, sp), (2, co), (1, cX), (18, sp), (1, cX), (18,
        sp), (1, cX), (53, co)]),
   (1, [(53, co), (13, sp), (1, cX), (10, co), (1, cX), (14, sp), (1, co), (1, cX), (112, sp), (1, co), (1, cX), (14, sp), (1,
        cX), (10, co), (14, sp), (53, co)]),
   (1, [(52, co), (12, sp), (1, cX), (15, co), (126, sp), (1, cX), (13, sp), (15, co), (1, cX), (12, sp), (52, co)]),
   (1, [(51, co), (12, sp), (18, co), (1, cX), (136, sp), (19, co), (11, sp), (1, cX), (51, co)]),
   (1, [(51, co), (11, sp), (21, co), (134, sp), (21, co), (11, sp), (51, co)]),
   (1, [(50, co), (10, sp), (1, cX), (23, co), (1, cX), (130, sp), (1, cX), (23, co), (11, sp), (50, co)]),
   (1, [(50, co), (10, sp), (25, co), (130, sp), (25, co), (10, sp), (50, co)]),
   (1, [(49, co), (1, cX), (9, sp), (27, co), (128, sp), (27, co), (9, sp), (1, cX), (49, co)]),
   (1, [(49, co), (9, sp), (1, cX), (27, co), (1, cX), (126, sp), (28, co), (1, cX), (9, sp), (49, co)]),
   (1, [(49, co), (9, sp), (29, co), (126, sp), (29, co), (9, sp), (49, co)]),
   (1, [(48, co), (10, sp), (30, co), (124, sp), (30, co), (9, sp), (1, cX), (48, co)]),
   (1, [(48, co), (9, sp), (32, co), (1, cX), (120, sp), (1, cX), (32, co), (8, sp), (1, cX), (48, co)]),
   (2, [(48, co), (9, sp), (36, co), (114, sp), (36, co), (9, sp), (48, co)]),
   (1, [(48, co), (8, sp), (1, cX), (36, co), (114, sp), (36, co), (1, cX), (8, sp), (48, co)]),
   (1, [(48, co), (9, sp), (36, co), (114, sp), (36, co), (9, sp), (48, co)]),
   (1, [(48, co), (8, sp), (1, cX), (36, co), (114, sp), (36, co), (1, cX), (8, sp), (48, co)]),
   (1, [(48, co), (8, sp), (1, cX), (36, co), (113, sp), (1, cX), (36, co), (9, sp), (48, co)]),
   (1, [(48, co), (8, sp), (1, cX), (36, co), (114, sp), (36, co), (9, sp), (48, co)]),
   (1, [(48, co), (9, sp), (36, co), (113, sp), (1, cX), (36, co), (9, sp), (48, co)]),
   (1, [(48, co), (8, sp), (1, cX), (36, co), (113, sp), (1, cX), (36, co), (9, sp), (48, co)]),
   (1, [(48, co), (9, sp), (36, co), (1, cX), (112, sp), (37, co), (9, sp), (48, co)]),
   (1, [(48, co), (1, cX), (8, sp), (36, co), (113, sp), (36, co), (1, cX), (8, sp), (1, cX), (48, co)]),
   (1, [(48, co), (1, cX), (9, sp), (35, co), (1, cX), (112, sp), (36, co), (9, sp), (49, co)]),
   (1, [(49, co), (9, sp), (36, co), (112, sp), (36, co), (9, sp), (49, co)]),
   (1, [(49, co), (9, sp), (1, cX), (35, co), (112, sp), (35, co), (1, cX), (9, sp), (49, co)]),
   (1, [(49, co), (10, sp), (35, co), (112, sp), (35, co), (9, sp), (1, cX), (49, co)]),
   (1, [(50, co), (9, sp), (1, cX), (34, co), (111, sp), (1, cX), (34, co), (1, cX), (9, sp), (50, co)]),
   (1, [(50, co), (10, sp), (34, co), (1, cX), (110, sp), (35, co), (10, sp), (50, co)]),
   (1, [(51, co), (10, sp), (33, co), (1, cX), (110, sp), (34, co), (10, sp), (51, co)]),
   (1, [(51, co), (11, sp), (33, co), (110, sp), (33, co), (11, sp), (51, co)]),
   (1, [(52, co), (11, sp), (32, co), (110, sp), (32, co), (11, sp), (52, co)]),
   (1, [(52, co), (1, cX), (11, sp), (31, co), (109, sp), (31, co), (1, cX), (11, sp), (1, cX), (52, co)]),
   (1, [(53, co), (12, sp), (1, cX), (30, co), (108, sp), (30, co), (1, cX), (12, sp), (53, co)]),
   (1, [(54, co), (13, sp), (1, cX), (28, co), (108, sp), (28, co), (1, cX), (13, sp), (54, co)]),
   (1, [(55, co), (14, sp), (1, cX), (26, co), (108, sp), (26, co), (1, cX), (14, sp), (55, co)]),
   (1, [(55, co), (1, cX), (15, sp), (1, cX), (24, co), (1, cX), (106, sp), (25, co), (16, sp), (56, co)]),
   (1, [(56, co), (1, cX), (17, sp), (1, cX), (22, co), (106, sp), (21, co), (2, cX), (17, sp), (57, co)]),
   (1, [(58, co), (20, sp), (1, cX), (18, co), (105, sp), (1, cX), (18, co), (1, cX), (20, sp), (58, co)]),
   (1, [(59, co), (23, sp), (1, cX), (14, co), (105, sp), (15, co), (1, cX), (23, sp), (59, co)]),
   (1, [(60, co), (1, cX), (25, sp), (1, cX), (11, co), (104, sp), (11, co), (1, cX), (25, sp), (1, cX), (60, co)]),
   (1, [(62, co), (27, sp), (2, cX), (7, co), (103, sp), (8, co), (1, cX), (27, sp), (1, cX), (62, co)]),
   (1, [(64, co), (29, sp), (1, cX), (5, co), (102, sp), (5, co), (1, cX), (29, sp), (64, co)]),
   (1, [(66, co), (29, sp), (1, cX), (3, co), (101, sp), (1, cX), (3, co), (29, sp), (1, cX), (66, co)]),
   (1, [(68, co), (1, cX), (29, sp), (1, co), (1, cX), (100, sp), (2, co), (29, sp), (1, cX), (68, co)]),
   (1, [(71, co), (1, cX), (156, sp), (1, cX), (71, co)]),
   (1, [(74, co), (1, cX), (149, sp), (2, cX), (74, co)]),
   (1, [(78, co), (2, cX), (141, sp), (1, cX), (78, co)]),
   (1, [(82, co), (1, cX), (133, sp), (2, cX), (82, co)]),
   (1, [(86, co), (1, cX), (126, sp), (1, cX), (86, co)]),
   (1, [(90, co), (119, sp), (1, cX), (90, co)]),
   (1, [(92, co), (1, cX), (114, sp), (1, cX), (92, co)]),
   (1, [(86, co), (1, cX), (7, co), (1, cX), (110, sp), (1, cX), (94, co)]),
   (1, [(84, co), (1, cX), (4, sp), (1, cX), (6, co), (108, sp), (6, co), (1, cX), (4, sp), (1, cX), (84, co)]),
   (1, [(83, co), (7, sp), (6, co), (1, cX), (106, sp), (6, co), (1, cX), (7, sp), (83, co)]),
   (1, [(83, co), (8, sp), (6, co), (106, sp), (6, co), (8, sp), (83, co)]),
   (1, [(82, co), (1, cX), (8, sp), (6, co), (9, sp), (1, cX), (86, sp), (1, co), (9, sp), (6, co), (8, sp), (1, cX), (82, co)]),
   (1, [(82, co), (9, sp), (6, co), (9, sp), (1, co), (85, sp), (2, co), (9, sp), (6, co), (8, sp), (1, cX), (82, co)]),
   (1, [(82, co), (1, cX), (8, sp), (6, co), (9, sp), (2, co), (1, cX), (82, sp), (3, co), (9, sp), (6, co), (8, sp), (1, cX),
        (82, co)]),
   (1, [(82, co), (9, sp), (5, co), (1, cX), (9, sp), (3, co), (81, sp), (1, cX), (3, co), (9, sp), (1, cX), (5, co), (8, sp),
        (1, cX), (82, co)]),
   (1, [(82, co), (1, cX), (9, sp), (2, cX), (11, sp), (1, cX), (4, co), (80, sp), (4, co), (11, sp), (2, cX), (10, sp), (1, cX),
        (82, co)]),
   (1, [(83, co), (22, sp), (6, co), (77, sp), (1, cX), (6, co), (22, sp), (83, co)]),
   (1, [(83, co), (22, sp), (7, co), (76, sp), (7, co), (22, sp), (83, co)]),
   (1, [(83, co), (1, cX), (20, sp), (9, co), (74, sp), (9, co), (20, sp), (1, cX), (83, co)]),
   (1, [(84, co), (19, sp), (1, cX), (10, co), (72, sp), (10, co), (1, cX), (19, sp), (84, co)]),
   (1, [(85, co), (18, sp), (12, co), (69, sp), (1, cX), (12, co), (18, sp), (85, co)]),
   (1, [(86, co), (15, sp), (1, cX), (14, co), (1, cX), (66, sp), (15, co), (16, sp), (86, co)]),
   (1, [(87, co), (1, cX), (12, sp), (1, cX), (17, co), (64, sp), (17, co), (1, cX), (12, sp), (1, cX), (87, co)])]"

definition trophy_rows_2 :: "char runs runs" where
  "trophy_rows_2 = [
   (1, [(89, co), (1, cX), (8, sp), (21, co), (62, sp), (21, co), (8, sp), (1, cX), (89, co)]),
   (1, [(120, co), (1, cX), (58, sp), (121, co)]),
   (1, [(122, co), (55, sp), (123, co)]),
   (1, [(124, co), (52, sp), (124, co)]),
   (1, [(126, co), (48, sp), (126, co)]),
   (1, [(128, co), (43, sp), (1, cX), (128, co)]),
   (1, [(130, co), (1, cX), (38, sp), (131, co)]),
   (1, [(133, co), (33, sp), (134, co)]),
   (2, [(136, co), (28, sp), (136, co)]),
   (1, [(136, co), (1, cX), (26, sp), (137, co)]),
   (2, [(137, co), (26, sp), (137, co)]),
   (1, [(137, co), (25, sp), (138, co)]),
   (1, [(137, co), (1, cX), (24, sp), (138, co)]),
   (9, [(138, co), (24, sp), (138, co)]),
   (1, [(137, co), (25, sp), (138, co)]),
   (1, [(137, co), (25, sp), (1, cX), (137, co)]),
   (2, [(137, co), (26, sp), (137, co)]),
   (1, [(136, co), (27, sp), (137, co)]),
   (1, [(136, co), (28, sp), (136, co)]),
   (1, [(135, co), (1, cX), (28, sp), (136, co)]),
   (1, [(135, co), (29, sp), (1, cX), (135, co)]),
   (1, [(134, co), (1, cX), (30, sp), (135, co)]),
   (1, [(134, co), (31, sp), (1, cX), (134, co)]),
   (1, [(133, co), (1, cX), (32, sp), (134, co)]),
   (1, [(133, co), (34, sp), (133, co)]),
   (1, [(132, co), (35, sp), (1, cX), (132, co)]),
   (1, [(131, co), (1, cX), (36, sp), (1, cX), (131, co)]),
   (1, [(130, co), (1, cX), (38, sp), (131, co)]),
   (1, [(129, co), (41, sp), (130, co)]),
   (1, [(128, co), (1, cX), (42, sp), (129, co)]),
   (1, [(127, co), (45, sp), (1, cX), (127, co)]),
   (1, [(126, co), (47, sp), (1, cX), (126, co)]),
   (1, [(114, co), (71, sp), (1, cX), (114, co)]),
   (7, [(114, co), (72, sp), (114, co)]),
   (1, [(113, co), (1, cX), (72, sp), (114, co)]),
   (1, [(101, co), (97, sp), (1, cX), (101, co)]),
   (1, [(100, co), (100, sp), (100, co)]),
   (1, [(99, co), (101, sp), (1, cX), (99, co)]),
   (1, [(99, co), (1, cX), (100, sp), (1, cX), (99, co)]),
   (4, [(99, co), (101, sp), (1, cX), (99, co)]),
   (1, [(99, co), (1, cX), (100, sp), (1, cX), (99, co)]),
   (4, [(99, co), (101, sp), (1, cX), (99, co)]),
   (1, [(99, co), (1, cX), (100, sp), (1, cX), (99, co)]),
   (5, [(99, co), (101, sp), (1, cX), (99, co)]),
   (1, [(99, co), (1, cX), (100, sp), (1, cX), (99, co)]),
   (1, [(99, co), (102, sp), (99, co)]),
   (3, [(99, co), (101, sp), (1, cX), (99, co)]),
   (1, [(99, co), (1, cX), (100, sp), (1, cX), (99, co)]),
   (5, [(99, co), (101, sp), (1, cX), (99, co)]),
   (1, [(99, co), (1, cX), (101, sp), (99, co)]),
   (5, [(99, co), (101, sp), (1, cX), (99, co)]),
   (1, [(99, co), (1, cX), (101, sp), (99, co)]),
   (2, [(99, co), (101, sp), (1, cX), (99, co)]),
   (1, [(99, co), (1, cX), (100, sp), (100, co)]),
   (1, [(100, co), (100, sp), (100, co)]),
   (1, [(101, co), (1, cX), (96, sp), (1, cX), (101, co)]),
   (56, [(300, co)])]"

definition trophy_pixmap :: pixmap where
  "trophy_pixmap = \<lparr>px_columns = 300, px_lines = 300, px_ncolors = 4, px_palette = trophy_palette, px_rows = trophy_rows_1 @ trophy_rows_2\<rparr>"

section \<open>All of them are well-formed\<close>

lemma mouse_pixmap_ok: "pixmap_ok mouse_pixmap"
  by (simp add: pixmap_ok_def row_ok_def mouse_pixmap_def mouse_palette_def mouse_rows_def)

lemma player_pixmap_ok: "pixmap_ok player_pixmap"
  by (simp add: pixmap_ok_def row_ok_def player_pixmap_def player_palette_def player_rows_def)

lemma block_pixmap_ok: "pixmap_ok block_pixmap"
  by (simp add: pixmap_ok_def row_ok_def block_pixmap_def block_palette_def block_rows_def)

lemma logo_pixmap_ok: "pixmap_ok logo_pixmap"
  by (simp add: pixmap_ok_def row_ok_def logo_pixmap_def logo_palette_def logo_rows_def)

lemma play_button_pixmap_ok: "pixmap_ok play_button_pixmap"
  by (simp add: pixmap_ok_def row_ok_def play_button_pixmap_def play_button_palette_def play_button_rows_def)

lemma leaderboard_button_pixmap_ok: "pixmap_ok leaderboard_button_pixmap"
  by (simp add: pixmap_ok_def row_ok_def leaderboard_button_pixmap_def leaderboard_button_palette_def leaderboard_button_rows_def)

lemma quit_button_pixmap_ok: "pixmap_ok quit_button_pixmap"
  by (simp add: pixmap_ok_def row_ok_def quit_button_pixmap_def quit_button_palette_def quit_button_rows_def)

lemma trophy_pixmap_ok: "pixmap_ok trophy_pixmap"
  by (simp add: pixmap_ok_def row_ok_def trophy_pixmap_def trophy_palette_def trophy_rows_1_def trophy_rows_2_def)

end
