(* ===== verification/Alphabet.thy ===== *)
theory Alphabet
  imports Pixmaps
begin

text \<open>
  The pixmap of \<open>assets/sprites/alphabet/alphabet_sprites.h\<close>: 42 glyphs of 83 rows each, one below the other, in the order of
  \<open>calculate_char_coord\<close>.
\<close>

definition alphabet_palette :: "(char \<times> u8) list" where
  "alphabet_palette = [(sp, 0), (dt, 63)]"

definition sheet_comma :: "char runs runs" where
  "sheet_comma = [
   (52, [(44, sp)]),
   (1, [(23, sp), (3, dt), (1, sp), (2, dt), (15, sp)]),
   (1, [(18, sp), (11, dt), (15, sp)]),
   (1, [(18, sp), (12, dt), (14, sp)]),
   (1, [(18, sp), (11, dt), (15, sp)]),
   (1, [(18, sp), (12, dt), (14, sp)]),
   (1, [(18, sp), (11, dt), (15, sp)]),
   (1, [(18, sp), (12, dt), (14, sp)]),
   (1, [(17, sp), (12, dt), (15, sp)]),
   (1, [(17, sp), (8, dt), (1, sp), (4, dt), (14, sp)]),
   (1, [(18, sp), (11, dt), (15, sp)]),
   (1, [(18, sp), (12, dt), (14, sp)]),
   (1, [(18, sp), (11, dt), (15, sp)]),
   (2, [(12, sp), (12, dt), (20, sp)]),
   (1, [(12, sp), (11, dt), (21, sp)]),
   (2, [(12, sp), (12, dt), (20, sp)]),
   (1, [(12, sp), (11, dt), (21, sp)]),
   (13, [(44, sp)])]"

definition sheet_minus :: "char runs runs" where
  "sheet_minus = [
   (38, [(44, sp)]),
   (1, [(13, sp), (15, dt), (1, sp), (6, dt), (9, sp)]),
   (1, [(12, sp), (23, dt), (9, sp)]),
   (1, [(11, sp), (24, dt), (9, sp)]),
   (3, [(12, sp), (23, dt), (9, sp)]),
   (39, [(44, sp)])]"

definition sheet_dot :: "char runs runs" where
  "sheet_dot = [
   (52, [(44, sp)]),
   (1, [(23, sp), (2, dt), (1, sp), (3, dt), (15, sp)]),
   (1, [(18, sp), (11, dt), (15, sp)]),
   (1, [(18, sp), (12, dt), (14, sp)]),
   (1, [(18, sp), (11, dt), (15, sp)]),
   (1, [(18, sp), (12, dt), (14, sp)]),
   (1, [(18, sp), (11, dt), (15, sp)]),
   (1, [(18, sp), (12, dt), (14, sp)]),
   (1, [(17, sp), (12, dt), (15, sp)]),
   (1, [(17, sp), (13, dt), (14, sp)]),
   (1, [(18, sp), (11, dt), (15, sp)]),
   (1, [(18, sp), (12, dt), (14, sp)]),
   (1, [(18, sp), (11, dt), (15, sp)]),
   (19, [(44, sp)])]"

definition sheet_slash :: "char runs runs" where
  "sheet_slash = [
   (18, [(44, sp)]),
   (1, [(32, sp), (11, dt), (1, sp)]),
   (2, [(32, sp), (12, dt)]),
   (1, [(32, sp), (11, dt), (1, sp)]),
   (1, [(32, sp), (12, dt)]),
   (2, [(32, sp), (11, dt), (1, sp)]),
   (2, [(32, sp), (12, dt)]),
   (1, [(32, sp), (11, dt), (1, sp)]),
   (1, [(32, sp), (12, dt)]),
   (1, [(26, sp), (11, dt), (3, sp), (1, dt), (3, sp)]),
   (5, [(26, sp), (12, dt), (6, sp)]),
   (5, [(20, sp), (12, dt), (12, sp)]),
   (1, [(20, sp), (11, dt), (13, sp)]),
   (1, [(14, sp), (12, dt), (18, sp)]),
   (1, [(15, sp), (11, dt), (18, sp)]),
   (1, [(14, sp), (12, dt), (18, sp)]),
   (1, [(15, sp), (11, dt), (18, sp)]),
   (1, [(14, sp), (12, dt), (18, sp)]),
   (1, [(13, sp), (10, dt), (1, sp), (2, dt), (18, sp)]),
   (1, [(9, sp), (11, dt), (24, sp)]),
   (1, [(8, sp), (12, dt), (24, sp)]),
   (1, [(9, sp), (12, dt), (23, sp)]),
   (1, [(8, sp), (12, dt), (24, sp)]),
   (1, [(9, sp), (11, dt), (24, sp)]),
   (1, [(5, sp), (1, dt), (1, sp), (8, dt), (29, sp)]),
   (1, [(3, sp), (12, dt), (29, sp)]),
   (1, [(3, sp), (11, dt), (30, sp)]),
   (2, [(3, sp), (12, dt), (29, sp)]),
   (1, [(3, sp), (11, dt), (30, sp)]),
   (1, [(5, sp), (10, dt), (29, sp)]),
   (1, [(2, sp), (12, dt), (30, sp)]),
   (1, [(2, sp), (13, dt), (29, sp)]),
   (1, [(3, sp), (11, dt), (30, sp)]),
   (1, [(3, sp), (12, dt), (29, sp)]),
   (1, [(3, sp), (11, dt), (30, sp)]),
   (19, [(44, sp)])]"

definition sheet_digit0 :: "char runs runs" where
  "sheet_digit0 = [
   (18, [(44, sp)]),
   (2, [(9, sp), (29, dt), (6, sp)]),
   (1, [(8, sp), (30, dt), (6, sp)]),
   (1, [(9, sp), (28, dt), (7, sp)]),
   (1, [(9, sp), (29, dt), (6, sp)]),
   (1, [(3, sp), (12, dt), (1, sp), (6, dt), (1, sp), (21, dt)]),
   (1, [(3, sp), (12, dt), (17, sp), (11, dt), (1, sp)]),
   (1, [(3, sp), (11, dt), (18, sp), (12, dt)]),
   (1, [(3, sp), (12, dt), (17, sp), (12, dt)]),
   (1, [(3, sp), (11, dt), (18, sp), (11, dt), (1, sp)]),
   (1, [(3, sp), (11, dt), (18, sp), (12, dt)]),
   (2, [(3, sp), (12, dt), (11, sp), (17, dt), (1, sp)]),
   (1, [(3, sp), (11, dt), (12, sp), (18, dt)]),
   (1, [(3, sp), (12, dt), (11, sp), (17, dt), (1, sp)]),
   (2, [(3, sp), (11, dt), (12, sp), (18, dt)]),
   (1, [(3, sp), (12, dt), (6, sp), (22, dt), (1, sp)]),
   (1, [(3, sp), (12, dt), (5, sp), (24, dt)]),
   (1, [(3, sp), (11, dt), (6, sp), (23, dt), (1, sp)]),
   (1, [(3, sp), (12, dt), (5, sp), (23, dt), (1, sp)]),
   (1, [(3, sp), (11, dt), (6, sp), (24, dt)]),
   (1, [(3, sp), (11, dt), (6, sp), (8, dt), (1, sp), (2, dt), (1, sp), (12, dt)]),
   (1, [(3, sp), (23, dt), (6, sp), (11, dt), (1, sp)]),
   (1, [(3, sp), (23, dt), (6, sp), (12, dt)]),
   (2, [(3, sp), (23, dt), (6, sp), (11, dt), (1, sp)]),
   (1, [(3, sp), (23, dt), (6, sp), (12, dt)]),
   (1, [(3, sp), (19, dt), (2, sp), (2, dt), (6, sp), (12, dt)]),
   (1, [(3, sp), (17, dt), (12, sp), (11, dt), (1, sp)]),
   (1, [(3, sp), (17, dt), (12, sp), (12, dt)]),
   (1, [(3, sp), (18, dt), (11, sp), (11, dt), (1, sp)]),
   (1, [(3, sp), (17, dt), (12, sp), (11, dt), (1, sp)]),
   (1, [(3, sp), (17, dt), (12, sp), (12, dt)]),
   (1, [(3, sp), (12, dt), (3, sp), (2, dt), (12, sp), (12, dt)]),
   (1, [(3, sp), (12, dt), (17, sp), (11, dt), (1, sp)]),
   (1, [(3, sp), (11, dt), (18, sp), (12, dt)]),
   (2, [(3, sp), (12, dt), (17, sp), (11, dt), (1, sp)]),
   (1, [(3, sp), (11, dt), (18, sp), (12, dt)]),
   (1, [(8, sp), (30, dt), (6, sp)]),
   (3, [(9, sp), (29, dt), (6, sp)]),
   (1, [(8, sp), (30, dt), (6, sp)]),
   (1, [(9, sp), (29, dt), (6, sp)]),
   (19, [(44, sp)])]"

definition sheet_digit1 :: "char runs runs" where
  "sheet_digit1 = [
   (18, [(44, sp)]),
   (2, [(18, sp), (11, dt), (15, sp)]),
   (1, [(17, sp), (12, dt), (15, sp)]),
   (2, [(18, sp), (11, dt), (15, sp)]),
   (6, [(12, sp), (17, dt), (15, sp)]),
   (1, [(18, sp), (12, dt), (14, sp)]),
   (1, [(17, sp), (12, dt), (15, sp)]),
   (3, [(18, sp), (11, dt), (15, sp)]),
   (1, [(17, sp), (12, dt), (15, sp)]),
   (1, [(18, sp), (12, dt), (14, sp)]),
   (1, [(17, sp), (12, dt), (15, sp)]),
   (2, [(18, sp), (11, dt), (15, sp)]),
   (1, [(17, sp), (12, dt), (15, sp)]),
   (1, [(18, sp), (11, dt), (15, sp)]),
   (1, [(17, sp), (12, dt), (15, sp)]),
   (2, [(18, sp), (11, dt), (15, sp)]),
   (1, [(17, sp), (12, dt), (15, sp)]),
   (1, [(18, sp), (11, dt), (15, sp)]),
   (1, [(17, sp), (12, dt), (15, sp)]),
   (2, [(18, sp), (11, dt), (15, sp)]),
   (1, [(18, sp), (12, dt), (14, sp)]),
   (1, [(17, sp), (12, dt), (15, sp)]),
   (1, [(18, sp), (11, dt), (15, sp)]),
   (1, [(18, sp), (12, dt), (14, sp)]),
   (1, [(18, sp), (11, dt), (15, sp)]),
   (1, [(17, sp), (12, dt), (15, sp)]),
   (3, [(18, sp), (11, dt), (15, sp)]),
   (6, [(12, sp), (23, dt), (9, sp)]),
   (19, [(44, sp)])]"

definition sheet_digit2 :: "char runs runs" where
  "sheet_digit2 = [
   (18, [(44, sp)]),
   (2, [(9, sp), (29, dt), (6, sp)]),
   (1, [(8, sp), (30, dt), (6, sp)]),
   (1, [(9, sp), (28, dt), (7, sp)]),
   (1, [(9, sp), (29, dt), (6, sp)]),
   (1, [(6, sp), (9, dt), (1, sp), (5, dt), (1, sp), (17, dt), (1, sp), (3, dt), (1, sp)]),
   (1, [(2, sp), (13, dt), (17, sp), (11, dt), (1, sp)]),
   (1, [(3, sp), (11, dt), (18, sp), (12, dt)]),
   (1, [(3, sp), (12, dt), (17, sp), (12, dt)]),
   (1, [(3, sp), (11, dt), (18, sp), (11, dt), (1, sp)]),
   (1, [(3, sp), (11, dt), (18, sp), (12, dt)]),
   (2, [(32, sp), (11, dt), (1, sp)]),
   (1, [(32, sp), (12, dt)]),
   (1, [(32, sp), (11, dt), (1, sp)]),
   (2, [(32, sp), (12, dt)]),
   (1, [(9, sp), (29, dt), (6, sp)]),
   (1, [(8, sp), (30, dt), (6, sp)]),
   (2, [(9, sp), (29, dt), (6, sp)]),
   (1, [(8, sp), (30, dt), (6, sp)]),
   (1, [(8, sp), (29, dt), (7, sp)]),
   (2, [(3, sp), (11, dt), (30, sp)]),
   (1, [(3, sp), (12, dt), (29, sp)]),
   (1, [(2, sp), (13, dt), (29, sp)]),
   (2, [(3, sp), (11, dt), (30, sp)]),
   (1, [(3, sp), (12, dt), (29, sp)]),
   (1, [(2, sp), (13, dt), (29, sp)]),
   (1, [(3, sp), (11, dt), (30, sp)]),
   (1, [(3, sp), (12, dt), (29, sp)]),
   (1, [(3, sp), (11, dt), (30, sp)]),
   (1, [(3, sp), (12, dt), (17, sp), (2, dt), (1, sp), (3, dt), (1, sp), (3, dt), (2, sp)]),
   (1, [(3, sp), (11, dt), (18, sp), (12, dt)]),
   (1, [(3, sp), (12, dt), (17, sp), (12, dt)]),
   (1, [(3, sp), (11, dt), (18, sp), (11, dt), (1, sp)]),
   (1, [(3, sp), (12, dt), (17, sp), (11, dt), (1, sp)]),
   (1, [(3, sp), (11, dt), (18, sp), (12, dt)]),
   (1, [(3, sp), (41, dt)]),
   (1, [(2, sp), (41, dt), (1, sp)]),
   (1, [(2, sp), (42, dt)]),
   (2, [(3, sp), (40, dt), (1, sp)]),
   (1, [(3, sp), (41, dt)]),
   (19, [(44, sp)])]"

definition sheet_digit3 :: "char runs runs" where
  "sheet_digit3 = [
   (18, [(44, sp)]),
   (1, [(3, sp), (40, dt), (1, sp)]),
   (1, [(3, sp), (41, dt)]),
   (1, [(2, sp), (41, dt), (1, sp)]),
   (2, [(3, sp), (41, dt)]),
   (1, [(3, sp), (2, dt), (1, sp), (9, dt), (1, sp), (27, dt), (1, sp)]),
   (5, [(26, sp), (12, dt), (6, sp)]),
   (1, [(24, sp), (8, dt), (2, sp), (2, dt), (8, sp)]),
   (5, [(20, sp), (12, dt), (12, sp)]),
   (1, [(14, sp), (24, dt), (6, sp)]),
   (1, [(15, sp), (23, dt), (6, sp)]),
   (1, [(14, sp), (24, dt), (6, sp)]),
   (1, [(15, sp), (23, dt), (6, sp)]),
   (2, [(14, sp), (24, dt), (6, sp)]),
   (2, [(32, sp), (12, dt)]),
   (2, [(32, sp), (11, dt), (1, sp)]),
   (2, [(32, sp), (12, dt)]),
   (1, [(32, sp), (11, dt), (1, sp)]),
   (1, [(32, sp), (12, dt)]),
   (1, [(32, sp), (7, dt), (1, sp), (3, dt), (1, sp)]),
   (1, [(32, sp), (11, dt), (1, sp)]),
   (1, [(32, sp), (12, dt)]),
   (1, [(3, sp), (11, dt), (18, sp), (12, dt)]),
   (1, [(3, sp), (11, dt), (18, sp), (11, dt), (1, sp)]),
   (1, [(3, sp), (12, dt), (17, sp), (12, dt)]),
   (1, [(3, sp), (11, dt), (18, sp), (11, dt), (1, sp)]),
   (1, [(3, sp), (12, dt), (17, sp), (11, dt), (1, sp)]),
   (1, [(3, sp), (11, dt), (18, sp), (12, dt)]),
   (1, [(8, sp), (30, dt), (6, sp)]),
   (1, [(9, sp), (29, dt), (6, sp)]),
   (1, [(8, sp), (30, dt), (6, sp)]),
   (1, [(9, sp), (29, dt), (6, sp)]),
   (1, [(8, sp), (30, dt), (6, sp)]),
   (1, [(9, sp), (29, dt), (6, sp)]),
   (19, [(44, sp)])]"

definition sheet_digit4 :: "char runs runs" where
  "sheet_digit4 = [
   (18, [(44, sp)]),
   (1, [(20, sp), (23, dt), (1, sp)]),
   (2, [(20, sp), (24, dt)]),
   (1, [(20, sp), (23, dt), (1, sp)]),
   (1, [(20, sp), (24, dt)]),
   (1, [(17, sp), (2, dt), (1, sp), (23, dt), (1, sp)]),
   (1, [(14, sp), (12, dt), (6, sp), (11, dt), (1, sp)]),
   (2, [(14, sp), (12, dt), (6, sp), (12, dt)]),
   (1, [(15, sp), (11, dt), (6, sp), (11, dt), (1, sp)]),
   (1, [(14, sp), (12, dt), (7, sp), (11, dt)]),
   (1, [(9, sp), (12, dt), (11, sp), (11, dt), (1, sp)]),
   (1, [(8, sp), (12, dt), (12, sp), (11, dt), (1, sp)]),
   (1, [(9, sp), (11, dt), (12, sp), (12, dt)]),
   (1, [(9, sp), (12, dt), (11, sp), (11, dt), (1, sp)]),
   (1, [(8, sp), (12, dt), (12, sp), (12, dt)]),
   (1, [(9, sp), (11, dt), (12, sp), (12, dt)]),
   (1, [(3, sp), (12, dt), (17, sp), (11, dt), (1, sp)]),
   (1, [(2, sp), (13, dt), (17, sp), (12, dt)]),
   (1, [(3, sp), (11, dt), (18, sp), (11, dt), (1, sp)]),
   (1, [(3, sp), (12, dt), (17, sp), (11, dt), (1, sp)]),
   (2, [(3, sp), (11, dt), (18, sp), (12, dt)]),
   (1, [(3, sp), (40, dt), (1, sp)]),
   (1, [(3, sp), (41, dt)]),
   (1, [(3, sp), (40, dt), (1, sp)]),
   (1, [(2, sp), (41, dt), (1, sp)]),
   (2, [(3, sp), (41, dt)]),
   (1, [(32, sp), (11, dt), (1, sp)]),
   (1, [(32, sp), (12, dt)]),
   (2, [(32, sp), (11, dt), (1, sp)]),
   (2, [(32, sp), (12, dt)]),
   (1, [(32, sp), (4, dt), (1, sp), (6, dt), (1, sp)]),
   (1, [(32, sp), (12, dt)]),
   (2, [(32, sp), (11, dt), (1, sp)]),
   (2, [(32, sp), (12, dt)]),
   (1, [(32, sp), (11, dt), (1, sp)]),
   (1, [(32, sp), (12, dt)]),
   (2, [(32, sp), (11, dt), (1, sp)]),
   (1, [(32, sp), (12, dt)]),
   (19, [(44, sp)])]"

definition sheet_digit5 :: "char runs runs" where
  "sheet_digit5 = [
   (18, [(44, sp)]),
   (2, [(3, sp), (35, dt), (6, sp)]),
   (1, [(2, sp), (36, dt), (6, sp)]),
   (1, [(3, sp), (34, dt), (7, sp)]),
   (1, [(3, sp), (35, dt), (6, sp)]),
   (1, [(3, sp), (12, dt), (1, sp), (6, dt), (1, sp), (14, dt), (7, sp)]),
   (1, [(2, sp), (13, dt), (29, sp)]),
   (1, [(3, sp), (11, dt), (30, sp)]),
   (1, [(3, sp), (12, dt), (29, sp)]),
   (2, [(3, sp), (11, dt), (30, sp)]),
   (1, [(3, sp), (12, dt), (29, sp)]),
   (1, [(2, sp), (13, dt), (29, sp)]),
   (1, [(3, sp), (11, dt), (30, sp)]),
   (1, [(3, sp), (12, dt), (29, sp)]),
   (2, [(3, sp), (11, dt), (30, sp)]),
   (2, [(2, sp), (36, dt), (6, sp)]),
   (4, [(3, sp), (35, dt), (6, sp)]),
   (2, [(32, sp), (12, dt)]),
   (2, [(32, sp), (11, dt), (1, sp)]),
   (2, [(32, sp), (12, dt)]),
   (1, [(32, sp), (11, dt), (1, sp)]),
   (1, [(32, sp), (12, dt)]),
   (2, [(32, sp), (11, dt), (1, sp)]),
   (1, [(32, sp), (12, dt)]),
   (1, [(3, sp), (2, dt), (1, sp), (8, dt), (18, sp), (12, dt)]),
   (1, [(3, sp), (11, dt), (18, sp), (11, dt), (1, sp)]),
   (1, [(3, sp), (12, dt), (17, sp), (12, dt)]),
   (1, [(3, sp), (11, dt), (18, sp), (11, dt), (1, sp)]),
   (1, [(3, sp), (12, dt), (17, sp), (11, dt), (1, sp)]),
   (1, [(3, sp), (11, dt), (18, sp), (12, dt)]),
   (1, [(8, sp), (30, dt), (6, sp)]),
   (3, [(9, sp), (29, dt), (6, sp)]),
   (1, [(8, sp), (30, dt), (6, sp)]),
   (1, [(9, sp), (29, dt), (6, sp)]),
   (19, [(44, sp)])]"

definition sheet_digit6 :: "char runs runs" where
  "sheet_digit6 = [
   (18, [(44, sp)]),
   (2, [(9, sp), (29, dt), (6, sp)]),
   (1, [(8, sp), (30, dt), (6, sp)]),
   (1, [(9, sp), (28, dt), (7, sp)]),
   (1, [(9, sp), (29, dt), (6, sp)]),
   (1, [(3, sp), (13, dt), (1, sp), (5, dt), (1, sp), (21, dt)]),
   (1, [(3, sp), (12, dt), (17, sp), (11, dt), (1, sp)]),
   (1, [(3, sp), (11, dt), (18, sp), (12, dt)]),
   (1, [(3, sp), (12, dt), (17, sp), (12, dt)]),
   (1, [(3, sp), (11, dt), (18, sp), (11, dt), (1, sp)]),
   (1, [(3, sp), (11, dt), (18, sp), (12, dt)]),
   (2, [(3, sp), (12, dt), (29, sp)]),
   (1, [(3, sp), (11, dt), (30, sp)]),
   (1, [(3, sp), (12, dt), (29, sp)]),
   (2, [(3, sp), (11, dt), (30, sp)]),
   (6, [(3, sp), (35, dt), (6, sp)]),
   (2, [(3, sp), (11, dt), (18, sp), (12, dt)]),
   (2, [(3, sp), (12, dt), (17, sp), (11, dt), (1, sp)]),
   (2, [(3, sp), (11, dt), (18, sp), (12, dt)]),
   (1, [(3, sp), (12, dt), (17, sp), (11, dt), (1, sp)]),
   (1, [(3, sp), (11, dt), (18, sp), (12, dt)]),
   (1, [(3, sp), (12, dt), (17, sp), (11, dt), (1, sp)]),
   (1, [(3, sp), (11, dt), (18, sp), (11, dt), (1, sp)]),
   (1, [(3, sp), (12, dt), (17, sp), (12, dt)]),
   (1, [(3, sp), (11, dt), (18, sp), (12, dt)]),
   (1, [(3, sp), (11, dt), (18, sp), (11, dt), (1, sp)]),
   (1, [(3, sp), (12, dt), (17, sp), (12, dt)]),
   (1, [(3, sp), (11, dt), (18, sp), (11, dt), (1, sp)]),
   (1, [(3, sp), (12, dt), (17, sp), (12, dt)]),
   (1, [(3, sp), (11, dt), (18, sp), (12, dt)]),
   (2, [(8, sp), (30, dt), (6, sp)]),
   (2, [(9, sp), (29, dt), (6, sp)]),
   (1, [(8, sp), (30, dt), (6, sp)]),
   (1, [(9, sp), (29, dt), (6, sp)]),
   (19, [(44, sp)])]"

definition sheet_digit7 :: "char runs runs" where
  "sheet_digit7 = [
   (18, [(44, sp)]),
   (1, [(3, sp), (40, dt), (1, sp)]),
   (1, [(3, sp), (41, dt)]),
   (1, [(2, sp), (42, dt)]),
   (1, [(3, sp), (40, dt), (1, sp)]),
   (1, [(3, sp), (41, dt)]),
   (1, [(3, sp), (12, dt), (1, sp), (5, dt), (1, sp), (21, dt), (1, sp)]),
   (1, [(2, sp), (13, dt), (17, sp), (11, dt), (1, sp)]),
   (1, [(3, sp), (11, dt), (18, sp), (12, dt)]),
   (1, [(3, sp), (12, dt), (17, sp), (12, dt)]),
   (1, [(3, sp), (11, dt), (18, sp), (11, dt), (1, sp)]),
   (1, [(3, sp), (11, dt), (18, sp), (12, dt)]),
   (6, [(26, sp), (12, dt), (6, sp)]),
   (5, [(20, sp), (12, dt), (12, sp)]),
   (1, [(20, sp), (8, dt), (1, sp), (2, dt), (13, sp)]),
   (1, [(14, sp), (12, dt), (18, sp)]),
   (1, [(15, sp), (11, dt), (18, sp)]),
   (1, [(14, sp), (12, dt), (18, sp)]),
   (1, [(15, sp), (11, dt), (18, sp)]),
   (2, [(14, sp), (12, dt), (18, sp)]),
   (1, [(15, sp), (11, dt), (18, sp)]),
   (2, [(14, sp), (12, dt), (18, sp)]),
   (1, [(15, sp), (11, dt), (18, sp)]),
   (2, [(14, sp), (12, dt), (18, sp)]),
   (1, [(15, sp), (11, dt), (18, sp)]),
   (4, [(14, sp), (12, dt), (18, sp)]),
   (1, [(15, sp), (11, dt), (18, sp)]),
   (2, [(14, sp), (12, dt), (18, sp)]),
   (1, [(15, sp), (11, dt), (18, sp)]),
   (2, [(14, sp), (12, dt), (18, sp)]),
   (19, [(44, sp)])]"

definition sheet_digit8 :: "char runs runs" where
  "sheet_digit8 = [
   (18, [(44, sp)]),
   (2, [(9, sp), (29, dt), (6, sp)]),
   (1, [(8, sp), (30, dt), (6, sp)]),
   (1, [(9, sp), (28, dt), (7, sp)]),
   (1, [(9, sp), (29, dt), (6, sp)]),
   (1, [(6, sp), (9, dt), (1, sp), (6, dt), (1, sp), (16, dt), (1, sp), (3, dt), (1, sp)]),
   (1, [(3, sp), (12, dt), (17, sp), (11, dt), (1, sp)]),
   (1, [(3, sp), (11, dt), (18, sp), (12, dt)]),
   (1, [(3, sp), (12, dt), (17, sp), (12, dt)]),
   (1, [(3, sp), (11, dt), (18, sp), (11, dt), (1, sp)]),
   (1, [(3, sp), (11, dt), (18, sp), (12, dt)]),
   (2, [(3, sp), (12, dt), (17, sp), (11, dt), (1, sp)]),
   (1, [(3, sp), (11, dt), (18, sp), (12, dt)]),
   (1, [(3, sp), (12, dt), (17, sp), (11, dt), (1, sp)]),
   (2, [(3, sp), (11, dt), (18, sp), (12, dt)]),
   (2, [(9, sp), (29, dt), (6, sp)]),
   (1, [(8, sp), (30, dt), (6, sp)]),
   (1, [(9, sp), (29, dt), (6, sp)]),
   (1, [(8, sp), (30, dt), (6, sp)]),
   (1, [(9, sp), (29, dt), (6, sp)]),
   (2, [(3, sp), (11, dt), (18, sp), (12, dt)]),
   (2, [(3, sp), (12, dt), (17, sp), (11, dt), (1, sp)]),
   (2, [(3, sp), (11, dt), (18, sp), (12, dt)]),
   (1, [(3, sp), (12, dt), (17, sp), (11, dt), (1, sp)]),
   (1, [(3, sp), (12, dt), (17, sp), (12, dt)]),
   (1, [(3, sp), (11, dt), (18, sp), (11, dt), (1, sp)]),
   (1, [(3, sp), (12, dt), (17, sp), (11, dt), (1, sp)]),
   (1, [(3, sp), (11, dt), (18, sp), (12, dt)]),
   (1, [(3, sp), (12, dt), (17, sp), (12, dt)]),
   (1, [(3, sp), (11, dt), (18, sp), (11, dt), (1, sp)]),
   (1, [(3, sp), (12, dt), (17, sp), (12, dt)]),
   (1, [(3, sp), (11, dt), (18, sp), (11, dt), (1, sp)]),
   (1, [(3, sp), (12, dt), (17, sp), (12, dt)]),
   (1, [(3, sp), (11, dt), (18, sp), (12, dt)]),
   (2, [(8, sp), (30, dt), (6, sp)]),
   (2, [(9, sp), (29, dt), (6, sp)]),
   (1, [(8, sp), (30, dt), (6, sp)]),
   (1, [(9, sp), (29, dt), (6, sp)]),
   (19, [(44, sp)])]"

definition sheet_digit9 :: "char runs runs" where
  "sheet_digit9 = [
   (18, [(44, sp)]),
   (1, [(8, sp), (30, dt), (6, sp)]),
   (2, [(9, sp), (29, dt), (6, sp)]),
   (1, [(8, sp), (29, dt), (7, sp)]),
   (1, [(9, sp), (29, dt), (6, sp)]),
   (1, [(8, sp), (7, dt), (1, sp), (6, dt), (1, sp), (15, dt), (6, sp)]),
   (1, [(3, sp), (12, dt), (17, sp), (11, dt), (1, sp)]),
   (1, [(3, sp), (11, dt), (18, sp), (12, dt)]),
   (1, [(3, sp), (12, dt), (17, sp), (12, dt)]),
   (1, [(3, sp), (11, dt), (18, sp), (11, dt), (1, sp)]),
   (1, [(3, sp), (11, dt), (18, sp), (12, dt)]),
   (2, [(3, sp), (12, dt), (17, sp), (11, dt), (1, sp)]),
   (1, [(3, sp), (11, dt), (18, sp), (12, dt)]),
   (1, [(3, sp), (12, dt), (17, sp), (11, dt), (1, sp)]),
   (2, [(3, sp), (11, dt), (18, sp), (12, dt)]),
   (1, [(3, sp), (12, dt), (17, sp), (11, dt), (1, sp)]),
   (1, [(3, sp), (12, dt), (17, sp), (12, dt)]),
   (1, [(3, sp), (11, dt), (18, sp), (11, dt), (1, sp)]),
   (1, [(3, sp), (12, dt), (17, sp), (11, dt), (1, sp)]),
   (2, [(3, sp), (11, dt), (18, sp), (12, dt)]),
   (1, [(9, sp), (34, dt), (1, sp)]),
   (1, [(8, sp), (36, dt)]),
   (1, [(9, sp), (34, dt), (1, sp)]),
   (1, [(8, sp), (35, dt), (1, sp)]),
   (2, [(9, sp), (35, dt)]),
   (1, [(32, sp), (11, dt), (1, sp)]),
   (1, [(32, sp), (12, dt)]),
   (2, [(32, sp), (11, dt), (1, sp)]),
   (1, [(32, sp), (12, dt)]),
   (1, [(3, sp), (2, dt), (1, sp), (8, dt), (18, sp), (12, dt)]),
   (1, [(3, sp), (11, dt), (18, sp), (11, dt), (1, sp)]),
   (1, [(3, sp), (12, dt), (17, sp), (12, dt)]),
   (1, [(3, sp), (11, dt), (18, sp), (11, dt), (1, sp)]),
   (1, [(3, sp), (12, dt), (17, sp), (11, dt), (1, sp)]),
   (1, [(3, sp), (11, dt), (18, sp), (12, dt)]),
   (1, [(8, sp), (30, dt), (6, sp)]),
   (3, [(9, sp), (29, dt), (6, sp)]),
   (1, [(8, sp), (30, dt), (6, sp)]),
   (1, [(9, sp), (29, dt), (6, sp)]),
   (19, [(44, sp)])]"

definition sheet_colon :: "char runs runs" where
  "sheet_colon = [
   (29, [(44, sp)]),
   (2, [(18, sp), (11, dt), (15, sp)]),
   (2, [(18, sp), (12, dt), (14, sp)]),
   (2, [(18, sp), (11, dt), (15, sp)]),
   (1, [(17, sp), (13, dt), (14, sp)]),
   (1, [(18, sp), (12, dt), (14, sp)]),
   (1, [(18, sp), (11, dt), (15, sp)]),
   (1, [(18, sp), (12, dt), (14, sp)]),
   (1, [(18, sp), (11, dt), (15, sp)]),
   (1, [(20, sp), (1, dt), (1, sp), (2, dt), (1, sp), (2, dt), (17, sp)]),
   (11, [(44, sp)]),
   (1, [(23, sp), (2, dt), (1, sp), (3, dt), (15, sp)]),
   (1, [(18, sp), (11, dt), (15, sp)]),
   (1, [(18, sp), (12, dt), (14, sp)]),
   (1, [(18, sp), (11, dt), (15, sp)]),
   (1, [(18, sp), (12, dt), (14, sp)]),
   (1, [(18, sp), (11, dt), (15, sp)]),
   (1, [(18, sp), (12, dt), (14, sp)]),
   (1, [(17, sp), (12, dt), (15, sp)]),
   (1, [(18, sp), (12, dt), (14, sp)]),
   (1, [(18, sp), (11, dt), (15, sp)]),
   (1, [(18, sp), (12, dt), (14, sp)]),
   (1, [(18, sp), (11, dt), (15, sp)]),
   (19, [(44, sp)])]"

definition sheet_A :: "char runs runs" where
  "sheet_A = [
   (18, [(44, sp)]),
   (1, [(15, sp), (17, dt), (12, sp)]),
   (1, [(14, sp), (18, dt), (12, sp)]),
   (1, [(15, sp), (17, dt), (12, sp)]),
   (2, [(14, sp), (18, dt), (12, sp)]),
   (1, [(15, sp), (6, dt), (1, sp), (10, dt), (12, sp)]),
   (1, [(9, sp), (11, dt), (6, sp), (12, dt), (6, sp)]),
   (1, [(8, sp), (12, dt), (6, sp), (12, dt), (6, sp)]),
   (1, [(9, sp), (11, dt), (6, sp), (12, dt), (6, sp)]),
   (1, [(8, sp), (13, dt), (5, sp), (12, dt), (6, sp)]),
   (1, [(9, sp), (11, dt), (6, sp), (12, dt), (6, sp)]),
   (2, [(3, sp), (12, dt), (17, sp), (11, dt), (1, sp)]),
   (1, [(3, sp), (11, dt), (18, sp), (12, dt)]),
   (1, [(3, sp), (12, dt), (17, sp), (11, dt), (1, sp)]),
   (2, [(3, sp), (11, dt), (18, sp), (12, dt)]),
   (1, [(3, sp), (12, dt), (17, sp), (11, dt), (1, sp)]),
   (1, [(3, sp), (12, dt), (17, sp), (12, dt)]),
   (1, [(3, sp), (11, dt), (18, sp), (11, dt), (1, sp)]),
   (1, [(3, sp), (12, dt), (17, sp), (11, dt), (1, sp)]),
   (2, [(3, sp), (11, dt), (18, sp), (12, dt)]),
   (1, [(3, sp), (40, dt), (1, sp)]),
   (1, [(3, sp), (41, dt)]),
   (2, [(3, sp), (40, dt), (1, sp)]),
   (2, [(3, sp), (41, dt)]),
   (1, [(3, sp), (11, dt), (18, sp), (11, dt), (1, sp)]),
   (1, [(3, sp), (11, dt), (18, sp), (12, dt)]),
   (1, [(3, sp), (12, dt), (17, sp), (11, dt), (1, sp)]),
   (1, [(3, sp), (11, dt), (18, sp), (11, dt), (1, sp)]),
   (1, [(3, sp), (12, dt), (17, sp), (12, dt)]),
   (1, [(3, sp), (11, dt), (18, sp), (12, dt)]),
   (1, [(3, sp), (11, dt), (18, sp), (11, dt), (1, sp)]),
   (1, [(3, sp), (12, dt), (17, sp), (12, dt)]),
   (2, [(3, sp), (11, dt), (18, sp), (11, dt), (1, sp)]),
   (1, [(3, sp), (12, dt), (17, sp), (12, dt)]),
   (1, [(3, sp), (11, dt), (18, sp), (12, dt)]),
   (1, [(3, sp), (12, dt), (17, sp), (11, dt), (1, sp)]),
   (1, [(3, sp), (11, dt), (18, sp), (12, dt)]),
   (1, [(3, sp), (11, dt), (18, sp), (11, dt), (1, sp)]),
   (1, [(3, sp), (12, dt), (17, sp), (11, dt), (1, sp)]),
   (1, [(3, sp), (11, dt), (18, sp), (12, dt)]),
   (19, [(44, sp)])]"

definition sheet_B :: "char runs runs" where
  "sheet_B = [
   (18, [(44, sp)]),
   (3, [(3, sp), (35, dt), (6, sp)]),
   (1, [(3, sp), (34, dt), (7, sp)]),
   (1, [(3, sp), (35, dt), (6, sp)]),
   (1, [(3, sp), (13, dt), (1, sp), (5, dt), (1, sp), (16, dt), (1, sp), (3, dt), (1, sp)]),
   (1, [(3, sp), (12, dt), (17, sp), (11, dt), (1, sp)]),
   (1, [(3, sp), (11, dt), (18, sp), (12, dt)]),
   (1, [(3, sp), (12, dt), (17, sp), (12, dt)]),
   (1, [(3, sp), (11, dt), (18, sp), (11, dt), (1, sp)]),
   (1, [(3, sp), (11, dt), (18, sp), (12, dt)]),
   (2, [(3, sp), (12, dt), (17, sp), (11, dt), (1, sp)]),
   (1, [(3, sp), (11, dt), (18, sp), (12, dt)]),
   (1, [(3, sp), (12, dt), (17, sp), (11, dt), (1, sp)]),
   (2, [(3, sp), (11, dt), (18, sp), (12, dt)]),
   (6, [(3, sp), (35, dt), (6, sp)]),
   (1, [(3, sp), (11, dt), (18, sp), (12, dt)]),
   (1, [(3, sp), (12, dt), (17, sp), (12, dt)]),
   (1, [(3, sp), (11, dt), (18, sp), (11, dt), (1, sp)]),
   (1, [(3, sp), (12, dt), (17, sp), (11, dt), (1, sp)]),
   (2, [(3, sp), (11, dt), (18, sp), (12, dt)]),
   (1, [(3, sp), (12, dt), (17, sp), (11, dt), (1, sp)]),
   (1, [(3, sp), (11, dt), (18, sp), (12, dt)]),
   (1, [(3, sp), (12, dt), (17, sp), (11, dt), (1, sp)]),
   (1, [(3, sp), (11, dt), (18, sp), (11, dt), (1, sp)]),
   (1, [(3, sp), (12, dt), (17, sp), (12, dt)]),
   (1, [(3, sp), (11, dt), (18, sp), (12, dt)]),
   (1, [(3, sp), (11, dt), (18, sp), (11, dt), (1, sp)]),
   (1, [(3, sp), (12, dt), (17, sp), (12, dt)]),
   (1, [(3, sp), (11, dt), (18, sp), (11, dt), (1, sp)]),
   (2, [(3, sp), (11, dt), (18, sp), (12, dt)]),
   (6, [(3, sp), (35, dt), (6, sp)]),
   (19, [(44, sp)])]"

definition sheet_C :: "char runs runs" where
  "sheet_C = [
   (18, [(44, sp)]),
   (1, [(15, sp), (23, dt), (6, sp)]),
   (1, [(14, sp), (24, dt), (6, sp)]),
   (1, [(15, sp), (23, dt), (6, sp)]),
   (1, [(14, sp), (23, dt), (7, sp)]),
   (1, [(14, sp), (24, dt), (6, sp)]),
   (1, [(9, sp), (12, dt), (1, sp), (22, dt)]),
   (1, [(9, sp), (11, dt), (12, sp), (11, dt), (1, sp)]),
   (1, [(8, sp), (12, dt), (12, sp), (12, dt)]),
   (1, [(9, sp), (12, dt), (11, sp), (12, dt)]),
   (1, [(8, sp), (12, dt), (12, sp), (11, dt), (1, sp)]),
   (1, [(9, sp), (11, dt), (12, sp), (12, dt)]),
   (2, [(3, sp), (11, dt), (30, sp)]),
   (2, [(3, sp), (12, dt), (29, sp)]),
   (2, [(3, sp), (11, dt), (30, sp)]),
   (2, [(2, sp), (13, dt), (29, sp)]),
   (1, [(3, sp), (11, dt), (30, sp)]),
   (1, [(3, sp), (12, dt), (29, sp)]),
   (2, [(3, sp), (11, dt), (30, sp)]),
   (2, [(3, sp), (12, dt), (29, sp)]),
   (1, [(3, sp), (11, dt), (30, sp)]),
   (1, [(2, sp), (13, dt), (29, sp)]),
   (2, [(3, sp), (11, dt), (30, sp)]),
   (1, [(3, sp), (12, dt), (29, sp)]),
   (1, [(2, sp), (13, dt), (29, sp)]),
   (1, [(3, sp), (11, dt), (30, sp)]),
   (1, [(3, sp), (12, dt), (29, sp)]),
   (1, [(3, sp), (11, dt), (30, sp)]),
   (1, [(8, sp), (12, dt), (12, sp), (11, dt), (1, sp)]),
   (1, [(9, sp), (12, dt), (11, sp), (12, dt)]),
   (1, [(8, sp), (12, dt), (12, sp), (12, dt)]),
   (2, [(9, sp), (11, dt), (12, sp), (11, dt), (1, sp)]),
   (1, [(8, sp), (12, dt), (12, sp), (12, dt)]),
   (1, [(14, sp), (24, dt), (6, sp)]),
   (1, [(15, sp), (23, dt), (6, sp)]),
   (1, [(14, sp), (24, dt), (6, sp)]),
   (1, [(15, sp), (23, dt), (6, sp)]),
   (2, [(14, sp), (24, dt), (6, sp)]),
   (19, [(44, sp)])]"

definition sheet_D :: "char runs runs" where
  "sheet_D = [
   (18, [(44, sp)]),
   (5, [(3, sp), (29, dt), (12, sp)]),
   (1, [(3, sp), (13, dt), (1, sp), (4, dt), (1, sp), (16, dt), (6, sp)]),
   (1, [(3, sp), (12, dt), (11, sp), (12, dt), (6, sp)]),
   (1, [(3, sp), (11, dt), (12, sp), (12, dt), (6, sp)]),
   (1, [(3, sp), (12, dt), (11, sp), (12, dt), (6, sp)]),
   (2, [(3, sp), (11, dt), (12, sp), (12, dt), (6, sp)]),
   (1, [(3, sp), (12, dt), (17, sp), (12, dt)]),
   (1, [(3, sp), (12, dt), (17, sp), (11, dt), (1, sp)]),
   (1, [(3, sp), (11, dt), (18, sp), (12, dt)]),
   (1, [(3, sp), (12, dt), (17, sp), (11, dt), (1, sp)]),
   (2, [(3, sp), (11, dt), (18, sp), (12, dt)]),
   (1, [(3, sp), (12, dt), (17, sp), (11, dt), (1, sp)]),
   (1, [(3, sp), (12, dt), (17, sp), (12, dt)]),
   (1, [(3, sp), (11, dt), (18, sp), (11, dt), (1, sp)]),
   (1, [(3, sp), (12, dt), (17, sp), (11, dt), (1, sp)]),
   (2, [(3, sp), (11, dt), (18, sp), (12, dt)]),
   (1, [(3, sp), (12, dt), (17, sp), (11, dt), (1, sp)]),
   (1, [(3, sp), (12, dt), (17, sp), (12, dt)]),
   (1, [(3, sp), (11, dt), (18, sp), (11, dt), (1, sp)]),
   (1, [(3, sp), (12, dt), (17, sp), (11, dt), (1, sp)]),
   (2, [(3, sp), (11, dt), (18, sp), (12, dt)]),
   (1, [(3, sp), (12, dt), (17, sp), (11, dt), (1, sp)]),
   (1, [(3, sp), (11, dt), (18, sp), (12, dt)]),
   (1, [(3, sp), (12, dt), (17, sp), (11, dt), (1, sp)]),
   (1, [(3, sp), (11, dt), (18, sp), (12, dt)]),
   (1, [(3, sp), (12, dt), (17, sp), (12, dt)]),
   (2, [(3, sp), (11, dt), (12, sp), (12, dt), (6, sp)]),
   (1, [(3, sp), (12, dt), (11, sp), (12, dt), (6, sp)]),
   (3, [(3, sp), (11, dt), (12, sp), (12, dt), (6, sp)]),
   (6, [(3, sp), (29, dt), (12, sp)]),
   (19, [(44, sp)])]"

definition sheet_E :: "char runs runs" where
  "sheet_E = [
   (18, [(44, sp)]),
   (1, [(3, sp), (40, dt), (1, sp)]),
   (1, [(3, sp), (41, dt)]),
   (1, [(3, sp), (40, dt), (1, sp)]),
   (2, [(3, sp), (41, dt)]),
   (1, [(3, sp), (13, dt), (1, sp), (6, dt), (1, sp), (12, dt), (1, sp), (6, dt), (1, sp)]),
   (1, [(3, sp), (12, dt), (29, sp)]),
   (1, [(3, sp), (11, dt), (30, sp)]),
   (1, [(3, sp), (12, dt), (29, sp)]),
   (2, [(3, sp), (11, dt), (30, sp)]),
   (2, [(3, sp), (12, dt), (29, sp)]),
   (1, [(3, sp), (11, dt), (30, sp)]),
   (1, [(3, sp), (12, dt), (29, sp)]),
   (2, [(3, sp), (11, dt), (30, sp)]),
   (6, [(3, sp), (29, dt), (12, sp)]),
   (1, [(3, sp), (11, dt), (30, sp)]),
   (1, [(3, sp), (12, dt), (29, sp)]),
   (1, [(3, sp), (11, dt), (30, sp)]),
   (1, [(3, sp), (12, dt), (29, sp)]),
   (2, [(3, sp), (11, dt), (30, sp)]),
   (1, [(3, sp), (12, dt), (29, sp)]),
   (1, [(3, sp), (11, dt), (30, sp)]),
   (1, [(3, sp), (12, dt), (29, sp)]),
   (1, [(3, sp), (11, dt), (30, sp)]),
   (1, [(3, sp), (12, dt), (29, sp)]),
   (2, [(3, sp), (11, dt), (30, sp)]),
   (1, [(3, sp), (12, dt), (29, sp)]),
   (3, [(3, sp), (11, dt), (30, sp)]),
   (1, [(3, sp), (40, dt), (1, sp)]),
   (2, [(3, sp), (41, dt)]),
   (2, [(3, sp), (40, dt), (1, sp)]),
   (1, [(3, sp), (41, dt)]),
   (19, [(44, sp)])]"

definition sheet_F :: "char runs runs" where
  "sheet_F = [
   (18, [(44, sp)]),
   (1, [(3, sp), (40, dt), (1, sp)]),
   (1, [(3, sp), (41, dt)]),
   (1, [(3, sp), (40, dt), (1, sp)]),
   (2, [(3, sp), (41, dt)]),
   (1, [(3, sp), (13, dt), (1, sp), (6, dt), (1, sp), (12, dt), (1, sp), (6, dt), (1, sp)]),
   (1, [(3, sp), (12, dt), (29, sp)]),
   (1, [(3, sp), (11, dt), (30, sp)]),
   (1, [(3, sp), (12, dt), (29, sp)]),
   (2, [(3, sp), (11, dt), (30, sp)]),
   (2, [(3, sp), (12, dt), (29, sp)]),
   (1, [(3, sp), (11, dt), (30, sp)]),
   (1, [(3, sp), (12, dt), (29, sp)]),
   (2, [(3, sp), (11, dt), (30, sp)]),
   (6, [(3, sp), (29, dt), (12, sp)]),
   (1, [(3, sp), (11, dt), (30, sp)]),
   (1, [(3, sp), (12, dt), (29, sp)]),
   (1, [(3, sp), (11, dt), (30, sp)]),
   (1, [(3, sp), (12, dt), (29, sp)]),
   (2, [(3, sp), (11, dt), (30, sp)]),
   (1, [(3, sp), (12, dt), (29, sp)]),
   (1, [(3, sp), (11, dt), (30, sp)]),
   (1, [(3, sp), (12, dt), (29, sp)]),
   (1, [(3, sp), (11, dt), (30, sp)]),
   (1, [(3, sp), (12, dt), (29, sp)]),
   (2, [(3, sp), (11, dt), (30, sp)]),
   (1, [(3, sp), (12, dt), (29, sp)]),
   (2, [(3, sp), (11, dt), (30, sp)]),
   (1, [(3, sp), (12, dt), (29, sp)]),
   (1, [(3, sp), (11, dt), (30, sp)]),
   (1, [(3, sp), (12, dt), (29, sp)]),
   (2, [(3, sp), (11, dt), (30, sp)]),
   (1, [(3, sp), (12, dt), (29, sp)]),
   (1, [(3, sp), (11, dt), (30, sp)]),
   (19, [(44, sp)])]"

definition sheet_G :: "char runs runs" where
  "sheet_G = [
   (18, [(44, sp)]),
   (1, [(15, sp), (23, dt), (6, sp)]),
   (1, [(14, sp), (24, dt), (6, sp)]),
   (1, [(15, sp), (23, dt), (6, sp)]),
   (1, [(14, sp), (23, dt), (7, sp)]),
   (1, [(14, sp), (24, dt), (6, sp)]),
   (1, [(9, sp), (12, dt), (1, sp), (22, dt)]),
   (1, [(9, sp), (11, dt), (12, sp), (11, dt), (1, sp)]),
   (1, [(8, sp), (12, dt), (12, sp), (12, dt)]),
   (1, [(9, sp), (12, dt), (11, sp), (12, dt)]),
   (1, [(8, sp), (12, dt), (12, sp), (11, dt), (1, sp)]),
   (1, [(9, sp), (11, dt), (12, sp), (12, dt)]),
   (2, [(3, sp), (11, dt), (30, sp)]),
   (2, [(3, sp), (12, dt), (29, sp)]),
   (2, [(3, sp), (11, dt), (30, sp)]),
   (1, [(2, sp), (13, dt), (29, sp)]),
   (1, [(3, sp), (12, dt), (29, sp)]),
   (1, [(3, sp), (11, dt), (30, sp)]),
   (1, [(3, sp), (12, dt), (5, sp), (23, dt), (1, sp)]),
   (2, [(3, sp), (11, dt), (6, sp), (24, dt)]),
   (1, [(3, sp), (12, dt), (5, sp), (23, dt), (1, sp)]),
   (1, [(3, sp), (12, dt), (5, sp), (24, dt)]),
   (1, [(3, sp), (11, dt), (7, sp), (7, dt), (1, sp), (14, dt), (1, sp)]),
   (1, [(2, sp), (13, dt), (17, sp), (11, dt), (1, sp)]),
   (2, [(3, sp), (11, dt), (18, sp), (12, dt)]),
   (1, [(3, sp), (12, dt), (17, sp), (11, dt), (1, sp)]),
   (1, [(2, sp), (13, dt), (17, sp), (12, dt)]),
   (1, [(3, sp), (11, dt), (18, sp), (11, dt), (1, sp)]),
   (1, [(3, sp), (12, dt), (17, sp), (11, dt), (1, sp)]),
   (1, [(3, sp), (11, dt), (18, sp), (12, dt)]),
   (1, [(8, sp), (12, dt), (12, sp), (12, dt)]),
   (1, [(9, sp), (12, dt), (11, sp), (11, dt), (1, sp)]),
   (1, [(8, sp), (12, dt), (12, sp), (12, dt)]),
   (2, [(9, sp), (11, dt), (12, sp), (11, dt), (1, sp)]),
   (1, [(8, sp), (12, dt), (12, sp), (12, dt)]),
   (1, [(14, sp), (30, dt)]),
   (1, [(15, sp), (28, dt), (1, sp)]),
   (1, [(14, sp), (30, dt)]),
   (1, [(15, sp), (28, dt), (1, sp)]),
   (1, [(14, sp), (29, dt), (1, sp)]),
   (1, [(14, sp), (30, dt)]),
   (19, [(44, sp)])]"

definition sheet_H :: "char runs runs" where
  "sheet_H = [
   (18, [(44, sp)]),
   (1, [(3, sp), (12, dt), (17, sp), (11, dt), (1, sp)]),
   (1, [(3, sp), (11, dt), (18, sp), (12, dt)]),
   (1, [(3, sp), (12, dt), (17, sp), (12, dt)]),
   (1, [(3, sp), (11, dt), (18, sp), (11, dt), (1, sp)]),
   (1, [(3, sp), (11, dt), (18, sp), (12, dt)]),
   (2, [(3, sp), (12, dt), (17, sp), (11, dt), (1, sp)]),
   (1, [(3, sp), (11, dt), (18, sp), (12, dt)]),
   (1, [(3, sp), (12, dt), (17, sp), (12, dt)]),
   (1, [(3, sp), (11, dt), (18, sp), (11, dt), (1, sp)]),
   (1, [(3, sp), (11, dt), (18, sp), (12, dt)]),
   (2, [(3, sp), (12, dt), (17, sp), (11, dt), (1, sp)]),
   (1, [(3, sp), (11, dt), (18, sp), (12, dt)]),
   (1, [(3, sp), (12, dt), (17, sp), (11, dt), (1, sp)]),
   (2, [(3, sp), (11, dt), (18, sp), (12, dt)]),
   (1, [(3, sp), (40, dt), (1, sp)]),
   (1, [(3, sp), (41, dt)]),
   (2, [(3, sp), (40, dt), (1, sp)]),
   (2, [(3, sp), (41, dt)]),
   (1, [(3, sp), (11, dt), (18, sp), (11, dt), (1, sp)]),
   (1, [(3, sp), (11, dt), (18, sp), (12, dt)]),
   (2, [(3, sp), (12, dt), (17, sp), (11, dt), (1, sp)]),
   (2, [(3, sp), (11, dt), (18, sp), (12, dt)]),
   (1, [(3, sp), (12, dt), (17, sp), (11, dt), (1, sp)]),
   (1, [(3, sp), (11, dt), (18, sp), (12, dt)]),
   (1, [(3, sp), (12, dt), (17, sp), (11, dt), (1, sp)]),
   (1, [(3, sp), (11, dt), (18, sp), (11, dt), (1, sp)]),
   (1, [(3, sp), (12, dt), (17, sp), (12, dt)]),
   (1, [(3, sp), (11, dt), (18, sp), (12, dt)]),
   (1, [(3, sp), (11, dt), (18, sp), (11, dt), (1, sp)]),
   (1, [(3, sp), (12, dt), (17, sp), (12, dt)]),
   (2, [(3, sp), (11, dt), (18, sp), (11, dt), (1, sp)]),
   (1, [(3, sp), (12, dt), (17, sp), (12, dt)]),
   (1, [(3, sp), (11, dt), (18, sp), (12, dt)]),
   (1, [(3, sp), (12, dt), (17, sp), (11, dt), (1, sp)]),
   (1, [(3, sp), (11, dt), (18, sp), (12, dt)]),
   (1, [(3, sp), (11, dt), (18, sp), (11, dt), (1, sp)]),
   (1, [(3, sp), (12, dt), (17, sp), (11, dt), (1, sp)]),
   (1, [(3, sp), (11, dt), (18, sp), (12, dt)]),
   (19, [(44, sp)])]"

definition sheet_I :: "char runs runs" where
  "sheet_I = [
   (18, [(44, sp)]),
   (2, [(6, sp), (35, dt), (3, sp)]),
   (1, [(5, sp), (36, dt), (3, sp)]),
   (1, [(6, sp), (34, dt), (4, sp)]),
   (1, [(6, sp), (35, dt), (3, sp)]),
   (1, [(6, sp), (2, dt), (1, sp), (28, dt), (1, sp), (3, dt), (3, sp)]),
   (1, [(18, sp), (11, dt), (15, sp)]),
   (1, [(17, sp), (12, dt), (15, sp)]),
   (1, [(18, sp), (11, dt), (15, sp)]),
   (2, [(17, sp), (12, dt), (15, sp)]),
   (1, [(18, sp), (11, dt), (15, sp)]),
   (2, [(17, sp), (12, dt), (15, sp)]),
   (1, [(18, sp), (11, dt), (15, sp)]),
   (2, [(17, sp), (12, dt), (15, sp)]),
   (1, [(18, sp), (11, dt), (15, sp)]),
   (3, [(17, sp), (12, dt), (15, sp)]),
   (1, [(18, sp), (11, dt), (15, sp)]),
   (1, [(17, sp), (12, dt), (15, sp)]),
   (2, [(18, sp), (11, dt), (15, sp)]),
   (1, [(17, sp), (12, dt), (15, sp)]),
   (1, [(18, sp), (11, dt), (15, sp)]),
   (2, [(17, sp), (12, dt), (15, sp)]),
   (1, [(18, sp), (11, dt), (15, sp)]),
   (1, [(17, sp), (12, dt), (15, sp)]),
   (1, [(18, sp), (11, dt), (15, sp)]),
   (3, [(17, sp), (12, dt), (15, sp)]),
   (1, [(18, sp), (11, dt), (15, sp)]),
   (3, [(17, sp), (12, dt), (15, sp)]),
   (1, [(18, sp), (11, dt), (15, sp)]),
   (1, [(6, sp), (34, dt), (4, sp)]),
   (1, [(6, sp), (35, dt), (3, sp)]),
   (1, [(5, sp), (36, dt), (3, sp)]),
   (3, [(6, sp), (35, dt), (3, sp)]),
   (19, [(44, sp)])]"

definition sheet_J :: "char runs runs" where
  "sheet_J = [
   (18, [(44, sp)]),
   (1, [(15, sp), (28, dt), (1, sp)]),
   (1, [(14, sp), (30, dt)]),
   (1, [(15, sp), (29, dt)]),
   (1, [(14, sp), (29, dt), (1, sp)]),
   (1, [(14, sp), (30, dt)]),
   (1, [(16, sp), (5, dt), (1, sp), (21, dt), (1, sp)]),
   (1, [(32, sp), (11, dt), (1, sp)]),
   (2, [(32, sp), (12, dt)]),
   (1, [(32, sp), (11, dt), (1, sp)]),
   (1, [(32, sp), (12, dt)]),
   (1, [(32, sp), (11, dt), (1, sp)]),
   (1, [(32, sp), (7, dt), (1, sp), (3, dt), (1, sp)]),
   (1, [(32, sp), (12, dt)]),
   (1, [(32, sp), (11, dt), (1, sp)]),
   (2, [(32, sp), (12, dt)]),
   (1, [(32, sp), (11, dt), (1, sp)]),
   (1, [(32, sp), (12, dt)]),
   (2, [(32, sp), (11, dt), (1, sp)]),
   (2, [(32, sp), (12, dt)]),
   (1, [(32, sp), (11, dt), (1, sp)]),
   (1, [(32, sp), (12, dt)]),
   (2, [(32, sp), (11, dt), (1, sp)]),
   (1, [(32, sp), (7, dt), (1, sp), (4, dt)]),
   (1, [(5, sp), (1, dt), (3, sp), (3, dt), (20, sp), (12, dt)]),
   (1, [(3, sp), (11, dt), (18, sp), (11, dt), (1, sp)]),
   (1, [(2, sp), (13, dt), (17, sp), (12, dt)]),
   (1, [(3, sp), (11, dt), (18, sp), (11, dt), (1, sp)]),
   (1, [(3, sp), (12, dt), (17, sp), (11, dt), (1, sp)]),
   (1, [(3, sp), (11, dt), (18, sp), (12, dt)]),
   (1, [(3, sp), (12, dt), (17, sp), (12, dt)]),
   (1, [(3, sp), (11, dt), (18, sp), (11, dt), (1, sp)]),
   (1, [(2, sp), (13, dt), (17, sp), (12, dt)]),
   (1, [(3, sp), (11, dt), (18, sp), (11, dt), (1, sp)]),
   (1, [(3, sp), (12, dt), (17, sp), (11, dt), (1, sp)]),
   (1, [(3, sp), (11, dt), (18, sp), (12, dt)]),
   (1, [(8, sp), (30, dt), (6, sp)]),
   (1, [(9, sp), (29, dt), (6, sp)]),
   (1, [(8, sp), (30, dt), (6, sp)]),
   (1, [(9, sp), (29, dt), (6, sp)]),
   (1, [(8, sp), (30, dt), (6, sp)]),
   (1, [(9, sp), (29, dt), (6, sp)]),
   (19, [(44, sp)])]"

definition sheet_K :: "char runs runs" where
  "sheet_K = [
   (18, [(44, sp)]),
   (1, [(3, sp), (12, dt), (17, sp), (11, dt), (1, sp)]),
   (1, [(3, sp), (11, dt), (18, sp), (12, dt)]),
   (1, [(3, sp), (12, dt), (17, sp), (11, dt), (1, sp)]),
   (2, [(3, sp), (11, dt), (18, sp), (12, dt)]),
   (1, [(3, sp), (12, dt), (13, sp), (2, dt), (1, sp), (12, dt), (1, sp)]),
   (1, [(3, sp), (12, dt), (11, sp), (12, dt), (6, sp)]),
   (1, [(3, sp), (11, dt), (12, sp), (12, dt), (6, sp)]),
   (1, [(3, sp), (12, dt), (11, sp), (12, dt), (6, sp)]),
   (2, [(3, sp), (11, dt), (12, sp), (12, dt), (6, sp)]),
   (1, [(3, sp), (12, dt), (6, sp), (11, dt), (12, sp)]),
   (1, [(3, sp), (12, dt), (5, sp), (12, dt), (12, sp)]),
   (1, [(3, sp), (11, dt), (6, sp), (12, dt), (12, sp)]),
   (1, [(3, sp), (12, dt), (5, sp), (12, dt), (12, sp)]),
   (2, [(3, sp), (11, dt), (6, sp), (12, dt), (12, sp)]),
   (6, [(3, sp), (23, dt), (18, sp)]),
   (1, [(3, sp), (11, dt), (7, sp), (11, dt), (12, sp)]),
   (1, [(3, sp), (11, dt), (6, sp), (12, dt), (12, sp)]),
   (2, [(3, sp), (12, dt), (5, sp), (12, dt), (12, sp)]),
   (1, [(3, sp), (11, dt), (6, sp), (12, dt), (12, sp)]),
   (1, [(3, sp), (11, dt), (8, sp), (2, dt), (2, sp), (8, dt), (1, sp), (2, dt), (7, sp)]),
   (1, [(3, sp), (12, dt), (11, sp), (12, dt), (6, sp)]),
   (1, [(3, sp), (11, dt), (12, sp), (12, dt), (6, sp)]),
   (1, [(3, sp), (12, dt), (11, sp), (12, dt), (6, sp)]),
   (1, [(3, sp), (11, dt), (12, sp), (11, dt), (7, sp)]),
   (1, [(3, sp), (12, dt), (11, sp), (12, dt), (6, sp)]),
   (1, [(3, sp), (11, dt), (18, sp), (7, dt), (1, sp), (2, dt), (2, sp)]),
   (1, [(3, sp), (11, dt), (18, sp), (12, dt)]),
   (1, [(3, sp), (12, dt), (17, sp), (12, dt)]),
   (2, [(3, sp), (11, dt), (18, sp), (11, dt), (1, sp)]),
   (1, [(3, sp), (12, dt), (17, sp), (12, dt)]),
   (1, [(3, sp), (11, dt), (18, sp), (12, dt)]),
   (1, [(3, sp), (12, dt), (17, sp), (11, dt), (1, sp)]),
   (1, [(3, sp), (11, dt), (18, sp), (12, dt)]),
   (1, [(3, sp), (11, dt), (18, sp), (11, dt), (1, sp)]),
   (1, [(3, sp), (12, dt), (17, sp), (11, dt), (1, sp)]),
   (1, [(3, sp), (11, dt), (18, sp), (12, dt)]),
   (19, [(44, sp)])]"

definition sheet_L :: "char runs runs" where
  "sheet_L = [
   (18, [(44, sp)]),
   (1, [(6, sp), (12, dt), (26, sp)]),
   (1, [(6, sp), (11, dt), (27, sp)]),
   (1, [(6, sp), (12, dt), (26, sp)]),
   (2, [(6, sp), (11, dt), (27, sp)]),
   (2, [(6, sp), (12, dt), (26, sp)]),
   (1, [(6, sp), (11, dt), (27, sp)]),
   (1, [(6, sp), (12, dt), (26, sp)]),
   (2, [(6, sp), (11, dt), (27, sp)]),
   (2, [(6, sp), (12, dt), (26, sp)]),
   (1, [(6, sp), (11, dt), (27, sp)]),
   (1, [(6, sp), (12, dt), (26, sp)]),
   (2, [(6, sp), (11, dt), (27, sp)]),
   (2, [(6, sp), (12, dt), (26, sp)]),
   (1, [(6, sp), (11, dt), (27, sp)]),
   (1, [(6, sp), (12, dt), (26, sp)]),
   (2, [(6, sp), (11, dt), (27, sp)]),
   (2, [(6, sp), (12, dt), (26, sp)]),
   (1, [(6, sp), (11, dt), (27, sp)]),
   (1, [(6, sp), (12, dt), (26, sp)]),
   (2, [(6, sp), (11, dt), (27, sp)]),
   (1, [(6, sp), (12, dt), (26, sp)]),
   (1, [(6, sp), (11, dt), (27, sp)]),
   (1, [(6, sp), (12, dt), (26, sp)]),
   (1, [(6, sp), (11, dt), (27, sp)]),
   (1, [(6, sp), (12, dt), (26, sp)]),
   (2, [(6, sp), (11, dt), (27, sp)]),
   (1, [(6, sp), (12, dt), (26, sp)]),
   (3, [(6, sp), (11, dt), (27, sp)]),
   (1, [(6, sp), (34, dt), (4, sp)]),
   (5, [(6, sp), (35, dt), (3, sp)]),
   (19, [(44, sp)])]"

definition sheet_M :: "char runs runs" where
  "sheet_M = [
   (18, [(44, sp)]),
   (1, [(3, sp), (6, dt), (29, sp), (5, dt), (1, sp)]),
   (1, [(3, sp), (6, dt), (29, sp), (6, dt)]),
   (1, [(3, sp), (5, dt), (30, sp), (6, dt)]),
   (1, [(3, sp), (6, dt), (28, sp), (6, dt), (1, sp)]),
   (1, [(3, sp), (5, dt), (30, sp), (6, dt)]),
   (1, [(3, sp), (8, dt), (1, sp), (2, dt), (18, sp), (2, dt), (1, sp), (8, dt), (1, sp)]),
   (1, [(3, sp), (12, dt), (17, sp), (11, dt), (1, sp)]),
   (1, [(3, sp), (11, dt), (18, sp), (12, dt)]),
   (1, [(3, sp), (12, dt), (17, sp), (12, dt)]),
   (1, [(3, sp), (11, dt), (18, sp), (11, dt), (1, sp)]),
   (1, [(3, sp), (11, dt), (18, sp), (12, dt)]),
   (1, [(3, sp), (18, dt), (5, sp), (17, dt), (1, sp)]),
   (1, [(3, sp), (17, dt), (6, sp), (17, dt), (1, sp)]),
   (1, [(3, sp), (17, dt), (6, sp), (18, dt)]),
   (1, [(3, sp), (18, dt), (5, sp), (17, dt), (1, sp)]),
   (2, [(3, sp), (17, dt), (6, sp), (18, dt)]),
   (1, [(3, sp), (40, dt), (1, sp)]),
   (1, [(3, sp), (41, dt)]),
   (2, [(3, sp), (40, dt), (1, sp)]),
   (1, [(3, sp), (41, dt)]),
   (1, [(3, sp), (13, dt), (1, sp), (2, dt), (1, sp), (8, dt), (1, sp), (2, dt), (1, sp), (12, dt)]),
   (1, [(3, sp), (11, dt), (6, sp), (6, dt), (6, sp), (11, dt), (1, sp)]),
   (1, [(3, sp), (12, dt), (5, sp), (6, dt), (6, sp), (12, dt)]),
   (2, [(3, sp), (11, dt), (6, sp), (6, dt), (6, sp), (11, dt), (1, sp)]),
   (1, [(3, sp), (12, dt), (5, sp), (6, dt), (6, sp), (12, dt)]),
   (1, [(3, sp), (11, dt), (10, sp), (2, dt), (6, sp), (12, dt)]),
   (1, [(3, sp), (12, dt), (17, sp), (11, dt), (1, sp)]),
   (1, [(3, sp), (11, dt), (18, sp), (12, dt)]),
   (1, [(3, sp), (12, dt), (17, sp), (11, dt), (1, sp)]),
   (1, [(3, sp), (11, dt), (18, sp), (11, dt), (1, sp)]),
   (1, [(3, sp), (12, dt), (17, sp), (12, dt)]),
   (1, [(3, sp), (11, dt), (18, sp), (12, dt)]),
   (1, [(3, sp), (11, dt), (18, sp), (11, dt), (1, sp)]),
   (1, [(3, sp), (12, dt), (17, sp), (12, dt)]),
   (2, [(3, sp), (11, dt), (18, sp), (11, dt), (1, sp)]),
   (1, [(3, sp), (12, dt), (17, sp), (12, dt)]),
   (1, [(3, sp), (11, dt), (18, sp), (12, dt)]),
   (1, [(3, sp), (12, dt), (17, sp), (11, dt), (1, sp)]),
   (1, [(3, sp), (11, dt), (18, sp), (12, dt)]),
   (1, [(3, sp), (11, dt), (18, sp), (11, dt), (1, sp)]),
   (1, [(3, sp), (12, dt), (17, sp), (11, dt), (1, sp)]),
   (1, [(3, sp), (11, dt), (18, sp), (12, dt)]),
   (19, [(44, sp)])]"

definition sheet_N :: "char runs runs" where
  "sheet_N = [
   (18, [(44, sp)]),
   (1, [(3, sp), (6, dt), (23, sp), (11, dt), (1, sp)]),
   (1, [(3, sp), (6, dt), (23, sp), (12, dt)]),
   (1, [(3, sp), (5, dt), (24, sp), (12, dt)]),
   (1, [(3, sp), (6, dt), (23, sp), (11, dt), (1, sp)]),
   (1, [(3, sp), (5, dt), (24, sp), (12, dt)]),
   (1, [(3, sp), (8, dt), (1, sp), (2, dt), (18, sp), (11, dt), (1, sp)]),
   (1, [(3, sp), (12, dt), (17, sp), (11, dt), (1, sp)]),
   (1, [(3, sp), (11, dt), (18, sp), (12, dt)]),
   (1, [(3, sp), (12, dt), (17, sp), (12, dt)]),
   (1, [(3, sp), (11, dt), (18, sp), (11, dt), (1, sp)]),
   (1, [(3, sp), (11, dt), (18, sp), (12, dt)]),
   (1, [(3, sp), (18, dt), (11, sp), (11, dt), (1, sp)]),
   (1, [(3, sp), (17, dt), (12, sp), (11, dt), (1, sp)]),
   (1, [(3, sp), (17, dt), (12, sp), (12, dt)]),
   (1, [(3, sp), (18, dt), (11, sp), (11, dt), (1, sp)]),
   (2, [(3, sp), (17, dt), (12, sp), (12, dt)]),
   (1, [(3, sp), (23, dt), (6, sp), (11, dt), (1, sp)]),
   (1, [(3, sp), (23, dt), (6, sp), (12, dt)]),
   (2, [(3, sp), (23, dt), (6, sp), (11, dt), (1, sp)]),
   (1, [(3, sp), (23, dt), (6, sp), (12, dt)]),
   (1, [(3, sp), (13, dt), (1, sp), (2, dt), (1, sp), (6, dt), (6, sp), (12, dt)]),
   (1, [(3, sp), (11, dt), (6, sp), (23, dt), (1, sp)]),
   (1, [(3, sp), (12, dt), (5, sp), (24, dt)]),
   (2, [(3, sp), (11, dt), (6, sp), (23, dt), (1, sp)]),
   (1, [(3, sp), (12, dt), (5, sp), (24, dt)]),
   (1, [(3, sp), (11, dt), (10, sp), (20, dt)]),
   (1, [(3, sp), (12, dt), (11, sp), (17, dt), (1, sp)]),
   (1, [(3, sp), (11, dt), (12, sp), (18, dt)]),
   (1, [(3, sp), (12, dt), (11, sp), (17, dt), (1, sp)]),
   (1, [(3, sp), (11, dt), (12, sp), (17, dt), (1, sp)]),
   (1, [(3, sp), (12, dt), (11, sp), (18, dt)]),
   (1, [(3, sp), (11, dt), (12, sp), (2, dt), (1, sp), (2, dt), (1, sp), (12, dt)]),
   (1, [(3, sp), (11, dt), (18, sp), (11, dt), (1, sp)]),
   (1, [(3, sp), (12, dt), (17, sp), (12, dt)]),
   (2, [(3, sp), (11, dt), (18, sp), (11, dt), (1, sp)]),
   (1, [(3, sp), (12, dt), (17, sp), (12, dt)]),
   (1, [(3, sp), (11, dt), (18, sp), (4, dt), (1, sp), (7, dt)]),
   (1, [(3, sp), (12, dt), (23, sp), (5, dt), (1, sp)]),
   (1, [(3, sp), (11, dt), (23, sp), (7, dt)]),
   (1, [(3, sp), (11, dt), (24, sp), (5, dt), (1, sp)]),
   (1, [(3, sp), (12, dt), (23, sp), (5, dt), (1, sp)]),
   (1, [(3, sp), (11, dt), (24, sp), (6, dt)]),
   (19, [(44, sp)])]"

definition sheet_O :: "char runs runs" where
  "sheet_O = [
   (18, [(44, sp)]),
   (2, [(9, sp), (29, dt), (6, sp)]),
   (1, [(8, sp), (30, dt), (6, sp)]),
   (1, [(9, sp), (28, dt), (7, sp)]),
   (1, [(9, sp), (29, dt), (6, sp)]),
   (1, [(3, sp), (13, dt), (1, sp), (5, dt), (1, sp), (21, dt)]),
   (1, [(3, sp), (12, dt), (17, sp), (11, dt), (1, sp)]),
   (1, [(3, sp), (11, dt), (18, sp), (12, dt)]),
   (1, [(3, sp), (12, dt), (17, sp), (12, dt)]),
   (1, [(3, sp), (11, dt), (18, sp), (11, dt), (1, sp)]),
   (1, [(3, sp), (11, dt), (18, sp), (12, dt)]),
   (2, [(3, sp), (12, dt), (17, sp), (11, dt), (1, sp)]),
   (1, [(3, sp), (11, dt), (18, sp), (12, dt)]),
   (1, [(3, sp), (12, dt), (17, sp), (11, dt), (1, sp)]),
   (2, [(3, sp), (11, dt), (18, sp), (12, dt)]),
   (1, [(3, sp), (12, dt), (17, sp), (11, dt), (1, sp)]),
   (1, [(3, sp), (12, dt), (17, sp), (12, dt)]),
   (1, [(3, sp), (11, dt), (18, sp), (11, dt), (1, sp)]),
   (1, [(3, sp), (12, dt), (17, sp), (11, dt), (1, sp)]),
   (2, [(3, sp), (11, dt), (18, sp), (12, dt)]),
   (1, [(3, sp), (12, dt), (17, sp), (11, dt), (1, sp)]),
   (1, [(3, sp), (12, dt), (17, sp), (12, dt)]),
   (1, [(3, sp), (11, dt), (18, sp), (11, dt), (1, sp)]),
   (1, [(3, sp), (12, dt), (17, sp), (11, dt), (1, sp)]),
   (2, [(3, sp), (11, dt), (18, sp), (12, dt)]),
   (1, [(3, sp), (12, dt), (17, sp), (11, dt), (1, sp)]),
   (1, [(3, sp), (11, dt), (18, sp), (12, dt)]),
   (1, [(3, sp), (12, dt), (17, sp), (11, dt), (1, sp)]),
   (1, [(3, sp), (11, dt), (18, sp), (11, dt), (1, sp)]),
   (1, [(3, sp), (12, dt), (17, sp), (12, dt)]),
   (1, [(3, sp), (11, dt), (18, sp), (12, dt)]),
   (1, [(3, sp), (11, dt), (18, sp), (11, dt), (1, sp)]),
   (1, [(3, sp), (12, dt), (17, sp), (12, dt)]),
   (2, [(3, sp), (11, dt), (18, sp), (11, dt), (1, sp)]),
   (1, [(3, sp), (11, dt), (18, sp), (12, dt)]),
   (1, [(8, sp), (30, dt), (6, sp)]),
   (3, [(9, sp), (29, dt), (6, sp)]),
   (1, [(8, sp), (30, dt), (6, sp)]),
   (1, [(9, sp), (29, dt), (6, sp)]),
   (19, [(44, sp)])]"

definition sheet_P :: "char runs runs" where
  "sheet_P = [
   (18, [(44, sp)]),
   (3, [(3, sp), (35, dt), (6, sp)]),
   (1, [(3, sp), (34, dt), (7, sp)]),
   (1, [(3, sp), (35, dt), (6, sp)]),
   (1, [(3, sp), (13, dt), (1, sp), (6, dt), (1, sp), (15, dt), (1, sp), (3, dt), (1, sp)]),
   (1, [(3, sp), (12, dt), (17, sp), (11, dt), (1, sp)]),
   (1, [(3, sp), (11, dt), (18, sp), (12, dt)]),
   (1, [(3, sp), (12, dt), (17, sp), (12, dt)]),
   (1, [(3, sp), (11, dt), (18, sp), (11, dt), (1, sp)]),
   (1, [(3, sp), (11, dt), (18, sp), (12, dt)]),
   (2, [(3, sp), (12, dt), (17, sp), (11, dt), (1, sp)]),
   (1, [(3, sp), (11, dt), (18, sp), (12, dt)]),
   (1, [(3, sp), (12, dt), (17, sp), (11, dt), (1, sp)]),
   (2, [(3, sp), (11, dt), (18, sp), (12, dt)]),
   (5, [(3, sp), (35, dt), (6, sp)]),
   (1, [(3, sp), (34, dt), (7, sp)]),
   (2, [(3, sp), (11, dt), (30, sp)]),
   (2, [(3, sp), (12, dt), (29, sp)]),
   (2, [(3, sp), (11, dt), (30, sp)]),
   (1, [(3, sp), (12, dt), (29, sp)]),
   (1, [(3, sp), (11, dt), (30, sp)]),
   (1, [(3, sp), (12, dt), (29, sp)]),
   (1, [(3, sp), (11, dt), (30, sp)]),
   (1, [(3, sp), (12, dt), (29, sp)]),
   (2, [(3, sp), (11, dt), (30, sp)]),
   (1, [(3, sp), (12, dt), (29, sp)]),
   (2, [(3, sp), (11, dt), (30, sp)]),
   (1, [(3, sp), (12, dt), (29, sp)]),
   (1, [(3, sp), (11, dt), (30, sp)]),
   (1, [(3, sp), (12, dt), (29, sp)]),
   (2, [(3, sp), (11, dt), (30, sp)]),
   (1, [(3, sp), (12, dt), (29, sp)]),
   (1, [(3, sp), (11, dt), (30, sp)]),
   (19, [(44, sp)])]"

definition sheet_Q :: "char runs runs" where
  "sheet_Q = [
   (18, [(44, sp)]),
   (2, [(9, sp), (29, dt), (6, sp)]),
   (1, [(8, sp), (30, dt), (6, sp)]),
   (1, [(9, sp), (28, dt), (7, sp)]),
   (1, [(9, sp), (29, dt), (6, sp)]),
   (1, [(3, sp), (13, dt), (1, sp), (5, dt), (1, sp), (21, dt)]),
   (1, [(3, sp), (12, dt), (17, sp), (11, dt), (1, sp)]),
   (1, [(3, sp), (11, dt), (18, sp), (12, dt)]),
   (1, [(3, sp), (12, dt), (17, sp), (12, dt)]),
   (1, [(3, sp), (11, dt), (18, sp), (11, dt), (1, sp)]),
   (1, [(3, sp), (11, dt), (18, sp), (12, dt)]),
   (2, [(3, sp), (12, dt), (17, sp), (11, dt), (1, sp)]),
   (1, [(3, sp), (11, dt), (18, sp), (12, dt)]),
   (1, [(3, sp), (12, dt), (17, sp), (11, dt), (1, sp)]),
   (2, [(3, sp), (11, dt), (18, sp), (12, dt)]),
   (1, [(3, sp), (12, dt), (17, sp), (11, dt), (1, sp)]),
   (1, [(3, sp), (12, dt), (17, sp), (12, dt)]),
   (1, [(3, sp), (11, dt), (18, sp), (11, dt), (1, sp)]),
   (1, [(3, sp), (12, dt), (17, sp), (11, dt), (1, sp)]),
   (2, [(3, sp), (11, dt), (18, sp), (12, dt)]),
   (1, [(3, sp), (12, dt), (17, sp), (11, dt), (1, sp)]),
   (1, [(3, sp), (12, dt), (17, sp), (12, dt)]),
   (1, [(3, sp), (11, dt), (18, sp), (11, dt), (1, sp)]),
   (1, [(3, sp), (12, dt), (17, sp), (11, dt), (1, sp)]),
   (2, [(3, sp), (11, dt), (18, sp), (12, dt)]),
   (1, [(3, sp), (12, dt), (5, sp), (23, dt), (1, sp)]),
   (1, [(3, sp), (11, dt), (6, sp), (24, dt)]),
   (1, [(3, sp), (12, dt), (5, sp), (23, dt), (1, sp)]),
   (1, [(3, sp), (11, dt), (6, sp), (23, dt), (1, sp)]),
   (1, [(3, sp), (12, dt), (5, sp), (24, dt)]),
   (1, [(3, sp), (11, dt), (6, sp), (23, dt), (1, sp)]),
   (1, [(3, sp), (11, dt), (12, sp), (12, dt), (6, sp)]),
   (1, [(3, sp), (12, dt), (11, sp), (12, dt), (6, sp)]),
   (3, [(3, sp), (11, dt), (12, sp), (12, dt), (6, sp)]),
   (1, [(8, sp), (24, dt), (6, sp), (5, dt), (1, sp)]),
   (1, [(9, sp), (23, dt), (6, sp), (6, dt)]),
   (1, [(9, sp), (23, dt), (5, sp), (7, dt)]),
   (1, [(9, sp), (23, dt), (6, sp), (5, dt), (1, sp)]),
   (1, [(8, sp), (24, dt), (6, sp), (5, dt), (1, sp)]),
   (1, [(9, sp), (23, dt), (6, sp), (6, dt)]),
   (19, [(44, sp)])]"

definition sheet_R :: "char runs runs" where
  "sheet_R = [
   (18, [(44, sp)]),
   (3, [(3, sp), (35, dt), (6, sp)]),
   (1, [(3, sp), (34, dt), (7, sp)]),
   (1, [(3, sp), (35, dt), (6, sp)]),
   (1, [(3, sp), (13, dt), (1, sp), (5, dt), (1, sp), (16, dt), (1, sp), (3, dt), (1, sp)]),
   (1, [(3, sp), (12, dt), (17, sp), (11, dt), (1, sp)]),
   (1, [(3, sp), (11, dt), (18, sp), (12, dt)]),
   (1, [(3, sp), (12, dt), (17, sp), (12, dt)]),
   (1, [(3, sp), (11, dt), (18, sp), (11, dt), (1, sp)]),
   (1, [(3, sp), (11, dt), (18, sp), (12, dt)]),
   (2, [(3, sp), (12, dt), (17, sp), (11, dt), (1, sp)]),
   (1, [(3, sp), (11, dt), (18, sp), (12, dt)]),
   (1, [(3, sp), (12, dt), (17, sp), (11, dt), (1, sp)]),
   (2, [(3, sp), (11, dt), (18, sp), (12, dt)]),
   (6, [(3, sp), (35, dt), (6, sp)]),
   (2, [(3, sp), (11, dt), (18, sp), (12, dt)]),
   (2, [(3, sp), (12, dt), (17, sp), (11, dt), (1, sp)]),
   (2, [(3, sp), (11, dt), (18, sp), (12, dt)]),
   (1, [(3, sp), (12, dt), (17, sp), (11, dt), (1, sp)]),
   (1, [(3, sp), (11, dt), (18, sp), (12, dt)]),
   (1, [(3, sp), (12, dt), (17, sp), (11, dt), (1, sp)]),
   (1, [(3, sp), (11, dt), (18, sp), (11, dt), (1, sp)]),
   (1, [(3, sp), (12, dt), (17, sp), (12, dt)]),
   (1, [(3, sp), (11, dt), (18, sp), (12, dt)]),
   (1, [(3, sp), (11, dt), (18, sp), (11, dt), (1, sp)]),
   (1, [(3, sp), (12, dt), (17, sp), (12, dt)]),
   (2, [(3, sp), (11, dt), (18, sp), (11, dt), (1, sp)]),
   (1, [(3, sp), (12, dt), (17, sp), (12, dt)]),
   (1, [(3, sp), (11, dt), (18, sp), (12, dt)]),
   (1, [(3, sp), (12, dt), (17, sp), (11, dt), (1, sp)]),
   (1, [(3, sp), (11, dt), (18, sp), (12, dt)]),
   (1, [(3, sp), (11, dt), (18, sp), (11, dt), (1, sp)]),
   (1, [(3, sp), (12, dt), (17, sp), (11, dt), (1, sp)]),
   (1, [(3, sp), (11, dt), (18, sp), (12, dt)]),
   (19, [(44, sp)])]"

definition sheet_S :: "char runs runs" where
  "sheet_S = [
   (18, [(44, sp)]),
   (2, [(9, sp), (29, dt), (6, sp)]),
   (1, [(8, sp), (30, dt), (6, sp)]),
   (1, [(9, sp), (28, dt), (7, sp)]),
   (1, [(9, sp), (29, dt), (6, sp)]),
   (1, [(6, sp), (9, dt), (1, sp), (5, dt), (1, sp), (17, dt), (1, sp), (3, dt), (1, sp)]),
   (1, [(2, sp), (13, dt), (17, sp), (11, dt), (1, sp)]),
   (1, [(3, sp), (11, dt), (18, sp), (12, dt)]),
   (1, [(3, sp), (12, dt), (17, sp), (12, dt)]),
   (1, [(3, sp), (11, dt), (18, sp), (11, dt), (1, sp)]),
   (1, [(3, sp), (11, dt), (18, sp), (12, dt)]),
   (2, [(3, sp), (12, dt), (29, sp)]),
   (1, [(3, sp), (11, dt), (30, sp)]),
   (1, [(3, sp), (12, dt), (29, sp)]),
   (2, [(3, sp), (11, dt), (30, sp)]),
   (2, [(9, sp), (29, dt), (6, sp)]),
   (1, [(8, sp), (30, dt), (6, sp)]),
   (1, [(9, sp), (29, dt), (6, sp)]),
   (1, [(8, sp), (30, dt), (6, sp)]),
   (1, [(9, sp), (29, dt), (6, sp)]),
   (2, [(32, sp), (12, dt)]),
   (2, [(32, sp), (11, dt), (1, sp)]),
   (1, [(32, sp), (12, dt)]),
   (2, [(32, sp), (11, dt), (1, sp)]),
   (1, [(32, sp), (12, dt)]),
   (2, [(32, sp), (11, dt), (1, sp)]),
   (1, [(32, sp), (12, dt)]),
   (1, [(3, sp), (11, dt), (18, sp), (12, dt)]),
   (1, [(3, sp), (11, dt), (18, sp), (11, dt), (1, sp)]),
   (1, [(3, sp), (12, dt), (17, sp), (12, dt)]),
   (1, [(3, sp), (11, dt), (18, sp), (11, dt), (1, sp)]),
   (1, [(3, sp), (12, dt), (17, sp), (11, dt), (1, sp)]),
   (1, [(3, sp), (11, dt), (18, sp), (12, dt)]),
   (1, [(8, sp), (30, dt), (6, sp)]),
   (3, [(9, sp), (29, dt), (6, sp)]),
   (1, [(8, sp), (30, dt), (6, sp)]),
   (1, [(9, sp), (29, dt), (6, sp)]),
   (19, [(44, sp)])]"

definition sheet_T :: "char runs runs" where
  "sheet_T = [
   (18, [(44, sp)]),
   (1, [(3, sp), (40, dt), (1, sp)]),
   (1, [(3, sp), (41, dt)]),
   (1, [(2, sp), (41, dt), (1, sp)]),
   (2, [(3, sp), (41, dt)]),
   (1, [(3, sp), (2, dt), (1, sp), (29, dt), (1, sp), (7, dt), (1, sp)]),
   (1, [(17, sp), (12, dt), (15, sp)]),
   (1, [(18, sp), (11, dt), (15, sp)]),
   (4, [(17, sp), (12, dt), (15, sp)]),
   (1, [(18, sp), (11, dt), (15, sp)]),
   (3, [(17, sp), (12, dt), (15, sp)]),
   (1, [(18, sp), (11, dt), (15, sp)]),
   (2, [(17, sp), (12, dt), (15, sp)]),
   (1, [(18, sp), (11, dt), (15, sp)]),
   (3, [(17, sp), (12, dt), (15, sp)]),
   (1, [(18, sp), (11, dt), (15, sp)]),
   (2, [(17, sp), (12, dt), (15, sp)]),
   (1, [(18, sp), (11, dt), (15, sp)]),
   (5, [(17, sp), (12, dt), (15, sp)]),
   (1, [(18, sp), (11, dt), (15, sp)]),
   (3, [(17, sp), (12, dt), (15, sp)]),
   (1, [(18, sp), (11, dt), (15, sp)]),
   (3, [(17, sp), (12, dt), (15, sp)]),
   (1, [(18, sp), (11, dt), (15, sp)]),
   (3, [(17, sp), (12, dt), (15, sp)]),
   (1, [(18, sp), (11, dt), (15, sp)]),
   (1, [(17, sp), (12, dt), (15, sp)]),
   (19, [(44, sp)])]"

definition sheet_U :: "char runs runs" where
  "sheet_U = [
   (18, [(44, sp)]),
   (1, [(3, sp), (12, dt), (17, sp), (11, dt), (1, sp)]),
   (1, [(3, sp), (11, dt), (18, sp), (12, dt)]),
   (1, [(3, sp), (12, dt), (17, sp), (12, dt)]),
   (1, [(3, sp), (11, dt), (18, sp), (11, dt), (1, sp)]),
   (1, [(3, sp), (11, dt), (18, sp), (12, dt)]),
   (2, [(3, sp), (12, dt), (17, sp), (11, dt), (1, sp)]),
   (1, [(3, sp), (11, dt), (18, sp), (12, dt)]),
   (1, [(3, sp), (12, dt), (17, sp), (12, dt)]),
   (1, [(3, sp), (11, dt), (18, sp), (11, dt), (1, sp)]),
   (1, [(3, sp), (11, dt), (18, sp), (12, dt)]),
   (2, [(3, sp), (12, dt), (17, sp), (11, dt), (1, sp)]),
   (1, [(3, sp), (11, dt), (18, sp), (12, dt)]),
   (1, [(3, sp), (12, dt), (17, sp), (11, dt), (1, sp)]),
   (2, [(3, sp), (11, dt), (18, sp), (12, dt)]),
   (1, [(3, sp), (12, dt), (17, sp), (11, dt), (1, sp)]),
   (1, [(3, sp), (12, dt), (17, sp), (12, dt)]),
   (1, [(3, sp), (11, dt), (18, sp), (11, dt), (1, sp)]),
   (1, [(3, sp), (12, dt), (17, sp), (11, dt), (1, sp)]),
   (2, [(3, sp), (11, dt), (18, sp), (12, dt)]),
   (1, [(3, sp), (12, dt), (17, sp), (11, dt), (1, sp)]),
   (1, [(3, sp), (12, dt), (17, sp), (12, dt)]),
   (1, [(3, sp), (11, dt), (18, sp), (11, dt), (1, sp)]),
   (1, [(3, sp), (12, dt), (17, sp), (11, dt), (1, sp)]),
   (2, [(3, sp), (11, dt), (18, sp), (12, dt)]),
   (1, [(3, sp), (12, dt), (17, sp), (11, dt), (1, sp)]),
   (1, [(3, sp), (11, dt), (18, sp), (12, dt)]),
   (1, [(3, sp), (12, dt), (17, sp), (11, dt), (1, sp)]),
   (1, [(3, sp), (11, dt), (18, sp), (11, dt), (1, sp)]),
   (1, [(3, sp), (12, dt), (17, sp), (12, dt)]),
   (1, [(3, sp), (11, dt), (18, sp), (12, dt)]),
   (1, [(3, sp), (11, dt), (18, sp), (11, dt), (1, sp)]),
   (1, [(3, sp), (12, dt), (17, sp), (12, dt)]),
   (1, [(3, sp), (11, dt), (18, sp), (11, dt), (1, sp)]),
   (1, [(3, sp), (12, dt), (17, sp), (11, dt), (1, sp)]),
   (1, [(3, sp), (11, dt), (18, sp), (12, dt)]),
   (1, [(3, sp), (4, dt), (1, sp), (31, dt), (1, sp), (3, dt), (1, sp)]),
   (3, [(9, sp), (29, dt), (6, sp)]),
   (1, [(8, sp), (30, dt), (6, sp)]),
   (1, [(9, sp), (29, dt), (6, sp)]),
   (19, [(44, sp)])]"

definition sheet_V :: "char runs runs" where
  "sheet_V = [
   (18, [(44, sp)]),
   (1, [(3, sp), (12, dt), (17, sp), (11, dt), (1, sp)]),
   (1, [(3, sp), (11, dt), (18, sp), (12, dt)]),
   (1, [(3, sp), (12, dt), (17, sp), (12, dt)]),
   (1, [(3, sp), (11, dt), (18, sp), (11, dt), (1, sp)]),
   (1, [(3, sp), (11, dt), (18, sp), (12, dt)]),
   (2, [(3, sp), (12, dt), (17, sp), (11, dt), (1, sp)]),
   (1, [(3, sp), (11, dt), (18, sp), (12, dt)]),
   (1, [(3, sp), (12, dt), (17, sp), (12, dt)]),
   (1, [(3, sp), (11, dt), (18, sp), (11, dt), (1, sp)]),
   (1, [(3, sp), (11, dt), (18, sp), (12, dt)]),
   (2, [(3, sp), (12, dt), (17, sp), (11, dt), (1, sp)]),
   (1, [(3, sp), (11, dt), (18, sp), (12, dt)]),
   (1, [(3, sp), (12, dt), (17, sp), (11, dt), (1, sp)]),
   (2, [(3, sp), (11, dt), (18, sp), (12, dt)]),
   (1, [(3, sp), (12, dt), (17, sp), (11, dt), (1, sp)]),
   (1, [(3, sp), (12, dt), (17, sp), (12, dt)]),
   (1, [(3, sp), (11, dt), (18, sp), (11, dt), (1, sp)]),
   (1, [(3, sp), (12, dt), (17, sp), (11, dt), (1, sp)]),
   (2, [(3, sp), (11, dt), (18, sp), (12, dt)]),
   (1, [(3, sp), (12, dt), (17, sp), (11, dt), (1, sp)]),
   (1, [(3, sp), (12, dt), (17, sp), (12, dt)]),
   (2, [(3, sp), (11, dt), (18, sp), (11, dt), (1, sp)]),
   (1, [(3, sp), (12, dt), (17, sp), (12, dt)]),
   (1, [(3, sp), (13, dt), (2, sp), (2, dt), (6, sp), (2, dt), (1, sp), (2, dt), (1, sp), (12, dt)]),
   (2, [(9, sp), (11, dt), (6, sp), (12, dt), (6, sp)]),
   (1, [(9, sp), (12, dt), (5, sp), (12, dt), (6, sp)]),
   (1, [(8, sp), (12, dt), (6, sp), (11, dt), (7, sp)]),
   (1, [(9, sp), (11, dt), (6, sp), (12, dt), (6, sp)]),
   (1, [(12, sp), (1, dt), (1, sp), (8, dt), (3, sp), (7, dt), (4, sp), (1, dt), (7, sp)]),
   (1, [(14, sp), (18, dt), (12, sp)]),
   (1, [(15, sp), (17, dt), (12, sp)]),
   (1, [(14, sp), (18, dt), (12, sp)]),
   (1, [(15, sp), (17, dt), (12, sp)]),
   (1, [(14, sp), (18, dt), (12, sp)]),
   (2, [(20, sp), (6, dt), (18, sp)]),
   (1, [(21, sp), (5, dt), (18, sp)]),
   (3, [(20, sp), (6, dt), (18, sp)]),
   (19, [(44, sp)])]"

definition sheet_W :: "char runs runs" where
  "sheet_W = [
   (1, [(1, dt), (43, sp)]),
   (17, [(44, sp)]),
   (1, [(12, dt), (8, sp), (6, dt), (9, sp), (9, dt)]),
   (1, [(11, dt), (9, sp), (6, dt), (9, sp), (9, dt)]),
   (1, [(12, dt), (8, sp), (6, dt), (9, sp), (9, dt)]),
   (1, [(11, dt), (9, sp), (6, dt), (8, sp), (10, dt)]),
   (1, [(11, dt), (9, sp), (6, dt), (9, sp), (9, dt)]),
   (2, [(12, dt), (8, sp), (6, dt), (9, sp), (9, dt)]),
   (1, [(11, dt), (9, sp), (6, dt), (9, sp), (9, dt)]),
   (1, [(12, dt), (8, sp), (6, dt), (9, sp), (9, dt)]),
   (2, [(11, dt), (9, sp), (6, dt), (9, sp), (9, dt)]),
   (2, [(12, dt), (8, sp), (6, dt), (9, sp), (9, dt)]),
   (1, [(11, dt), (9, sp), (6, dt), (9, sp), (9, dt)]),
   (1, [(12, dt), (8, sp), (6, dt), (9, sp), (9, dt)]),
   (2, [(11, dt), (9, sp), (6, dt), (9, sp), (9, dt)]),
   (2, [(12, dt), (8, sp), (6, dt), (9, sp), (9, dt)]),
   (1, [(11, dt), (9, sp), (6, dt), (9, sp), (9, dt)]),
   (1, [(12, dt), (8, sp), (6, dt), (9, sp), (9, dt)]),
   (2, [(11, dt), (9, sp), (6, dt), (9, sp), (9, dt)]),
   (2, [(12, dt), (8, sp), (6, dt), (9, sp), (9, dt)]),
   (1, [(11, dt), (9, sp), (6, dt), (9, sp), (9, dt)]),
   (1, [(12, dt), (8, sp), (6, dt), (8, sp), (10, dt)]),
   (2, [(11, dt), (9, sp), (6, dt), (9, sp), (9, dt)]),
   (6, [(44, dt)]),
   (5, [(17, dt), (12, sp), (15, dt)]),
   (1, [(1, dt), (1, sp), (2, dt), (1, sp), (11, dt), (13, sp), (4, dt), (1, sp), (9, dt), (1, sp)]),
   (1, [(6, sp), (5, dt), (24, sp), (5, dt), (4, sp)]),
   (1, [(6, sp), (5, dt), (24, sp), (6, dt), (3, sp)]),
   (1, [(6, sp), (5, dt), (24, sp), (5, dt), (4, sp)]),
   (1, [(5, sp), (7, dt), (23, sp), (5, dt), (4, sp)]),
   (1, [(6, sp), (5, dt), (24, sp), (6, dt), (3, sp)]),
   (19, [(44, sp)])]"

definition sheet_X :: "char runs runs" where
  "sheet_X = [
   (18, [(44, sp)]),
   (1, [(3, sp), (12, dt), (17, sp), (11, dt), (1, sp)]),
   (1, [(3, sp), (11, dt), (18, sp), (12, dt)]),
   (1, [(3, sp), (12, dt), (17, sp), (12, dt)]),
   (1, [(3, sp), (11, dt), (18, sp), (11, dt), (1, sp)]),
   (1, [(3, sp), (11, dt), (18, sp), (12, dt)]),
   (2, [(3, sp), (12, dt), (17, sp), (11, dt), (1, sp)]),
   (1, [(3, sp), (11, dt), (18, sp), (12, dt)]),
   (1, [(3, sp), (12, dt), (17, sp), (12, dt)]),
   (1, [(3, sp), (11, dt), (18, sp), (11, dt), (1, sp)]),
   (1, [(3, sp), (11, dt), (18, sp), (12, dt)]),
   (1, [(6, sp), (1, dt), (1, sp), (13, dt), (5, sp), (12, dt), (6, sp)]),
   (1, [(8, sp), (12, dt), (6, sp), (12, dt), (6, sp)]),
   (1, [(9, sp), (11, dt), (6, sp), (12, dt), (6, sp)]),
   (1, [(9, sp), (12, dt), (5, sp), (12, dt), (6, sp)]),
   (1, [(8, sp), (12, dt), (6, sp), (12, dt), (6, sp)]),
   (1, [(9, sp), (11, dt), (6, sp), (12, dt), (6, sp)]),
   (1, [(14, sp), (18, dt), (12, sp)]),
   (1, [(15, sp), (17, dt), (12, sp)]),
   (1, [(14, sp), (18, dt), (12, sp)]),
   (1, [(15, sp), (17, dt), (12, sp)]),
   (2, [(14, sp), (18, dt), (12, sp)]),
   (1, [(8, sp), (12, dt), (6, sp), (12, dt), (6, sp)]),
   (2, [(9, sp), (11, dt), (6, sp), (12, dt), (6, sp)]),
   (1, [(8, sp), (12, dt), (6, sp), (12, dt), (6, sp)]),
   (1, [(9, sp), (11, dt), (6, sp), (12, dt), (6, sp)]),
   (1, [(6, sp), (1, dt), (1, sp), (7, dt), (1, sp), (2, dt), (12, sp), (1, dt), (1, sp), (6, dt), (6, sp)]),
   (2, [(3, sp), (11, dt), (18, sp), (12, dt)]),
   (1, [(3, sp), (12, dt), (17, sp), (11, dt), (1, sp)]),
   (1, [(3, sp), (11, dt), (18, sp), (11, dt), (1, sp)]),
   (1, [(3, sp), (12, dt), (17, sp), (12, dt)]),
   (1, [(3, sp), (11, dt), (18, sp), (12, dt)]),
   (1, [(3, sp), (11, dt), (18, sp), (11, dt), (1, sp)]),
   (1, [(3, sp), (12, dt), (17, sp), (12, dt)]),
   (2, [(3, sp), (11, dt), (18, sp), (11, dt), (1, sp)]),
   (1, [(3, sp), (12, dt), (17, sp), (12, dt)]),
   (1, [(3, sp), (11, dt), (18, sp), (12, dt)]),
   (1, [(3, sp), (12, dt), (17, sp), (11, dt), (1, sp)]),
   (1, [(3, sp), (11, dt), (18, sp), (12, dt)]),
   (1, [(3, sp), (11, dt), (18, sp), (11, dt), (1, sp)]),
   (1, [(3, sp), (12, dt), (17, sp), (11, dt), (1, sp)]),
   (1, [(3, sp), (11, dt), (18, sp), (12, dt)]),
   (19, [(44, sp)])]"

definition sheet_Y :: "char runs runs" where
  "sheet_Y = [
   (18, [(44, sp)]),
   (1, [(3, sp), (12, dt), (17, sp), (11, dt), (1, sp)]),
   (1, [(3, sp), (11, dt), (18, sp), (12, dt)]),
   (1, [(3, sp), (12, dt), (17, sp), (12, dt)]),
   (1, [(3, sp), (11, dt), (18, sp), (11, dt), (1, sp)]),
   (1, [(3, sp), (11, dt), (18, sp), (12, dt)]),
   (2, [(3, sp), (12, dt), (17, sp), (11, dt), (1, sp)]),
   (1, [(3, sp), (11, dt), (18, sp), (12, dt)]),
   (1, [(3, sp), (12, dt), (17, sp), (12, dt)]),
   (1, [(3, sp), (11, dt), (18, sp), (11, dt), (1, sp)]),
   (1, [(3, sp), (11, dt), (18, sp), (12, dt)]),
   (1, [(3, sp), (12, dt), (17, sp), (11, dt), (1, sp)]),
   (1, [(2, sp), (13, dt), (17, sp), (11, dt), (1, sp)]),
   (1, [(3, sp), (11, dt), (18, sp), (12, dt)]),
   (1, [(3, sp), (12, dt), (17, sp), (12, dt)]),
   (1, [(3, sp), (11, dt), (18, sp), (12, dt)]),
   (1, [(3, sp), (11, dt), (18, sp), (11, dt), (1, sp)]),
   (1, [(5, sp), (1, dt), (2, sp), (13, dt), (5, sp), (13, dt), (5, sp)]),
   (1, [(9, sp), (11, dt), (6, sp), (12, dt), (6, sp)]),
   (1, [(8, sp), (12, dt), (6, sp), (12, dt), (6, sp)]),
   (1, [(9, sp), (11, dt), (6, sp), (12, dt), (6, sp)]),
   (1, [(8, sp), (12, dt), (6, sp), (12, dt), (6, sp)]),
   (1, [(9, sp), (11, dt), (6, sp), (11, dt), (7, sp)]),
   (1, [(15, sp), (17, dt), (12, sp)]),
   (2, [(14, sp), (18, dt), (12, sp)]),
   (1, [(15, sp), (17, dt), (12, sp)]),
   (1, [(14, sp), (18, dt), (12, sp)]),
   (1, [(17, sp), (14, dt), (13, sp)]),
   (2, [(17, sp), (12, dt), (15, sp)]),
   (1, [(18, sp), (11, dt), (15, sp)]),
   (3, [(17, sp), (12, dt), (15, sp)]),
   (1, [(18, sp), (11, dt), (15, sp)]),
   (3, [(17, sp), (12, dt), (15, sp)]),
   (1, [(18, sp), (11, dt), (15, sp)]),
   (3, [(17, sp), (12, dt), (15, sp)]),
   (1, [(18, sp), (11, dt), (15, sp)]),
   (2, [(17, sp), (12, dt), (15, sp)]),
   (19, [(44, sp)])]"

definition sheet_Z :: "char runs runs" where
  "sheet_Z = [
   (18, [(44, sp)]),
   (1, [(3, sp), (40, dt), (1, sp)]),
   (1, [(3, sp), (41, dt)]),
   (1, [(2, sp), (42, dt)]),
   (1, [(3, sp), (40, dt), (1, sp)]),
   (1, [(3, sp), (41, dt)]),
   (1, [(3, sp), (2, dt), (1, sp), (9, dt), (1, sp), (5, dt), (1, sp), (21, dt), (1, sp)]),
   (1, [(32, sp), (11, dt), (1, sp)]),
   (2, [(32, sp), (12, dt)]),
   (1, [(32, sp), (11, dt), (1, sp)]),
   (1, [(32, sp), (12, dt)]),
   (6, [(26, sp), (12, dt), (6, sp)]),
   (5, [(20, sp), (12, dt), (12, sp)]),
   (1, [(20, sp), (11, dt), (13, sp)]),
   (1, [(14, sp), (12, dt), (18, sp)]),
   (1, [(15, sp), (11, dt), (18, sp)]),
   (1, [(14, sp), (12, dt), (18, sp)]),
   (1, [(15, sp), (11, dt), (18, sp)]),
   (1, [(14, sp), (12, dt), (18, sp)]),
   (1, [(13, sp), (10, dt), (1, sp), (2, dt), (18, sp)]),
   (1, [(9, sp), (11, dt), (24, sp)]),
   (1, [(8, sp), (12, dt), (24, sp)]),
   (1, [(9, sp), (12, dt), (23, sp)]),
   (1, [(9, sp), (11, dt), (24, sp)]),
   (1, [(8, sp), (12, dt), (24, sp)]),
   (1, [(5, sp), (1, dt), (1, sp), (8, dt), (29, sp)]),
   (1, [(3, sp), (12, dt), (29, sp)]),
   (1, [(3, sp), (11, dt), (30, sp)]),
   (2, [(3, sp), (12, dt), (29, sp)]),
   (1, [(3, sp), (11, dt), (30, sp)]),
   (1, [(3, sp), (40, dt), (1, sp)]),
   (2, [(2, sp), (42, dt)]),
   (2, [(3, sp), (40, dt), (1, sp)]),
   (1, [(3, sp), (41, dt)]),
   (19, [(44, sp)])]"

definition sheet_bar :: "char runs runs" where
  "sheet_bar = [
   (18, [(44, sp)]),
   (1, [(18, sp), (12, dt), (14, sp)]),
   (1, [(18, sp), (11, dt), (15, sp)]),
   (1, [(18, sp), (12, dt), (14, sp)]),
   (2, [(18, sp), (11, dt), (15, sp)]),
   (1, [(18, sp), (12, dt), (14, sp)]),
   (3, [(18, sp), (11, dt), (15, sp)]),
   (1, [(18, sp), (12, dt), (14, sp)]),
   (1, [(18, sp), (11, dt), (15, sp)]),
   (2, [(18, sp), (12, dt), (14, sp)]),
   (1, [(18, sp), (11, dt), (15, sp)]),
   (1, [(18, sp), (12, dt), (14, sp)]),
   (2, [(18, sp), (11, dt), (15, sp)]),
   (1, [(18, sp), (12, dt), (14, sp)]),
   (3, [(18, sp), (11, dt), (15, sp)]),
   (1, [(18, sp), (12, dt), (14, sp)]),
   (1, [(18, sp), (11, dt), (15, sp)]),
   (2, [(18, sp), (12, dt), (14, sp)]),
   (1, [(18, sp), (11, dt), (15, sp)]),
   (1, [(18, sp), (12, dt), (14, sp)]),
   (2, [(18, sp), (11, dt), (15, sp)]),
   (1, [(18, sp), (12, dt), (14, sp)]),
   (2, [(18, sp), (11, dt), (15, sp)]),
   (1, [(18, sp), (12, dt), (14, sp)]),
   (2, [(18, sp), (11, dt), (15, sp)]),
   (1, [(18, sp), (12, dt), (14, sp)]),
   (4, [(18, sp), (11, dt), (15, sp)]),
   (1, [(18, sp), (12, dt), (14, sp)]),
   (2, [(18, sp), (11, dt), (15, sp)]),
   (1, [(18, sp), (12, dt), (14, sp)]),
   (2, [(18, sp), (11, dt), (15, sp)]),
   (1, [(18, sp), (12, dt), (14, sp)]),
   (1, [(18, sp), (11, dt), (15, sp)]),
   (1, [(18, sp), (12, dt), (14, sp)]),
   (2, [(18, sp), (11, dt), (15, sp)]),
   (1, [(18, sp), (12, dt), (14, sp)]),
   (2, [(18, sp), (11, dt), (15, sp)]),
   (1, [(18, sp), (12, dt), (14, sp)]),
   (2, [(18, sp), (11, dt), (15, sp)]),
   (1, [(18, sp), (12, dt), (14, sp)]),
   (7, [(44, sp)])]"

definition sheets :: "char runs runs list" where
  "sheets = [
     sheet_comma, sheet_minus, sheet_dot, sheet_slash, sheet_digit0, sheet_digit1, sheet_digit2, sheet_digit3,
     sheet_digit4, sheet_digit5, sheet_digit6, sheet_digit7, sheet_digit8, sheet_digit9, sheet_colon, sheet_A, sheet_B,
     sheet_C, sheet_D, sheet_E, sheet_F, sheet_G, sheet_H, sheet_I, sheet_J, sheet_K, sheet_L, sheet_M, sheet_N,
     sheet_O, sheet_P, sheet_Q, sheet_R, sheet_S, sheet_T, sheet_U, sheet_V, sheet_W, sheet_X, sheet_Y, sheet_Z,
     sheet_bar]"

lemmas sheet_defs =
  sheet_comma_def sheet_minus_def sheet_dot_def sheet_slash_def sheet_digit0_def sheet_digit1_def sheet_digit2_def
  sheet_digit3_def sheet_digit4_def sheet_digit5_def sheet_digit6_def sheet_digit7_def sheet_digit8_def sheet_digit9_def
  sheet_colon_def sheet_A_def sheet_B_def sheet_C_def sheet_D_def sheet_E_def sheet_F_def sheet_G_def sheet_H_def
  sheet_I_def sheet_J_def sheet_K_def sheet_L_def sheet_M_def sheet_N_def sheet_O_def sheet_P_def sheet_Q_def
  sheet_R_def sheet_S_def sheet_T_def sheet_U_def sheet_V_def sheet_W_def sheet_X_def sheet_Y_def sheet_Z_def
  sheet_bar_def

definition alphabet_pixmap :: pixmap where
  "alphabet_pixmap = \<lparr>px_columns = 44, px_lines = 3486, px_ncolors = 2, px_palette = alphabet_palette, px_rows = concat sheets\<rparr>"

text \<open>Every glyph is a sheet of 83 rows of 44 characters of the palette, written with maximal runs.\<close>

definition sheet_ok :: "char runs runs \<Rightarrow> bool" where
  "sheet_ok s \<longleftrightarrow> total s = 83 \<and> maximal s \<and> list_all (\<lambda>(n, r). row_ok 44 alphabet_palette r \<and> maximal r) s"

lemma sheet_comma_ok: "sheet_ok sheet_comma"
  by (simp add: sheet_ok_def row_ok_def alphabet_palette_def sheet_comma_def)

lemma sheet_minus_ok: "sheet_ok sheet_minus"
  by (simp add: sheet_ok_def row_ok_def alphabet_palette_def sheet_minus_def)

lemma sheet_dot_ok: "sheet_ok sheet_dot"
  by (simp add: sheet_ok_def row_ok_def alphabet_palette_def sheet_dot_def)

lemma sheet_slash_ok: "sheet_ok sheet_slash"
  by (simp add: sheet_ok_def row_ok_def alphabet_palette_def sheet_slash_def)

lemma sheet_digit0_ok: "sheet_ok sheet_digit0"
  by (simp add: sheet_ok_def row_ok_def alphabet_palette_def sheet_digit0_def)

lemma sheet_digit1_ok: "sheet_ok sheet_digit1"
  by (simp add: sheet_ok_def row_ok_def alphabet_palette_def sheet_digit1_def)

lemma sheet_digit2_ok: "sheet_ok sheet_digit2"
  by (simp add: sheet_ok_def row_ok_def alphabet_palette_def sheet_digit2_def)

lemma sheet_digit3_ok: "sheet_ok sheet_digit3"
  by (simp add: sheet_ok_def row_ok_def alphabet_palette_def sheet_digit3_def)

lemma sheet_digit4_ok: "sheet_ok sheet_digit4"
  by (simp add: sheet_ok_def row_ok_def alphabet_palette_def sheet_digit4_def)

lemma sheet_digit5_ok: "sheet_ok sheet_digit5"
  by (simp add: sheet_ok_def row_ok_def alphabet_palette_def sheet_digit5_def)

lemma sheet_digit6_ok: "sheet_ok sheet_digit6"
  by (simp add: sheet_ok_def row_ok_def alphabet_palette_def sheet_digit6_def)

lemma sheet_digit7_ok: "sheet_ok sheet_digit7"
  by (simp add: sheet_ok_def row_ok_def alphabet_palette_def sheet_digit7_def)

lemma sheet_digit8_ok: "sheet_ok sheet_digit8"
  by (simp add: sheet_ok_def row_ok_def alphabet_palette_def sheet_digit8_def)

lemma sheet_digit9_ok: "sheet_ok sheet_digit9"
  by (simp add: sheet_ok_def row_ok_def alphabet_palette_def sheet_digit9_def)

lemma sheet_colon_ok: "sheet_ok sheet_colon"
  by (simp add: sheet_ok_def row_ok_def alphabet_palette_def sheet_colon_def)

lemma sheet_A_ok: "sheet_ok sheet_A"
  by (simp add: sheet_ok_def row_ok_def alphabet_palette_def sheet_A_def)

lemma sheet_B_ok: "sheet_ok sheet_B"
  by (simp add: sheet_ok_def row_ok_def alphabet_palette_def sheet_B_def)

lemma sheet_C_ok: "sheet_ok sheet_C"
  by (simp add: sheet_ok_def row_ok_def alphabet_palette_def sheet_C_def)

lemma sheet_D_ok: "sheet_ok sheet_D"
  by (simp add: sheet_ok_def row_ok_def alphabet_palette_def sheet_D_def)

lemma sheet_E_ok: "sheet_ok sheet_E"
  by (simp add: sheet_ok_def row_ok_def alphabet_palette_def sheet_E_def)

lemma sheet_F_ok: "sheet_ok sheet_F"
  by (simp add: sheet_ok_def row_ok_def alphabet_palette_def sheet_F_def)

lemma sheet_G_ok: "sheet_ok sheet_G"
  by (simp add: sheet_ok_def row_ok_def alphabet_palette_def sheet_G_def)

lemma sheet_H_ok: "sheet_ok sheet_H"
  by (simp add: sheet_ok_def row_ok_def alphabet_palette_def sheet_H_def)

lemma sheet_I_ok: "sheet_ok sheet_I"
  by (simp add: sheet_ok_def row_ok_def alphabet_palette_def sheet_I_def)

lemma sheet_J_ok: "sheet_ok sheet_J"
  by (simp add: sheet_ok_def row_ok_def alphabet_palette_def sheet_J_def)

lemma sheet_K_ok: "sheet_ok sheet_K"
  by (simp add: sheet_ok_def row_ok_def alphabet_palette_def sheet_K_def)

lemma sheet_L_ok: "sheet_ok sheet_L"
  by (simp add: sheet_ok_def row_ok_def alphabet_palette_def sheet_L_def)

lemma sheet_M_ok: "sheet_ok sheet_M"
  by (simp add: sheet_ok_def row_ok_def alphabet_palette_def sheet_M_def)

lemma sheet_N_ok: "sheet_ok sheet_N"
  by (simp add: sheet_ok_def row_ok_def alphabet_palette_def sheet_N_def)

lemma sheet_O_ok: "sheet_ok sheet_O"
  by (simp add: sheet_ok_def row_ok_def alphabet_palette_def sheet_O_def)

lemma sheet_P_ok: "sheet_ok sheet_P"
  by (simp add: sheet_ok_def row_ok_def alphabet_palette_def sheet_P_def)

lemma sheet_Q_ok: "sheet_ok sheet_Q"
  by (simp add: sheet_ok_def row_ok_def alphabet_palette_def sheet_Q_def)

lemma sheet_R_ok: "sheet_ok sheet_R"
  by (simp add: sheet_ok_def row_ok_def alphabet_palette_def sheet_R_def)

lemma sheet_S_ok: "sheet_ok sheet_S"
  by (simp add: sheet_ok_def row_ok_def alphabet_palette_def sheet_S_def)

lemma sheet_T_ok: "sheet_ok sheet_T"
  by (simp add: sheet_ok_def row_ok_def alphabet_palette_def sheet_T_def)

lemma sheet_U_ok: "sheet_ok sheet_U"
  by (simp add: sheet_ok_def row_ok_def alphabet_palette_def sheet_U_def)

lemma sheet_V_ok: "sheet_ok sheet_V"
  by (simp add: sheet_ok_def row_ok_def alphabet_palette_def sheet_V_def)

lemma sheet_W_ok: "sheet_ok sheet_W"
  by (simp add: sheet_ok_def row_ok_def alphabet_palette_def sheet_W_def)

lemma sheet_X_ok: "sheet_ok sheet_X"
  by (simp add: sheet_ok_def row_ok_def alphabet_palette_def sheet_X_def)

lemma sheet_Y_ok: "sheet_ok sheet_Y"
  by (simp add: sheet_ok_def row_ok_def alphabet_palette_def sheet_Y_def)

lemma sheet_Z_ok: "sheet_ok sheet_Z"
  by (simp add: sheet_ok_def row_ok_def alphabet_palette_def sheet_Z_def)

lemma sheet_bar_ok: "sheet_ok sheet_bar"
  by (simp add: sheet_ok_def row_ok_def alphabet_palette_def sheet_bar_def)

lemmas sheet_oks =
  sheet_comma_ok sheet_minus_ok sheet_dot_ok sheet_slash_ok sheet_digit0_ok sheet_digit1_ok sheet_digit2_ok
  sheet_digit3_ok sheet_digit4_ok sheet_digit5_ok sheet_digit6_ok sheet_digit7_ok sheet_digit8_ok sheet_digit9_ok
  sheet_colon_ok sheet_A_ok sheet_B_ok sheet_C_ok sheet_D_ok sheet_E_ok sheet_F_ok sheet_G_ok sheet_H_ok sheet_I_ok
  sheet_J_ok sheet_K_ok sheet_L_ok sheet_M_ok sheet_N_ok sheet_O_ok sheet_P_ok sheet_Q_ok sheet_R_ok sheet_S_ok
  sheet_T_ok sheet_U_ok sheet_V_ok sheet_W_ok sheet_X_ok sheet_Y_ok sheet_Z_ok sheet_bar_ok

lemma sheets_ok: "list_all sheet_ok sheets" and sheets_length: "length sheets = 42"
  by (simp_all add: sheets_def sheet_oks)

lemma sheet_nth_ok: "i < 42 \<Longrightarrow> sheet_ok (sheets ! i)"
  using sheets_ok sheets_length by (simp add: list_all_length)

lemma alphabet_pixmap_ok: "pixmap_ok alphabet_pixmap"
proof -
  have "total (concat ss) = 83 * length ss" if "list_all sheet_ok ss" for ss
    using that by (induction ss) (simp_all add: total_def sheet_ok_def)
  moreover have "list_all (\<lambda>(n, r). row_ok 44 alphabet_palette r) (concat sheets)"
    using sheets_ok by (fastforce simp: list_all_iff sheet_ok_def)
  ultimately show ?thesis
    using sheets_ok sheets_length by (simp add: pixmap_ok_def alphabet_pixmap_def alphabet_palette_def)
qed

text \<open>A number that tells the glyphs apart: their ink, weighted by the runs of rows it is in.\<close>

fun ink_of :: "char runs \<Rightarrow> nat" where
  "ink_of [] = 0"
| "ink_of ((n, c) # r) = (if c = CHR ''.'' then n else 0) + ink_of r"

fun ink_moment :: "nat \<Rightarrow> char runs runs \<Rightarrow> nat" where
  "ink_moment k [] = 0"
| "ink_moment k ((n, r) # s) = k * n * ink_of r + ink_moment (k + 1) s"

lemma sheets_distinct: "distinct sheets"
proof -
  have "distinct (map (ink_moment 0) sheets)" by (simp add: sheets_def sheet_defs)
  then show ?thesis by (simp add: distinct_map)
qed

text \<open>The rows of a glyph inside the pixmap.\<close>

lemma alphabet_row:
  assumes "i < 42" "y < 83"
  shows "px_row alphabet_pixmap (i * 83 + y) = map (colour alphabet_palette) (expand (expand (sheets ! i) ! y))"
proof -
  have "expand (concat ss) = concat (map expand ss)" for ss :: "char runs runs list" by (induction ss) simp_all
  moreover have "length xs = 83" if "xs \<in> set (map expand sheets)" for xs
    using that sheets_ok by (auto simp: list_all_iff sheet_ok_def)
  ultimately show ?thesis
    using nth_concat_equal [of "map expand sheets" 83 i y] assms sheets_length by (simp add: px_row_def alphabet_pixmap_def)
qed

lemma sheet_row_in: "i < 42 \<Longrightarrow> y < 83 \<Longrightarrow> expand (sheets ! i) ! y \<in> set (expand (px_rows alphabet_pixmap))"
proof -
  assume i: "i < 42" and y: "y < 83"
  have "expand (sheets ! i) ! y \<in> set (expand (sheets ! i))" using sheet_nth_ok [OF i] y by (simp add: sheet_ok_def)
  moreover have "set (expand s) \<subseteq> set (expand (concat ss))" if "s \<in> set ss" for s and ss :: "char runs runs list"
    using that by (induction ss) auto
  moreover have "sheets ! i \<in> set sheets" using i sheets_length by simp
  ultimately show ?thesis by (auto simp: alphabet_pixmap_def)
qed

lemma differ_at: "length xs = length ys \<Longrightarrow> xs \<noteq> ys \<Longrightarrow> \<exists>k < length xs. xs ! k \<noteq> ys ! k"
  using nth_equalityI by blast

lemma sheets_differ:
  assumes "i < 42" "j < 42" "i \<noteq> j"
  shows "\<exists>y < 83. \<exists>x < 44. expand (expand (sheets ! i) ! y) ! x \<noteq> expand (expand (sheets ! j) ! y) ! x"
proof -
  let ?s = "sheets ! i" and ?t = "sheets ! j"
  have ok: "sheet_ok ?s" "sheet_ok ?t" using assms sheet_nth_ok by blast+
  have "?s \<noteq> ?t" using assms sheets_distinct sheets_length by (simp add: nth_eq_iff_index_eq)
  with ok have "expand ?s \<noteq> expand ?t" "length (expand ?s) = length (expand ?t)" using expand_inj by (auto simp: sheet_ok_def)
  from differ_at [OF this(2,1)] obtain y where y: "y < 83" "expand ?s ! y \<noteq> expand ?t ! y" using ok(1) by (auto simp: sheet_ok_def)
  have row: "maximal r \<and> total r = 44" if "r \<in> set (expand u)" "sheet_ok u" for r u
    using that set_expand [of u] by (fastforce simp: sheet_ok_def row_ok_def list_all_iff)
  have "expand ?s ! y \<in> set (expand ?s)" "expand ?t ! y \<in> set (expand ?t)" using y(1) ok by (simp_all add: sheet_ok_def)
  with row ok have r: "maximal (expand ?s ! y)" "total (expand ?s ! y) = 44" "maximal (expand ?t ! y)" "total (expand ?t ! y) = 44" by blast+
  then have "expand (expand ?s ! y) \<noteq> expand (expand ?t ! y)" using y(2) expand_inj by blast
  from differ_at [OF _ this] r y(1) show ?thesis by auto
qed

lemma sheet_chars:
  assumes "i < 42" "y < 83" "x < 44"
  shows "expand (expand (sheets ! i) ! y) ! x \<in> {CHR '' '', CHR ''.''}"
proof -
  let ?r = "expand (sheets ! i) ! y"
  have ok: "sheet_ok (sheets ! i)" using assms(1) sheet_nth_ok by blast
  then have "?r \<in> set (expand (sheets ! i))" using assms(2) by (simp add: sheet_ok_def)
  then have r: "total ?r = 44" "list_all (\<lambda>(n, c). c \<in> {CHR '' '', CHR ''.''}) ?r"
    using ok set_expand [of "sheets ! i"] by (fastforce simp: sheet_ok_def row_ok_def list_all_iff alphabet_palette_def)+
  then have "expand ?r ! x \<in> set (expand ?r)" using assms(3) by simp
  then show ?thesis using r(2) set_expand [of ?r] by (fastforce simp: list_all_iff)
qed

lemma alphabet_colour_inj:
  "c \<in> {CHR '' '', CHR ''.''} \<Longrightarrow> d \<in> {CHR '' '', CHR ''.''} \<Longrightarrow> c \<noteq> d \<Longrightarrow> colour alphabet_palette c \<noteq> colour alphabet_palette d"
  by (auto simp: colour_def alphabet_palette_def)

end
