(* ===== verification/Artwork.thy ===== *)
theory Artwork
  imports Mouse_Manager Alphabet
begin

text \<open>
  The pixmaps of the repository as the images the program works with.  \<open>indexed_loader\<close> is the documented behaviour of \<open>xpm_load\<close> in
  indexed mode on these pixmaps; it satisfies the assumption the program's theorems make about the loader, because all pixmaps are
  well-formed and have the sizes the program uses.  With it the lemmas say what is seen: the cursor's hot spot, the background of the logo, and
  that no two characters look alike.
\<close>

fun pixmap_of :: "asset \<Rightarrow> pixmap" where
  "pixmap_of block_xpm = block_pixmap"
| "pixmap_of player_xpm = player_pixmap"
| "pixmap_of mouse_xpm = mouse_pixmap"
| "pixmap_of logo_xpm = logo_pixmap"
| "pixmap_of play_button_xpm = play_button_pixmap"
| "pixmap_of leaderboard_button_xpm = leaderboard_button_pixmap"
| "pixmap_of quit_button_xpm = quit_button_pixmap"
| "pixmap_of trophy_xpm = trophy_pixmap"
| "pixmap_of alphabet_sprites = alphabet_pixmap"

lemmas pixmap_defs = block_pixmap_def player_pixmap_def mouse_pixmap_def logo_pixmap_def play_button_pixmap_def
  leaderboard_button_pixmap_def quit_button_pixmap_def trophy_pixmap_def alphabet_pixmap_def

lemmas pixmap_oks = block_pixmap_ok player_pixmap_ok mouse_pixmap_ok logo_pixmap_ok play_button_pixmap_ok
  leaderboard_button_pixmap_ok quit_button_pixmap_ok trophy_pixmap_ok alphabet_pixmap_ok

lemma pixmap_of_ok: "pixmap_ok (pixmap_of a)"
  by (cases a) (simp_all add: pixmap_oks)

lemma pixmap_of_dims: "int (px_columns (pixmap_of a)) = fst (xpm_dims a)" "int (px_lines (pixmap_of a)) = snd (xpm_dims a)"
  by (cases a; simp add: pixmap_defs dims_defs)+

definition indexed_loader :: loader where
  "indexed_loader a =
     (let p = pixmap_of a in
      if pixmap_ok p
      then (Some (px_bytes p), \<lparr>img_type = XPM_INDEXED, img_width = of_nat (px_columns p), img_height = of_nat (px_lines p), img_bytes = px_bytes p\<rparr>)
      else (None, \<lparr>img_type = INVALID_XPM, img_width = 0, img_height = 0, img_bytes = []\<rparr>))"

lemma indexed_loader_ok: "loader_ok indexed_loader"
  unfolding loader_ok_def
proof
  fix a
  have "fst (xpm_dims a) < 65536" "snd (xpm_dims a) < 65536" by (cases a; simp add: dims_defs)+
  then have "px_columns (pixmap_of a) < 65536" "px_lines (pixmap_of a) < 65536" using pixmap_of_dims [of a] by linarith+
  then have "uint (of_nat (px_columns (pixmap_of a)) :: u16) = fst (xpm_dims a)" "uint (of_nat (px_lines (pixmap_of a)) :: u16) = snd (xpm_dims a)"
    using pixmap_of_dims [of a] by (simp_all add: unsigned_of_nat take_bit_eq_mod)
  moreover have "int (length (px_bytes (pixmap_of a))) = fst (xpm_dims a) * snd (xpm_dims a)"
    using px_bytes_length [OF pixmap_of_ok, of a] pixmap_of_dims [of a] by simp
  ultimately show "case indexed_loader a of (colors, im) \<Rightarrow> img_type im = XPM_INDEXED \<and> colors = Some (img_bytes im) \<and>
     uint (img_width im) = fst (xpm_dims a) \<and> uint (img_height im) = snd (xpm_dims a) \<and>
     int (length (img_bytes im)) = fst (xpm_dims a) * snd (xpm_dims a)"
    by (simp add: indexed_loader_def pixmap_of_ok Let_def)
qed

lemma indexed_pixel:
  assumes "x < px_columns (pixmap_of a)" "y < px_lines (pixmap_of a)"
  shows "img_pixel (snd (indexed_loader a)) (int x) (int y) = px_row (pixmap_of a) y ! x"
proof -
  obtain cs im where im: "indexed_loader a = (cs, im)" by (cases "indexed_loader a")
  then have "img_bytes im = px_bytes (pixmap_of a)" by (auto simp: indexed_loader_def pixmap_of_ok Let_def)
  moreover have "uint (img_width im) = int (px_columns (pixmap_of a))"
    using loader_okD(3) [OF indexed_loader_ok im] pixmap_of_dims(1) [of a] by simp
  moreover have "nat (int y * int w + int x) = y * w + x" for w by (simp flip: of_nat_mult of_nat_add)
  ultimately show ?thesis using px_bytes_nth [OF pixmap_of_ok assms(2,1)] im by (simp add: img_pixel_def)
qed

section \<open>The cursor\<close>

lemma mouse_first_row:
  "img_pixel (snd (indexed_loader mouse_xpm)) 9 0 = 99" "img_pixel (snd (indexed_loader mouse_xpm)) 10 0 = 63"
  "img_pixel (snd (indexed_loader mouse_xpm)) 34 0 = 63" "img_pixel (snd (indexed_loader mouse_xpm)) 35 0 = 63"
  using indexed_pixel [of 9 mouse_xpm 0] indexed_pixel [of 10 mouse_xpm 0] indexed_pixel [of 34 mouse_xpm 0] indexed_pixel [of 35 mouse_xpm 0]
    px_row_zero [of mouse_pixmap 2 "[(10, sp), (4, dt), (20, sp), (2, dt), (22, sp)]"]
  by (simp_all add: mouse_pixmap_def mouse_rows_def mouse_palette_def colour_def nth_append)

text \<open>The arrow's tip is the pixel at the mouse position; the hand, which is drawn 9 pixels to the left of the position, leaves the pixel at
  the position transparent and has its finger tip one pixel to the right of it.\<close>

theorem cursor_hot_spot:
  assumes "Mouse_init indexed_loader raw m0 h = Ok (m, h')" "Mouse_state st m = Ok m'"
  shows "cursor_picture m' (vx (mouse_pos m')) (vy (mouse_pos m')) = (if st = MOUSE_NORMAL then Some 63 else None) \<and>
    cursor_picture m' (vx (mouse_pos m') + 1) (vy (mouse_pos m')) = Some 63"
proof -
  from assms(1) obtain s where s: "mouse_sprite m = Some s" "\<not> hidden m" "img s = Some (snd (indexed_loader mouse_xpm))"
      "offsets s = [VEC2 0 0, VEC2 34 0]" "sizes s = [VEC2 34 42, VEC2 24 38]" "transparent s"
    by (auto simp: Mouse_init_def Sprite_create_def Sprite_init_def Sprite_xpm_load_def split: if_splits option.splits prod.splits)
  let ?s = "s\<lparr>current_frame := mouse_state_value st\<rparr>"
  have m': "m' = m\<lparr>mouse_sprite := Some ?s\<rparr>" using assms(2) s(1) by (simp add: Mouse_state_def)
  show ?thesis
    by (cases st) (simp_all add: m' cursor_picture_def sprite_picture_def box_def opaque_def s(2-6) mouse_first_row Let_def)
qed

section \<open>The logo\<close>

text \<open>The logo's background has the transparent colour, but the sprite's flag is never set: depending on what its memory contained, the
  corner of the logo is left alone or painted with colour 99.\<close>

theorem logo_background_undetermined:
  "case Sprite_create indexed_loader raw logo_xpm [VEC2 0 0] [VEC2 540 108] 1 0 (mem + 4) of
     Ok (Some s, _) \<Rightarrow> sprite_picture s pos (vx pos) (vy pos) = (if transparent raw then None else Some 99)
   | _ \<Rightarrow> False"
proof -
  have "img_pixel (snd (indexed_loader logo_xpm)) 0 0 = 99"
    using indexed_pixel [of 0 logo_xpm 0] px_row_zero [of logo_pixmap 4 "[(80, sp), (40, dt), (420, sp)]"]
    by (simp add: logo_pixmap_def logo_rows_def logo_palette_def colour_def nth_append)
  then show ?thesis
    by (simp add: Sprite_create_def Sprite_init_def Sprite_xpm_load_def sprite_picture_def box_def opaque_def Let_def split: prod.splits)
qed

section \<open>The alphabet\<close>

lemma char_index_range: "char_index c = Some i \<Longrightarrow> 0 \<le> i \<and> i < 42"
  by (auto simp: char_index_def Let_def split: if_splits)

lemma char_index_inj: "char_index c = Some i \<Longrightarrow> char_index d = Some i \<Longrightarrow> c = d"
proof -
  assume i: "char_index c = Some i" "char_index d = Some i"
  have "(of_char c :: nat) = of_char d" using i by (auto simp: char_index_def Let_def split: if_splits)
  then show ?thesis by simp
qed

lemma alphabet_pixel:
  assumes "k < 42" "y < 83" "x < 44"
  shows "img_pixel (snd (indexed_loader alphabet_sprites)) (int x) (int (k * 83 + y)) = colour alphabet_palette (expand (expand (sheets ! k) ! y) ! x)"
proof -
  have size: "px_columns (pixmap_of alphabet_sprites) = 44" "px_lines (pixmap_of alphabet_sprites) = 3486" by (simp_all add: alphabet_pixmap_def)
  have "total (expand (sheets ! k) ! y) = 44"
    using pixmap_row_length [OF alphabet_pixmap_ok, of "expand (sheets ! k) ! y"] sheet_row_in [OF assms(1,2)] by (simp add: alphabet_pixmap_def)
  moreover have "k * 83 + y < 3486" using assms by linarith
  ultimately show ?thesis
    using indexed_pixel [of x alphabet_sprites "k * 83 + y"] size alphabet_row [OF assms(1,2)] assms(3) by simp
qed

text \<open>The glyphs of two different characters of the alphabet differ in some pixel of the rectangle the menus cut out for them.\<close>

theorem glyphs_differ:
  assumes "char_index c = Some i" "char_index d = Some j" "c \<noteq> d"
  shows "\<exists>x y. 0 \<le> x \<and> x < cs_width (calculate_char_coord c) \<and> 0 \<le> y \<and> y < cs_height (calculate_char_coord c) \<and>
    img_pixel (snd (indexed_loader alphabet_sprites)) (cs_x (calculate_char_coord c) + x) (cs_y (calculate_char_coord c) + y) \<noteq>
    img_pixel (snd (indexed_loader alphabet_sprites)) (cs_x (calculate_char_coord d) + x) (cs_y (calculate_char_coord d) + y)"
proof -
  define n m where "n = nat i" and "m = nat j"
  then have n: "i = int n" "n < 42" and m: "j = int m" "m < 42"
    using char_index_range [OF assms(1)] char_index_range [OF assms(2)] by auto
  have "n \<noteq> m" using assms char_index_inj n(1) m(1) by blast
  from sheets_differ [OF n(2) m(2) this] obtain y x where yx: "y < 83" "x < 44"
      "expand (expand (sheets ! n) ! y) ! x \<noteq> expand (expand (sheets ! m) ! y) ! x" by blast
  note pix = alphabet_pixel [OF _ yx(1,2)]
  have "colour alphabet_palette (expand (expand (sheets ! n) ! y) ! x) \<noteq> colour alphabet_palette (expand (expand (sheets ! m) ! y) ! x)"
    by (rule alphabet_colour_inj [OF sheet_chars [OF n(2) yx(1,2)] sheet_chars [OF m(2) yx(1,2)] yx(3)])
  then have "img_pixel (snd (indexed_loader alphabet_sprites)) (0 + int x) (int n * 83 + int y) \<noteq>
      img_pixel (snd (indexed_loader alphabet_sprites)) (0 + int x) (int m * 83 + int y)"
    using pix [OF n(2)] pix [OF m(2)] by simp
  moreover have "cs_x (calculate_char_coord c) = 0" "cs_x (calculate_char_coord d) = 0" "cs_y (calculate_char_coord c) = int n * 83"
    "cs_y (calculate_char_coord d) = int m * 83" "cs_width (calculate_char_coord c) = 44" "cs_height (calculate_char_coord c) = 83"
    using assms(1,2) n(1) m(1) by (simp_all add: calculate_char_coord_def CHAR_HEIGHT_def CHAR_WIDTH_def)
  ultimately show ?thesis using yx(1,2) by (intro exI [of _ "int x"] exI [of _ "int y"]) simp
qed

theorem cursor_hot_spot_witness:
  "\<exists>m h' m'. Mouse_init indexed_loader (\<lambda>_. raw_sprite) mouse_mgr_start (heap_start 1000) = Ok (m, h') \<and> Mouse_state MOUSE_CLICK m = Ok m' \<and>
     cursor_picture m' (vx (mouse_pos m')) (vy (mouse_pos m')) = None"
proof -
  obtain m h' where m: "Mouse_init indexed_loader (\<lambda>_. raw_sprite) mouse_mgr_start (heap_start 1000) = Ok (m, h')" "mouse_ok mode105_gpu m"
    using Mouse_init_ok [OF indexed_loader_ok, of "heap_start 1000" mouse_mgr_start mode105_gpu "\<lambda>_. raw_sprite"]
    by (auto simp: heap_start_def mouse_mgr_start_def)
  obtain m' where m': "Mouse_state MOUSE_CLICK m = Ok m'" using Mouse_state_ok [OF m(2)] by blast
  from cursor_hot_spot [OF m(1) m'] m(1) m' show ?thesis by auto
qed

theorem glyphs_differ_witness:
  "\<exists>x y. 0 \<le> x \<and> 0 \<le> y \<and> img_pixel (snd (indexed_loader alphabet_sprites)) x (1245 + y) \<noteq> img_pixel (snd (indexed_loader alphabet_sprites)) x (1328 + y)"
  using glyphs_differ [of "CHR ''A''" 15 "CHR ''B''" 16] by (auto simp: char_index_def calculate_char_coord_def CHAR_HEIGHT_def CHAR_WIDTH_def)

end
