(* ===== verification/Scene.thy ===== *)
theory Scene
  imports Machine Artwork
begin

text \<open>
  What the player sees.  The elements of the menus have sprites with a single frame, so drawing them changes nothing on the heap, and both menus stay as they
  were built, whatever messages arrive.  With the pixmaps of the repository the lemmas give the colour of every painted pixel of the logo and the buttons in
  the frames that show the main menu, and of the glyphs of both lines of every entry in the frames that show the leaderboard.
\<close>

section \<open>Drawing still elements\<close>

definition still :: "ui_element option \<Rightarrow> bool" where
  "still el \<longleftrightarrow> (\<exists>e s im. el = Some e \<and> el_sprite e = Some s \<and> delay s = 0 \<and> img s = Some im \<and> img_type im \<noteq> INVALID_XPM)"

lemma realises_still: "loader_ok load \<Longrightarrow> realises load w e \<Longrightarrow> still e"
proof -
  assume load: "loader_ok load" and "realises load w e"
  then obtain s where e: "e = Some \<lparr>el_aabb = w_area w, el_sprite = Some s, on_click = w_click w\<rparr>" "delay s = 0"
      "img s = Some (snd (load (w_asset w)))"
    by (auto simp: realises_def widget_sprite_def)
  obtain colors im where im: "load (w_asset w) = (colors, im)" by fastforce
  with loader_okD(1) [OF load im] e show ?thesis by (simp add: still_def)
qed

lemma ui_element_draw_still: "still e \<Longrightarrow> ui_element_draw e g = Ok (e', g') \<Longrightarrow> e' = e"
  by (auto simp: still_def ui_element_draw_def Sprite_draw_def sprite_tick_def split: if_splits)

lemma menu_draw_loop_still:
  "path c p as None \<Longrightarrow> list_all still (contents c as) \<Longrightarrow> menu_draw_loop fuel c p g = Ok (c', g') \<Longrightarrow> c' = c"
proof (induction as arbitrary: p fuel g)
  case Nil
  then show ?case by (cases fuel) simp_all
next
  case (Cons a as)
  then obtain k where k: "fuel = Suc k" by (cases fuel) auto
  from Cons.prems(1) obtain n where n: "p = Some a" "c a = Some n" "path c (node_next n) as None" by auto
  have s: "still (node_data n)" "list_all still (contents c as)" using Cons.prems(2) n(2) by (simp_all add: contents_def)
  from Cons.prems(3) k n obtain e g1 where e: "ui_element_draw (node_data n) g = Ok (e, g1)"
      "menu_draw_loop k (c(a \<mapsto> n\<lparr>node_data := e\<rparr>)) (node_next n) g1 = Ok (c', g')"
    by auto
  have "c(a \<mapsto> n\<lparr>node_data := e\<rparr>) = c" using ui_element_draw_still [OF s(1) e(1)] n(2) by auto
  with Cons.IH [OF n(3) s(2)] e(2) show ?case by simp
qed

lemma Menu_draw_still:
  assumes "node_rep h (element m) A xs" "list_all still xs" "Menu_draw (Some m) h g = Ok (h', g')"
  shows "h' = h"
proof -
  from assms(1) obtain as where as: "path (cells h) (element m) as None" "contents (cells h) as = xs" by (auto simp: node_rep_def holds_def)
  with assms(2) menu_draw_loop_still [OF as(1)] assms(3) show ?thesis by (auto simp: Menu_draw_def)
qed

text \<open>A heap determines what a list holds.\<close>

lemma node_rep_unique: "node_rep h p A xs \<Longrightarrow> node_rep h p B ys \<Longrightarrow> xs = ys"
  using path_unique by (auto simp: node_rep_def holds_def)

section \<open>The menus keep their elements\<close>

definition menus_built :: "loader \<Rightarrow> Leaderboard \<Rightarrow> gamestate \<Rightarrow> ui_heap \<Rightarrow> bool" where
  "menus_built load board gs h \<longleftrightarrow> (\<exists>m l A B xs ys. main_menu gs = Some m \<and> leaderboard_menu gs = Some l \<and>
     node_rep h (element m) A xs \<and> list_all2 (realises load) main_widgets xs \<and>
     node_rep h (element l) B ys \<and> list_all2 (realises load) (board_widgets board) ys)"

lemma list_realises_still: "loader_ok load \<Longrightarrow> list_all2 (realises load) ws xs \<Longrightarrow> list_all still xs"
  by (auto simp: list_all2_conv_all_nth list_all_length intro: realises_still)

lemma draw_frame_menus:
  assumes load: "loader_ok load" and gs: "gamestate_ok (g_state st)" and built: "menus_built load board (g_state st) (g_heap st)"
    and d: "draw_frame st = Ok st'"
  shows "g_heap st' = g_heap st"
proof (cases "in_menu (g_state st)")
  case True
  from built obtain m l A B xs ys where b: "main_menu (g_state st) = Some m" "leaderboard_menu (g_state st) = Some l"
      "node_rep (g_heap st) (element m) A xs" "list_all still xs" "node_rep (g_heap st) (element l) B ys" "list_all still ys"
    unfolding menus_built_def using list_realises_still [OF load] by blast
  from True gs b(1,2) consider "Gamestate_get_current_menu (g_state st) = Some m" | "Gamestate_get_current_menu (g_state st) = Some l"
    by (auto simp: in_menu_def Gamestate_get_state_def Gamestate_get_current_menu_def gamestate_ok_def)
  then show ?thesis
  proof cases
    case 1
    then show ?thesis using d True Menu_draw_still [OF b(3,4)] by (auto simp: draw_frame_def split: prod.splits)
  next
    case 2
    then show ?thesis using d True Menu_draw_still [OF b(5,6)] by (auto simp: draw_frame_def split: prod.splits)
  qed
next
  case False
  then show ?thesis using d by (auto simp: draw_frame_def split: prod.splits)
qed

text \<open>Nothing else touches the heap or the menus.\<close>

lemma changed_menus [simp]:
  "menus_built load board (clicked m gs) h = menus_built load board gs h" "menus_built load board (Gamestate_change s gs) h = menus_built load board gs h"
  by (simp_all add: menus_built_def clicked_ok)

lemma on_timer_interrupt_menus:
  assumes load: "loader_ok load" and ok: "game_ok st" and built: "menus_built load board (g_state st) (g_heap st)"
    and d: "on_timer_interrupt st = Ok st'"
  shows "menus_built load board (g_state st') (g_heap st')"
proof (cases "skip_frame st")
  case True
  then have "st' = st\<lparr>skip_frame := False\<rparr>" using d by (simp add: on_timer_interrupt_def)
  then show ?thesis using built by simp
next
  case False
  with d obtain st1 where 1: "draw_frame st = Ok st1" "st' = st1\<lparr>skip_frame := \<not> skip_frame st1\<rparr>" by (auto simp: on_timer_interrupt_def)
  from draw_frame_ok [OF ok] 1(1) have "g_state st1 = clicked (g_cursor st) (g_state st)" by auto
  moreover have "g_heap st1 = g_heap st" using ok by (intro draw_frame_menus [OF load _ built 1(1)]) (simp add: game_ok_def)
  ultimately show ?thesis using 1(2) built by simp
qed

lemma handle_message_menus:
  assumes load: "loader_ok load" and ok: "game_ok st" and built: "menus_built load board (g_state st) (g_heap st)"
    and h: "handle_message env msg st = Ok st'"
  shows "menus_built load board (g_state st') (g_heap st')"
proof (cases msg)
  case (Interrupts irqs)
  let ?st1 = "if pending irqs (mouse_bit_no st) then on_mouse_interrupt env st else st"
  have heap: "g_heap (on_mouse_interrupt env st) = g_heap st" by (simp add: on_mouse_interrupt_def split: prod.splits)
  have 1: "game_ok ?st1" "menus_built load board (g_state ?st1) (g_heap ?st1)" using ok built on_mouse_interrupt_ok heap by simp_all
  from h Interrupts obtain st2 where 2: "(if pending irqs (kbc_bit_no ?st1) then on_keyboard_interrupt env ?st1 else Ok ?st1) = Ok st2"
      "(if pending irqs (timer_bit_no st2) then on_timer_interrupt st2 else Ok st2) = Ok st'"
    unfolding handle_message_def by (cases "if pending irqs (kbc_bit_no ?st1) then on_keyboard_interrupt env ?st1 else Ok ?st1") (simp_all add: Let_def)
  have kbd: "menus_built load board (g_state t') (g_heap t')" if "on_keyboard_interrupt env t = Ok t'" "menus_built load board (g_state t) (g_heap t)" for t t'
    using that by (auto simp: on_keyboard_interrupt_def Let_def Gamestate_quit_def split: prod.splits if_splits)
  have 3: "game_ok st2" "menus_built load board (g_state st2) (g_heap st2)"
    using 1 2(1) on_keyboard_interrupt_ok [OF 1(1), of env] kbd [of ?st1 st2] by (auto split: if_splits)
  then show ?thesis using 2(2) on_timer_interrupt_menus [OF load 3] by (auto split: if_splits)
qed (use h built in \<open>simp_all add: handle_message_def\<close>)

interpretation scene: message_driven "\<lambda>st. Gamestate_get_state (g_state st) \<noteq> GS_QUIT" "handle_message env"
    "\<lambda>st. game_ok st \<and> loader_ok load \<and> menus_built load board (g_state st) (g_heap st)" for env load board
proof
  fix msg s
  assume s: "game_ok s \<and> loader_ok load \<and> menus_built load board (g_state s) (g_heap s)"
  then obtain s' where "handle_message env msg s = Ok s'" "game_ok s'" using handle_message_ok by blast
  with s handle_message_menus show "\<exists>s'. handle_message env msg s = Ok s' \<and> game_ok s' \<and> loader_ok load \<and> menus_built load board (g_state s') (g_heap s')"
    by blast
qed

text \<open>Initialisation builds them.\<close>

lemma Gamestate_init_built:
  assumes h: "heap_ok h" "650 \<le> avail h" and read: "Leaderboard_read_file txt lb0 = Ok (r, bd)" and bd: "board_fits bd"
    and init: "Gamestate_init load raw txt lb0 gs h = Ok (gs', h')"
  shows "menus_built load bd gs' h'"
proof -
  have "25 \<le> avail h" using h(2) by simp
  from Menu_create_main_menu_ok [OF h(1) this, of load raw] obtain m h1 A xs where
    m: "Menu_create_main_menu load raw h = Ok (m, h1)" "node_rep h1 (element m) A xs"
      "list_all2 (realises load) main_widgets xs" "avail h1 = avail h - 25"
    by blast
  have "heap_ok h1" using m(2) by (auto simp: node_rep_def holds_def)
  moreover have "entry_count bd \<le> 3" using bd by (simp add: board_fits_def)
  then have "13 + 204 * entry_count bd \<le> avail h1" using m(4) h(2) by simp
  ultimately obtain l h2 B ys where
    l: "Menu_create_leaderboard load raw bd h1 = Ok (l, h2)" "node_rep h2 (element l) B ys"
      "list_all2 (realises load) (board_widgets bd) ys" "leaves_others h1 {} h2 B"
    using Menu_create_leaderboard_ok [of h1 bd load raw] bd by blast
  have "node_rep h2 (element m) A xs" using l(4) m(2) unfolding leaves_others_def by blast
  moreover have "gs' = Gamestate_main_menu (gs\<lparr>main_menu := Some m, leaderboard_menu := Some l\<rparr>)" "h' = h2"
    using init m(1) l(1) read by (simp_all add: Gamestate_init_def Let_def)
  moreover have "menus_built load bd (gs\<lparr>main_menu := Some m, leaderboard_menu := Some l\<rparr>) h2"
    unfolding menus_built_def by (simp, intro exI conjI) (rule \<open>node_rep h2 (element m) A xs\<close> m(3) l(2,3))+
  ultimately show ?thesis by (simp add: Gamestate_main_menu_def)
qed

lemma proj_init_built:
  assumes env: "env_ok env" and st: "fresh_game st" and init: "proj_init env st = Ok (0, st')"
    and read: "Leaderboard_read_file (e_file env) (e_board env) = Ok (r, bd)"
  shows "game_ok st' \<and> loader_ok (e_load env) \<and> menus_built (e_load env) bd (g_state st') (g_heap st')"
proof -
  have ok: "game_ok st'" using proj_init_ok [OF env st] init by simp
  have load: "loader_ok (e_load env)" using env by (simp add: env_ok_def)
  obtain st1 where 1: "proj_init_devices env st = (Some (), st1)" "proj_init_game env st1 = Ok (0, st')"
    using init by (auto simp: proj_init_def split: prod.splits option.splits)
  have "st1 = st\<lparr>g_kbd := g_kbd st1, g_timer := g_timer st1,
     g_mouse := (g_mouse st)\<lparr>mouse_hook_id := mouse_hook_id (g_mouse st1)\<rparr>, g_trace := g_trace st1,
     timer_bit_no := timer_bit_no st1, kbc_bit_no := kbc_bit_no st1, mouse_bit_no := mouse_bit_no st1\<rparr>"
    using proj_init_devices_frame [of st1 env st] 1(1) by simp
  from arg_cong [OF this, of fresh_game] have st1: "fresh_game st1" using st by (simp only: fresh_game_frame)
  have bd: "board_fits bd" using env read by (auto simp: env_ok_def)
  from 1(2) obtain m h gs h' where gs: "Mouse_init (e_load env) (e_raw env) (g_cursor st1) (g_heap st1) = Ok (m, h)"
      "Gamestate_init (e_load env) (e_raw env) (e_file env) (e_board env) (g_state st1) h = Ok (gs, h')" "g_state st' = gs" "g_heap st' = h'"
    by (auto simp: proj_init_game_def Let_def split: if_splits)
  have "4 \<le> avail (g_heap st1)" "length (buttons (g_cursor st1)) = 3" "length (prev_buttons (g_cursor st1)) = 3"
    using st1 by (simp_all add: fresh_game_def)
  from Mouse_init_ok [OF load this, of mode105_gpu "e_raw env"] gs(1) have h: "h = (g_heap st1)\<lparr>avail := avail (g_heap st1) - 4\<rparr>" by simp
  have "heap_ok h" "650 \<le> avail h" using st1 by (auto simp: h fresh_game_def heap_ok_def)
  from Gamestate_init_built [OF this read bd gs(2)] gs(3,4) ok load show ?thesis by simp
qed

text \<open>Every state of the running game has the menus of the pixmaps and the leaderboard that were loaded; its frames show the elements of the current menu.\<close>

lemma run_built:
  assumes "env_ok env" "fresh_game st0" "proj_init env st0 = Ok (0, st1)" "Leaderboard_read_file (e_file env) (e_board env) = Ok (r, bd)"
    "game_loop env msgs (st1\<lparr>skip_frame := False\<rparr>) = Ok (ended, st)"
  shows "game_ok st" "menus_built (e_load env) bd (g_state st) (g_heap st)"
proof -
  from proj_init_built [OF assms(1-4)]
  have "game_ok (st1\<lparr>skip_frame := False\<rparr>) \<and> loader_ok (e_load env) \<and>
      menus_built (e_load env) bd (g_state (st1\<lparr>skip_frame := False\<rparr>)) (g_heap (st1\<lparr>skip_frame := False\<rparr>))"
    by (simp add: game_ok_def)
  from scene.loop_ok [OF this, of env msgs] assms(5)
  show "game_ok st" "menus_built (e_load env) bd (g_state st) (g_heap st)" by (auto simp: game_loop_def)
qed

lemma frame_shows_menu:
  assumes ok: "game_ok st" and menu: "Gamestate_get_current_menu (g_state st) = Some m" "node_rep (g_heap st) (element m) A xs"
    and skip: "\<not> skip_frame st"
  shows "\<exists>st'. on_timer_interrupt st = Ok st' \<and> (\<forall>a b c. on_screen (g_gpu st) a b \<longrightarrow> cursor_picture (g_cursor st') a b = None \<longrightarrow>
    menu_picture xs a b = Some c \<longrightarrow> shown (g_gpu st') a b = c)"
proof -
  from draw_frame_ok [OF ok] obtain st2 P where d: "draw_frame st = Ok st2" "menu_layer st P"
      "\<And>a b. on_screen (g_gpu st) a b \<Longrightarrow> shown (g_gpu st2) a b =
         (case over (cursor_picture (g_cursor st2)) P a b of None \<Rightarrow> pixel (g_gpu st) a b | Some c \<Rightarrow> c)"
    by blast
  have "P = menu_picture xs" using d(2) menu by (auto simp: menu_layer_def dest: node_rep_unique [OF menu(2)])
  moreover have "skip_frame st2 = skip_frame st" using d(1) by (auto simp: draw_frame_def split: prod.splits)
  ultimately show ?thesis
    using d(1,3) skip by (intro exI [of _ "st2\<lparr>skip_frame := True\<rparr>"]) (simp add: on_timer_interrupt_def over_def)
qed

section \<open>The main menu on the screen\<close>

text \<open>A point of a realised element shows the pixmap's colour, unless that is the transparent one.\<close>

lemma realised_pixel:
  assumes "realises load w e" "0 \<le> x" "x < vx (w_size w)" "0 \<le> y" "y < vy (w_size w)"
    "img_pixel (snd (load (w_asset w))) (vx (w_offset w) + x) (vy (w_offset w) + y) = c" "c \<noteq> 99"
  shows "element_picture e (vx (position (w_area w)) + x) (vy (position (w_area w)) + y) = Some c"
  using assms by (auto simp: realises_def widget_sprite_def element_picture_def sprite_picture_def box_def opaque_def Let_def)

lemma realised_outside:
  assumes "realises load w e" "b < vy (position (w_area w)) \<or> vy (position (w_area w)) + vy (w_size w) \<le> b"
  shows "element_picture e a b = None"
  using assms by (auto simp: realises_def widget_sprite_def element_picture_def sprite_picture_def box_def Let_def)

lemma main_picture:
  assumes xs: "list_all2 (realises load) main_widgets xs" and w: "w \<in> set main_widgets"
    and xy: "0 \<le> x" "x < vx (w_size w)" "0 \<le> y" "y < vy (w_size w)"
    and c: "img_pixel (snd (load (w_asset w))) (vx (w_offset w) + x) (vy (w_offset w) + y) = c" "c \<noteq> 99"
  shows "menu_picture xs (vx (position (w_area w)) + x) (vy (position (w_area w)) + y) = Some c"
proof -
  let ?a = "vx (position (w_area w)) + x" and ?b = "vy (position (w_area w)) + y"
  from xs obtain e0 e1 e2 e3 where e: "xs = [e0, e1, e2, e3]" "realises load (main_widgets ! 0) e0" "realises load (main_widgets ! 1) e1"
      "realises load (main_widgets ! 2) e2" "realises load (main_widgets ! 3) e3"
    by (auto simp: main_widgets_def list_all2_Cons1)
  have pixel: "element_picture el ?a ?b = Some c" if "realises load w el" for el
    by (rule realised_pixel [OF that xy c])
  note outside = realised_outside [OF e(2), of ?b ?a] realised_outside [OF e(3), of ?b ?a] realised_outside [OF e(4), of ?b ?a]
    realised_outside [OF e(5), of ?b ?a]
  from w consider "w = main_widgets ! 0" | "w = main_widgets ! 1" | "w = main_widgets ! 2" | "w = main_widgets ! 3"
    by (auto simp: main_widgets_def)
  then show ?thesis
  proof cases
    case 1
    then have "element_picture e0 ?a ?b = Some c" using pixel e(2) by simp
    with 1 outside xy show ?thesis by (simp add: e(1) over_def blank_def main_widgets_def)
  next
    case 2
    then have "element_picture e1 ?a ?b = Some c" using pixel e(3) by simp
    with 2 outside xy show ?thesis by (simp add: e(1) over_def blank_def main_widgets_def)
  next
    case 3
    then have "element_picture e2 ?a ?b = Some c" using pixel e(4) by simp
    with 3 outside xy show ?thesis by (simp add: e(1) over_def blank_def main_widgets_def)
  next
    case 4
    then have "element_picture e3 ?a ?b = Some c" using pixel e(5) by simp
    with 4 outside xy show ?thesis by (simp add: e(1) over_def blank_def main_widgets_def)
  qed
qed

text \<open>C6: with the repository's pixmaps, every frame that shows the main menu, after any messages since a successful initialisation, shows the logo and the three
  buttons where the menu places them: each of their pixels that is on the screen, not of the transparent colour and not under the cursor has the colour the
  pixmap gives it.\<close>

theorem main_menu_seen:
  assumes env: "env_ok env" "e_load env = indexed_loader" and st0: "fresh_game st0" and init: "proj_init env st0 = Ok (0, st1)"
    and run: "game_loop env msgs (st1\<lparr>skip_frame := False\<rparr>) = Ok (ended, st)" "gs_state (g_state st) = GS_MAIN" "\<not> skip_frame st"
  shows "\<exists>st'. on_timer_interrupt st = Ok st' \<and>
    (\<forall>w \<in> set main_widgets. \<forall>x y. x < px_columns (pixmap_of (w_asset w)) \<longrightarrow> y < px_lines (pixmap_of (w_asset w)) \<longrightarrow>
      (let a = vx (position (w_area w)) + int x; b = vy (position (w_area w)) + int y; c = px_row (pixmap_of (w_asset w)) y ! x in
       on_screen (g_gpu st) a b \<longrightarrow> cursor_picture (g_cursor st') a b = None \<longrightarrow> c \<noteq> 99 \<longrightarrow> shown (g_gpu st') a b = c))"
proof -
  obtain r bd where read: "Leaderboard_read_file (e_file env) (e_board env) = Ok (r, bd)" using env(1) by (auto simp: env_ok_def)
  note ok = run_built [OF env(1) st0 init read run(1), unfolded env(2)]
  from ok(2) obtain m A xs where m: "main_menu (g_state st) = Some m" "node_rep (g_heap st) (element m) A xs"
      "list_all2 (realises indexed_loader) main_widgets xs"
    unfolding menus_built_def by blast
  have "Gamestate_get_current_menu (g_state st) = Some m"
    using ok(1) run(2) m(1) by (simp add: game_ok_def gamestate_ok_def Gamestate_get_current_menu_def)
  from frame_shows_menu [OF ok(1) this m(2) run(3)] obtain st' where
    st': "on_timer_interrupt st = Ok st'" "\<And>a b c. on_screen (g_gpu st) a b \<Longrightarrow> cursor_picture (g_cursor st') a b = None \<Longrightarrow>
      menu_picture xs a b = Some c \<Longrightarrow> shown (g_gpu st') a b = c"
    by blast
  have "menu_picture xs (vx (position (w_area w)) + int x) (vy (position (w_area w)) + int y) = Some c"
    if w: "w \<in> set main_widgets" "x < px_columns (pixmap_of (w_asset w))" "y < px_lines (pixmap_of (w_asset w))"
      and c: "c = px_row (pixmap_of (w_asset w)) y ! x" "c \<noteq> 99" for w x y c
  proof -
    have "vx (w_offset w) = 0" "vy (w_offset w) = 0" "vx (w_size w) = int (px_columns (pixmap_of (w_asset w)))"
        "vy (w_size w) = int (px_lines (pixmap_of (w_asset w)))"
      using w(1) pixmap_of_dims by (auto simp: main_widgets_def dims_defs)
    with w(2,3) c show ?thesis by (intro main_picture [OF m(3) w(1)]) (use indexed_pixel [OF w(2,3)] in simp_all)
  qed
  with st' show ?thesis by (auto simp: Let_def)
qed

text \<open>The first frame shows the upper edge of the play button in colour 63, 100 pixels from its left end.\<close>

lemma cursor_elsewhere:
  assumes "mouse_ok g m" "b < vy (mouse_pos m) \<or> vy (mouse_pos m) + 42 \<le> b"
  shows "cursor_picture m a b = None"
proof -
  from assms(1) obtain s where s: "mouse_sprite m = Some s" "cursor_sprite s" by (auto simp: mouse_ok_def)
  then have "vy (sizes s ! unat (current_frame s)) \<le> 42"
    by (auto simp: cursor_sprite_def word_less_nat_alt less_2_cases_iff)
  then show ?thesis using s(1) assms(2) by (auto simp: cursor_picture_def sprite_picture_def box_def blank_def Let_def)
qed

lemma play_button_edge:
  "px_row (pixmap_of play_button_xpm) 0 ! 100 = 63" "px_columns (pixmap_of play_button_xpm) = 402" "px_lines (pixmap_of play_button_xpm) = 97"
  using px_row_zero [of play_button_pixmap 4 "[(12, sp), (378, dt), (12, sp)]"]
  by (simp_all add: play_button_pixmap_def play_button_rows_def play_button_palette_def colour_def nth_append)

text \<open>The machine with the repository's pixmaps, after initialisation.\<close>

definition art_machine :: "device_event list \<Rightarrow> environment" where
  "art_machine evs = (demo_machine evs)\<lparr>e_load := indexed_loader\<rparr>"

lemma art_machine_ok: "env_ok (art_machine evs)" "e_load (art_machine evs) = indexed_loader"
  using demo_machine_ok(1) [of evs] indexed_loader_ok by (simp_all add: art_machine_def env_ok_def)

lemma art_machine_init:
  "\<exists>st1. proj_init (art_machine evs) (game_start 1000 100000) = Ok (0, st1) \<and> game_ok st1 \<and> view st1 = first_page 1024 768 \<and> attached (art_machine evs) evs st1"
proof -
  have env: "e_kernel (art_machine evs) = i8042 (machine_script evs)" "\<And>tr. e_aknl (art_machine evs) tr \<noteq> MOUSE_RES_ACK"
    using demo_machine_ok [of evs] by (simp_all add: art_machine_def)
  from demo_machine_gpu [of evs 100000] obtain g where
    g: "gpu_init_mem_indexation (e_gpu (art_machine evs)) GRAPHICS_MODE (gpu_start 100000) = Ok (0, g)" "X_RES g = 1024" "Y_RES g = 768"
    by (auto simp: art_machine_def)
  have mem: "654 \<le> (1000 :: nat)" "540 \<le> (100000 :: nat)" by simp_all
  from machine_init [OF art_machine_ok(1) env g(1) mem] g(2,3) show ?thesis by auto
qed

theorem main_menu_seen_witness:
  "\<exists>env st1 st'. proj_init env (game_start 1000 100000) = Ok (0, st1) \<and> e_load env = indexed_loader \<and> on_timer_interrupt st1 = Ok st' \<and>
    shown (g_gpu st') 411 340 = 63"
proof -
  let ?env = "art_machine []"
  from art_machine_init [of "[]"] obtain st1 where st1: "proj_init ?env (game_start 1000 100000) = Ok (0, st1)" "game_ok st1"
      "view st1 = first_page 1024 768" by blast
  have v: "gs_state (g_state st1) = GS_MAIN" "\<not> skip_frame st1" "X_RES (g_gpu st1) = 1024" "Y_RES (g_gpu st1) = 768"
    using st1(3) by (simp_all add: view_def first_page_def)
  have "game_loop ?env [] (st1\<lparr>skip_frame := False\<rparr>) = Ok (False, st1)" using v by (simp add: Gamestate_get_state_def)
  from main_menu_seen [OF art_machine_ok demo_fresh st1(1) this v(1,2)] obtain st' where
    st': "on_timer_interrupt st1 = Ok st'" and seen: "\<And>w x y a b c. w \<in> set main_widgets \<Longrightarrow> x < px_columns (pixmap_of (w_asset w)) \<Longrightarrow>
      y < px_lines (pixmap_of (w_asset w)) \<Longrightarrow> a = vx (position (w_area w)) + int x \<Longrightarrow> b = vy (position (w_area w)) + int y \<Longrightarrow>
      c = px_row (pixmap_of (w_asset w)) y ! x \<Longrightarrow> on_screen (g_gpu st1) a b \<Longrightarrow> cursor_picture (g_cursor st') a b = None \<Longrightarrow> c \<noteq> 99 \<Longrightarrow>
      shown (g_gpu st') a b = c"
    by (auto simp: Let_def)
  have "mouse_ok (g_gpu st') (g_cursor st')" using on_timer_interrupt_ok [OF st1(2)] st' by (auto simp: game_ok_def)
  moreover have "vy (mouse_pos (g_cursor st')) = 0"
    using arg_cong [OF on_timer_interrupt_view [OF st1(2) st'], of cursor_y] st1(3)
    by (simp add: view_def first_page_def tick_event_def frame_event_def)
  ultimately have "cursor_picture (g_cursor st') 411 340 = None" by (intro cursor_elsewhere) simp_all
  then have "shown (g_gpu st') 411 340 = 63"
    by (intro seen [of "main_widgets ! 1" 100 0]) (simp_all add: main_widgets_def play_button_edge on_screen_def v del: pixmap_of.simps)
  with st1(1) st' show ?thesis using art_machine_ok(2) by blast
qed

section \<open>The leaderboard on the screen\<close>

text \<open>An element is seen where none that is drawn later has its frame.\<close>

definition misses :: "widget \<Rightarrow> int \<Rightarrow> int \<Rightarrow> bool" where
  "misses w a b \<longleftrightarrow> a < vx (position (w_area w)) \<or> vx (position (w_area w)) + vx (w_size w) \<le> a \<or>
     b < vy (position (w_area w)) \<or> vy (position (w_area w)) + vy (w_size w) \<le> b"

lemma realised_misses: "realises load w e \<Longrightarrow> misses w a b \<Longrightarrow> element_picture e a b = None"
  by (auto simp: misses_def realises_def widget_sprite_def element_picture_def sprite_picture_def box_def Let_def)

lemma menu_picture_append: "menu_picture (xs @ ys) = over (menu_picture ys) (menu_picture xs)"
  by (induction xs) (auto simp: over_def blank_def fun_eq_iff split: option.splits)

lemma menu_picture_misses:
  "list_all2 (realises load) ws xs \<Longrightarrow> list_all (\<lambda>w. misses w a b) ws \<Longrightarrow> menu_picture xs a b = None"
  by (induction rule: list_all2_induct) (auto simp: blank_def over_def realised_misses)

lemma menu_picture_seen:
  assumes "list_all2 (realises load) (before @ w # after) xs"
    and later: "list_all (\<lambda>v. misses v (vx (position (w_area w)) + x) (vy (position (w_area w)) + y)) after"
    and xy: "0 \<le> x" "x < vx (w_size w)" "0 \<le> y" "y < vy (w_size w)"
    and c: "img_pixel (snd (load (w_asset w))) (vx (w_offset w) + x) (vy (w_offset w) + y) = c" "c \<noteq> 99"
  shows "menu_picture xs (vx (position (w_area w)) + x) (vy (position (w_area w)) + y) = Some c"
proof -
  from assms(1) obtain es e es' where xs: "xs = es @ e # es'" "realises load w e" "list_all2 (realises load) after es'"
    by (auto simp: list_all2_append1 list_all2_Cons1)
  have "element_picture e (vx (position (w_area w)) + x) (vy (position (w_area w)) + y) = Some c"
    by (rule realised_pixel [OF xs(2) xy c])
  moreover have "menu_picture es' (vx (position (w_area w)) + x) (vy (position (w_area w)) + y) = None"
    by (rule menu_picture_misses [OF xs(3) later])
  ultimately show ?thesis by (simp add: xs(1) menu_picture_append over_def)
qed

text \<open>The glyphs of a text stand one after the other.\<close>

definition advance :: "string \<Rightarrow> int" where
  "advance str = sum_list (map (\<lambda>c. cs_width (calculate_char_coord c)) str)"

lemma cs_width_range: "0 \<le> cs_width (calculate_char_coord c)"
  by (simp add: calculate_char_coord_def CHAR_WIDTH_def split: option.split)

lemma text_widgets_append: "text_widgets (s @ t) x y = text_widgets s x y @ text_widgets t (x + advance s) y"
  by (induction s arbitrary: x) (simp_all add: advance_def algebra_simps)

lemma text_widgets_right:
  "w \<in> set (text_widgets str x y) \<Longrightarrow> x \<le> vx (position (w_area w)) \<and> vy (position (w_area w)) = y"
proof (induction str arbitrary: x)
  case (Cons c str)
  then show ?case using cs_width_range [of c] by (fastforce simp: glyph_def Let_def)
qed simp

lemma text_widgets_split:
  assumes "k < length str"
  shows "text_widgets str x y = text_widgets (take k str) x y @ glyph (str ! k) (x + advance (take k str)) y #
    text_widgets (drop (Suc k) str) (x + advance (take k str) + cs_width (calculate_char_coord (str ! k))) y"
proof -
  have "text_widgets str x y = text_widgets (take k str @ str ! k # drop (Suc k) str) x y" using id_take_nth_drop [OF assms] by simp
  then show ?thesis by (simp add: text_widgets_append del: append_take_drop_id)
qed

text \<open>The rows are 170 pixels apart, the second line of a row 80 below the first.\<close>

definition entry_lines :: "nat \<Rightarrow> LeaderboardEntry \<Rightarrow> (string \<times> int \<times> int) list" where
  "entry_lines i e = [(snprintf 15 (first_line_text i e), 30, 240 + int i * 170), (snprintf 21 (second_line_text e), 118, 240 + int i * 170 + 80)]"

lemma rows_widgets_below: "w \<in> set (rows_widgets es i k) \<Longrightarrow> 240 + int i * 170 \<le> vy (position (w_area w))"
proof (induction es i k rule: rows_widgets.induct)
  case (2 es i k)
  then show ?case by (auto simp: row_widgets_def dest!: text_widgets_right)
qed simp

lemma rows_widgets_split:
  "i < n \<Longrightarrow> rows_widgets es j n = rows_widgets es j i @ row_widgets (j + i) (es ! (j + i)) @ rows_widgets es (Suc (j + i)) (n - Suc i)"
proof (induction i arbitrary: j n)
  case 0
  then show ?case by (cases n) simp_all
next
  case (Suc i)
  then obtain k where "n = Suc k" "i < k" by (cases n) auto
  with Suc.IH [of k "Suc j"] show ?case by simp
qed

lemma board_widgets_split:
  assumes "i < entry_count bd" "(str, x0, y0) \<in> set (entry_lines i (entries bd ! i))" "k < length str"
  shows "\<exists>before after. board_widgets bd = before @ glyph (str ! k) (x0 + advance (take k str)) y0 # after \<and>
    (\<forall>w \<in> set after. x0 + advance (take k str) + cs_width (calculate_char_coord (str ! k)) \<le> vx (position (w_area w)) \<or> y0 + 80 \<le> vy (position (w_area w)))"
proof -
  let ?e = "entries bd ! i" and ?rest = "rows_widgets (entries bd) (Suc i) (entry_count bd - Suc i)"
  let ?t1 = "snprintf 15 (first_line_text i ?e)" and ?t2 = "snprintf 21 (second_line_text ?e)" and ?y = "240 + int i * 170"
  have b: "board_widgets bd = board_header @ rows_widgets (entries bd) 0 i @ text_widgets ?t1 30 ?y @ text_widgets ?t2 118 (?y + 80) @ ?rest"
    using rows_widgets_split [OF assms(1), of "entries bd" 0] by (simp add: board_widgets_def row_widgets_def)
  have rest: "y0 + 80 \<le> vy (position (w_area w))" if "w \<in> set ?rest" for w
    using rows_widgets_below [OF that] assms(2) by (auto simp: entry_lines_def)
  from assms(2) consider "str = ?t1" "x0 = 30" "y0 = ?y" | "str = ?t2" "x0 = 118" "y0 = ?y + 80" by (auto simp: entry_lines_def)
  then show ?thesis
  proof cases
    case 1
    note split = text_widgets_split [OF assms(3), of x0 y0]
    have "board_widgets bd = (board_header @ rows_widgets (entries bd) 0 i @ text_widgets (take k str) x0 y0) @
        glyph (str ! k) (x0 + advance (take k str)) y0 #
        text_widgets (drop (Suc k) str) (x0 + advance (take k str) + cs_width (calculate_char_coord (str ! k))) y0 @
        text_widgets ?t2 118 (?y + 80) @ ?rest"
      unfolding b using 1 split by simp
    then show ?thesis using 1 rest by (intro exI conjI) (assumption, auto dest!: text_widgets_right)
  next
    case 2
    note split = text_widgets_split [OF assms(3), of x0 y0]
    have "board_widgets bd = (board_header @ rows_widgets (entries bd) 0 i @ text_widgets ?t1 30 ?y @ text_widgets (take k str) x0 y0) @
        glyph (str ! k) (x0 + advance (take k str)) y0 #
        text_widgets (drop (Suc k) str) (x0 + advance (take k str) + cs_width (calculate_char_coord (str ! k))) y0 @ ?rest"
      unfolding b using 2 split by simp
    then show ?thesis using 2 rest by (intro exI conjI) (assumption, auto dest!: text_widgets_right)
  qed
qed

text \<open>C7: with the repository's alphabet, every frame that shows the leaderboard shows both lines of every entry of the file that was read: the glyphs of
  the characters, one after the other; each of the upper 80 rows of pixels that is on the screen, not of the transparent colour and not under the cursor has the
  colour of the sheet.\<close>

theorem leaderboard_seen:
  assumes env: "env_ok env" "e_load env = indexed_loader" "Leaderboard_read_file (e_file env) (e_board env) = Ok (r, bd)"
    and st0: "fresh_game st0" and init: "proj_init env st0 = Ok (0, st1)"
    and run: "game_loop env msgs (st1\<lparr>skip_frame := False\<rparr>) = Ok (ended, st)" "gs_state (g_state st) = GS_LEADERBOARD" "\<not> skip_frame st"
  shows "\<exists>st'. on_timer_interrupt st = Ok st' \<and>
    (\<forall>i str x0 y0 k x y. i < entry_count bd \<longrightarrow> (str, x0, y0) \<in> set (entry_lines i (entries bd ! i)) \<longrightarrow> k < length str \<longrightarrow>
      (let glyph = calculate_char_coord (str ! k); a = x0 + advance (take k str) + x; b = y0 + y;
           c = img_pixel (snd (indexed_loader alphabet_sprites)) (cs_x glyph + x) (cs_y glyph + y) in
       0 \<le> x \<longrightarrow> x < cs_width glyph \<longrightarrow> 0 \<le> y \<longrightarrow> y < 80 \<longrightarrow> on_screen (g_gpu st) a b \<longrightarrow> cursor_picture (g_cursor st') a b = None \<longrightarrow> c \<noteq> 99 \<longrightarrow>
       shown (g_gpu st') a b = c))"
proof -
  note ok = run_built [OF env(1) st0 init env(3) run(1), unfolded env(2)]
  from ok(2) obtain l B ys where l: "leaderboard_menu (g_state st) = Some l" "node_rep (g_heap st) (element l) B ys"
      "list_all2 (realises indexed_loader) (board_widgets bd) ys"
    unfolding menus_built_def by blast
  have "Gamestate_get_current_menu (g_state st) = Some l"
    using ok(1) run(2) l(1) by (simp add: game_ok_def gamestate_ok_def Gamestate_get_current_menu_def)
  from frame_shows_menu [OF ok(1) this l(2) run(3)] obtain st' where
    st': "on_timer_interrupt st = Ok st'" "\<And>a b c. on_screen (g_gpu st) a b \<Longrightarrow> cursor_picture (g_cursor st') a b = None \<Longrightarrow>
      menu_picture ys a b = Some c \<Longrightarrow> shown (g_gpu st') a b = c"
    by blast
  have "menu_picture ys (x0 + advance (take k str) + x) (y0 + y) = Some c"
    if i: "i < entry_count bd" "(str, x0, y0) \<in> set (entry_lines i (entries bd ! i))" "k < length str"
      and xy: "0 \<le> x" "x < cs_width (calculate_char_coord (str ! k))" "0 \<le> y" "y < 80"
      and c: "c = img_pixel (snd (indexed_loader alphabet_sprites)) (cs_x (calculate_char_coord (str ! k)) + x) (cs_y (calculate_char_coord (str ! k)) + y)" "c \<noteq> 99"
    for i str x0 y0 k x y c
  proof -
    let ?w = "glyph (str ! k) (x0 + advance (take k str)) y0"
    from board_widgets_split [OF i] obtain before after where s: "board_widgets bd = before @ ?w # after"
        "\<And>v. v \<in> set after \<Longrightarrow> x0 + advance (take k str) + cs_width (calculate_char_coord (str ! k)) \<le> vx (position (w_area v)) \<or> y0 + 80 \<le> vy (position (w_area v))"
      by blast
    have w: "vx (position (w_area ?w)) = x0 + advance (take k str)" "vy (position (w_area ?w)) = y0" "w_asset ?w = alphabet_sprites"
        "w_offset ?w = VEC2 (cs_x (calculate_char_coord (str ! k))) (cs_y (calculate_char_coord (str ! k)))"
        "vx (w_size ?w) = cs_width (calculate_char_coord (str ! k))" "vy (w_size ?w) = cs_height (calculate_char_coord (str ! k))"
      by (simp_all add: glyph_def Let_def)
    have "cs_height (calculate_char_coord (str ! k)) = 83"
      using xy(1,2) by (auto simp: calculate_char_coord_def CHAR_HEIGHT_def split: option.splits)
    moreover have "list_all (\<lambda>v. misses v (vx (position (w_area ?w)) + x) (vy (position (w_area ?w)) + y)) after"
      unfolding list_all_iff w(1,2) using s(2) xy by (fastforce simp: misses_def)
    ultimately show ?thesis
      using menu_picture_seen [OF l(3) [unfolded s(1)], of x y c] xy c unfolding w by simp
  qed
  with st' show ?thesis by (auto simp: Let_def)
qed

text \<open>The mouse clicks on the leaderboard button; the frame after that shows the digit of the first place: the pixel 20 to the right and 18 below the corner of
  the line has colour 63.\<close>

definition board_events :: "device_event list" where
  "board_events = mouse_report False 200 (- 250) @ mouse_report False 200 (- 250) @ mouse_report True 0 0 @ [Timer_tick, Timer_tick]"

lemma board_session:
  "play (map seen board_events) (first_page 1024 768) = (first_page 1024 768)\<lparr>page := GS_LEADERBOARD, cursor_x := 400, cursor_y := 500,
     left_down := True, hand := True, report := ps2_encode True False False 0 0\<rparr>"
  by (simp add: board_events_def play_append play_report first_page_def confine_def ps2_encode_def tick_event_def
      frame_event_def on_menu_def button_target_def on_button_def)

lemma digit_pixel:
  "str \<noteq> [] \<Longrightarrow> str ! 0 = CHR ''1'' \<Longrightarrow>
    img_pixel (snd (indexed_loader alphabet_sprites)) (cs_x (calculate_char_coord (str ! 0)) + 20) (cs_y (calculate_char_coord (str ! 0)) + 18) = 63 \<and>
    cs_width (calculate_char_coord (str ! 0)) = 44"
proof -
  have "expand (expand (sheets ! 5) ! 18) ! 20 = dt" by (simp add: sheets_def sheet_digit1_def expand_def nth_append nth_Cons')
  then show ?thesis if "str \<noteq> []" "str ! 0 = CHR ''1''"
    using alphabet_pixel [of 5 18 20] that
    by (simp add: calculate_char_coord_def char_index_def CHAR_HEIGHT_def CHAR_WIDTH_def alphabet_palette_def colour_def)
qed

theorem leaderboard_seen_witness:
  "\<exists>st1 st st'. proj_init (art_machine board_events) (game_start 1000 100000) = Ok (0, st1) \<and>
    game_loop (art_machine board_events) (map raised board_events) (st1\<lparr>skip_frame := False\<rparr>) = Ok (False, st) \<and>
    gs_state (g_state st) = GS_LEADERBOARD \<and> on_timer_interrupt st = Ok st' \<and> shown (g_gpu st') 50 258 = 63"
proof -
  let ?env = "art_machine board_events"
  from art_machine_init [of board_events] obtain st1 where st1: "proj_init ?env (game_start 1000 100000) = Ok (0, st1)" "game_ok st1"
      "view st1 = first_page 1024 768" "attached ?env board_events st1" by blast
  have "\<not> skip_frame st1" using arg_cong [OF st1(3), of odd_tick] by (simp add: first_page_def)
  then have same: "st1\<lparr>skip_frame := False\<rparr> = st1" by simp
  from game_loop_plays [OF st1(2,4)] obtain ended st where
    run: "game_loop ?env (map raised board_events) st1 = Ok (ended, st)" "game_ok st" "ended \<longleftrightarrow> page (view st) = GS_QUIT"
      "view st = play (map seen board_events) (view st1)"
    by blast
  have v: "view st = (first_page 1024 768)\<lparr>page := GS_LEADERBOARD, cursor_x := 400, cursor_y := 500, left_down := True, hand := True,
      report := ps2_encode True False False 0 0\<rparr>"
    unfolding run(4) st1(3) by (rule board_session)
  have s: "gs_state (g_state st) = GS_LEADERBOARD" "\<not> skip_frame st" "X_RES (g_gpu st) = 1024" "Y_RES (g_gpu st) = 768"
    using v by (simp_all add: view_def first_page_def)
  have run': "game_loop ?env (map raised board_events) (st1\<lparr>skip_frame := False\<rparr>) = Ok (ended, st)" unfolding same by (rule run(1))
  have read: "Leaderboard_read_file (e_file ?env) (e_board ?env) = Ok (1, sample_board)"
    by (simp add: art_machine_def demo_machine_def demo_env_def Leaderboard_read_file_def)
  from leaderboard_seen [OF art_machine_ok read demo_fresh st1(1) run' s(1,2)] obtain st' where
    st': "on_timer_interrupt st = Ok st'" and seen: "\<And>i str x0 y0 k x y a b c glyph. i < entry_count sample_board \<Longrightarrow>
      (str, x0, y0) \<in> set (entry_lines i (entries sample_board ! i)) \<Longrightarrow> k < length str \<Longrightarrow> glyph = calculate_char_coord (str ! k) \<Longrightarrow>
      a = x0 + advance (take k str) + x \<Longrightarrow> b = y0 + y \<Longrightarrow> c = img_pixel (snd (indexed_loader alphabet_sprites)) (cs_x glyph + x) (cs_y glyph + y) \<Longrightarrow>
      0 \<le> x \<Longrightarrow> x < cs_width glyph \<Longrightarrow> 0 \<le> y \<Longrightarrow> y < 80 \<Longrightarrow> on_screen (g_gpu st) a b \<Longrightarrow> cursor_picture (g_cursor st') a b = None \<Longrightarrow> c \<noteq> 99 \<Longrightarrow>
      shown (g_gpu st') a b = c"
    by (auto simp: Let_def)
  have "mouse_ok (g_gpu st') (g_cursor st')" using on_timer_interrupt_ok [OF run(2)] st' by (auto simp: game_ok_def)
  moreover have "vy (mouse_pos (g_cursor st')) = 500"
    using arg_cong [OF on_timer_interrupt_view [OF run(2) st'], of cursor_y] v
    by (simp add: view_def first_page_def tick_event_def frame_event_def)
  ultimately have hidden: "cursor_picture (g_cursor st') 50 258 = None" by (intro cursor_elsewhere) simp_all
  let ?e = "entries sample_board ! 0"
  let ?str = "snprintf 15 (first_line_text 0 ?e)"
  have "show_nat (Suc 0) = ''1''" by code_simp
  then have str: "?str \<noteq> []" "?str ! 0 = CHR ''1''" by (simp_all add: snprintf_def first_line_text_def first_line_format_def)
  note d = digit_pixel [OF str]
  have "shown (g_gpu st') 50 258 = 63"
    by (rule seen [of 0 ?str 30 240 0 "calculate_char_coord (?str ! 0)" 50 20 258 18])
      (use d str hidden in \<open>simp_all add: entry_lines_def advance_def on_screen_def s sample_board_def\<close>)
  moreover have "\<not> ended" using run(3) s(1) by simp
  ultimately show ?thesis using st1(1) run' s(1) st' by auto
qed

end
