(* ===== verification/Receive.thy ===== *)
theory Receive
  imports Proj
begin

text \<open>
  What \<open>driver_receive\<close> delivers: its result, the status and the message, and the macros of Minix by which the loops of the program tell the
  interrupt notifications among them (\<open>minix/ipcconst.h\<close>, \<open>minix/endpoint.h\<close>, \<open>minix/com.h\<close>).  The loop of \<open>proj.c\<close> is given on what is
  received, as written.  The lemmas show that the macros take an endpoint apart into the slot and the generation it was made of, without overflow,
  and that the loop does what \<open>Proj\<close> says for the messages that the receipts stand for.
\<close>

section \<open>Endpoints\<close>

text \<open>\<open>endpoint_t\<close> is an \<open>int\<close>.\<close>

definition MAX_NR_TASKS :: int where [c_consts]: "MAX_NR_TASKS = 1023"
definition KERNEL :: int where [c_consts]: "KERNEL = - 1"
definition HARDWARE :: int where [c_consts]: "HARDWARE = KERNEL"
definition ENDPOINT_GENERATION_SHIFT :: nat where [c_consts]: "ENDPOINT_GENERATION_SHIFT = 15"
definition ENDPOINT_GENERATION_SIZE :: int where "ENDPOINT_GENERATION_SIZE = push_bit ENDPOINT_GENERATION_SHIFT 1"
definition ENDPOINT_MAX_GENERATION :: int where "ENDPOINT_MAX_GENERATION = (2 ^ 31 - 1) div ENDPOINT_GENERATION_SIZE - 1"
definition ENDPOINT_SLOT_TOP :: int where "ENDPOINT_SLOT_TOP = ENDPOINT_GENERATION_SIZE - MAX_NR_TASKS"

definition ENDPOINT :: "int \<Rightarrow> int \<Rightarrow> int" where
  "ENDPOINT g p = push_bit ENDPOINT_GENERATION_SHIFT g + p"

definition ENDPOINT_G :: "int \<Rightarrow> int" where
  "ENDPOINT_G e = drop_bit ENDPOINT_GENERATION_SHIFT (e + MAX_NR_TASKS)"

definition ENDPOINT_P :: "int \<Rightarrow> int" where
  "ENDPOINT_P e = ((e + MAX_NR_TASKS) AND (ENDPOINT_GENERATION_SIZE - 1)) - MAX_NR_TASKS"

lemma endpoint_values:
  "ENDPOINT_GENERATION_SIZE = 32768" "ENDPOINT_MAX_GENERATION = 65534" "ENDPOINT_SLOT_TOP = 31745"
  by (simp_all add: ENDPOINT_GENERATION_SIZE_def ENDPOINT_MAX_GENERATION_def ENDPOINT_SLOT_TOP_def c_consts push_bit_eq_mult)

lemma ENDPOINT_G_div: "ENDPOINT_G e = (e + 1023) div 32768"
  by (simp add: ENDPOINT_G_def c_consts drop_bit_eq_div)

lemma ENDPOINT_P_mod: "ENDPOINT_P e = (e + 1023) mod 32768 - 1023"
proof -
  have "(e + 1023) AND 32767 = take_bit 15 (e + 1023)" by (simp add: take_bit_eq_mask mask_eq_exp_minus_1)
  then show ?thesis by (simp add: ENDPOINT_P_def endpoint_values c_consts take_bit_eq_mod)
qed

text \<open>An endpoint made of a generation and a slot in their ranges gives both back, and neither making it nor taking it apart overflows; every
  other \<open>int\<close> that can be taken apart is the endpoint of its parts.\<close>

theorem endpoint_roundtrip:
  assumes "0 \<le> g" "g \<le> ENDPOINT_MAX_GENERATION" "- MAX_NR_TASKS \<le> p" "p < ENDPOINT_SLOT_TOP"
  shows "int32 (ENDPOINT g p) \<and> int32 (ENDPOINT g p + MAX_NR_TASKS) \<and>
    ENDPOINT_G (ENDPOINT g p) = g \<and> ENDPOINT_P (ENDPOINT g p) = p \<and> (\<forall>e. ENDPOINT (ENDPOINT_G e) (ENDPOINT_P e) = e)"
proof -
  have e: "ENDPOINT x y = 32768 * x + y" for x y by (simp add: ENDPOINT_def c_consts push_bit_eq_mult)
  have "(32768 * g + (p + 1023)) div 32768 = g + (p + 1023) div 32768" "(32768 * g + (p + 1023)) mod 32768 = (p + 1023) mod 32768"
    by simp_all
  moreover have "(p + 1023) div 32768 = 0" "(p + 1023) mod 32768 = p + 1023"
    using assms(3,4) by (simp_all add: endpoint_values c_consts)
  ultimately have "ENDPOINT_G (ENDPOINT g p) = g" "ENDPOINT_P (ENDPOINT g p) = p"
    by (simp_all add: ENDPOINT_G_div ENDPOINT_P_mod e add.assoc)
  moreover have "ENDPOINT (ENDPOINT_G e) (ENDPOINT_P e) = e" for e
    using mult_div_mod_eq [of 32768 "e + 1023"] unfolding e ENDPOINT_G_div ENDPOINT_P_mod by linarith
  moreover have "int32 (ENDPOINT g p)" "int32 (ENDPOINT g p + MAX_NR_TASKS)"
    using assms by (simp_all add: e endpoint_values c_consts int32_def)
  ultimately show ?thesis by blast
qed

text \<open>The highest endpoint there is.\<close>

theorem endpoint_roundtrip_witness:
  "ENDPOINT 65534 31744 = 2147449856 \<and> ENDPOINT_P 2147449856 = 31744 \<and> int32 (2147449856 + MAX_NR_TASKS)"
proof -
  have "ENDPOINT 65534 31744 = 2147449856" by (simp add: ENDPOINT_def c_consts push_bit_eq_mult)
  with endpoint_roundtrip [of 65534 31744] show ?thesis by (simp add: endpoint_values c_consts)
qed

section \<open>Notifications\<close>

definition NOTIFY :: u32 where [c_consts]: "NOTIFY = 4"
definition IPC_STATUS_CALL_SHIFT :: nat where [c_consts]: "IPC_STATUS_CALL_SHIFT = 0"
definition IPC_STATUS_CALL_MASK :: u32 where [c_consts]: "IPC_STATUS_CALL_MASK = 0x3F"

definition IPC_STATUS_CALL :: "u32 \<Rightarrow> u32" where
  "IPC_STATUS_CALL status = drop_bit IPC_STATUS_CALL_SHIFT status AND IPC_STATUS_CALL_MASK"

definition IPC_STATUS_CALL_TO :: "u32 \<Rightarrow> u32" where
  "IPC_STATUS_CALL_TO call = push_bit IPC_STATUS_CALL_SHIFT (call AND IPC_STATUS_CALL_MASK)"

definition is_ipc_notify :: "u32 \<Rightarrow> bool" where
  "is_ipc_notify ipc_status \<longleftrightarrow> IPC_STATUS_CALL ipc_status = NOTIFY"

text \<open>One call of \<open>driver_receive\<close>: what it returns, \<open>msg.m_source\<close>, \<open>msg.m_notify.interrupts\<close> (64 bits) and the status.\<close>

record receipt =
  rc_result :: int
  rc_source :: int
  rc_interrupts :: "64 word"
  rc_status :: u32

text \<open>\<open>msg.m_notify.interrupts & bit_no\<close>\<close>

definition raises :: "receipt \<Rightarrow> u8 \<Rightarrow> bool" where
  "raises rc bit_no \<longleftrightarrow> flag (rc_interrupts rc) (ucast bit_no)"

text \<open>The body of the loop of \<open>proj.c\<close>, as written.\<close>

definition handle_receipt :: "environment \<Rightarrow> receipt \<Rightarrow> game \<Rightarrow> game outcome" where
  "handle_receipt env rc st =
     (if rc_result rc \<noteq> 0 then Ok st
      else if is_ipc_notify (rc_status rc)
      then if ENDPOINT_P (rc_source rc) = HARDWARE
           then let st = (if raises rc (mouse_bit_no st) then on_mouse_interrupt env st else st) in
                obind (if raises rc (kbc_bit_no st) then on_keyboard_interrupt env st else Ok st) (\<lambda>st.
                if raises rc (timer_bit_no st) then on_timer_interrupt st else Ok st)
           else Ok st
      else Ok st)"

definition receive_loop :: "environment \<Rightarrow> receipt list \<Rightarrow> game \<Rightarrow> (bool \<times> game) outcome" where
  "receive_loop env = message_loop (\<lambda>st. Gamestate_get_state (g_state st) \<noteq> GS_QUIT) (handle_receipt env)"

definition proj_main_loop_received :: "environment \<Rightarrow> receipt list \<Rightarrow> game \<Rightarrow> (int option \<times> game) outcome" where
  "proj_main_loop_received env rcs st =
     obind (proj_init env st) (\<lambda>(r, st).
       if r \<noteq> 0 then Ok (Some 1, st)
       else obind (receive_loop env rcs (st\<lparr>skip_frame := False\<rparr>)) (\<lambda>(ended, st).
            if \<not> ended then Ok (None, st)
            else case proj_shutdown env st of (r, st) \<Rightarrow> Ok (Some (if r \<noteq> 0 then 1 else 0), st)))"

section \<open>The messages behind the receipts\<close>

definition message_of :: "receipt \<Rightarrow> message" where
  "message_of rc =
     (if rc_result rc \<noteq> 0 then Receive_failed
      else if is_ipc_notify (rc_status rc)
      then if ENDPOINT_P (rc_source rc) = HARDWARE then Interrupts (ucast (rc_interrupts rc)) else Other_notification
      else Standard_message)"

lemma raises_pending: "raises rc bit_no = pending (ucast (rc_interrupts rc)) bit_no"
proof -
  have "bit bit_no n \<Longrightarrow> n < 8" for n using bit_imp_le_length [of bit_no n] by simp
  then have "rc_interrupts rc AND ucast bit_no = 0 \<longleftrightarrow> ucast (rc_interrupts rc) AND (ucast bit_no :: u32) = 0"
    by (fastforce simp: bit_eq_iff bit_and_iff bit_ucast_iff)
  then show ?thesis by (simp add: raises_def pending_def flag_def)
qed

lemma handle_receipt_message: "handle_receipt env rc st = handle_message env (message_of rc) st"
  by (simp add: handle_receipt_def message_of_def handle_message_def raises_pending Let_def)

text \<open>C5: the program on what \<open>driver_receive\<close> delivers is the program of \<open>Proj\<close> on the messages: exactly the successful receipts whose status says
  notification and whose source has the slot of the hardware, of whatever generation, are interrupts, and of their 64 bits only those
  that some device has subscribed are looked at.\<close>

theorem program_receives_messages:
  "proj_main_loop_received env rcs st = proj_main_loop env (map message_of rcs) st \<and>
   (\<forall>rc irqs. message_of rc = Interrupts irqs \<longleftrightarrow> rc_result rc = 0 \<and> rc_status rc AND 0x3F = 4 \<and>
      (\<exists>g. rc_source rc = 32768 * g - 1) \<and> irqs = ucast (rc_interrupts rc))"
proof -
  have "(\<exists>g. e = 32768 * g - 1) \<longleftrightarrow> ENDPOINT_P e = HARDWARE" for e
  proof
    assume "\<exists>g. e = 32768 * g - 1"
    then obtain g where g: "e + 1023 = 1022 + 32768 * g" by auto
    have "(1022 + 32768 * g) mod 32768 = 1022" by (simp only: mod_mult_self2) simp
    then show "ENDPOINT_P e = HARDWARE" by (simp only: ENDPOINT_P_mod g c_consts)
  next
    assume "ENDPOINT_P e = HARDWARE"
    then have "(e + 1023) mod 32768 = 1022" by (simp add: ENDPOINT_P_mod c_consts)
    then have "e = 32768 * ((e + 1023) div 32768) - 1" using mult_div_mod_eq [of 32768 "e + 1023"] by simp
    then show "\<exists>g. e = 32768 * g - 1" by blast
  qed
  then have "message_of rc = Interrupts irqs \<longleftrightarrow> rc_result rc = 0 \<and> rc_status rc AND 0x3F = 4 \<and>
      (\<exists>g. rc_source rc = 32768 * g - 1) \<and> irqs = ucast (rc_interrupts rc)" for rc irqs
    by (auto simp: message_of_def is_ipc_notify_def IPC_STATUS_CALL_def c_consts)
  moreover have loop: "receive_loop env rcs = game_loop env (map message_of rcs)"
    unfolding receive_loop_def game_loop_def by (rule ext, rule message_loop_map) (rule handle_receipt_message)
  have "proj_main_loop_received env rcs st = proj_main_loop env (map message_of rcs) st"
    unfolding proj_main_loop_received_def proj_main_loop_def loop by (rule refl)
  ultimately show ?thesis by blast
qed

end
