(* ===== verification/Checked_Drawing.thy ===== *)
theory Checked_Drawing
  imports Scene
begin

text \<open>
  The drawing functions and the mouse once more, with every \<open>int\<close> operation checked as C's: an addition, subtraction or multiplication whose value
  does not fit 32 bits is undefined.  The names are those of the functions with \<open>_checked\<close>.  The lemmas show that the checked functions give
  what the functions of the other theories give, as long as positions, frames and the screen are of moderate size, which they are in the game.
\<close>

section \<open>Checked operations\<close>

definition iadd :: "int \<Rightarrow> int \<Rightarrow> int outcome" where "iadd a b = checked (a + b)"
definition isub :: "int \<Rightarrow> int \<Rightarrow> int outcome" where "isub a b = checked (a - b)"
definition imul :: "int \<Rightarrow> int \<Rightarrow> int outcome" where "imul a b = checked (a * b)"

lemma int_ops [simp]:
  "int32 (a + b) \<Longrightarrow> iadd a b = Ok (a + b)"
  "int32 (a - b) \<Longrightarrow> isub a b = Ok (a - b)"
  "int32 (a * b) \<Longrightarrow> imul a b = Ok (a * b)"
  by (simp_all add: iadd_def isub_def imul_def)

lemma int32I: "- 2147483648 \<le> v \<Longrightarrow> v < 2147483648 \<Longrightarrow> int32 v"
  by (simp add: int32_def)

lemma int32_moderate: "\<bar>v\<bar> \<le> 2000000000 \<Longrightarrow> int32 v"
  by (auto simp: int32_def abs_le_iff)

section \<open>Loops with the same rounds\<close>

lemma for_loop_cong_inv:
  assumes "I s" and same: "\<And>i s. a \<le> i \<Longrightarrow> i < b \<Longrightarrow> I s \<Longrightarrow> f i s = g i s" and keep: "\<And>i s s'. I s \<Longrightarrow> g i s = Ok s' \<Longrightarrow> I s'"
  shows "for_loop a b f s = for_loop a b g s"
  using assms(1) same
proof (induction "nat (b - a)" arbitrary: a s)
  case 0
  then show ?case by simp
next
  case (Suc n)
  then have ab: "a < b" "n = nat (b - (a + 1))" by linarith+
  have "obind (f a s) (for_loop (a + 1) b f) = obind (g a s) (for_loop (a + 1) b g)"
  proof (rule obind_cong)
    show "f a s = g a s" using Suc.prems ab(1) by simp
    fix s'
    assume "g a s = Ok s'"
    then have "I s'" using keep Suc.prems(1) by blast
    then show "for_loop (a + 1) b f s' = for_loop (a + 1) b g s'" using Suc.hyps(1) [OF ab(2)] Suc.prems(2) by auto
  qed
  then show ?case using ab(1) by (simp only: for_loop_step)
qed

lemma for_loop_keeps:
  assumes "I s" "for_loop a b body s = Ok s'" and keep: "\<And>i s s'. I s \<Longrightarrow> body i s = Ok s' \<Longrightarrow> I s'"
  shows "I s'"
proof -
  have "I t'" if "I t" "for_steps i n body t = Ok t'" for i n t t'
    using that by (induction n arbitrary: i t) (auto dest: keep)
  with assms(1,2) show ?thesis by (auto simp: for_loop_def)
qed

lemma message_loop_cong_inv:
  assumes "I s" and same: "\<And>m s. I s \<Longrightarrow> going s \<Longrightarrow> f m s = g m s" and keep: "\<And>m s s'. I s \<Longrightarrow> going s \<Longrightarrow> g m s = Ok s' \<Longrightarrow> I s'"
  shows "message_loop going f ms s = message_loop going g ms s"
  using assms(1)
proof (induction ms arbitrary: s)
  case (Cons m ms)
  have "obind (f m s) (message_loop going f ms) = obind (g m s) (message_loop going g ms)" if "going s"
    by (rule obind_cong) (use Cons same keep that in blast)+
  then show ?case by simp
qed simp

section \<open>Drawing into the back buffer\<close>

definition gpu_draw_pixel_checked :: "u16 \<Rightarrow> u16 \<Rightarrow> u32 \<Rightarrow> gpu \<Rightarrow> gpu outcome" where
  "gpu_draw_pixel_checked x y color g =
     (if x \<ge> x_res (gpu_res_info g) \<or> y \<ge> y_res (gpu_res_info g) then Ok g
      else obind (imul (uint y) (X_RES g)) (\<lambda>row.
           obind (iadd row (uint x)) (\<lambda>cell.
           obind (imul cell (BPP g)) (\<lambda>product.
           let location = word_of_int product :: u32
           in obind (memcpy (backbuffer g) (uint location) (color_bytes color) 0 (BPP g))
                (\<lambda>b. Ok (g\<lparr>backbuffer := b\<rparr>))))))"

definition gpu_draw_line_checked :: "vec2 \<Rightarrow> u8 list \<Rightarrow> int \<Rightarrow> gpu \<Rightarrow> gpu outcome" where
  "gpu_draw_line_checked pos bytes pixelsc g =
     (if vx pos > X_RES g then Ok g
      else obind (iadd (vx pos) pixelsc) (\<lambda>right.
           if right < 0 then Ok g
           else if vy pos < 0 \<or> vy pos \<ge> Y_RES g then Ok g
           else let start = max (vx pos) 0 in
                obind (isub (X_RES g) 1) (\<lambda>edge.
                obind (isub right 1) (\<lambda>last_pixel.
                let stop = min edge last_pixel in
                obind (isub stop start) (\<lambda>d.
                obind (iadd d 1) (\<lambda>count.
                obind (imul (vy pos) (X_RES g)) (\<lambda>row.
                obind (iadd row start) (\<lambda>cell.
                obind (imul cell (BPP g)) (\<lambda>location.
                obind (imul count (BPP g)) (\<lambda>n.
                let skip = (if vx pos < 0 then - vx pos else 0)
                in obind (memcpy (backbuffer g) location bytes skip n)
                     (\<lambda>b. Ok (g\<lparr>backbuffer := b\<rparr>))))))))))))"

definition gpu_draw_transparent_xpm_checked :: "xpm_image \<Rightarrow> vec2 \<Rightarrow> vec2 \<Rightarrow> vec2 \<Rightarrow> gpu \<Rightarrow> gpu outcome" where
  "gpu_draw_transparent_xpm_checked xpm pos offset sz =
     for_loop 0 (vy sz) (\<lambda>y. for_loop 0 (vx sz) (\<lambda>x g.
       obind (iadd y (vy offset)) (\<lambda>iy.
       obind (imul iy (uint (img_width xpm))) (\<lambda>row.
       obind (iadd x (vx offset)) (\<lambda>ix.
       obind (iadd row ix) (\<lambda>cell.
       obind (aread_int (img_bytes xpm) cell) (\<lambda>byte.
         if byte \<noteq> 99
         then obind (iadd (vx pos) x) (\<lambda>px.
              obind (iadd (vy pos) y) (\<lambda>py.
              gpu_draw_pixel_checked (word_of_int px) (word_of_int py) (ucast byte) g))
         else Ok g)))))))"

definition gpu_draw_xpm_checked :: "xpm_image \<Rightarrow> vec2 \<Rightarrow> vec2 \<Rightarrow> vec2 \<Rightarrow> gpu \<Rightarrow> gpu outcome" where
  "gpu_draw_xpm_checked xpm pos offset sz g =
     obind (imul (vx sz) (BPP g)) (\<lambda>n.
     let allocated = (0 \<le> n \<and> n \<le> int (malloc_max g)) in
     obind (iadd (vy offset) (vy sz)) (\<lambda>stop.
     for_loop (vy offset) stop (\<lambda>y t.
       if \<not> allocated then Undefined
       else obind (imul y (uint (img_width xpm))) (\<lambda>row.
            obind (iadd row (vx offset)) (\<lambda>cell.
            obind (imul cell (BPP g)) (\<lambda>from.
            obind (memcpy (replicate (nat n) 0) 0 (img_bytes xpm) from n) (\<lambda>bytes.
            obind (iadd (vy pos) y) (\<lambda>sum.
            obind (isub sum (vy offset)) (\<lambda>py.
            gpu_draw_line_checked (VEC2 (vx pos) py) bytes (vx sz) t))))))) g))"

text \<open>A screen and a frame of moderate size.\<close>

definition small :: "gpu \<Rightarrow> bool" where
  "small g \<longleftrightarrow> bytes_per_pixel g = 1 \<and> X_RES g * Y_RES g < 2 ^ 31"

definition frame_small :: "xpm_image \<Rightarrow> vec2 \<Rightarrow> vec2 \<Rightarrow> vec2 \<Rightarrow> bool" where
  "frame_small im pos off sz \<longleftrightarrow> \<bar>vx pos\<bar> \<le> 70000 \<and> \<bar>vy pos\<bar> \<le> 70000 \<and> 0 \<le> vx off \<and> 0 \<le> vy off \<and> 0 \<le> vx sz \<and> 0 \<le> vy sz \<and>
     vx off + vx sz \<le> uint (img_width im) \<and> vy off + vy sz \<le> uint (img_height im) \<and> uint (img_width im) * uint (img_height im) < 2 ^ 31"

lemma uint16_bounds: "0 \<le> uint (w :: u16)" "uint w < 65536"
  using uint_lt2p [of w] by simp_all

text \<open>Row \<open>y\<close> of a table of \<open>h\<close> rows with \<open>w\<close> columns ends within the table.\<close>

lemma cell_int32:
  assumes "0 \<le> y" "y < h" "0 \<le> x" "x \<le> w" "w * h < (2 :: int) ^ 31"
  shows "int32 (y * w)" "int32 (y * w + x)"
proof -
  have "(y + 1) * w \<le> h * w" using assms by (intro mult_right_mono) auto
  then have "y * w + w \<le> w * h" by (simp add: algebra_simps)
  moreover have "0 \<le> y * w" "w * h < 2147483648" using assms by simp_all
  ultimately show "int32 (y * w)" "int32 (y * w + x)" using assms by (intro int32I; linarith)+
qed

lemma gpu_draw_pixel_same:
  assumes "small g"
  shows "gpu_draw_pixel_checked x y color g = gpu_draw_pixel x y color g"
proof (cases "x \<ge> x_res (gpu_res_info g) \<or> y \<ge> y_res (gpu_res_info g)")
  case True
  then show ?thesis by (auto simp: gpu_draw_pixel_checked_def gpu_draw_pixel_def)
next
  case False
  then have "uint x \<le> X_RES g" "uint y < Y_RES g" by (simp_all add: word_less_def not_le)
  then have "int32 (uint y * X_RES g)" "int32 (uint y * X_RES g + uint x)"
    using cell_int32 [of "uint y" "Y_RES g" "uint x" "X_RES g"] uint16_bounds assms by (simp_all add: small_def)
  then show ?thesis using assms by (simp add: gpu_draw_pixel_checked_def gpu_draw_pixel_def small_def Let_def)
qed

lemma gpu_draw_line_same:
  assumes g: "small g" and pos: "\<bar>vx pos\<bar> \<le> 70000" and n: "0 \<le> pixelsc" "pixelsc \<le> 65536"
  shows "gpu_draw_line_checked pos bytes pixelsc g = gpu_draw_line pos bytes pixelsc g"
proof (cases "vx pos > X_RES g \<or> vx pos + pixelsc < 0 \<or> vy pos < 0 \<or> vy pos \<ge> Y_RES g")
  case True
  have "int32 (vx pos + pixelsc)" using pos n by (intro int32_moderate) linarith
  with True show ?thesis by (auto simp: gpu_draw_line_checked_def gpu_draw_line_def)
next
  case False
  let ?start = "max (vx pos) 0" and ?stop = "min (X_RES g - 1) (vx pos + pixelsc - 1)"
  have x: "0 \<le> X_RES g" "X_RES g < 65536" by (rule uint16_bounds)+
  have b: "BPP g = 1" "X_RES g * Y_RES g < 2 ^ 31" using g by (simp_all add: small_def)
  have "0 \<le> ?start" "?start \<le> X_RES g" using False x by auto
  then have "int32 (vy pos * X_RES g)" "int32 (vy pos * X_RES g + ?start)"
    using cell_int32 [of "vy pos" "Y_RES g" ?start "X_RES g"] b False by auto
  moreover have "int32 (vx pos + pixelsc)" "int32 (X_RES g - 1)" "int32 (vx pos + pixelsc - 1)" "int32 (?stop - ?start)" "int32 (?stop - ?start + 1)"
    using pos n x by (intro int32_moderate; linarith)+
  ultimately show ?thesis
    using False b(1) by (simp add: gpu_draw_line_checked_def gpu_draw_line_def Let_def)
qed

text \<open>Drawing changes only the contents of the back buffer.\<close>

lemma draw_small:
  "small g \<Longrightarrow> gpu_draw_pixel x y color g = Ok g' \<Longrightarrow> small g'"
  "small g \<Longrightarrow> gpu_draw_line pos bytes n g = Ok g' \<Longrightarrow> small g'"
  by (auto simp: gpu_draw_pixel_def gpu_draw_line_def small_def Let_def split: if_splits)

lemma gpu_draw_xpm_small:
  assumes "small g" "gpu_draw_xpm im pos off sz g = Ok g'"
  shows "small g'"
  by (rule for_loop_keeps [where I = small, OF assms(1) assms(2) [unfolded gpu_draw_xpm_def Let_def]])
    (auto split: if_splits dest: draw_small)

lemma transparent_row_small:
  assumes "small s" "for_loop 0 n (\<lambda>x g. obind (aread_int bs (k + (x + dx))) (\<lambda>byte.
      if byte \<noteq> 99 then gpu_draw_pixel (word_of_int (px + x)) w (ucast byte) g else Ok g)) s = Ok s'"
  shows "small s'"
  by (rule for_loop_keeps [where I = small, OF assms]) (auto split: if_splits dest: draw_small)

lemma gpu_draw_transparent_xpm_small:
  assumes "small g" "gpu_draw_transparent_xpm im pos off sz g = Ok g'"
  shows "small g'"
  by (rule for_loop_keeps [where I = small, OF assms(1) assms(2) [unfolded gpu_draw_transparent_xpm_def]])
    (rule transparent_row_small)

text \<open>A frame is drawn with the same result.\<close>

lemma frame_small_cell:
  assumes "frame_small im pos off sz" "0 \<le> i" "i < vx sz" "0 \<le> j" "j < vy sz"
  shows "int32 ((j + vy off) * uint (img_width im))" "int32 ((j + vy off) * uint (img_width im) + (i + vx off))"
    "int32 (j + vy off)" "int32 (i + vx off)" "int32 (vx pos + i)" "int32 (vy pos + j)"
proof -
  have f: "0 \<le> vx off" "0 \<le> vy off" "vx off + vx sz \<le> uint (img_width im)" "vy off + vy sz \<le> uint (img_height im)"
      "uint (img_width im) * uint (img_height im) < 2 ^ 31" "\<bar>vx pos\<bar> \<le> 70000" "\<bar>vy pos\<bar> \<le> 70000"
    using assms(1) by (simp_all add: frame_small_def)
  have w: "uint (img_width im) < 65536" "uint (img_height im) < 65536" by (rule uint16_bounds)+
  show "int32 ((j + vy off) * uint (img_width im))" "int32 ((j + vy off) * uint (img_width im) + (i + vx off))"
    using cell_int32 [of "j + vy off" "uint (img_height im)" "i + vx off" "uint (img_width im)"] f assms(2-5) by simp_all
  show "int32 (j + vy off)" "int32 (i + vx off)" "int32 (vx pos + i)" "int32 (vy pos + j)"
    using f w assms(2-5) by (intro int32_moderate; linarith)+
qed

lemma gpu_draw_transparent_xpm_same:
  assumes g: "small g" and f: "frame_small im pos off sz"
  shows "gpu_draw_transparent_xpm_checked im pos off sz g = gpu_draw_transparent_xpm im pos off sz g"
  unfolding gpu_draw_transparent_xpm_checked_def gpu_draw_transparent_xpm_def
proof (rule for_loop_cong_inv [where I = small, OF g])
  fix j t
  assume j: "0 \<le> j" "j < vy sz" and t: "small t"
  show "for_loop 0 (vx sz) (\<lambda>x g.
       obind (iadd j (vy off)) (\<lambda>iy.
       obind (imul iy (uint (img_width im))) (\<lambda>row.
       obind (iadd x (vx off)) (\<lambda>ix.
       obind (iadd row ix) (\<lambda>cell.
       obind (aread_int (img_bytes im) cell) (\<lambda>byte.
         if byte \<noteq> 99
         then obind (iadd (vx pos) x) (\<lambda>px.
              obind (iadd (vy pos) j) (\<lambda>py.
              gpu_draw_pixel_checked (word_of_int px) (word_of_int py) (ucast byte) g))
         else Ok g)))))) t =
    for_loop 0 (vx sz) (\<lambda>x g.
       obind (aread_int (img_bytes im) ((j + vy off) * uint (img_width im) + (x + vx off))) (\<lambda>byte.
         if byte \<noteq> 99 then gpu_draw_pixel (word_of_int (vx pos + x)) (word_of_int (vy pos + j)) (ucast byte) g
         else Ok g)) t"
  proof (rule for_loop_cong_inv [where I = small, OF t])
    fix i u
    assume i: "0 \<le> i" "i < vx sz" and u: "small u"
    note c = frame_small_cell [OF f i j]
    show "obind (iadd j (vy off)) (\<lambda>iy.
       obind (imul iy (uint (img_width im))) (\<lambda>row.
       obind (iadd i (vx off)) (\<lambda>ix.
       obind (iadd row ix) (\<lambda>cell.
       obind (aread_int (img_bytes im) cell) (\<lambda>byte.
         if byte \<noteq> 99
         then obind (iadd (vx pos) i) (\<lambda>px.
              obind (iadd (vy pos) j) (\<lambda>py.
              gpu_draw_pixel_checked (word_of_int px) (word_of_int py) (ucast byte) u))
         else Ok u))))) =
      obind (aread_int (img_bytes im) ((j + vy off) * uint (img_width im) + (i + vx off))) (\<lambda>byte.
         if byte \<noteq> 99 then gpu_draw_pixel (word_of_int (vx pos + i)) (word_of_int (vy pos + j)) (ucast byte) u
         else Ok u)"
      using c gpu_draw_pixel_same [OF u] by (simp cong: if_cong)
  qed (auto split: if_splits dest: draw_small)
qed (rule transparent_row_small)

lemma gpu_draw_xpm_same:
  assumes g: "small g" and f: "frame_small im pos off sz"
  shows "gpu_draw_xpm_checked im pos off sz g = gpu_draw_xpm im pos off sz g"
proof -
  have b: "bytes_per_pixel g = 1" using g by (simp add: small_def)
  have s: "0 \<le> vx off" "0 \<le> vy off" "0 \<le> vx sz" "0 \<le> vy sz" "vx off + vx sz \<le> uint (img_width im)" "vy off + vy sz \<le> uint (img_height im)"
      "uint (img_width im) * uint (img_height im) < 2 ^ 31" "\<bar>vx pos\<bar> \<le> 70000" "\<bar>vy pos\<bar> \<le> 70000"
    using f by (simp_all add: frame_small_def)
  have w: "uint (img_width im) < 65536" "uint (img_height im) < 65536" by (rule uint16_bounds)+
  have sums: "int32 (vx sz)" "int32 (vy off + vy sz)" using s w by (intro int32_moderate; linarith)+
  have n: "imul (vx sz) (BPP g) = Ok (vx sz * BPP g)" "iadd (vy off) (vy sz) = Ok (vy off + vy sz)" using sums b by simp_all
  show ?thesis
    unfolding gpu_draw_xpm_checked_def gpu_draw_xpm_def Let_def n obind.simps
  proof (rule for_loop_cong_inv [where I = small, OF g])
    fix y t
    assume y: "vy off \<le> y" "y < vy off + vy sz" and t: "small t"
    have "int32 (y * uint (img_width im))" "int32 (y * uint (img_width im) + vx off)"
      using cell_int32 [of y "uint (img_height im)" "vx off" "uint (img_width im)"] s y by simp_all
    moreover have "int32 (vy pos + y)" "int32 (vy pos + y - vy off)" using s w y by (intro int32_moderate; linarith)+
    moreover have "gpu_draw_line_checked (VEC2 (vx pos) v) bytes (vx sz) t = gpu_draw_line (VEC2 (vx pos) v) bytes (vx sz) t" for v bytes
      using s w by (intro gpu_draw_line_same [OF t]) simp_all
    ultimately show "(if \<not> (0 \<le> vx sz * BPP g \<and> vx sz * BPP g \<le> int (malloc_max g)) then Undefined
       else obind (imul y (uint (img_width im))) (\<lambda>row.
            obind (iadd row (vx off)) (\<lambda>cell.
            obind (imul cell (BPP g)) (\<lambda>from.
            obind (memcpy (replicate (nat (vx sz * BPP g)) 0) 0 (img_bytes im) from (vx sz * BPP g)) (\<lambda>bytes.
            obind (iadd (vy pos) y) (\<lambda>sum.
            obind (isub sum (vy off)) (\<lambda>py.
            gpu_draw_line_checked (VEC2 (vx pos) py) bytes (vx sz) t))))))) =
      (if \<not> (0 \<le> vx sz * BPP g \<and> vx sz * BPP g \<le> int (malloc_max g)) then Undefined
       else obind (memcpy (replicate (nat (vx sz * BPP g)) 0) 0 (img_bytes im) ((y * uint (img_width im) + vx off) * BPP g) (vx sz * BPP g))
              (\<lambda>bytes. gpu_draw_line (VEC2 (vx pos) (vy pos + y - vy off)) bytes (vx sz) t))"
      by (simp add: b cong: if_cong)
  qed (auto split: if_splits dest: draw_small)
qed

section \<open>Sprites, elements and menus\<close>

definition Sprite_draw_checked :: "Sprite \<Rightarrow> vec2 \<Rightarrow> gpu \<Rightarrow> (Sprite \<times> gpu) outcome" where
  "Sprite_draw_checked s pos g =
     (case img s of
        None \<Rightarrow> Ok (s, g)
      | Some im \<Rightarrow>
          if img_type im = INVALID_XPM then Ok (s\<lparr>img := None\<rparr>, g)
          else obind (aread (offsets s) (unat (current_frame s))) (\<lambda>off.
               obind (aread (sizes s) (unat (current_frame s))) (\<lambda>sz.
               obind (if transparent s then gpu_draw_transparent_xpm_checked im pos off sz g
                      else gpu_draw_xpm_checked im pos off sz g) (\<lambda>g'.
               obind (sprite_tick s) (\<lambda>s'. Ok (s', g'))))))"

definition ui_element_draw_checked :: "ui_element option \<Rightarrow> gpu \<Rightarrow> (ui_element option \<times> gpu) outcome" where
  "ui_element_draw_checked el g =
     (case el of
        None \<Rightarrow> Undefined
      | Some e \<Rightarrow>
          (case el_sprite e of
             None \<Rightarrow> Undefined
           | Some s \<Rightarrow> obind (Sprite_draw_checked s (position (el_aabb e)) g) (\<lambda>(s', g'). Ok (Some (e\<lparr>el_sprite := Some s'\<rparr>), g'))))"

fun menu_draw_loop_checked :: "nat \<Rightarrow> ui_element option cells \<Rightarrow> nat option \<Rightarrow> gpu \<Rightarrow> (ui_element option cells \<times> gpu) outcome" where
  "menu_draw_loop_checked 0 c node g = Diverges"
| "menu_draw_loop_checked (Suc fuel) c None g = Ok (c, g)"
| "menu_draw_loop_checked (Suc fuel) c (Some t) g =
     (case c t of
        None \<Rightarrow> Undefined
      | Some n \<Rightarrow>
          obind (ui_element_draw_checked (node_data n) g) (\<lambda>(e, g').
            menu_draw_loop_checked fuel (c(t \<mapsto> n\<lparr>node_data := e\<rparr>)) (node_next n) g'))"

definition Menu_draw_checked :: "Menu option \<Rightarrow> ui_heap \<Rightarrow> gpu \<Rightarrow> (ui_heap \<times> gpu) outcome" where
  "Menu_draw_checked menu h g =
     (case menu of
        None \<Rightarrow> Undefined
      | Some m \<Rightarrow> obind (menu_draw_loop_checked (Suc (Suc (brk h))) (cells h) (element m) g) (\<lambda>(c, g').
                   Ok (h\<lparr>cells := c\<rparr>, g')))"

text \<open>A sprite whose frames are of moderate size where it is drawn, and an element with such a sprite.\<close>

definition sprite_small :: "Sprite \<Rightarrow> vec2 \<Rightarrow> bool" where
  "sprite_small s pos \<longleftrightarrow> (\<forall>im i. img s = Some im \<longrightarrow> i < length (offsets s) \<longrightarrow> i < length (sizes s) \<longrightarrow> frame_small im pos (offsets s ! i) (sizes s ! i))"

definition box_small :: "aabb \<Rightarrow> bool" where
  "box_small area \<longleftrightarrow> \<bar>vx (position area)\<bar> \<le> 70000 \<and> \<bar>vy (position area)\<bar> \<le> 70000 \<and>
     \<bar>vx (size_of area)\<bar> \<le> 70000 \<and> \<bar>vy (size_of area)\<bar> \<le> 70000"

definition element_small :: "ui_element option \<Rightarrow> bool" where
  "element_small el \<longleftrightarrow> still el \<and> (\<forall>e s. el = Some e \<longrightarrow> el_sprite e = Some s \<longrightarrow> box_small (el_aabb e) \<and> sprite_small s (position (el_aabb e)))"

lemma Sprite_draw_same:
  assumes "small g" "sprite_small s pos"
  shows "Sprite_draw_checked s pos g = Sprite_draw s pos g"
proof -
  have "(if transparent s then gpu_draw_transparent_xpm_checked im pos off sz g else gpu_draw_xpm_checked im pos off sz g) =
      (if transparent s then gpu_draw_transparent_xpm im pos off sz g else gpu_draw_xpm im pos off sz g)"
    if "img s = Some im" "aread (offsets s) (unat (current_frame s)) = Ok off" "aread (sizes s) (unat (current_frame s)) = Ok sz" for im off sz
    using that assms gpu_draw_transparent_xpm_same gpu_draw_xpm_same by (simp add: sprite_small_def)
  then show ?thesis
    unfolding Sprite_draw_checked_def Sprite_draw_def by (auto split: option.split simp del: aread_Ok intro!: obind_cong)
qed

lemma Sprite_draw_small: "small g \<Longrightarrow> Sprite_draw s pos g = Ok (s', g') \<Longrightarrow> small g'"
  by (auto simp: Sprite_draw_def split: option.splits if_splits dest: gpu_draw_xpm_small gpu_draw_transparent_xpm_small)

lemma ui_element_draw_same: "small g \<Longrightarrow> element_small e \<Longrightarrow> ui_element_draw_checked e g = ui_element_draw e g"
  by (auto simp: ui_element_draw_checked_def ui_element_draw_def element_small_def Sprite_draw_same split: option.split)

lemma ui_element_draw_small: "small g \<Longrightarrow> ui_element_draw e g = Ok (e', g') \<Longrightarrow> small g'"
  by (auto simp: ui_element_draw_def split: option.splits dest: Sprite_draw_small)

lemma menu_draw_loop_small: "small g \<Longrightarrow> menu_draw_loop fuel c p g = Ok (c', g') \<Longrightarrow> small g'"
  by (induction fuel c p g rule: menu_draw_loop.induct) (auto split: option.splits dest: ui_element_draw_small)

lemma menu_draw_loop_same:
  "path c p as None \<Longrightarrow> list_all element_small (contents c as) \<Longrightarrow> small g \<Longrightarrow> menu_draw_loop_checked fuel c p g = menu_draw_loop fuel c p g"
proof (induction as arbitrary: p fuel g)
  case Nil
  then show ?case by (cases fuel) simp_all
next
  case (Cons a as)
  show ?case
  proof (cases fuel)
    case (Suc k)
    from Cons.prems(1) obtain n where n: "p = Some a" "c a = Some n" "path c (node_next n) as None" by auto
    have s: "element_small (node_data n)" "list_all element_small (contents c as)" using Cons.prems(2) n(2) by (simp_all add: contents_def)
    have "menu_draw_loop_checked k (c(a \<mapsto> n\<lparr>node_data := e\<rparr>)) (node_next n) g1 = menu_draw_loop k (c(a \<mapsto> n\<lparr>node_data := e\<rparr>)) (node_next n) g1"
      if e: "ui_element_draw (node_data n) g = Ok (e, g1)" for e g1
    proof -
      have "still (node_data n)" using s(1) by (simp add: element_small_def)
      from ui_element_draw_still [OF this e] have c: "c(a \<mapsto> n\<lparr>node_data := e\<rparr>) = c" using n(2) by auto
      show ?thesis unfolding c by (rule Cons.IH [OF n(3) s(2) ui_element_draw_small [OF Cons.prems(3) e]])
    qed
    then have "obind (ui_element_draw (node_data n) g) (\<lambda>(e, g'). menu_draw_loop_checked k (c(a \<mapsto> n\<lparr>node_data := e\<rparr>)) (node_next n) g') =
        obind (ui_element_draw (node_data n) g) (\<lambda>(e, g'). menu_draw_loop k (c(a \<mapsto> n\<lparr>node_data := e\<rparr>)) (node_next n) g')"
      by (intro obind_cong) auto
    then show ?thesis using n(1,2) ui_element_draw_same [OF Cons.prems(3) s(1)] by (simp add: Suc)
  qed simp
qed

lemma Menu_draw_same:
  assumes "node_rep h (element m) A xs" "list_all element_small xs" "small g"
  shows "Menu_draw_checked (Some m) h g = Menu_draw (Some m) h g"
proof -
  from assms(1) obtain as where "path (cells h) (element m) as None" "contents (cells h) as = xs" by (auto simp: node_rep_def holds_def)
  with menu_draw_loop_same assms(2,3) show ?thesis by (simp add: Menu_draw_checked_def Menu_draw_def)
qed

lemma Menu_draw_small: "small g \<Longrightarrow> Menu_draw m h g = Ok (h', g') \<Longrightarrow> small g'"
  by (auto simp: Menu_draw_def split: option.splits dest: menu_draw_loop_small)

text \<open>The elements of the menus are small.\<close>

lemma xpm_dims_small: "fst (xpm_dims a) * snd (xpm_dims a) < 2 ^ 31"
  by (cases a) (simp_all add: dims_defs)

lemma realises_small:
  assumes load: "loader_ok load" and fits: "widget_fits w" and e: "realises load w e"
  shows "element_small e"
proof -
  from e obtain s where s: "e = Some \<lparr>el_aabb = w_area w, el_sprite = Some s, on_click = w_click w\<rparr>" "img s = Some (snd (load (w_asset w)))"
      "offsets s = [w_offset w]" "sizes s = [w_size w]"
    by (auto simp: realises_def widget_sprite_def)
  obtain colors im where im: "load (w_asset w) = (colors, im)" by fastforce
  have "frame_small im (position (w_area w)) (w_offset w) (w_size w)"
    using fits xpm_dims_small [of "w_asset w"] by (simp add: frame_small_def widget_fits_def abs_le_iff loader_okD [OF load im])
  moreover have "box_small (w_area w)" using fits by (simp add: box_small_def widget_fits_def abs_le_iff)
  ultimately show ?thesis using s im realises_still [OF load e] by (simp add: element_small_def sprite_small_def)
qed

lemma list_realises_small:
  assumes "loader_ok load" "list_all widget_fits ws" "list_all2 (realises load) ws xs"
  shows "list_all element_small xs"
  using assms(3,2) by (induction rule: list_all2_induct) (auto intro: realises_small [OF assms(1)])

section \<open>The mouse\<close>

text \<open>\<open>||\<close> evaluates its right side only when the left side is false.\<close>

definition AABB_contains_checked :: "aabb \<Rightarrow> vec2 \<Rightarrow> bool outcome" where
  "AABB_contains_checked area point =
     (if vx point < vx (position area) then Ok False
      else obind (iadd (vx (position area)) (vx (size_of area))) (\<lambda>right.
           if vx point > right then Ok False
           else if vy point < vy (position area) then Ok False
           else obind (iadd (vy (position area)) (vy (size_of area))) (\<lambda>bottom.
                if vy point > bottom then Ok False else Ok True)))"

definition clamp_checked :: "int \<Rightarrow> u16 \<Rightarrow> int outcome" where
  "clamp_checked v res = (let w = (if v > 0 then v else 0) in if w < uint res then Ok w else isub (uint res) 1)"

definition mouse_apply_packet_checked :: "gpu \<Rightarrow> mouse_mgr \<times> mouse_drv \<Rightarrow> (mouse_mgr \<times> mouse_drv) outcome" where
  "mouse_apply_packet_checked g = (\<lambda>(m, d).
     if mouse_packet_ready d
     then case mouse_get_packet d of
            None \<Rightarrow> Ok (m, d)
          | Some (p, d') \<Rightarrow>
              obind (iadd (vx (mouse_pos m)) (sint (delta_x p))) (\<lambda>x.
              obind (clamp_checked x (x_res (gpu_get_gpu_res_info g))) (\<lambda>x.
              obind (isub (vy (mouse_pos m)) (sint (delta_y p))) (\<lambda>y.
              obind (clamp_checked y (y_res (gpu_get_gpu_res_info g))) (\<lambda>y.
              Ok (m\<lparr>mouse_packet := p, mouse_pos := VEC2 x y, prev_buttons := [buttons m ! 0, buttons m ! 1, buttons m ! 2],
                    buttons := [lb p, mb p, rb p]\<rparr>, d')))))
     else Ok (m, d))"

definition Mouse_handle_checked :: "kernel \<Rightarrow> gpu \<Rightarrow> mouse_mgr \<times> mouse_drv \<times> trace \<Rightarrow> (mouse_mgr \<times> mouse_drv \<times> trace) outcome" where
  "Mouse_handle_checked K g = (\<lambda>(m, d, tr).
     case mouse_read_packet K (d, tr) of (_, (d1, tr1)) \<Rightarrow>
     obind (mouse_apply_packet_checked g (m, d1)) (\<lambda>(m', d'). Ok (m', d', tr1)))"

fun mouse_hit_loop_checked :: "nat \<Rightarrow> ui_element option cells \<Rightarrow> nat option \<Rightarrow> vec2 \<Rightarrow> callback option outcome" where
  "mouse_hit_loop_checked 0 c node pos = Diverges"
| "mouse_hit_loop_checked (Suc fuel) c None pos = Ok None"
| "mouse_hit_loop_checked (Suc fuel) c (Some t) pos =
     (case c t of
        None \<Rightarrow> Undefined
      | Some n \<Rightarrow>
          (case node_data n of
             None \<Rightarrow> Undefined
           | Some e \<Rightarrow>
               obind (AABB_contains_checked (el_aabb e) pos) (\<lambda>inside.
               if inside \<and> on_click e \<noteq> None then Ok (on_click e)
               else mouse_hit_loop_checked fuel c (node_next n) pos)))"

definition mouse_interact_checked :: "mouse_mgr \<Rightarrow> gamestate \<Rightarrow> ui_heap \<Rightarrow> (mouse_mgr \<times> gamestate) outcome" where
  "mouse_interact_checked m gs h =
     (if Gamestate_get_state gs = GS_MAIN \<or> Gamestate_get_state gs = GS_LEADERBOARD
      then case Gamestate_get_current_menu gs of
             None \<Rightarrow> Undefined
           | Some menu \<Rightarrow>
               obind (Mouse_state MOUSE_NORMAL m) (\<lambda>m.
               obind (mouse_hit_loop_checked (Suc (Suc (brk h))) (cells h) (element menu) (mouse_pos m)) (\<lambda>hit.
                 case hit of
                   None \<Rightarrow> Ok (m, gs)
                 | Some f \<Rightarrow>
                     let gs' = (if left_click m then run_callback f gs else gs)
                     in obind (Mouse_state MOUSE_CLICK m) (\<lambda>m. Ok (m, gs'))))
      else Ok (m, gs))"

definition mouse_draw_cursor_checked :: "mouse_mgr \<Rightarrow> gpu \<Rightarrow> (mouse_mgr \<times> gpu) outcome" where
  "mouse_draw_cursor_checked m g =
     (if \<not> hidden m
      then case mouse_sprite m of
             None \<Rightarrow> Undefined
           | Some s \<Rightarrow>
               obind (if current_frame s = mouse_state_value MOUSE_CLICK
                      then obind (isub (vx (mouse_pos m)) 9) (\<lambda>x. Ok (VEC2 x (vy (mouse_pos m)))) else Ok (mouse_pos m)) (\<lambda>pos.
               obind (Sprite_draw_checked s pos g) (\<lambda>(s', g'). Ok (m\<lparr>mouse_sprite := Some s'\<rparr>, g')))
      else Ok (m, g))"

definition Mouse_draw_checked ::
  "mouse_mgr \<Rightarrow> gamestate \<Rightarrow> ui_heap \<Rightarrow> gpu \<Rightarrow> (mouse_mgr \<times> gamestate \<times> gpu) outcome" where
  "Mouse_draw_checked m gs h g =
     obind (mouse_interact_checked m gs h) (\<lambda>(m, gs).
     obind (mouse_draw_cursor_checked m g) (\<lambda>(m, g). Ok (m, gs, g)))"

lemma AABB_contains_same:
  assumes "box_small area"
  shows "AABB_contains_checked area pos = Ok (AABB_contains area pos)"
proof -
  have "int32 (vx (position area) + vx (size_of area))" "int32 (vy (position area) + vy (size_of area))"
    using assms by (auto simp: box_small_def intro!: int32_moderate)
  then show ?thesis by (simp add: AABB_contains_checked_def AABB_contains_def)
qed

lemma mouse_hit_loop_same:
  "path c p as None \<Longrightarrow> list_all element_small (contents c as) \<Longrightarrow> mouse_hit_loop_checked fuel c p pos = mouse_hit_loop fuel c p pos"
proof (induction as arbitrary: p fuel)
  case Nil
  then show ?case by (cases fuel) simp_all
next
  case (Cons a as)
  from Cons.prems(1) obtain n where n: "p = Some a" "c a = Some n" "path c (node_next n) as None" by auto
  have s: "element_small (node_data n)" "list_all element_small (contents c as)" using Cons.prems(2) n(2) by (simp_all add: contents_def)
  then have "box_small (el_aabb e)" if "node_data n = Some e" for e using that by (auto simp: element_small_def still_def)
  with Cons.IH [OF n(3) s(2)] show ?case using n(1,2) by (cases fuel) (auto simp: AABB_contains_same split: option.split)
qed

lemma mouse_interact_same:
  assumes "\<And>m. Gamestate_get_current_menu gs = Some m \<Longrightarrow> \<exists>A xs. node_rep h (element m) A xs \<and> list_all element_small xs"
  shows "mouse_interact_checked m gs h = mouse_interact m gs h"
proof -
  have "mouse_hit_loop_checked fuel (cells h) (element menu) pos = mouse_hit_loop fuel (cells h) (element menu) pos"
    if menu: "Gamestate_get_current_menu gs = Some menu" for menu fuel pos
  proof -
    from assms [OF menu] obtain as where "path (cells h) (element menu) as None" "list_all element_small (contents (cells h) as)"
      by (auto simp: node_rep_def holds_def)
    then show ?thesis by (rule mouse_hit_loop_same)
  qed
  then show ?thesis by (auto simp: mouse_interact_checked_def mouse_interact_def split: option.split)
qed

lemma on_screen_moderate:
  assumes "mouse_ok g m"
  shows "0 \<le> vx (mouse_pos m)" "vx (mouse_pos m) < 65536" "0 \<le> vy (mouse_pos m)" "vy (mouse_pos m) < 65536"
  using assms uint16_bounds(2) [of "x_res (gpu_res_info g)"] uint16_bounds(2) [of "y_res (gpu_res_info g)"]
  by (auto simp: mouse_ok_def on_screen_def)

lemma sint16_bounds: "- 32768 \<le> sint (w :: u16)" "sint w < 32768"
  using sint_range_size [of w] by (simp_all add: word_size)

lemma clamp_same: "clamp_checked v res = Ok (clamp v res)"
proof -
  have "int32 (uint res - 1)" using uint16_bounds [of res] by (intro int32_moderate) linarith
  then show ?thesis by (simp add: clamp_checked_def clamp_def Let_def)
qed

lemma mouse_apply_packet_same:
  assumes "mouse_ok g m"
  shows "mouse_apply_packet_checked g (m, d) = Ok (mouse_apply_packet g (m, d))"
proof -
  have "int32 (vx (mouse_pos m) + sint (w :: u16))" "int32 (vy (mouse_pos m) - sint w)" for w
    using on_screen_moderate [OF assms] sint16_bounds [of w] by (intro int32_moderate; linarith)+
  then show ?thesis
    by (auto simp: mouse_apply_packet_checked_def mouse_apply_packet_def clamp_same split: option.split)
qed

lemma Mouse_handle_same: "mouse_ok g m \<Longrightarrow> Mouse_handle_checked K g (m, d, tr) = Ok (Mouse_handle K g (m, d, tr))"
  by (simp add: Mouse_handle_checked_def Mouse_handle_def mouse_apply_packet_same split: prod.split)

lemma cursor_small:
  assumes "cursor_sprite s" "\<bar>vx pos\<bar> \<le> 70000" "\<bar>vy pos\<bar> \<le> 70000"
  shows "sprite_small s pos"
  using assms by (auto simp: sprite_small_def cursor_sprite_def frame_small_def mouse_dims_def less_Suc_eq)

lemma mouse_draw_cursor_same:
  assumes m: "mouse_ok g m" and g: "small g'"
  shows "mouse_draw_cursor_checked m g' = mouse_draw_cursor m g'"
proof -
  from m obtain s where s: "mouse_sprite m = Some s" "cursor_sprite s" by (auto simp: mouse_ok_def)
  note b = on_screen_moderate [OF m]
  have i: "int32 (vx (mouse_pos m) - 9)" using b by (intro int32_moderate) linarith
  have "sprite_small s (mouse_pos m)" "sprite_small s (VEC2 (vx (mouse_pos m) - 9) (vy (mouse_pos m)))"
    using b by (intro cursor_small [OF s(2)]; simp)+
  then show ?thesis using s(1) i by (simp add: mouse_draw_cursor_checked_def mouse_draw_cursor_def Let_def Sprite_draw_same [OF g])
qed

lemma Mouse_draw_same:
  assumes m: "mouse_ok g m" and g: "small g'" and gs: "gamestate_ok gs" and menus: "menus_ok g gs h"
    and els: "\<And>m. Gamestate_get_current_menu gs = Some m \<Longrightarrow> \<exists>A xs. node_rep h (element m) A xs \<and> list_all element_small xs"
  shows "Mouse_draw_checked m gs h g' = Mouse_draw m gs h g'"
proof -
  have "mouse_interact_checked m gs h = mouse_interact m gs h" by (rule mouse_interact_same) (rule els)
  then show ?thesis
    by (simp add: Mouse_draw_checked_def Mouse_draw_def mouse_interact_ok [OF m gs menus] mouse_draw_cursor_same [OF pointed_ok [OF m] g])
qed

end
