(* ===== verification/Checked_Game.thy ===== *)
theory Checked_Game
  imports Checked_Drawing
begin

text \<open>
  The whole program with every \<open>int\<close> operation of the project's own code checked: the functions that build the leaderboard's menu, the interrupt
  handlers and the main loop, on top of \<open>Checked_Drawing\<close>.  The functions that are not repeated here compute with unsigned words, constants and loop counters only, or have the
  checks already (\<open>gpu_init_mem_indexation\<close>, the conversions of dates and the reading of the leaderboard file).  The theorem: the checked program does what the
  unchecked one does, so that no \<open>int\<close> operation ever overflows.
\<close>

section \<open>The leaderboard's menu\<close>

definition char_index_checked :: "char \<Rightarrow> int option outcome" where
  "char_index_checked c =
     (let n = int (of_char c) in
      if c = CHR '','' then Ok (Some 0)
      else if c = CHR ''-'' then Ok (Some 1)
      else if c = CHR ''.'' then Ok (Some 2)
      else if c = CHR ''/'' then Ok (Some 3)
      else if 48 \<le> n \<and> n \<le> 57 then obind (isub n 48) (\<lambda>d. obind (iadd 4 d) (\<lambda>i. Ok (Some i)))
      else if c = CHR '':'' then Ok (Some 14)
      else if 65 \<le> n \<and> n \<le> 90 then obind (isub n 65) (\<lambda>d. obind (iadd 15 d) (\<lambda>i. Ok (Some i)))
      else if c = CHR ''|'' then Ok (Some 41)
      else Ok None)"

definition calculate_char_coord_checked :: "char \<Rightarrow> CharSprite outcome" where
  "calculate_char_coord_checked c =
     obind (char_index_checked c) (\<lambda>i. case i of
        None \<Rightarrow> Ok \<lparr>cs_x = 0, cs_y = 0, cs_width = 0, cs_height = 0\<rparr>
      | Some index \<Rightarrow> obind (imul index CHAR_HEIGHT) (\<lambda>y. Ok \<lparr>cs_x = 0, cs_y = y, cs_width = CHAR_WIDTH, cs_height = CHAR_HEIGHT\<rparr>))"

fun Menu_create_ui_from_string_checked ::
  "loader \<Rightarrow> (nat \<Rightarrow> Sprite) \<Rightarrow> Menu \<Rightarrow> string \<Rightarrow> int \<Rightarrow> int \<Rightarrow> ui_heap \<Rightarrow> (Menu \<times> ui_heap) outcome" where
  "Menu_create_ui_from_string_checked xpm_load raw menu [] x_offset start_y h = Ok (menu, h)"
| "Menu_create_ui_from_string_checked xpm_load raw menu (c # str) x_offset start_y h =
     obind (calculate_char_coord_checked c) (\<lambda>coord.
     obind (new_sprite xpm_load raw alphabet_sprites (VEC2 (cs_x coord) (cs_y coord))
              (VEC2 (cs_width coord) (cs_height coord)) h) (\<lambda>(char_sprite, h1).
     case new_element (AABB (VEC2 x_offset start_y) (VEC2 60 80)) char_sprite None h1 of (character, h2) \<Rightarrow>
     obind (Node_append h2 (element menu) character) (\<lambda>(h3, head).
     obind (iadd x_offset (cs_width coord)) (\<lambda>x.
       Menu_create_ui_from_string_checked xpm_load raw (menu\<lparr>element := head\<rparr>) str x start_y h3))))"

fun leaderboard_rows_checked ::
  "loader \<Rightarrow> (nat \<Rightarrow> Sprite) \<Rightarrow> LeaderboardEntry list \<Rightarrow> nat \<Rightarrow> nat \<Rightarrow> Menu \<Rightarrow> ui_heap \<Rightarrow> (Menu \<times> ui_heap) outcome" where
  "leaderboard_rows_checked xpm_load raw es i 0 menu h = Ok (menu, h)"
| "leaderboard_rows_checked xpm_load raw es i (Suc k) menu h =
     obind (aread es i) (\<lambda>entry.
     obind (imul (int i) 170) (\<lambda>below.
     obind (iadd 240 below) (\<lambda>y_position.
     obind (unix_to_rtc_date_time (time_entry entry) dt_zero) (\<lambda>rdt.
     obind (iadd (int i) 1) (\<lambda>place.
     let first_line = snprintf 15 (show_nat (nat place) @ ''.'' @ entry_name entry @ ''|'' @ hms rdt);
         second_line = snprintf 21 (second_line_text entry)
     in obind (Menu_create_ui_from_string_checked xpm_load raw menu first_line 30 y_position h) (\<lambda>(menu, h).
        obind (iadd y_position 80) (\<lambda>y.
        obind (Menu_create_ui_from_string_checked xpm_load raw menu second_line 118 y h) (\<lambda>(menu, h).
        obind (iadd (int i) 1) (\<lambda>next_i.
        leaderboard_rows_checked xpm_load raw es (nat next_i) k menu h)))))))))"

definition Menu_create_leaderboard_checked ::
  "loader \<Rightarrow> (nat \<Rightarrow> Sprite) \<Rightarrow> Leaderboard \<Rightarrow> ui_heap \<Rightarrow> (Menu \<times> ui_heap) outcome" where
  "Menu_create_leaderboard_checked xpm_load raw leaderboard h =
     obind (new_menu h) (\<lambda>h.
     obind (new_sprite xpm_load raw trophy_xpm (VEC2 0 0) (VEC2 300 300) h) (\<lambda>(logo_sprite, h).
     case new_element (AABB (VEC2 102 (- 20)) (VEC2 800 150)) logo_sprite None h of (logo, h) \<Rightarrow>
     obind (new_sprite xpm_load raw leaderboard_button_xpm (VEC2 0 0) (VEC2 402 97) h) (\<lambda>(leaderboard_button, h).
     case new_element (AABB (VEC2 415 70) (VEC2 402 97)) leaderboard_button (Some on_click_leaderboard) h of (leaderboard_ui, h) \<Rightarrow>
     obind (Node_create h logo) (\<lambda>(node, h).
     obind (Node_append h (Some node) leaderboard_ui) (\<lambda>(h, head).
     leaderboard_rows_checked xpm_load raw (entries leaderboard) 0 (entry_count leaderboard) \<lparr>element = head\<rparr> h)))))"

definition Gamestate_init_checked ::
  "loader \<Rightarrow> (nat \<Rightarrow> Sprite) \<Rightarrow> string option \<Rightarrow> Leaderboard \<Rightarrow> gamestate \<Rightarrow> ui_heap \<Rightarrow> (gamestate \<times> ui_heap) outcome" where
  "Gamestate_init_checked xpm_load raw txt theLeaderboard gs h =
     obind (Menu_create_main_menu xpm_load raw h) (\<lambda>(m, h).
     let gs = gs\<lparr>main_menu := Some m\<rparr> in
     obind (Leaderboard_read_file txt theLeaderboard) (\<lambda>(_, theLeaderboard).
     obind (Menu_create_leaderboard_checked xpm_load raw theLeaderboard h) (\<lambda>(m, h).
     let gs = gs\<lparr>leaderboard_menu := Some m\<rparr> in
     Ok (Gamestate_main_menu gs, h))))"

lemma char_index_same: "char_index_checked c = Ok (char_index c)"
proof -
  define n where "n = int (of_char c)"
  have i: "48 \<le> n \<Longrightarrow> n \<le> 57 \<Longrightarrow> int32 (n - 48)" "48 \<le> n \<Longrightarrow> n \<le> 57 \<Longrightarrow> int32 (n - 44)" by (intro int32_moderate; simp)+
  have j: "65 \<le> n \<Longrightarrow> n \<le> 90 \<Longrightarrow> int32 (n - 65)" "65 \<le> n \<Longrightarrow> n \<le> 90 \<Longrightarrow> int32 (n - 50)" by (intro int32_moderate; simp)+
  show ?thesis
    unfolding char_index_checked_def char_index_def n_def [symmetric] Let_def by (simp add: i j if_distrib [of Ok] cong: if_cong)
qed

lemma calculate_char_coord_same: "calculate_char_coord_checked c = Ok (calculate_char_coord c)"
proof -
  have "int32 (i * CHAR_HEIGHT)" if "char_index c = Some i" for i
    using char_index_bounds [OF that] by (intro int32_moderate) (simp add: CHAR_HEIGHT_def)
  then show ?thesis
    by (auto simp: calculate_char_coord_checked_def calculate_char_coord_def char_index_same split: option.split)
qed

lemma Menu_create_ui_from_string_same:
  "0 \<le> x \<Longrightarrow> x + 44 * int (length str) \<le> 70000 \<Longrightarrow>
    Menu_create_ui_from_string_checked load raw m str x y h = Menu_create_ui_from_string load raw m str x y h"
proof (induction str arbitrary: m x h)
  case (Cons c str)
  let ?w = "cs_width (calculate_char_coord c)"
  have w: "0 \<le> ?w" "?w \<le> 44" using calculate_char_coord_fits [of c] by (simp_all add: alphabet_dims_def)
  then have "int32 (x + ?w)" using Cons.prems by (intro int32_moderate) simp
  moreover have "Menu_create_ui_from_string_checked load raw m' str (x + ?w) y h' = Menu_create_ui_from_string load raw m' str (x + ?w) y h'" for m' h'
    using w Cons.prems by (intro Cons.IH) simp_all
  ultimately show ?case by (simp add: calculate_char_coord_same Let_def)
qed simp

lemma leaderboard_rows_same:
  "i + k \<le> 3 \<Longrightarrow> leaderboard_rows_checked load raw es i k m h = leaderboard_rows load raw es i k m h"
proof (induction k arbitrary: i m h)
  case (Suc k)
  have i: "int32 (int i * 170)" "int32 (240 + int i * 170)" "int32 (240 + int i * 170 + 80)" "int32 (int i + 1)"
    using Suc.prems by (intro int32_moderate; simp)+
  have str: "Menu_create_ui_from_string_checked load raw m' (snprintf n s) x y h' = Menu_create_ui_from_string load raw m' (snprintf n s) x y h'"
    if "0 \<le> x" "x \<le> 200" "n \<le> 21" for m' n s x y h'
    using that length_snprintf [of n s] by (intro Menu_create_ui_from_string_same) simp_all
  have "nat (int i + 1) = Suc i" by simp
  with i str Suc show ?case by (simp add: Let_def first_line_format_def)
qed simp

lemma Menu_create_leaderboard_same:
  "entry_count bd \<le> 3 \<Longrightarrow> Menu_create_leaderboard_checked load raw bd h = Menu_create_leaderboard load raw bd h"
  by (simp add: Menu_create_leaderboard_checked_def Menu_create_leaderboard_def leaderboard_rows_same)

lemma Gamestate_init_same:
  assumes "Leaderboard_read_file txt bd0 = Ok (r, bd)" "entry_count bd \<le> 3"
  shows "Gamestate_init_checked load raw txt bd0 gs h = Gamestate_init load raw txt bd0 gs h"
  using assms by (simp add: Gamestate_init_checked_def Gamestate_init_def Menu_create_leaderboard_same)

section \<open>The interrupt handlers and the main loop\<close>

definition proj_init_game_checked :: "environment \<Rightarrow> game \<Rightarrow> (int \<times> game) outcome" where
  "proj_init_game_checked env st =
     obind (gpu_init_mem_indexation (e_gpu env) GRAPHICS_MODE (g_gpu st)) (\<lambda>(r, g).
       let st = st\<lparr>g_gpu := g\<rparr> in
       if r \<noteq> 0 then Ok (1, st)
       else obind (Mouse_init (e_load env) (e_raw env) (g_cursor st) (g_heap st)) (\<lambda>(m, h).
            let st = st\<lparr>g_cursor := m, g_heap := h, g_keys := Keyboard_init (g_keys st)\<rparr> in
            obind (Gamestate_init_checked (e_load env) (e_raw env) (e_file env) (e_board env) (g_state st) (g_heap st)) (\<lambda>(gs, h).
            Ok (0, st\<lparr>g_state := gs, g_heap := h\<rparr>))))"

definition proj_init_checked :: "environment \<Rightarrow> game \<Rightarrow> (int \<times> game) outcome" where
  "proj_init_checked env st =
     (case proj_init_devices env st of (None, st) \<Rightarrow> Ok (1, st) | (Some _, st) \<Rightarrow> proj_init_game_checked env st)"

definition on_mouse_interrupt_checked :: "environment \<Rightarrow> game \<Rightarrow> game outcome" where
  "on_mouse_interrupt_checked env st =
     obind (Mouse_handle_checked (e_kernel env) (g_gpu st) (g_cursor st, g_mouse st, g_trace st)) (\<lambda>(m, d, tr).
     Ok (st\<lparr>g_cursor := m, g_mouse := d, g_trace := tr\<rparr>))"

definition draw_frame_checked :: "game \<Rightarrow> game outcome" where
  "draw_frame_checked st =
     obind (if in_menu (g_state st) then Menu_draw_checked (Gamestate_get_current_menu (g_state st)) (g_heap st) (g_gpu st)
            else Ok (g_heap st, g_gpu st)) (\<lambda>(h, g).
     obind (Mouse_draw_checked (g_cursor st) (g_state st) h g) (\<lambda>(m, gs, g).
     obind (gpu_buffer_commit g) (\<lambda>g.
     obind (gpu_buffer_clear g) (\<lambda>g.
     Ok (st\<lparr>g_heap := h, g_cursor := m, g_state := gs, g_gpu := g\<rparr>)))))"

definition on_timer_interrupt_checked :: "game \<Rightarrow> game outcome" where
  "on_timer_interrupt_checked st =
     obind (if \<not> skip_frame st then draw_frame_checked st else Ok st) (\<lambda>st. Ok (st\<lparr>skip_frame := \<not> skip_frame st\<rparr>))"

definition handle_message_checked :: "environment \<Rightarrow> message \<Rightarrow> game \<Rightarrow> game outcome" where
  "handle_message_checked env msg st =
     (case msg of
        Interrupts irqs \<Rightarrow>
          obind (if pending irqs (mouse_bit_no st) then on_mouse_interrupt_checked env st else Ok st) (\<lambda>st.
          obind (if pending irqs (kbc_bit_no st) then on_keyboard_interrupt env st else Ok st) (\<lambda>st.
          if pending irqs (timer_bit_no st) then on_timer_interrupt_checked st else Ok st))
      | _ \<Rightarrow> Ok st)"

definition game_loop_checked :: "environment \<Rightarrow> message list \<Rightarrow> game \<Rightarrow> (bool \<times> game) outcome" where
  "game_loop_checked env = message_loop (\<lambda>st. Gamestate_get_state (g_state st) \<noteq> GS_QUIT) (handle_message_checked env)"

definition proj_main_loop_checked :: "environment \<Rightarrow> message list \<Rightarrow> game \<Rightarrow> (int option \<times> game) outcome" where
  "proj_main_loop_checked env msgs st =
     obind (proj_init_checked env st) (\<lambda>(r, st).
       if r \<noteq> 0 then Ok (Some 1, st)
       else obind (game_loop_checked env msgs (st\<lparr>skip_frame := False\<rparr>)) (\<lambda>(ended, st).
            if \<not> ended then Ok (None, st)
            else case proj_shutdown env st of (r, st) \<Rightarrow> Ok (Some (if r \<noteq> 0 then 1 else 0), st)))"

text \<open>The running game: its invariant, and the menus that were built.\<close>

definition running :: "loader \<Rightarrow> Leaderboard \<Rightarrow> game \<Rightarrow> bool" where
  "running load board st \<longleftrightarrow> game_ok st \<and> loader_ok load \<and> entry_count board \<le> 3 \<and> menus_built load board (g_state st) (g_heap st)"

lemma running_small: "running load board st \<Longrightarrow> small (g_gpu st)"
  by (auto simp: running_def game_ok_def screen_ok_def indexed_ok_def gpu_ok_def small_def)

lemma running_menu:
  assumes "running load board st" "Gamestate_get_current_menu (g_state st) = Some m"
  shows "\<exists>A xs. node_rep (g_heap st) (element m) A xs \<and> list_all element_small xs \<and> list_all still xs"
proof -
  have load: "loader_ok load" and gs: "gamestate_ok (g_state st)" using assms(1) by (simp_all add: running_def game_ok_def)
  have fit: "list_all widget_fits main_widgets" "list_all widget_fits (board_widgets board)"
    using assms(1) main_widgets_fit board_widgets_fit by (simp_all add: running_def)
  from assms(1) obtain mm l A B xs ys where b: "main_menu (g_state st) = Some mm" "leaderboard_menu (g_state st) = Some l"
      "node_rep (g_heap st) (element mm) A xs" "list_all2 (realises load) main_widgets xs"
      "node_rep (g_heap st) (element l) B ys" "list_all2 (realises load) (board_widgets board) ys"
    by (auto simp: running_def menus_built_def)
  have small: "list_all element_small xs" "list_all element_small ys"
    using list_realises_small [OF load fit(1) b(4)] list_realises_small [OF load fit(2) b(6)] .
  have calm: "list_all still xs" "list_all still ys" using list_realises_still [OF load b(4)] list_realises_still [OF load b(6)] .
  from assms(2) b(1,2) gs have "m = mm \<or> m = l"
    by (auto simp: Gamestate_get_current_menu_def gamestate_ok_def split: if_splits)
  with b(3,5) small calm show ?thesis by blast
qed

lemma on_mouse_interrupt_same: "running load board st \<Longrightarrow> on_mouse_interrupt_checked env st = Ok (on_mouse_interrupt env st)"
  by (auto simp: on_mouse_interrupt_checked_def on_mouse_interrupt_def running_def game_ok_def Mouse_handle_same split: prod.split)

lemma draw_frame_same:
  assumes run: "running load board st"
  shows "draw_frame_checked st = draw_frame st"
proof -
  let ?gs = "g_state st" and ?h = "g_heap st" and ?g = "g_gpu st"
  have ok: "mouse_ok ?g (g_cursor st)" "gamestate_ok ?gs" "menus_ok ?g ?gs ?h" using run by (simp_all add: running_def game_ok_def)
  have els: "\<exists>A xs. node_rep ?h (element m) A xs \<and> list_all element_small xs" if "Gamestate_get_current_menu ?gs = Some m" for m
    using running_menu [OF run that] by blast
  have mouse: "Mouse_draw_checked (g_cursor st) ?gs ?h g = Mouse_draw (g_cursor st) ?gs ?h g" if "small g" for g
    by (rule Mouse_draw_same [OF ok(1) that ok(2,3)]) (rule els)
  let ?menu = "if in_menu ?gs then Menu_draw (Gamestate_get_current_menu ?gs) ?h ?g else Ok (?h, ?g)"
  have menu: "(if in_menu ?gs then Menu_draw_checked (Gamestate_get_current_menu ?gs) ?h ?g else Ok (?h, ?g)) = ?menu"
  proof (cases "Gamestate_get_current_menu ?gs")
    case None
    then show ?thesis by (simp add: Menu_draw_checked_def Menu_draw_def)
  next
    case (Some m)
    from els [OF Some] obtain A xs where "node_rep ?h (element m) A xs" "list_all element_small xs" by blast
    from Menu_draw_same [OF this running_small [OF run]] Some show ?thesis by simp
  qed
  have kept: "h = ?h \<and> small g" if m: "?menu = Ok (h, g)" for h g
  proof (cases "in_menu ?gs")
    case True
    with m obtain c where c: "Gamestate_get_current_menu ?gs = Some c" "Menu_draw (Some c) ?h ?g = Ok (h, g)"
      by (cases "Gamestate_get_current_menu ?gs") (auto simp: Menu_draw_def)
    from running_menu [OF run c(1)] obtain A xs where "node_rep ?h (element c) A xs" "list_all still xs" by blast
    from Menu_draw_still [OF this c(2)] Menu_draw_small [OF running_small [OF run] c(2)] show ?thesis by simp
  qed (use m running_small [OF run] in auto)
  show ?thesis unfolding draw_frame_checked_def draw_frame_def menu
    by (rule obind_cong [OF refl]) (use kept mouse in \<open>auto split: prod.split\<close>)
qed

lemma handle_message_running:
  assumes "running load board st" "handle_message env msg st = Ok st'"
  shows "running load board st'"
  using assms handle_message_menus [of load st board env msg st'] handle_message_ok [of st env msg]
  by (auto simp: running_def)

lemma keyboard_running:
  assumes "running load board st" "on_keyboard_interrupt env st = Ok st'"
  shows "running load board st'"
proof -
  have "menus_built load board (g_state st') (g_heap st')"
    using assms by (auto simp: running_def on_keyboard_interrupt_def Let_def Gamestate_quit_def split: prod.splits if_splits)
  then show ?thesis using assms on_keyboard_interrupt_ok [of st env] by (auto simp: running_def)
qed

lemma handle_message_same:
  assumes "running load board st"
  shows "handle_message_checked env msg st = handle_message env msg st"
proof (cases msg)
  case (Interrupts irqs)
  let ?st1 = "if pending irqs (mouse_bit_no st) then on_mouse_interrupt env st else st"
  have heap: "g_heap (on_mouse_interrupt env st) = g_heap st" "g_state (on_mouse_interrupt env st) = g_state st"
    by (simp_all add: on_mouse_interrupt_def split: prod.splits)
  have run: "running load board ?st1" using assms on_mouse_interrupt_ok [of st env] heap by (auto simp: running_def)
  have mouse: "(if pending irqs (mouse_bit_no st) then on_mouse_interrupt_checked env st else Ok st) = Ok ?st1"
    using on_mouse_interrupt_same [OF assms] by simp
  have timer: "on_timer_interrupt_checked st2 = on_timer_interrupt st2" if "running load board st2" for st2
    using draw_frame_same [OF that] by (simp add: on_timer_interrupt_checked_def on_timer_interrupt_def)
  show ?thesis
    unfolding handle_message_checked_def handle_message_def Interrupts message.case mouse obind.simps Let_def
  proof (rule obind_cong [OF refl])
    fix st2
    assume "(if pending irqs (kbc_bit_no ?st1) then on_keyboard_interrupt env ?st1 else Ok ?st1) = Ok st2"
    then have "running load board st2" using run keyboard_running [OF run] by (auto split: if_splits)
    then show "(if pending irqs (timer_bit_no st2) then on_timer_interrupt_checked st2 else Ok st2) =
        (if pending irqs (timer_bit_no st2) then on_timer_interrupt st2 else Ok st2)"
      using timer by simp
  qed
qed (simp_all add: handle_message_checked_def handle_message_def)

lemma game_loop_same:
  assumes "running load board st"
  shows "game_loop_checked env msgs st = game_loop env msgs st"
  unfolding game_loop_checked_def game_loop_def
  by (rule message_loop_cong_inv [where I = "running load board", OF assms]) (auto intro: handle_message_same handle_message_running)

lemma proj_init_same:
  assumes "env_ok env"
  shows "proj_init_checked env st = proj_init env st"
proof -
  from assms obtain r bd where "Leaderboard_read_file (e_file env) (e_board env) = Ok (r, bd)" "entry_count bd \<le> 3"
    by (auto simp: env_ok_def board_fits_def)
  note same = Gamestate_init_same [OF this]
  show ?thesis unfolding proj_init_checked_def proj_init_def proj_init_game_checked_def proj_init_game_def same ..
qed

text \<open>C3: no \<open>int\<close> operation of the program overflows: in every environment in which the program can start, on every sequence of messages, the program whose
  \<open>int\<close> operations are undefined when their value does not fit 32 bits does exactly what the program with unbounded integers does.\<close>

theorem program_ints_never_overflow:
  assumes env: "env_ok env" and st: "fresh_game st"
  shows "proj_main_loop_checked env msgs st = proj_main_loop env msgs st"
proof -
  from env obtain r bd where read: "Leaderboard_read_file (e_file env) (e_board env) = Ok (r, bd)" "entry_count bd \<le> 3"
    by (auto simp: env_ok_def board_fits_def)
  have "game_loop_checked env msgs (st1\<lparr>skip_frame := False\<rparr>) = game_loop env msgs (st1\<lparr>skip_frame := False\<rparr>)"
    if "proj_init env st = Ok (0, st1)" for st1
  proof (rule game_loop_same)
    show "running (e_load env) bd (st1\<lparr>skip_frame := False\<rparr>)"
      using proj_init_built [OF env st that read(1)] read(2) by (simp add: running_def game_ok_def)
  qed
  then show ?thesis
    unfolding proj_main_loop_checked_def proj_main_loop_def proj_init_same [OF env]
    by (intro obind_cong [OF refl]) (auto split: prod.split)
qed

theorem program_ints_never_overflow_witness:
  "\<exists>st. proj_main_loop_checked (art_machine board_events) (map raised board_events) (game_start 1000 100000) = Ok (None, st)"
proof -
  let ?env = "art_machine board_events"
  from art_machine_init [of board_events] obtain st1 where st1: "proj_init ?env (game_start 1000 100000) = Ok (0, st1)" "game_ok st1"
      "view st1 = first_page 1024 768" "attached ?env board_events st1" by blast
  have "\<not> skip_frame st1" using arg_cong [OF st1(3), of odd_tick] by (simp add: first_page_def)
  then have same: "st1\<lparr>skip_frame := False\<rparr> = st1" by simp
  from game_loop_plays [OF st1(2,4)] obtain ended st where
    run: "game_loop ?env (map raised board_events) st1 = Ok (ended, st)" "ended \<longleftrightarrow> page (view st) = GS_QUIT"
      "view st = play (map seen board_events) (view st1)"
    by blast
  have "page (view st) = GS_LEADERBOARD" unfolding run(3) st1(3) board_session by simp
  then have "\<not> ended" using run(2) by simp
  then have "proj_main_loop ?env (map raised board_events) (game_start 1000 100000) = Ok (None, st)"
    using st1(1) run(1) same by (simp add: proj_main_loop_def)
  then show ?thesis unfolding program_ints_never_overflow [OF art_machine_ok(1) demo_fresh] by blast
qed

end
