(* ===== verification/Spare_Pixmaps.thy ===== *)
theory Spare_Pixmaps
  imports Pixmaps
begin

text \<open>
  The pixmaps of \<open>assets/sprites\<close> that no code draws yet: the empty button and the running figure, which \<open>proj.c\<close> includes, and the standing
  figure.  The palette of \<open>mario.h\<close> has the colour key \<open>c\<close> before the number; only the number is kept.  The file \<open>coin.h\<close> is empty.
\<close>

abbreviation at_sign :: char where "at_sign \<equiv> CHR ''@''"
abbreviation hash_sign :: char where "hash_sign \<equiv> CHR ''#''"
abbreviation dollar_sign :: char where "dollar_sign \<equiv> CHR ''$''"
abbreviation percent_sign :: char where "percent_sign \<equiv> CHR ''%''"
abbreviation amp_sign :: char where "amp_sign \<equiv> CHR ''&''"
abbreviation star_sign :: char where "star_sign \<equiv> CHR ''*''"
abbreviation eq_sign :: char where "eq_sign \<equiv> CHR ''=''"
abbreviation dash_sign :: char where "dash_sign \<equiv> CHR ''-''"
abbreviation cR :: char where "cR \<equiv> CHR ''R''"

section \<open>\<open>button.h\<close>\<close>

definition button_palette :: "(char \<times> u8) list" where
  "button_palette = [(sp, 99), (dt, 63), (cX, 99)]"

definition button_rows :: "char runs runs" where
  "button_rows = [
   (4, [(12, sp), (378, dt), (12, sp)]),
   (4, [(8, sp), (4, dt), (378, cX), (4, dt), (8, sp)]),
   (4, [(4, sp), (4, dt), (386, cX), (4, dt), (4, sp)]),
   (73, [(4, dt), (394, cX), (4, dt)]),
   (4, [(4, dt), (8, cX), (378, dt), (8, cX), (4, dt)]),
   (4, [(4, dt), (4, cX), (386, dt), (4, cX), (4, dt)]),
   (4, [(402, dt)])]"

definition button_pixmap :: pixmap where
  "button_pixmap = \<lparr>px_columns = 402, px_lines = 97, px_ncolors = 3, px_palette = button_palette, px_rows = button_rows\<rparr>"

section \<open>\<open>mario.h\<close>\<close>

definition mario_palette :: "(char \<times> u8) list" where
  "mario_palette = [(sp, 0), (dt, 1), (cX, 5), (co, 6), (cO, 7), (pl, 8), (at_sign, 9), (hash_sign, 10), (dollar_sign, 11), (percent_sign, 12), (amp_sign, 13), (star_sign, 14), (eq_sign, 15), (dash_sign, 16)]"

definition mario_rows :: "char runs runs" where
  "mario_rows = [
   (4, [(16, sp)]),
   (1, [(4, sp), (5, cX), (7, sp)]),
   (1, [(3, sp), (1, cX), (1, at_sign), (1, eq_sign), (3, at_sign), (2, cX), (5, sp)]),
   (1, [(3, sp), (1, cX), (1, dash_sign), (1, eq_sign), (1, percent_sign), (2, cO), (2, at_sign), (1, cX), (4, sp)]),
   (1, [(2, sp), (6, dt), (2, cO), (1, at_sign), (1, cO), (1, cX), (3, sp)]),
   (1, [(1, sp), (9, dt), (3, cO), (1, cX), (2, sp)]),
   (1, [(4, sp), (1, dollar_sign), (1, dt), (1, dollar_sign), (1, dt), (1, dollar_sign), (3, dt), (1, star_sign), (1, cX), (2,
        sp)]),
   (1, [(2, sp), (2, pl), (1, star_sign), (1, dt), (1, star_sign), (1, dt), (1, star_sign), (1, dollar_sign), (1, dt), (1,
        star_sign), (1, pl), (1, star_sign), (1, cX), (1, sp)]),
   (1, [(1, sp), (1, pl), (7, star_sign), (2, dt), (1, star_sign), (1, pl), (1, dollar_sign), (1, cX), (1, sp)]),
   (1, [(1, sp), (1, pl), (5, dollar_sign), (1, dt), (2, star_sign), (1, dt), (1, star_sign), (1, dollar_sign), (1, dt), (1, cX),
        (1, sp)]),
   (1, [(2, sp), (7, dt), (1, star_sign), (2, dollar_sign), (2, dt), (2, sp)]),
   (1, [(3, sp), (4, dt), (3, dollar_sign), (2, pl), (1, dt), (3, sp)]),
   (1, [(5, sp), (1, co), (4, pl), (1, cO), (1, cX), (4, sp)]),
   (1, [(4, sp), (1, co), (2, amp_sign), (2, hash_sign), (1, at_sign), (2, cO), (1, cX), (3, sp)]),
   (1, [(3, sp), (1, co), (1, dash_sign), (1, amp_sign), (2, dash_sign), (1, hash_sign), (3, pl), (1, cX), (3, sp)]),
   (1, [(3, sp), (1, co), (1, dash_sign), (1, amp_sign), (2, dash_sign), (1, pl), (3, dash_sign), (1, pl), (3, sp)]),
   (1, [(3, sp), (1, co), (2, amp_sign), (3, hash_sign), (1, pl), (2, dash_sign), (1, pl), (3, sp)]),
   (1, [(4, sp), (1, co), (1, hash_sign), (1, co), (2, hash_sign), (1, pl), (2, dash_sign), (1, pl), (3, sp)]),
   (1, [(5, sp), (1, dt), (1, pl), (1, dt), (4, pl), (4, sp)]),
   (1, [(4, sp), (1, dt), (1, eq_sign), (1, dt), (1, eq_sign), (3, pl), (1, dt), (4, sp)]),
   (1, [(4, sp), (8, dt), (4, sp)])]"

definition mario_pixmap :: pixmap where
  "mario_pixmap = \<lparr>px_columns = 16, px_lines = 24, px_ncolors = 14, px_palette = mario_palette, px_rows = mario_rows\<rparr>"

section \<open>\<open>mario_run.h\<close>\<close>

definition mario_run_palette :: "(char \<times> u8) list" where
  "mario_run_palette = [(sp, 4), (dt, 5), (cX, 0), (co, 7), (cO, 8), (pl, 9), (at_sign, 10), (hash_sign, 11), (dollar_sign, 12), (cR, 13), (amp_sign, 14), (star_sign, 15), (eq_sign, 16), (dash_sign, 17)]"

definition mario_run_rows :: "char runs runs" where
  "mario_run_rows = [
   (16, [(192, cX)]),
   (4, [(16, cX), (20, dt), (44, cX), (20, dt), (44, cX), (20, dt), (28, cX)]),
   (4, [(12, cX), (4, dt), (4, pl), (4, dollar_sign), (12, pl), (8, dt), (32, cX), (4, dt), (4, pl), (4, dollar_sign), (12, pl),
        (8, dt), (32, cX), (4, dt), (4, pl), (4, dollar_sign), (12, pl), (8, dt), (20, cX)]),
   (4, [(12, cX), (4, dt), (4, dash_sign), (4, dollar_sign), (4, hash_sign), (8, cO), (8, pl), (4, dt), (28, cX), (4, dt), (4,
        dash_sign), (4, dollar_sign), (4, hash_sign), (8, cO), (8, pl), (4, dt), (28, cX), (4, dt), (4, dash_sign), (4,
        dollar_sign), (4, hash_sign), (8, cO), (8, pl), (4, dt), (16, cX)]),
   (4, [(8, cX), (24, sp), (8, cO), (4, pl), (4, cO), (4, dt), (20, cX), (24, sp), (8, cO), (4, pl), (4, cO), (4, dt), (20, cX),
        (24, sp), (8, cO), (4, pl), (4, cO), (4, dt), (12, cX)]),
   (4, [(4, cX), (36, sp), (12, cO), (4, dt), (12, cX), (36, sp), (12, cO), (4, dt), (12, cX), (36, sp), (12, cO), (4, dt), (8,
        cX)]),
   (4, [(16, cX), (4, at_sign), (4, sp), (4, at_sign), (4, sp), (4, at_sign), (12, sp), (4, eq_sign), (4, dt), (24, cX), (4,
        at_sign), (4, sp), (4, at_sign), (4, sp), (4, at_sign), (12, sp), (4, eq_sign), (4, dt), (24, cX), (4, at_sign), (4, sp),
        (4, at_sign), (4, sp), (4, at_sign), (12, sp), (4, eq_sign), (4, dt), (8, cX)]),
   (4, [(8, cX), (8, co), (4, eq_sign), (4, sp), (4, eq_sign), (4, sp), (4, eq_sign), (4, at_sign), (4, sp), (4, eq_sign), (4,
        co), (4, eq_sign), (4, dt), (12, cX), (8, co), (4, eq_sign), (4, sp), (4, eq_sign), (4, sp), (4, eq_sign), (4, at_sign),
        (4, sp), (4, eq_sign), (4, co), (4, eq_sign), (4, dt), (12, cX), (8, co), (4, eq_sign), (4, sp), (4, eq_sign), (4, sp),
        (4, eq_sign), (4, at_sign), (4, sp), (4, eq_sign), (4, co), (4, eq_sign), (4, dt), (4, cX)]),
   (4, [(4, cX), (4, co), (28, eq_sign), (8, sp), (4, eq_sign), (4, co), (4, at_sign), (4, dt), (8, cX), (4, co), (28, eq_sign),
        (8, sp), (4, eq_sign), (4, co), (4, at_sign), (4, dt), (8, cX), (4, co), (28, eq_sign), (8, sp), (4, eq_sign), (4, co),
        (4, at_sign), (4, dt), (4, cX)]),
   (4, [(4, cX), (4, co), (20, at_sign), (4, sp), (8, eq_sign), (4, sp), (4, eq_sign), (4, at_sign), (4, sp), (4, dt), (8, cX),
        (4, co), (20, at_sign), (4, sp), (8, eq_sign), (4, sp), (4, eq_sign), (4, at_sign), (4, sp), (4, dt), (8, cX), (4, co),
        (20, at_sign), (4, sp), (8, eq_sign), (4, sp), (4, eq_sign), (4, at_sign), (4, sp), (4, dt), (4, cX)]),
   (4, [(8, cX), (28, sp), (4, eq_sign), (8, at_sign), (8, sp), (16, cX), (28, sp), (4, eq_sign), (8, at_sign), (8, sp), (16,
        cX), (28, sp), (4, eq_sign), (8, at_sign), (8, sp), (8, cX)]),
   (4, [(12, cX), (16, sp), (12, at_sign), (24, co), (12, cX), (16, sp), (12, at_sign), (24, co), (12, cX), (16, sp), (12,
        at_sign), (24, co)]),
   (4, [(20, cX), (4, cR), (16, co), (4, pl), (4, co), (12, dash_sign), (4, co), (20, cX), (4, cR), (16, co), (4, pl), (4, co),
        (12, dash_sign), (4, co), (20, cX), (4, cR), (16, co), (4, pl), (4, co), (12, dash_sign), (4, co)]),
   (4, [(16, cX), (4, cR), (8, star_sign), (8, amp_sign), (8, pl), (4, co), (8, dash_sign), (4, co), (20, cX), (4, cR), (8,
        star_sign), (8, amp_sign), (8, pl), (4, co), (8, dash_sign), (4, co), (20, cX), (4, cR), (8, star_sign), (8, amp_sign),
        (8, pl), (4, co), (8, dash_sign), (4, co), (4, cX)]),
   (4, [(4, cX), (8, sp), (4, cR), (4, dash_sign), (4, star_sign), (8, dash_sign), (8, amp_sign), (8, cO), (4, co), (4, sp), (12,
        cX), (8, sp), (4, cR), (4, dash_sign), (4, star_sign), (8, dash_sign), (8, amp_sign), (8, cO), (4, co), (4, sp), (20,
        cX), (4, cR), (4, dash_sign), (4, star_sign), (8, dash_sign), (8, amp_sign), (8, cO), (8, co), (8, cX)]),
   (4, [(8, sp), (4, dollar_sign), (4, sp), (4, dash_sign), (4, star_sign), (8, dash_sign), (16, amp_sign), (8, co), (4, sp), (4,
        cX), (8, sp), (4, dollar_sign), (4, sp), (4, dash_sign), (4, star_sign), (8, dash_sign), (16, amp_sign), (8, co), (4,
        sp), (16, cX), (4, cR), (4, dash_sign), (4, star_sign), (8, dash_sign), (16, amp_sign), (4, cR), (12, cX)]),
   (4, [(8, sp), (4, co), (4, sp), (4, cR), (4, star_sign), (24, amp_sign), (8, co), (4, sp), (4, cX), (8, sp), (4, co), (4, sp),
        (4, cR), (4, star_sign), (24, amp_sign), (8, co), (4, sp), (16, cX), (4, cR), (8, star_sign), (24, amp_sign), (4, cR),
        (12, cX)]),
   (4, [(4, cX), (8, sp), (4, co), (4, sp), (4, cR), (16, amp_sign), (12, cR), (4, co), (4, sp), (8, cX), (8, sp), (4, co), (4,
        sp), (4, cR), (16, amp_sign), (12, cR), (4, co), (4, sp), (20, cX), (4, cR), (4, amp_sign), (4, cR), (16, amp_sign), (8,
        cR), (12, cX)]),
   (4, [(4, cX), (8, sp), (4, co), (4, sp), (4, cX), (16, cR), (4, cX), (4, sp), (4, dollar_sign), (4, co), (4, sp), (8, cX), (8,
        sp), (4, co), (4, sp), (4, cX), (16, cR), (4, cX), (4, sp), (4, dollar_sign), (4, co), (4, sp), (24, cX), (4, sp), (4,
        co), (4, sp), (16, co), (16, cX)]),
   (4, [(8, cX), (8, sp), (32, cX), (8, sp), (16, cX), (8, sp), (32, cX), (8, sp), (24, cX), (4, sp), (4, dollar_sign), (4, sp),
        (4, dollar_sign), (12, co), (4, sp), (16, cX)]),
   (4, [(144, cX), (32, sp), (16, cX)])]"

definition mario_run_pixmap :: pixmap where
  "mario_run_pixmap = \<lparr>px_columns = 192, px_lines = 96, px_ncolors = 14, px_palette = mario_run_palette, px_rows = mario_run_rows\<rparr>"

section \<open>They are well-formed\<close>

lemma button_pixmap_ok: "pixmap_ok button_pixmap"
  by (simp add: pixmap_ok_def row_ok_def button_pixmap_def button_palette_def button_rows_def)

lemma mario_pixmap_ok: "pixmap_ok mario_pixmap"
  by (simp add: pixmap_ok_def row_ok_def mario_pixmap_def mario_palette_def mario_rows_def)

lemma mario_run_pixmap_ok: "pixmap_ok mario_run_pixmap"
  by (simp add: pixmap_ok_def row_ok_def mario_run_pixmap_def mario_run_palette_def mario_run_rows_def)

end
