(* ===== verification/Grid.thy ===== *)
theory Grid
  imports C_Text
begin

text \<open>
  The level grid, \<open>grid/grid.c\<close>: a level file is a line with the two sizes followed by lines of objects.  Files are their text,
  read line by line as \<open>fgets\<close> does; \<open>malloc\<close> is a predicate that says whether the \<open>k\<close>-th allocation succeeds.  The lemmas
  show what a well-formed level loads to and that a line as wide as the grid overflows its row.
\<close>

section \<open>Reading lines\<close>

text \<open>\<open>fgets(line, n, file)\<close> on the rest of a file: at most \<open>n - 1\<close> characters, up to and including a newline.\<close>

fun take_line :: "nat \<Rightarrow> string \<Rightarrow> string \<times> string" where
  "take_line 0 s = ([], s)"
| "take_line (Suc n) [] = ([], [])"
| "take_line (Suc n) (c # s) =
     (if c = CHR 0x0A then ([c], s) else case take_line n s of (l, r) \<Rightarrow> (c # l, r))"

definition fgets :: "nat \<Rightarrow> string \<Rightarrow> (string \<times> string) option" where
  "fgets n s = (if s = [] then None else Some (take_line (n - 1) s))"

text \<open>What a string function sees of a buffer.\<close>

definition c_str :: "string \<Rightarrow> string" where
  "c_str s = takeWhile (\<lambda>c. c \<noteq> CHR 0x00) s"

lemma take_line_append: "take_line n s = (l, r) \<Longrightarrow> l @ r = s"
  by (induction n s arbitrary: l r rule: take_line.induct) (auto split: prod.splits if_splits)

lemma fgets_shorter: "1 < n \<Longrightarrow> fgets n s = Some (line, rest) \<Longrightarrow> length rest < length s"
proof -
  assume n: "1 < n" and f: "fgets n s = Some (line, rest)"
  then obtain c cs m where s: "s = c # cs" "n - 1 = Suc m" by (cases s; cases "n - 1") (auto simp: fgets_def)
  with f have "take_line (Suc m) (c # cs) = (line, rest)" by (simp add: fgets_def)
  then have "line @ rest = s" "line \<noteq> []" using take_line_append s by (auto split: prod.splits if_splits)
  then show ?thesis by (cases line) auto
qed

lemma take_line_whole:
  "CHR 0x0A \<notin> set l \<Longrightarrow> length l < n \<Longrightarrow> take_line n (l @ CHR 0x0A # r) = (l @ [CHR 0x0A], r)"
proof (induction l arbitrary: n)
  case Nil
  then show ?case by (cases n) auto
next
  case (Cons c l)
  then obtain m where "n = Suc m" "length l < m" by (cases n) auto
  with Cons show ?case by auto
qed

section \<open>The grid\<close>

record GRID_INFO =
  grid_x_size :: u8
  grid_y_size :: u8
  grid_objects :: "string list option"

text \<open>The static of the module starts out zero.\<close>

definition grid_start :: GRID_INFO where
  "grid_start = \<lparr>grid_x_size = 0, grid_y_size = 0, grid_objects = None\<rparr>"

definition LEVELS_DIR :: string where
  "LEVELS_DIR = ''/home/lcom/labs/shared/proj/src/assets/levels/''"

text \<open>\<open>sscanf(line, "%hhu %hhu", &x, &y)\<close>: the number of conversions and the two variables.\<close>

definition scan_sizes :: "string \<Rightarrow> u8 \<Rightarrow> u8 \<Rightarrow> nat \<times> u8 \<times> u8" where
  "scan_sizes line x y =
     (case scan_int line of
        None \<Rightarrow> (0, x, y)
      | Some (i, rest) \<Rightarrow>
          (case scan_int rest of
             None \<Rightarrow> (1, word_of_int i, y)
           | Some (j, _) \<Rightarrow> (2, word_of_int i, word_of_int j)))"

text \<open>The allocation of the rows, filled with spaces; allocation \<open>0\<close> is the array of rows.\<close>

fun alloc_rows :: "(nat \<Rightarrow> bool) \<Rightarrow> nat \<Rightarrow> nat \<Rightarrow> nat \<Rightarrow> string list outcome" where
  "alloc_rows malloc w k 0 = Ok []"
| "alloc_rows malloc w k (Suc n) =
     (if malloc k then obind (alloc_rows malloc w (Suc k) n) (\<lambda>rs. Ok (replicate w (CHR '' '') # rs)) else Undefined)"

text \<open>\<open>for (i = 0; line[i] != 0; i++) objects[y][i] = line[i]\<close>.\<close>

fun store_line :: "string \<Rightarrow> nat \<Rightarrow> string \<Rightarrow> string outcome" where
  "store_line row i [] = Ok row"
| "store_line row i (c # cs) = obind (awrite row i c) (\<lambda>row. store_line row (Suc i) cs)"

function read_rows :: "string \<Rightarrow> nat \<Rightarrow> nat \<Rightarrow> string list \<Rightarrow> string list outcome" where
  "read_rows file y_size y objects =
     (case fgets 100 file of
        None \<Rightarrow> Ok objects
      | Some (line, rest) \<Rightarrow>
          if y < y_size
          then obind (aread objects y) (\<lambda>row.
               obind (store_line row 0 (c_str line)) (\<lambda>row.
               read_rows rest y_size (y + 1) (objects[y := row])))
          else Ok objects)"
  by pat_completeness auto

termination
  by (relation "measure (\<lambda>(file, _). length file)") (auto dest: fgets_shorter [rotated])

declare read_rows.simps [simp del]

text \<open>The path buffer has 100 bytes; \<open>fopen\<close> gives the text of the file.  The sizes are stored before the second
  conversion can fail.\<close>

definition grid_init :: "(string \<Rightarrow> string option) \<Rightarrow> (nat \<Rightarrow> bool) \<Rightarrow> string \<Rightarrow> GRID_INFO \<Rightarrow> (int \<times> GRID_INFO) outcome" where
  "grid_init fopen malloc level g =
     (if length (LEVELS_DIR @ level) \<ge> 100 then Undefined
      else case fopen (LEVELS_DIR @ level) of
        None \<Rightarrow> Ok (1, g)
      | Some file \<Rightarrow>
          (case fgets 100 file of
             None \<Rightarrow> Ok (1, g)
           | Some (line, rest) \<Rightarrow>
               (case scan_sizes (c_str line) (grid_x_size g) (grid_y_size g) of (n, x, y) \<Rightarrow>
                  let g = g\<lparr>grid_x_size := x, grid_y_size := y\<rparr> in
                  if n \<noteq> 2 then Ok (1, g)
                  else if \<not> malloc 0
                       then (if y = 0 then Ok (0, g\<lparr>grid_objects := None\<rparr>) else Undefined)
                  else obind (alloc_rows malloc (unat x) 1 (unat y)) (\<lambda>rows.
                       obind (read_rows rest (unat y) 0 rows) (\<lambda>rows.
                       Ok (0, g\<lparr>grid_objects := Some rows\<rparr>))))))"

definition grid_cleanup :: "GRID_INFO \<Rightarrow> GRID_INFO" where
  "grid_cleanup g = (if grid_objects g \<noteq> None then g\<lparr>grid_objects := None\<rparr> else g)"

definition grid_get_grid_info :: "GRID_INFO \<Rightarrow> GRID_INFO" where
  "grid_get_grid_info g = g"

section \<open>What a level loads to\<close>

text \<open>The invariant: \<open>y_size\<close> rows of \<open>x_size\<close> objects.\<close>

definition grid_ok :: "GRID_INFO \<Rightarrow> bool" where
  "grid_ok g \<longleftrightarrow> (case grid_objects g of None \<Rightarrow> True
     | Some rows \<Rightarrow> length rows = unat (grid_y_size g) \<and> list_all (\<lambda>r. length r = unat (grid_x_size g)) rows)"

lemma alloc_rows_ok:
  "(\<And>i. k \<le> i \<Longrightarrow> i < k + n \<Longrightarrow> malloc i) \<Longrightarrow> alloc_rows malloc w k n = Ok (replicate n (replicate w (CHR '' '')))"
  by (induction n arbitrary: k) auto

lemma alloc_rows_shape: "alloc_rows malloc w k n = Ok rs \<Longrightarrow> length rs = n \<and> list_all (\<lambda>r. length r = w) rs"
  by (induction n arbitrary: k rs) (auto split: if_splits)

lemma store_line_splice:
  "i + length cs \<le> length row \<Longrightarrow> store_line row i cs = Ok (splice row i cs)"
proof (induction cs arbitrary: row i)
  case (Cons c cs)
  then have "store_line row i (c # cs) = Ok (splice (row[i := c]) (Suc i) cs)" by (simp add: awrite_def)
  moreover have "splice (row[i := c]) (Suc i) cs = splice row i (c # cs)"
  proof -
    have "take (Suc i) (row[i := c]) = take i row @ [c]" using Cons.prems by (simp add: take_Suc_conv_app_nth)
    then show ?thesis by (simp add: splice_def)
  qed
  ultimately show ?case by simp
qed simp

lemma store_line_overflow: "length row < i + length cs \<Longrightarrow> i \<le> length row \<Longrightarrow> store_line row i cs = Undefined"
proof (induction cs arbitrary: row i)
  case (Cons c cs)
  then show ?case by (cases "i < length row") (auto simp: awrite_def)
qed simp

lemma store_line_length: "store_line row i cs = Ok row' \<Longrightarrow> length row' = length row"
  by (induction cs arbitrary: row i) auto

lemma read_rows_shape:
  "read_rows s n y objs = Ok objs' \<Longrightarrow> list_all (\<lambda>r. length r = w) objs \<Longrightarrow>
     length objs' = length objs \<and> list_all (\<lambda>r. length r = w) objs'"
proof (induction s n y objs arbitrary: objs' rule: read_rows.induct)
  case (1 s n y objs)
  show ?case
  proof (cases "fgets 100 s")
    case None
    with "1.prems" show ?thesis by (simp add: read_rows.simps [of s])
  next
    case (Some p)
    obtain line rest where p: "p = (line, rest)" by (cases p)
    show ?thesis
    proof (cases "y < n")
      case True
      with "1.prems"(1) Some p obtain row where r: "y < length objs" "store_line (objs ! y) 0 (c_str line) = Ok row"
          "read_rows rest n (y + 1) (objs[y := row]) = Ok objs'"
        by (auto simp: read_rows.simps [of s])
      have "length row = w" using store_line_length [OF r(2)] r(1) "1.prems"(2) by (simp add: list_all_length)
      then have "list_all (\<lambda>r. length r = w) (objs[y := row])"
        using "1.prems"(2) r(1) by (auto simp: list_all_length nth_list_update)
      moreover have "aread objs y = Ok (objs ! y)" using r(1) by simp
      ultimately show ?thesis using "1.IH" [OF Some p [symmetric] True _ r(2,3)] by simp
    next
      case False
      with "1.prems" Some p show ?thesis by (simp add: read_rows.simps [of s])
    qed
  qed
qed

text \<open>A level file: the sizes, then one line per row.\<close>

definition level_text :: "nat \<Rightarrow> nat \<Rightarrow> string list \<Rightarrow> string" where
  "level_text x y rows = show_nat x @ CHR '' '' # show_nat y @ CHR 0x0A # concat (map (\<lambda>r. r @ [CHR 0x0A]) rows)"

definition line_ok :: "string \<Rightarrow> bool" where
  "line_ok r \<longleftrightarrow> length r < 99 \<and> CHR 0x0A \<notin> set r \<and> CHR 0x00 \<notin> set r"

lemma c_str_id: "CHR 0x00 \<notin> set s \<Longrightarrow> c_str s = s"
  by (auto simp: c_str_def takeWhile_eq_all_conv)

lemma show_nat_chars: "c \<in> set (show_nat n) \<Longrightarrow> c \<noteq> CHR 0x0A \<and> c \<noteq> CHR 0x00"
  using show_nat_digits [of n] by (auto simp: list_all_iff is_digit_def)

lemma fgets_line:
  assumes "line_ok l"
  shows "fgets 100 (l @ CHR 0x0A # rest) = Some (l @ [CHR 0x0A], rest)" "c_str (l @ [CHR 0x0A]) = l @ [CHR 0x0A]"
  using assms take_line_whole [of l 99 rest] by (simp_all add: fgets_def line_ok_def c_str_id)

lemma scan_sizes_header:
  assumes "x < 256" "y < 256"
  shows "scan_sizes (show_nat x @ CHR '' '' # show_nat y @ [CHR 0x0A]) a b = (2, of_nat x, of_nat y)"
proof -
  have "is_space (CHR '' '')" "is_space (CHR 0x0A)" by (simp_all add: is_space_def)
  then have "scan_int (show_int (int x) @ CHR '' '' # show_nat y @ [CHR 0x0A]) = Some (int x, CHR '' '' # show_nat y @ [CHR 0x0A])"
    "scan_int (CHR '' '' # show_int (int y) @ [CHR 0x0A]) = Some (int y, [CHR 0x0A])"
    by (simp_all add: scan_int_show scan_int_skip)
  then show ?thesis by (simp add: scan_sizes_def show_int_def)
qed

lemma header_line: "x < 256 \<Longrightarrow> y < 256 \<Longrightarrow> line_ok (show_nat x @ CHR '' '' # show_nat y)"
  using length_show_nat [of 3 x] length_show_nat [of 3 y] by (auto simp: line_ok_def dest: show_nat_chars)

lemma grid_init_level:
  assumes "length level \<le> 53" "fopen (LEVELS_DIR @ level) = Some (level_text x y rows)" "x < 256" "y < 256" "\<forall>i \<le> y. malloc i"
  shows "grid_init fopen malloc level g =
    obind (read_rows (concat (map (\<lambda>r. r @ [CHR 0x0A]) rows)) y 0 (replicate y (replicate x (CHR '' '')))) (\<lambda>objs.
      Ok (0, g\<lparr>grid_x_size := of_nat x, grid_y_size := of_nat y, grid_objects := Some objs\<rparr>))"
proof -
  let ?rest = "concat (map (\<lambda>r. r @ [CHR 0x0A]) rows)"
  note line = fgets_line [OF header_line [OF assms(3,4)]]
  have "fgets 100 (level_text x y rows) = Some (show_nat x @ CHR '' '' # show_nat y @ [CHR 0x0A], ?rest)"
    using line(1) [of ?rest] by (simp add: level_text_def)
  moreover have "c_str (show_nat x @ CHR '' '' # show_nat y @ [CHR 0x0A]) = show_nat x @ CHR '' '' # show_nat y @ [CHR 0x0A]"
    using line(2) by simp
  moreover have "unat (of_nat x :: u8) = x" "unat (of_nat y :: u8) = y"
    using assms(3,4) by (simp_all add: unsigned_of_nat take_bit_eq_mod)
  moreover have "alloc_rows malloc x 1 y = Ok (replicate y (replicate x (CHR '' '')))"
    by (rule alloc_rows_ok) (use assms(5) in auto)
  moreover have "length (LEVELS_DIR @ level) < 100" using assms(1) by (simp add: LEVELS_DIR_def)
  ultimately show ?thesis
    using assms(2,5) scan_sizes_header [OF assms(3,4)] by (simp add: grid_init_def not_le [symmetric] del: obind_eq_Ok)
qed

text \<open>The rows of a loaded level: the newline is stored too.\<close>

definition padded :: "nat \<Rightarrow> string \<Rightarrow> string" where
  "padded x r = r @ CHR 0x0A # replicate (x - length r - 1) (CHR '' '')"

lemma read_rows_level:
  assumes "length front + length rows \<le> y" "list_all (\<lambda>r. line_ok r \<and> length r < x) rows"
  shows "read_rows (concat (map (\<lambda>r. r @ [CHR 0x0A]) rows) @ others) y (length front)
      (front @ replicate (y - length front) (replicate x (CHR '' ''))) =
    read_rows others y (length front + length rows)
      (front @ map (padded x) rows @ replicate (y - length front - length rows) (replicate x (CHR '' '')))"
  using assms
proof (induction rows arbitrary: front)
  case (Cons r rows)
  let ?blank = "replicate x (CHR '' '')" and ?n = "length front"
  have r: "line_ok r" "length r < x" "?n < y" using Cons.prems by auto
  have "splice ?blank 0 (r @ [CHR 0x0A]) = padded x r" by (simp add: splice_def padded_def)
  then have store: "store_line ?blank 0 (r @ [CHR 0x0A]) = Ok (padded x r)" using r(2) by (simp add: store_line_splice)
  have upd: "(front @ replicate (y - ?n) ?blank)[?n := padded x r] = (front @ [padded x r]) @ replicate (y - Suc ?n) ?blank"
    using r(3) by (cases "y - ?n") (auto simp: list_update_append)
  have "read_rows (concat (map (\<lambda>r. r @ [CHR 0x0A]) (r # rows)) @ others) y ?n (front @ replicate (y - ?n) ?blank) =
      read_rows (concat (map (\<lambda>r. r @ [CHR 0x0A]) rows) @ others) y (Suc ?n) ((front @ [padded x r]) @ replicate (y - Suc ?n) ?blank)"
    using fgets_line [OF r(1)] r(3) store upd
    by (subst read_rows.simps) (simp add: aread_def nth_append del: obind_eq_Ok)
  also have "\<dots> = read_rows others y (?n + length (r # rows))
      (front @ map (padded x) (r # rows) @ replicate (y - ?n - length (r # rows)) ?blank)"
    using Cons.IH [of "front @ [padded x r]"] Cons.prems by simp
  finally show ?case .
qed simp

text \<open>C37: a level file is loaded into a grid of exactly the sizes it announces, each line followed by its newline character and blanks, and the remaining rows blank,
  when its name has at most 53 characters, the allocations succeed, both sizes are below 256, there are no more lines than rows, and every line
  is shorter than 99 characters, which with the newline is what one call of \<open>fgets\<close> takes, and shorter than the width of the grid, so that the newline fits.\<close>

theorem grid_init_loads:
  assumes "length level \<le> 53" "fopen (LEVELS_DIR @ level) = Some (level_text x y rows)" "x < 256" "y < 256" "\<forall>i \<le> y. malloc i"
    "length rows \<le> y" "list_all (\<lambda>r. line_ok r \<and> length r < x) rows"
  shows "\<exists>g'. grid_init fopen malloc level g = Ok (0, g') \<and> grid_ok g' \<and> unat (grid_x_size g') = x \<and> unat (grid_y_size g') = y \<and>
    grid_objects g' = Some (map (padded x) rows @ replicate (y - length rows) (replicate x (CHR '' '')))"
proof -
  let ?objs = "map (padded x) rows @ replicate (y - length rows) (replicate x (CHR '' ''))"
  have "read_rows (concat (map (\<lambda>r. r @ [CHR 0x0A]) rows)) y 0 (replicate y (replicate x (CHR '' ''))) =
      read_rows [] y (length rows) ?objs"
    using read_rows_level [of "[]" rows y x "[]"] assms(6,7) by simp
  also have "\<dots> = Ok ?objs" by (simp add: read_rows.simps fgets_def)
  finally have read: "read_rows (concat (map (\<lambda>r. r @ [CHR 0x0A]) rows)) y 0 (replicate y (replicate x (CHR '' ''))) = Ok ?objs" .
  have sizes: "unat (of_nat x :: u8) = x" "unat (of_nat y :: u8) = y" using assms(3,4) by (simp_all add: unsigned_of_nat take_bit_eq_mod)
  have "list_all (\<lambda>r. length r = x) ?objs" using assms(7) by (auto simp: list_all_iff padded_def)
  with sizes assms(6) have "grid_ok (g\<lparr>grid_x_size := of_nat x, grid_y_size := of_nat y, grid_objects := Some ?objs\<rparr>)"
    by (simp add: grid_ok_def)
  with grid_init_level [of level fopen, OF assms(1-5), of g] read sizes show ?thesis by simp
qed

text \<open>A line that fills the width of the grid makes the loader write its newline past the end of the row.\<close>

theorem grid_init_full_line_overflows:
  assumes "length level \<le> 53" "fopen (LEVELS_DIR @ level) = Some (level_text x y (rows @ r # others))" "x < 256" "y < 256" "\<forall>i \<le> y. malloc i"
    "length rows < y" "list_all (\<lambda>r. line_ok r \<and> length r < x) rows" "line_ok r" "x \<le> length r"
  shows "grid_init fopen malloc level g = Undefined"
proof -
  let ?nl = "\<lambda>rs. concat (map (\<lambda>r. r @ [CHR 0x0A]) rs)" and ?blank = "replicate x (CHR '' '')"
  have "read_rows (?nl (rows @ r # others)) y 0 (replicate y ?blank) =
      read_rows (r @ CHR 0x0A # ?nl others) y (length rows) (map (padded x) rows @ replicate (y - length rows) ?blank)"
    using read_rows_level [of "[]" rows y x "r @ CHR 0x0A # ?nl others"] assms(6,7) by simp
  also have "\<dots> = Undefined"
    using fgets_line [OF assms(8)] assms(6,9) store_line_overflow [of ?blank 0 "r @ [CHR 0x0A]"]
    by (subst read_rows.simps) (simp add: aread_def nth_append)
  finally show ?thesis using grid_init_level [of level fopen, OF assms(1-5), of g] by simp
qed

section \<open>A small level\<close>

definition level_file :: "string \<Rightarrow> string option" where
  "level_file name = (if name = LEVELS_DIR @ ''one'' then Some (level_text 5 3 [''#  #'', ''####'']) else None)"

definition wide_file :: "string \<Rightarrow> string option" where
  "wide_file name = (if name = LEVELS_DIR @ ''one'' then Some (level_text 5 3 [''#####'']) else None)"

theorem grid_init_loads_witness:
  "\<exists>g'. grid_init level_file (\<lambda>_. True) ''one'' grid_start = Ok (0, g') \<and> grid_ok g' \<and>
     grid_objects g' = Some [''#  #'' @ [CHR 0x0A], ''####'' @ [CHR 0x0A], ''     '']"
  using grid_init_loads [of "''one''" level_file 5 3 "[''#  #'', ''####'']" "\<lambda>_. True" grid_start]
  by (auto simp: level_file_def line_ok_def padded_def numeral_eq_Suc)

theorem grid_init_full_line_overflows_witness:
  "grid_init wide_file (\<lambda>_. True) ''one'' grid_start = Undefined"
  using grid_init_full_line_overflows [of "''one''" wide_file 5 3 "[]" "''#####''" "[]" "\<lambda>_. True" grid_start]
  by (simp add: wide_file_def line_ok_def)

end
