(* ===== verification/Screen.thy ===== *)
theory Screen
  imports Grid Canvas Gpu Complex_Main
begin

text \<open>
  The visible part of the level, \<open>screen/screen.c\<close>: a table of the grid squares around a position, which is a pair of
  \<open>double\<close>s and only converted to \<open>int\<close>; a \<open>double\<close> is modelled by its rational value.  The lemmas show which squares an update copies, and that
  screens with an even number of squares overflow.
\<close>

section \<open>State and operations\<close>

definition GRID_SQUARE_SIZE :: int where [c_consts]: "GRID_SQUARE_SIZE = 64"

record SCREEN_INFO =
  screen_x_size :: u8
  screen_y_size :: u8
  screen_objects :: "string list option"

text \<open>\<open>grid_set\<close> says that the pointer \<open>grid_info_\<close> has been set to the grid.\<close>

record screen_state =
  pos_x :: rat
  pos_y :: rat
  grid_pos_x :: int
  grid_pos_y :: int
  mid_x :: int
  mid_y :: int
  min_x :: int
  min_y :: int
  max_x :: int
  max_y :: int
  grid_set :: bool
  screen_info :: SCREEN_INFO

definition screen_start :: screen_state where
  "screen_start = \<lparr>pos_x = 0, pos_y = 0, grid_pos_x = 0, grid_pos_y = 0, mid_x = 0, mid_y = 0, min_x = 0, min_y = 0,
     max_x = 0, max_y = 0, grid_set = False, screen_info = \<lparr>screen_x_size = 0, screen_y_size = 0, screen_objects = None\<rparr>\<rparr>"

text \<open>The allocations are numbered as in the grid.\<close>

definition screen_init :: "(nat \<Rightarrow> bool) \<Rightarrow> gpu \<Rightarrow> rat \<Rightarrow> rat \<Rightarrow> screen_state \<Rightarrow> (int \<times> screen_state) outcome" where
  "screen_init malloc g x y st =
     (let res = gpu_get_gpu_res_info g;
          xs = word_of_int (uint (x_res res) div GRID_SQUARE_SIZE + 1) :: u8;
          ys = word_of_int (uint (y_res res) div GRID_SQUARE_SIZE + 1) :: u8;
          st = st\<lparr>pos_x := x, pos_y := y, grid_set := True,
                  mid_x := uint xs div 2, mid_y := uint ys div 2, min_x := 0 - uint xs div 2, min_y := 0 - uint ys div 2,
                  max_x := 0 + uint xs div 2, max_y := 0 + uint ys div 2\<rparr>;
          done = (\<lambda>rows. Ok (0, st\<lparr>screen_info := \<lparr>screen_x_size = xs, screen_y_size = ys, screen_objects = rows\<rparr>\<rparr>))
      in if \<not> malloc 0 then (if ys = 0 then done None else Undefined)
         else obind (alloc_rows malloc (unat xs) 1 (unat ys)) (\<lambda>rows. done (Some rows)))"

definition objects_of :: "string list option \<Rightarrow> string list" where
  "objects_of rows = (case rows of None \<Rightarrow> [] | Some rs \<Rightarrow> rs)"

definition screen_cleanup :: "screen_state \<Rightarrow> screen_state outcome" where
  "screen_cleanup st =
     obind (for_loop 0 (uint (screen_y_size (screen_info st))) (\<lambda>y.
       for_loop 0 (uint (screen_x_size (screen_info st))) (\<lambda>x t. awrite2 t y x (CHR '' '')))
         (objects_of (screen_objects (screen_info st))))
       (\<lambda>t. Ok (if screen_objects (screen_info st) = None then st
                else st\<lparr>screen_info := (screen_info st)\<lparr>screen_objects := Some t\<rparr>\<rparr>))"

text \<open>The conversion of a \<open>double\<close> to \<open>int\<close>: towards zero, undefined out of range.\<close>

definition double_to_int :: "rat \<Rightarrow> int outcome" where
  "double_to_int r = (let i = (if 0 \<le> r then \<lfloor>r\<rfloor> else - \<lfloor>- r\<rfloor>) in if - (2 ^ 31) \<le> i \<and> i < 2 ^ 31 then Ok i else Undefined)"

text \<open>The first and the last grid line shown.\<close>

definition first_line :: "int \<Rightarrow> int \<Rightarrow> int" where
  "first_line grid_pos lo = (if grid_pos + lo < 0 then 0 else grid_pos + lo)"

definition last_line :: "int \<Rightarrow> int \<Rightarrow> u8 \<Rightarrow> int" where
  "last_line grid_pos hi sz = (if grid_pos + hi \<ge> uint sz then uint sz - 1 else grid_pos + hi)"

definition screen_update :: "GRID_INFO \<Rightarrow> screen_state \<Rightarrow> screen_state outcome" where
  "screen_update grid st =
     obind (double_to_int (pos_x st)) (\<lambda>gx.
     obind (double_to_int (pos_y st)) (\<lambda>gy.
     if \<not> grid_set st then Undefined
     else let i_min_x = first_line gx (min_x st); i_min_y = first_line gy (min_y st);
              i_max_x = last_line gx (max_x st) (grid_x_size grid); i_max_y = last_line gy (max_y st) (grid_y_size grid);
              info = screen_info st
          in obind (for_loop i_min_y (i_max_y + 1) (\<lambda>y. for_loop i_min_x (i_max_x + 1) (\<lambda>x t.
                      obind (aread2 (objects_of (grid_objects grid)) y x) (\<lambda>c.
                      awrite2 t (y - i_min_y) (x - i_min_x) c))) (objects_of (screen_objects info)))
               (\<lambda>t. Ok (st\<lparr>grid_pos_x := gx, grid_pos_y := gy,
                  screen_info := info\<lparr>screen_objects := (if screen_objects info = None then None else Some t)\<rparr>\<rparr>))))"

definition screen_get_screen_info :: "screen_state \<Rightarrow> SCREEN_INFO" where
  "screen_get_screen_info st = screen_info st"

section \<open>Invariant\<close>

definition has_shape :: "string list option \<Rightarrow> u8 \<Rightarrow> u8 \<Rightarrow> bool" where
  "has_shape rows w h \<longleftrightarrow> (\<exists>t. rows = Some t \<and> length t = unat h \<and> list_all (\<lambda>r. length r = unat w) t)"

definition view_ok :: "screen_state \<Rightarrow> bool" where
  "view_ok st \<longleftrightarrow> grid_set st \<and> has_shape (screen_objects (screen_info st)) (screen_x_size (screen_info st)) (screen_y_size (screen_info st)) \<and>
     min_x st = - mid_x st \<and> max_x st = mid_x st \<and> 2 * mid_x st + 1 = uint (screen_x_size (screen_info st)) \<and>
     min_y st = - mid_y st \<and> max_y st = mid_y st \<and> 2 * mid_y st + 1 = uint (screen_y_size (screen_info st))"

lemma shape_in_table: "has_shape (Some t) w h \<Longrightarrow> in_table t x y \<longleftrightarrow> 0 \<le> y \<and> y < uint h \<and> 0 \<le> x \<and> x < uint w"
proof -
  assume "has_shape (Some t) w h"
  then have t: "length t = unat h" "\<And>i. i < length t \<Longrightarrow> length (t ! i) = unat w" by (auto simp: has_shape_def list_all_length)
  have n: "int (unat h) = uint h" "int (unat w) = uint w" by simp_all
  show ?thesis
  proof (cases "0 \<le> y \<and> y < uint h")
    case True
    then have "nat y < length t" using t(1) n(1) by linarith
    with t(2) n(2) True t(1) n(1) show ?thesis by (simp add: in_table_def)
  qed (use t(1) n(1) in \<open>auto simp: in_table_def\<close>)
qed

lemma shape_same: "has_shape (Some t) w h \<Longrightarrow> map length t' = map length t \<Longrightarrow> has_shape (Some t') w h"
proof -
  assume s: "has_shape (Some t) w h" and m: "map length t' = map length t"
  have "set (map length t') \<subseteq> {unat w}" unfolding m using s by (auto simp: has_shape_def list_all_iff)
  moreover have "length t' = unat h" using s arg_cong [OF m, of length] by (simp add: has_shape_def)
  ultimately show ?thesis by (auto simp: has_shape_def list_all_iff)
qed

lemma shape_painted: "has_shape (Some t) w h \<Longrightarrow> table_painted t P t' \<Longrightarrow> has_shape (Some t') w h"
  by (rule shape_same) (simp_all only: table_painted_def)

text \<open>Copying a rectangle of one table to the origin of another.\<close>

lemma copy_window:
  assumes src: "\<And>x y. x0 \<le> x \<Longrightarrow> x < x1 \<Longrightarrow> y0 \<le> y \<Longrightarrow> y < y1 \<Longrightarrow> in_table s x y"
    and dst: "\<And>x y. x0 \<le> x \<Longrightarrow> x < x1 \<Longrightarrow> y0 \<le> y \<Longrightarrow> y < y1 \<Longrightarrow> in_table t (x - x0) (y - y0)"
  shows "\<exists>t'. for_loop y0 y1 (\<lambda>y. for_loop x0 x1 (\<lambda>x t. obind (aread2 s y x) (\<lambda>c. awrite2 t (y - y0) (x - x0) c))) t = Ok t' \<and>
    table_painted t (box 0 0 (x1 - x0) (y1 - y0) (\<lambda>a b. Some (cell s (y0 + b) (x0 + a)))) t'"
proof -
  let ?f = "\<lambda>a b. Some (cell s (y0 + b) (x0 + a))"
  have "for_loop y0 y1 (\<lambda>y. for_loop x0 x1 (\<lambda>x t. obind (aread2 s y x) (\<lambda>c. awrite2 t (y - y0) (x - x0) c))) t =
      for_loop 0 (y1 - y0) (\<lambda>j. for_loop 0 (x1 - x0) (\<lambda>i t. case ?f i j of None \<Rightarrow> Ok t | Some c \<Rightarrow> awrite2 t (0 + j) (0 + i) c)) t"
    unfolding for_loop_shift [of y0 y1] for_loop_shift [of x0 x1]
    by (rule for_loop_cong [OF refl refl], rule for_loop_cong [OF refl refl]) (simp add: aread2_in src)
  moreover have "in_table t (0 + i) (0 + j)" if "0 \<le> i" "i < x1 - x0" "0 \<le> j" "j < y1 - y0" for i j
    using dst [of "x0 + i" "y0 + j"] that by simp
  ultimately show ?thesis using tables.draw_dots [of "x1 - x0" "y1 - y0" t 0 0 ?f] by simp
qed

lemma double_to_int_range: "double_to_int r = Ok i \<Longrightarrow> - (2 ^ 31) \<le> i \<and> i < 2 ^ 31"
  by (auto simp: double_to_int_def Let_def split: if_splits)

lemma screen_init_ok:
  assumes "\<forall>k. malloc k" "even (X_RES g div 64)" "even (Y_RES g div 64)" "X_RES g < 16320" "Y_RES g < 16320"
  shows "\<exists>st'. screen_init malloc g x y st = Ok (0, st') \<and> view_ok st' \<and> pos_x st' = x \<and> pos_y st' = y \<and>
    uint (screen_x_size (screen_info st')) = X_RES g div 64 + 1 \<and> uint (screen_y_size (screen_info st')) = Y_RES g div 64 + 1 \<and>
    screen_objects (screen_info st') = Some (replicate (unat (screen_y_size (screen_info st'))) (replicate (unat (screen_x_size (screen_info st'))) (CHR '' '')))"
proof -
  have size: "uint (word_of_int (uint r div 64 + 1) :: u8) = uint r div 64 + 1" "2 * ((uint r div 64 + 1) div 2) + 1 = uint r div 64 + 1"
    if "uint r < 16320" "even (uint r div 64)" for r :: u16
  proof -
    have "uint r div 64 \<le> 254" "0 \<le> uint r div 64" using that(1) zdiv_mono1 [of "uint r" 16319 64] by (simp_all add: pos_imp_zdiv_nonneg_iff)
    then have "(uint r div 64 + 1) mod 256 = uint r div 64 + 1" by simp
    then show "uint (word_of_int (uint r div 64 + 1) :: u8) = uint r div 64 + 1"
      by (simp add: uint_word_of_int_eq take_bit_eq_mod del: of_int_add)
    show "2 * ((uint r div 64 + 1) div 2) + 1 = uint r div 64 + 1" using that(2) by (auto elim: evenE)
  qed
  note xs = size [OF assms(4,2)] and ys = size [OF assms(5,3)]
  have "alloc_rows malloc n 1 m = Ok (replicate m (replicate n (CHR '' '')))" for n m
    by (rule alloc_rows_ok) (use assms(1) in auto)
  note alloc = this
  let ?xs = "word_of_int (X_RES g div 64 + 1) :: u8" and ?ys = "word_of_int (Y_RES g div 64 + 1) :: u8"
  let ?st' = "st\<lparr>pos_x := x, pos_y := y, grid_set := True, mid_x := uint ?xs div 2, mid_y := uint ?ys div 2,
     min_x := 0 - uint ?xs div 2, min_y := 0 - uint ?ys div 2, max_x := 0 + uint ?xs div 2, max_y := 0 + uint ?ys div 2,
     screen_info := \<lparr>screen_x_size = ?xs, screen_y_size = ?ys,
       screen_objects = Some (replicate (unat ?ys) (replicate (unat ?xs) (CHR '' '')))\<rparr>\<rparr>"
  have "screen_init malloc g x y st = Ok (0, ?st')"
    unfolding screen_init_def Let_def gpu_get_gpu_res_info_def GRID_SQUARE_SIZE_def using assms(1) alloc by (simp del: of_int_add)
  moreover have "view_ok ?st'"
    using xs(2) ys(2) by (simp add: view_ok_def has_shape_def list_all_iff xs(1) ys(1) del: of_int_add)
  moreover have "pos_x ?st' = x" "pos_y ?st' = y" "screen_x_size (screen_info ?st') = ?xs" "screen_y_size (screen_info ?st') = ?ys"
    "screen_objects (screen_info ?st') = Some (replicate (unat ?ys) (replicate (unat ?xs) (CHR '' '')))" by simp_all
  ultimately show ?thesis using xs(1) ys(1) by (intro exI [of _ ?st']) (simp only: simp_thms)
qed

text \<open>What an update shows: the squares from the first to the last line, from the top left corner on.\<close>

definition shows_window :: "GRID_INFO \<Rightarrow> int \<Rightarrow> int \<Rightarrow> string list \<Rightarrow> screen_state \<Rightarrow> string list \<Rightarrow> bool" where
  "shows_window grid gx gy old st t \<longleftrightarrow> (\<forall>r c. in_table old c r \<longrightarrow>
     cell t r c = (let x = first_line gx (min_x st) + c; y = first_line gy (min_y st) + r in
       if x \<le> last_line gx (max_x st) (grid_x_size grid) \<and> y \<le> last_line gy (max_y st) (grid_y_size grid)
       then cell (objects_of (grid_objects grid)) y x else cell old r c))"

lemma window_fits:
  assumes "2 * m + 1 = w" "0 \<le> i" "i < last_line p m sz + 1 - first_line p (- m)"
  shows "i < w" "0 \<le> first_line p (- m) + i" "first_line p (- m) + i < uint sz"
  using assms by (auto simp: first_line_def last_line_def split: if_splits)

text \<open>C38: with the screen's sizes odd, an update inside a loaded grid copies exactly the squares around the position, from the first
  visible line and column on and clipped to the grid, never leaves a table, and changes no other square of the screen.\<close>

theorem screen_update_window:
  assumes ok: "view_ok st" and grid: "has_shape (grid_objects grid) (grid_x_size grid) (grid_y_size grid)"
    and pos: "double_to_int (pos_x st) = Ok gx" "double_to_int (pos_y st) = Ok gy"
  shows "\<exists>st' old t. screen_update grid st = Ok st' \<and> view_ok st' \<and> screen_objects (screen_info st) = Some old \<and>
    screen_objects (screen_info st') = Some t \<and> shows_window grid gx gy old st t"
proof -
  let ?x0 = "first_line gx (min_x st)" and ?y0 = "first_line gy (min_y st)"
  let ?x1 = "last_line gx (max_x st) (grid_x_size grid)" and ?y1 = "last_line gy (max_y st) (grid_y_size grid)"
  from ok obtain old where old: "screen_objects (screen_info st) = Some old"
      "has_shape (Some old) (screen_x_size (screen_info st)) (screen_y_size (screen_info st))"
    by (auto simp: view_ok_def has_shape_def)
  from grid obtain s where s: "grid_objects grid = Some s" "has_shape (Some s) (grid_x_size grid) (grid_y_size grid)"
    by (auto simp: has_shape_def)
  have v: "grid_set st" "min_x st = - mid_x st" "max_x st = mid_x st" "2 * mid_x st + 1 = uint (screen_x_size (screen_info st))"
    "min_y st = - mid_y st" "max_y st = mid_y st" "2 * mid_y st + 1 = uint (screen_y_size (screen_info st))"
    using ok by (simp_all add: view_ok_def)
  have fx: "x - ?x0 < uint (screen_x_size (screen_info st))" "0 \<le> x" "x < uint (grid_x_size grid)" if "?x0 \<le> x" "x < ?x1 + 1" for x
    using window_fits [OF v(4), of "x - ?x0" gx "grid_x_size grid"] that v(2,3) by auto
  have fy: "y - ?y0 < uint (screen_y_size (screen_info st))" "0 \<le> y" "y < uint (grid_y_size grid)" if "?y0 \<le> y" "y < ?y1 + 1" for y
    using window_fits [OF v(7), of "y - ?y0" gy "grid_y_size grid"] that v(5,6) by auto
  from copy_window [of ?x0 "?x1 + 1" ?y0 "?y1 + 1" s old] obtain t where
    t: "for_loop ?y0 (?y1 + 1) (\<lambda>y. for_loop ?x0 (?x1 + 1) (\<lambda>x t. obind (aread2 s y x) (\<lambda>c. awrite2 t (y - ?y0) (x - ?x0) c))) old = Ok t"
      "table_painted old (box 0 0 (?x1 + 1 - ?x0) (?y1 + 1 - ?y0) (\<lambda>a b. Some (cell s (?y0 + b) (?x0 + a)))) t"
    using fx fy shape_in_table [OF s(2)] shape_in_table [OF old(2)] by auto
  let ?st' = "st\<lparr>grid_pos_x := gx, grid_pos_y := gy, screen_info := (screen_info st)\<lparr>screen_objects := Some t\<rparr>\<rparr>"
  have "screen_update grid st = Ok ?st'" using pos v(1) t(1) s(1) old(1) by (simp add: screen_update_def Let_def objects_of_def)
  moreover have "view_ok ?st'" using v shape_painted [OF old(2) t(2)] by (simp add: view_ok_def)
  moreover have "shows_window grid gx gy old st t"
    unfolding shows_window_def
  proof (intro allI impI)
    fix r c assume rc: "in_table old c r"
    then have "0 \<le> r" "0 \<le> c" by (simp_all add: in_table_def)
    with rc t(2) show "cell t r c = (let x = ?x0 + c; y = ?y0 + r in if x \<le> ?x1 \<and> y \<le> ?y1
        then cell (objects_of (grid_objects grid)) y x else cell old r c)"
      by (auto simp: table_painted_def box_def Let_def s(1) objects_of_def)
  qed
  ultimately show ?thesis using old(1) by (intro exI [of _ ?st'] exI [of _ old] exI [of _ t]) simp
qed

text \<open>Clearing the screen leaves a blank table of the same shape.\<close>

theorem screen_cleanup_blank:
  assumes ok: "view_ok st"
  shows "\<exists>st' t. screen_cleanup st = Ok st' \<and> view_ok st' \<and> screen_objects (screen_info st') = Some t \<and> set (concat t) \<subseteq> {CHR '' ''}"
proof -
  let ?w = "screen_x_size (screen_info st)" and ?h = "screen_y_size (screen_info st)" and ?f = "\<lambda>a b. Some (CHR '' '')"
  from ok obtain old where old: "screen_objects (screen_info st) = Some old" "has_shape (Some old) ?w ?h"
    by (auto simp: view_ok_def has_shape_def)
  have win: "in_table old (0 + i) (0 + j)" if "0 \<le> i" "i < uint ?w" "0 \<le> j" "j < uint ?h" for i j
    using shape_in_table [OF old(2), of "0 + i" "0 + j"] that by simp
  obtain t where t: "for_loop 0 (uint ?h) (\<lambda>y. for_loop 0 (uint ?w) (\<lambda>x t. awrite2 t y x (CHR '' ''))) old = Ok t"
      "table_painted old (box 0 0 (uint ?w) (uint ?h) ?f) t"
    using tables.draw_dots [OF TrueI win, where f = ?f] by auto
  note shape = shape_painted [OF old(2) t(2)]
  have blank: "t ! i ! j = CHR '' ''" if "i < length t" "j < length (t ! i)" for i j
  proof -
    have "in_table t (int j) (int i)" using that by (simp add: in_table_def)
    then have "in_table old (int j) (int i)" "0 \<le> int j \<and> int j < uint ?w \<and> 0 \<le> int i \<and> int i < uint ?h"
      using shape_in_table [OF shape] shape_in_table [OF old(2)] by auto
    with t(2) [unfolded table_painted_def, THEN conjunct2, rule_format, of "int j" "int i"]
    have "cell t (int i) (int j) = CHR '' ''" by (simp add: box_def)
    then show ?thesis by simp
  qed
  have "set (concat t) \<subseteq> {CHR '' ''}"
    using blank by (auto simp: in_set_conv_nth)
  moreover have "screen_cleanup st = Ok (st\<lparr>screen_info := (screen_info st)\<lparr>screen_objects := Some t\<rparr>\<rparr>)"
    using t(1) old(1) by (simp add: screen_cleanup_def objects_of_def)
  moreover have "view_ok (st\<lparr>screen_info := (screen_info st)\<lparr>screen_objects := Some t\<rparr>\<rparr>)"
    using ok shape by (simp add: view_ok_def)
  ultimately show ?thesis by auto
qed

text \<open>On a screen with an even number of squares per row, the window is one square wider than the table, and an update in the middle of
  a large grid writes past the end of a row.\<close>

theorem screen_update_even_overflows:
  assumes st: "grid_set st" "screen_objects (screen_info st) = Some old"
      "has_shape (Some old) (screen_x_size (screen_info st)) (screen_y_size (screen_info st))"
    and width: "min_x st = - mid_x st" "max_x st = mid_x st" "2 * mid_x st = uint (screen_x_size (screen_info st))"
    and grid: "has_shape (grid_objects grid) (grid_x_size grid) (grid_y_size grid)"
    and pos: "double_to_int (pos_x st) = Ok gx" "double_to_int (pos_y st) = Ok gy"
    and inside: "mid_x st \<le> gx" "gx + mid_x st < uint (grid_x_size grid)"
      "first_line gy (min_y st) \<le> last_line gy (max_y st) (grid_y_size grid)" "last_line gy (max_y st) (grid_y_size grid) < uint (grid_y_size grid)"
  shows "screen_update grid st = Undefined"
proof -
  let ?x0 = "first_line gx (min_x st)" and ?y0 = "first_line gy (min_y st)"
  let ?x1 = "last_line gx (max_x st) (grid_x_size grid)" and ?y1 = "last_line gy (max_y st) (grid_y_size grid)"
  let ?w = "screen_x_size (screen_info st)" and ?h = "screen_y_size (screen_info st)"
  let ?put = "\<lambda>y x t. obind (aread2 (objects_of (grid_objects grid)) y x) (\<lambda>c. awrite2 t (y - ?y0) (x - ?x0) c)"
  let ?I = "\<lambda>t. has_shape (Some t) ?w ?h"
  have "0 \<le> mid_x st" using width(3) uint_ge_0 [of ?w] by linarith
  then have x: "?x1 - ?x0 = uint ?w" "?x0 \<le> ?x1" using width inside(1,2) by (auto simp: first_line_def last_line_def)
  have put: "?put y x t = Undefined \<or> (\<exists>t'. ?put y x t = Ok t' \<and> ?I t')" if "?I t" for t x y
    using copy_cell_shape [of "objects_of (grid_objects grid)" y x t "y - ?y0" "x - ?x0"] shape_same [OF that] by blast
  have row: "for_loop ?x0 (?x1 + 1) (\<lambda>x. ?put y x) t = Undefined" if t: "?I t" for y t
  proof (rule for_loop_undefined [where I = ?I and k = ?x1])
    show "?put y ?x1 t = Undefined" if "?I t" for t
    proof -
      have "\<not> in_table t (?x1 - ?x0) (y - ?y0)" using shape_in_table [OF that] x(1) by simp
      then show ?thesis using put [OF that, of y ?x1] by (cases "aread2 (objects_of (grid_objects grid)) y ?x1") (auto simp: awrite2_out)
    qed
  qed (use t put x(2) in auto)
  have "for_loop ?y0 (?y1 + 1) (\<lambda>y. for_loop ?x0 (?x1 + 1) (\<lambda>x. ?put y x)) old = Undefined"
  proof (rule trans [OF for_loop_step])
    show "?y0 < ?y1 + 1" using inside(3) by linarith
    show "obind (for_loop ?x0 (?x1 + 1) (\<lambda>x. ?put ?y0 x) old) (for_loop (?y0 + 1) (?y1 + 1) (\<lambda>y. for_loop ?x0 (?x1 + 1) (\<lambda>x. ?put y x))) = Undefined"
      by (simp only: row [OF st(3)] obind.simps)
  qed
  then show ?thesis using st(1,2) pos by (simp add: screen_update_def Let_def objects_of_def)
qed

section \<open>A small level on the mode 0x105 screen\<close>

definition tiny_grid :: GRID_INFO where
  "tiny_grid = \<lparr>grid_x_size = 3, grid_y_size = 2, grid_objects = Some [''###'', ''#.#'']\<rparr>"

definition even_view :: screen_state where
  "even_view = screen_start\<lparr>pos_x := 1, mid_x := 1, min_x := - 1, max_x := 1, max_y := 1, grid_set := True,
     screen_info := \<lparr>screen_x_size = 2, screen_y_size = 2, screen_objects = Some [''  '', ''  '']\<rparr>\<rparr>"

lemma tiny_grid_shape: "has_shape (grid_objects tiny_grid) (grid_x_size tiny_grid) (grid_y_size tiny_grid)"
  by (simp add: tiny_grid_def has_shape_def)

theorem screen_update_window_witness:
  "\<exists>st st' old t. screen_init (\<lambda>_. True) ((gpu_start 0)\<lparr>gpu_res_info := \<lparr>x_res = 1024, y_res = 768\<rparr>\<rparr>) 1 (1 / 2) screen_start = Ok (0, st) \<and>
     screen_update tiny_grid st = Ok st' \<and> screen_objects (screen_info st') = Some t \<and> shows_window tiny_grid 1 0 old st t"
proof -
  let ?g = "(gpu_start 0)\<lparr>gpu_res_info := \<lparr>x_res = 1024, y_res = 768\<rparr>\<rparr>"
  obtain st where st: "screen_init (\<lambda>_. True) ?g 1 (1 / 2) screen_start = Ok (0, st)" "view_ok st" "pos_x st = 1" "pos_y st = 1 / 2"
    using screen_init_ok [of "\<lambda>_. True" ?g 1 "1 / 2" screen_start] by auto
  have "double_to_int (pos_x st) = Ok 1" "double_to_int (pos_y st) = Ok 0" unfolding st(3,4) by (simp_all add: double_to_int_def floor_eq_iff)
  from screen_update_window [OF st(2) tiny_grid_shape this] st(1) show ?thesis by blast
qed

theorem screen_update_even_overflows_witness: "screen_update tiny_grid even_view = Undefined"
proof (rule screen_update_even_overflows [where old = "[''  '', ''  '']", OF _ _ _ _ _ _ tiny_grid_shape])
  show "double_to_int (pos_x even_view) = Ok 1" "double_to_int (pos_y even_view) = Ok 0"
    by (simp_all add: even_view_def screen_start_def double_to_int_def)
qed (simp_all add: even_view_def screen_start_def has_shape_def tiny_grid_def first_line_def last_line_def)

end
