(* ===== verification/Player.thy ===== *)
theory Player
  imports Canvas
begin

text \<open>
  The player's surroundings, \<open>player/player.c\<close>: a table of 14 by 18 squares of the level around the player.  The level it reads
  (\<open>grid_info_objects\<close>, \<open>grid_sizex\<close>, \<open>grid_sizey\<close>) is declared \<open>extern\<close> and defined nowhere in the repository: the three are
  parameters.  The lemmas show what the table holds for a player on the diagonal and that, away from it, the mixed-up coordinate in the
  column check lets the code read outside the level.
\<close>

definition MAX_XSIZE :: nat where [c_consts]: "MAX_XSIZE = 18"
definition MAX_YSIZE :: nat where [c_consts]: "MAX_YSIZE = 14"

definition vis_xsize :: int where [c_consts]: "vis_xsize = 18"
definition vis_ysize :: int where [c_consts]: "vis_ysize = 14"
definition midx :: int where [c_consts]: "midx = vis_xsize div 2"
definition midy :: int where [c_consts]: "midy = vis_ysize div 2"
definition minx :: int where [c_consts]: "minx = 0 - midx"
definition miny :: int where [c_consts]: "miny = 0 - midy"
definition maxx :: int where [c_consts]: "maxx = 0 + midx"
definition maxy :: int where [c_consts]: "maxy = 0 + midy"

record player =
  visible_objects :: "string list"
  player_posx :: u8
  player_posy :: u8

definition player_start :: player where
  "player_start = \<lparr>visible_objects = replicate MAX_YSIZE (replicate MAX_XSIZE (CHR 0x00)), player_posx = 0, player_posy = 0\<rparr>"

record level =
  grid_info_objects :: "string list"
  grid_sizex :: u8
  grid_sizey :: u8

definition player_reset_visible :: "player \<Rightarrow> player outcome" where
  "player_reset_visible p =
     obind (for_loop 0 vis_ysize (\<lambda>yi. for_loop 0 vis_xsize (\<lambda>xi t. awrite2 t yi xi (CHR '' ''))) (visible_objects p))
       (\<lambda>t. Ok (p\<lparr>visible_objects := t\<rparr>))"

text \<open>The body of the loops; the columns are checked against the player's row.\<close>

definition see_square :: "level \<Rightarrow> player \<Rightarrow> int \<Rightarrow> int \<Rightarrow> string list \<Rightarrow> string list outcome" where
  "see_square lv p yi xi t =
     (if uint (player_posy p) + xi < 0 \<or> uint (player_posy p) + xi \<ge> uint (grid_sizex lv) then Ok t
      else obind (aread2 (grid_info_objects lv) (uint (player_posy p) + yi) (uint (player_posx p) + xi)) (\<lambda>c.
           awrite2 t (yi + maxy) (xi + maxx) c))"

definition player_set_visible :: "level \<Rightarrow> player \<Rightarrow> player outcome" where
  "player_set_visible lv p =
     obind (player_reset_visible p) (\<lambda>p.
     obind (for_loop miny maxy (\<lambda>yi t.
       if uint (player_posy p) + yi < 0 \<or> uint (player_posy p) + yi \<ge> uint (grid_sizey lv) then Ok t
       else for_loop minx maxx (see_square lv p yi) t) (visible_objects p))
       (\<lambda>t. Ok (p\<lparr>visible_objects := t\<rparr>)))"

text \<open>The return code is 1 on success, too.\<close>

definition player_init :: "level \<Rightarrow> u8 \<Rightarrow> u8 \<Rightarrow> player \<Rightarrow> (int \<times> player) outcome" where
  "player_init lv x y p =
     (if x > grid_sizex lv \<or> y > grid_sizey lv then Ok (1, p)
      else obind (player_set_visible lv (p\<lparr>player_posx := x, player_posy := y\<rparr>)) (\<lambda>p.
           obind (awrite2 (visible_objects p) midy midx (CHR ''p'')) (\<lambda>t.
           Ok (1, p\<lparr>visible_objects := t\<rparr>))))"

section \<open>Shapes\<close>

definition visible_ok :: "player \<Rightarrow> bool" where
  "visible_ok p \<longleftrightarrow> map length (visible_objects p) = replicate MAX_YSIZE MAX_XSIZE"

definition level_ok :: "level \<Rightarrow> bool" where
  "level_ok lv \<longleftrightarrow> map length (grid_info_objects lv) = replicate (unat (grid_sizey lv)) (unat (grid_sizex lv))"

lemma in_table_replicate: "map length t = replicate h w \<Longrightarrow> in_table t x y \<longleftrightarrow> 0 \<le> y \<and> y < int h \<and> 0 \<le> x \<and> x < int w"
proof -
  assume t: "map length t = replicate h w"
  then have h: "length t = h" by (metis length_map length_replicate)
  have w: "length (t ! i) = w" if "i < h" for i using t h that by (metis nth_map nth_replicate)
  show ?thesis
  proof (cases "0 \<le> y \<and> y < int h")
    case True
    then have "nat y < h" by linarith
    with w h True show ?thesis by (simp add: in_table_def)
  qed (use h in \<open>auto simp: in_table_def\<close>)
qed

lemma visible_in: "visible_ok p \<Longrightarrow> in_table (visible_objects p) x y \<longleftrightarrow> 0 \<le> y \<and> y < 14 \<and> 0 \<le> x \<and> x < 18"
  using in_table_replicate [of "visible_objects p" 14 18] by (simp add: visible_ok_def MAX_XSIZE_def MAX_YSIZE_def)

lemma level_in: "level_ok lv \<Longrightarrow> in_table (grid_info_objects lv) x y \<longleftrightarrow> 0 \<le> y \<and> y < uint (grid_sizey lv) \<and> 0 \<le> x \<and> x < uint (grid_sizex lv)"
  using in_table_replicate [of "grid_info_objects lv" "unat (grid_sizey lv)" "unat (grid_sizex lv)"] by (simp add: level_ok_def)

lemma painted_visible_ok: "visible_ok p \<Longrightarrow> table_painted (visible_objects p) P t \<Longrightarrow> visible_ok (p\<lparr>visible_objects := t\<rparr>)"
  by (simp add: visible_ok_def table_painted_def)

lemma player_reset_visible_ok:
  assumes ok: "visible_ok p"
  shows "\<exists>t. player_reset_visible p = Ok (p\<lparr>visible_objects := t\<rparr>) \<and> visible_ok (p\<lparr>visible_objects := t\<rparr>) \<and>
    (\<forall>x y. in_table (visible_objects p) x y \<longrightarrow> cell t y x = CHR '' '')"
proof -
  let ?f = "\<lambda>a b :: int. Some (CHR '' '')"
  have win: "in_table (visible_objects p) (0 + i) (0 + j)" if "0 \<le> i" "i < 18" "0 \<le> j" "j < 14" for i j
    using visible_in [OF ok, of "0 + i" "0 + j"] that by simp
  obtain t where t: "for_loop 0 14 (\<lambda>y. for_loop 0 18 (\<lambda>x t. awrite2 t y x (CHR '' ''))) (visible_objects p) = Ok t"
      "table_painted (visible_objects p) (box 0 0 18 14 ?f) t"
    using tables.draw_dots [OF TrueI win, where f = ?f] by auto
  have "cell t y x = CHR '' ''" if "in_table (visible_objects p) x y" for x y
    using t(2) [unfolded table_painted_def, THEN conjunct2, rule_format, OF that] visible_in [OF ok] that by (simp add: box_def)
  with t(1) painted_visible_ok [OF ok t(2)] show ?thesis by (intro exI [of _ t]) (simp add: player_reset_visible_def vis_xsize_def vis_ysize_def)
qed

section \<open>What the player sees\<close>

lemma window_values: "minx = - 9" "maxx = 9" "miny = - 7" "maxy = 7"
  by (simp_all add: c_consts)

text \<open>The square of the level that a player at \<open>(q, q)\<close> sees in column \<open>i\<close> and row \<open>j\<close> of the window.\<close>

definition window_square :: "level \<Rightarrow> int \<Rightarrow> int \<Rightarrow> int \<Rightarrow> char option" where
  "window_square lv q i j =
     (if 0 \<le> q + j - 7 \<and> q + j - 7 < uint (grid_sizey lv) \<and> 0 \<le> q + i - 9 \<and> q + i - 9 < uint (grid_sizex lv)
      then Some (cell (grid_info_objects lv) (q + j - 7) (q + i - 9)) else None)"

definition window_dot :: "level \<Rightarrow> int \<Rightarrow> int \<Rightarrow> int \<Rightarrow> char list list \<Rightarrow> char list list outcome" where
  "window_dot lv q j i t = (case window_square lv q i j of None \<Rightarrow> Ok t | Some c \<Rightarrow> awrite2 t (0 + j) (0 + i) c)"

lemma see_square_window:
  assumes lv: "level_ok lv" and diag: "player_posx p = player_posy p" and q: "q = uint (player_posy p)"
    and row: "0 \<le> q + j - 7" "q + j - 7 < uint (grid_sizey lv)"
  shows "see_square lv p (- 7 + j) (- 9 + i) t = window_dot lv q j i t"
  using row diag q aread2_in [of "grid_info_objects lv" "q + i - 9" "q + j - 7"] level_in [OF lv, of "q + i - 9" "q + j - 7"]
  by (auto simp: see_square_def window_values window_dot_def window_square_def algebra_simps)

lemma see_row_window:
  assumes lv: "level_ok lv" and diag: "player_posx p = player_posy p" and q: "q = uint (player_posy p)"
  shows "(if q + (- 7 + j) < 0 \<or> q + (- 7 + j) \<ge> uint (grid_sizey lv) then Ok t else for_loop (- 9) 9 (see_square lv p (- 7 + j)) t) =
    for_loop 0 18 (window_dot lv q j) t"
proof (cases "0 \<le> q + j - 7 \<and> q + j - 7 < uint (grid_sizey lv)")
  case True
  have "for_loop (- 9) 9 (see_square lv p (- 7 + j)) t = for_loop 0 18 (\<lambda>i. see_square lv p (- 7 + j) (- 9 + i)) t"
    using for_loop_shift [of "- 9" 9 "see_square lv p (- 7 + j)" t] by simp
  also have "\<dots> = for_loop 0 18 (window_dot lv q j) t"
    by (rule for_loop_cong [OF refl refl]) (use True see_square_window [OF lv diag q] in blast)
  finally show ?thesis using True by auto
next
  case False
  then have "window_dot lv q j = (\<lambda>i t. Ok t)" by (auto simp: window_dot_def window_square_def fun_eq_iff)
  with False show ?thesis by auto
qed

text \<open>For a player on the diagonal of the level, the table shows the 14 by 18 squares around the player, blanks
  outside the level.\<close>

theorem player_set_visible_diagonal:
  assumes p: "visible_ok p" and lv: "level_ok lv" and diag: "player_posx p = player_posy p"
  shows "\<exists>p'. player_set_visible lv p = Ok p' \<and> visible_ok p' \<and> (\<forall>r c. 0 \<le> r \<and> r < 14 \<and> 0 \<le> c \<and> c < 18 \<longrightarrow>
    cell (visible_objects p') r c =
      (let y = uint (player_posy p) + r - 7; x = uint (player_posx p) + c - 9 in
       if 0 \<le> y \<and> y < uint (grid_sizey lv) \<and> 0 \<le> x \<and> x < uint (grid_sizex lv) then cell (grid_info_objects lv) y x else CHR '' ''))"
proof -
  let ?q = "uint (player_posy p)"
  from player_reset_visible_ok [OF p] obtain t0 where t0: "player_reset_visible p = Ok (p\<lparr>visible_objects := t0\<rparr>)"
      "visible_ok (p\<lparr>visible_objects := t0\<rparr>)" "\<forall>x y. in_table (visible_objects p) x y \<longrightarrow> cell t0 y x = CHR '' ''" by blast
  let ?p = "p\<lparr>visible_objects := t0\<rparr>"
  let ?row = "\<lambda>yi t. if ?q + yi < 0 \<or> ?q + yi \<ge> uint (grid_sizey lv) then Ok t else for_loop (- 9) 9 (see_square lv ?p yi) t"
  have "for_loop (- 7) 7 ?row t0 = for_loop 0 14 (\<lambda>j. ?row (- 7 + j)) t0" using for_loop_shift [of "- 7" 7 ?row t0] by simp
  also have "\<dots> = for_loop 0 14 (\<lambda>j. for_loop 0 18 (window_dot lv ?q j)) t0"
    by (rule for_loop_cong [OF refl refl], rule see_row_window [OF lv]) (simp_all add: diag)
  finally have loop: "for_loop (- 7) 7 ?row t0 = for_loop 0 14 (\<lambda>j. for_loop 0 18 (window_dot lv ?q j)) t0" .
  have win: "in_table t0 (0 + i) (0 + j)" if "0 \<le> i" "i < 18" "0 \<le> j" "j < 14" for i j
    using visible_in [OF t0(2), of "0 + i" "0 + j"] that by simp
  obtain t where t: "for_loop (- 7) 7 ?row t0 = Ok t" "table_painted t0 (box 0 0 18 14 (window_square lv ?q)) t"
    using tables.draw_dots [OF TrueI win, where f = "window_square lv ?q"] unfolding loop window_dot_def by blast
  have "player_set_visible lv p = Ok (p\<lparr>visible_objects := t\<rparr>)"
    unfolding player_set_visible_def window_values t0(1) obind.simps using t(1) by simp
  moreover have "visible_ok (p\<lparr>visible_objects := t\<rparr>)" using painted_visible_ok [OF t0(2), of _ t] t(2) by simp
  moreover have "cell t r c = (case window_square lv ?q c r of None \<Rightarrow> CHR '' '' | Some x \<Rightarrow> x)"
    if "0 \<le> r" "r < 14" "0 \<le> c" "c < 18" for r c
  proof -
    have "in_table t0 c r" "in_table (visible_objects p) c r" using that visible_in [OF p] visible_in [OF t0(2)] by simp_all
    with t(2) [unfolded table_painted_def, THEN conjunct2, rule_format, of c r] t0(3) that show ?thesis by (simp add: box_def split: option.split)
  qed
  ultimately show ?thesis
    using diag by (intro exI [of _ "p\<lparr>visible_objects := t\<rparr>"]) (simp add: Let_def window_square_def)
qed

text \<open>The column check uses the player's row: a player near the right edge of the level whose row number is small reads past the end of the
  level's rows.\<close>

theorem player_set_visible_reads_outside:
  assumes p: "visible_ok p" and lv: "level_ok lv"
    and at: "uint (player_posy p) < uint (grid_sizey lv)" "uint (player_posy p) + 8 < uint (grid_sizex lv)"
      "uint (grid_sizex lv) \<le> uint (player_posx p) + 8"
  shows "player_set_visible lv p = Undefined"
proof -
  let ?q = "uint (player_posy p)"
  from player_reset_visible_ok [OF p] obtain t0 where t0: "player_reset_visible p = Ok (p\<lparr>visible_objects := t0\<rparr>)"
      "visible_ok (p\<lparr>visible_objects := t0\<rparr>)" by blast
  let ?p = "p\<lparr>visible_objects := t0\<rparr>" and ?I = "\<lambda>t. visible_ok (p\<lparr>visible_objects := t\<rparr>)"
  have square: "see_square lv ?p yi xi t = Undefined \<or> (\<exists>t'. see_square lv ?p yi xi t = Ok t' \<and> ?I t')" if t: "?I t" for yi xi t
    using copy_cell_shape [of "grid_info_objects lv" "?q + yi" "uint (player_posx p) + xi" t "yi + maxy" "xi + maxx"] t
    by (auto simp: see_square_def visible_ok_def)
  let ?body = "\<lambda>yi t. if ?q + yi < 0 \<or> ?q + yi \<ge> uint (grid_sizey lv) then Ok t else for_loop minx maxx (see_square lv ?p yi) t"
  have row0: "for_loop minx maxx (see_square lv ?p 0) t = Undefined" if "?I t" for t
  proof (rule for_loop_undefined [where I = ?I and k = 8])
    show "see_square lv ?p 0 8 t = Undefined" for t
    proof -
      have "\<not> in_table (grid_info_objects lv) (uint (player_posx p) + 8) (?q + 0)" using at(3) level_in [OF lv] by simp
      moreover have "\<not> ?q + 8 < 0" using uint_ge_0 [of "player_posy p"] by linarith
      ultimately show ?thesis using at(2) aread2_out [of "grid_info_objects lv"] by (auto simp: see_square_def)
    qed
  qed (use that square in \<open>simp_all add: window_values\<close>)
  have "for_loop miny maxy ?body t0 = Undefined"
  proof (rule for_loop_undefined [where I = ?I and k = 0])
    show "?body 0 t = Undefined" if "?I t" for t using row0 [OF that] at(1) by simp
    show "?body yi t = Undefined \<or> (\<exists>t'. ?body yi t = Ok t' \<and> ?I t')" if "?I t" for yi t
      using for_loop_partial [where I = ?I, OF that square] that by auto
  qed (use t0(2) in \<open>simp_all add: window_values\<close>)
  then show ?thesis using t0(1) by (simp add: player_set_visible_def)
qed

section \<open>A player in a small level\<close>

definition tiny_level :: "nat \<Rightarrow> nat \<Rightarrow> level" where
  "tiny_level w h = \<lparr>grid_info_objects = replicate h (replicate w (CHR ''#'')), grid_sizex = of_nat w, grid_sizey = of_nat h\<rparr>"

lemma player_start_ok: "visible_ok (player_start\<lparr>player_posx := x, player_posy := y\<rparr>)"
  by (simp add: visible_ok_def player_start_def)

lemma tiny_level_ok: "w < 256 \<Longrightarrow> h < 256 \<Longrightarrow> level_ok (tiny_level w h)"
  by (simp add: level_ok_def tiny_level_def unsigned_of_nat take_bit_eq_mod)

theorem player_set_visible_diagonal_witness:
  "\<exists>p'. player_set_visible (tiny_level 20 20) (player_start\<lparr>player_posx := 3, player_posy := 3\<rparr>) = Ok p' \<and>
     cell (visible_objects p') 0 0 = CHR '' '' \<and> cell (visible_objects p') 7 9 = CHR ''#''"
proof -
  let ?p = "player_start\<lparr>player_posx := 3, player_posy := 3\<rparr>"
  obtain p' where p': "player_set_visible (tiny_level 20 20) ?p = Ok p'" and
    cells: "\<And>r c. 0 \<le> r \<and> r < 14 \<and> 0 \<le> c \<and> c < 18 \<Longrightarrow> cell (visible_objects p') r c =
      (let y = uint (player_posy ?p) + r - 7; x = uint (player_posx ?p) + c - 9 in
       if 0 \<le> y \<and> y < uint (grid_sizey (tiny_level 20 20)) \<and> 0 \<le> x \<and> x < uint (grid_sizex (tiny_level 20 20))
       then cell (grid_info_objects (tiny_level 20 20)) y x else CHR '' '')"
    using player_set_visible_diagonal [OF player_start_ok tiny_level_ok, of 20 20 3 3] by auto
  show ?thesis
    using p' cells [of 0 0] cells [of 7 9] by (intro exI [of _ p']) (simp add: tiny_level_def)
qed

theorem player_set_visible_reads_outside_witness:
  "player_set_visible (tiny_level 20 20) (player_start\<lparr>player_posx := 15, player_posy := 3\<rparr>) = Undefined"
  by (rule player_set_visible_reads_outside [OF player_start_ok tiny_level_ok]) (simp_all add: tiny_level_def)

end
