(* ===== verification/Assets_Manager.thy ===== *)
theory Assets_Manager
  imports Menu Player
begin

text \<open>
  The asset manager, \<open>assets/assets_manager.c\<close>: the images of the level's objects and the drawing of the player's
  surroundings.  Every image is drawn with the dimensions of the block; the lemmas show that this is right for blocks, reads past the
  end of the player's image, and that the loop over the visible rows runs past row 0.
\<close>

record assets =
  block_img :: xpm_image
  block_colors :: "u8 list option"
  player_img :: xpm_image
  player_colors :: "u8 list option"

definition assets_manager_init :: "loader \<Rightarrow> assets \<Rightarrow> assets" where
  "assets_manager_init xpm_load a =
     (case xpm_load block_xpm of (bc, bi) \<Rightarrow> case xpm_load player_xpm of (pc, pi) \<Rightarrow>
        a\<lparr>block_img := bi, block_colors := bc, player_img := pi, player_colors := pc\<rparr>)"

text \<open>A null pointer has no bytes to read; the image passed is not used.\<close>

definition assets_manager_draw_img :: "assets \<Rightarrow> xpm_image \<Rightarrow> u16 \<Rightarrow> u16 \<Rightarrow> u8 list option \<Rightarrow> gpu \<Rightarrow> gpu outcome" where
  "assets_manager_draw_img a im posx posy colors g =
     draw_colors (case colors of None \<Rightarrow> [] | Some cs \<Rightarrow> cs) (img_width (block_img a)) (img_height (block_img a)) posx posy g"

definition assets_manager_draw_asset :: "assets \<Rightarrow> char \<Rightarrow> u16 \<Rightarrow> u16 \<Rightarrow> gpu \<Rightarrow> gpu outcome" where
  "assets_manager_draw_asset a asset posx posy g =
     (if asset = CHR ''#'' then assets_manager_draw_img a (block_img a) posx posy (block_colors a) g
      else if asset = CHR ''p'' then assets_manager_draw_img a (player_img a) posx posy (player_colors a) g
      else Ok g)"

text \<open>\<open>for (uint8_t yi = vis_ysize - 1; yi >= 0; yi--)\<close>: the condition always holds, so the loop is cut off by fuel.\<close>

fun draw_vis_rows :: "nat \<Rightarrow> assets \<Rightarrow> string list \<Rightarrow> u8 \<Rightarrow> gpu \<Rightarrow> gpu outcome" where
  "draw_vis_rows 0 a visible yi g = Diverges"
| "draw_vis_rows (Suc fuel) a visible yi g =
     obind (for_loop 0 vis_xsize (\<lambda>xi g. obind (aread2 visible (uint yi) xi) (\<lambda>c.
              assets_manager_draw_asset a c (word_of_int (xi * 64)) (word_of_int (uint yi * 64)) g)) g)
       (draw_vis_rows fuel a visible (yi - 1))"

definition assets_manager_draw_player_vis :: "nat \<Rightarrow> assets \<Rightarrow> player \<Rightarrow> gpu \<Rightarrow> gpu outcome" where
  "assets_manager_draw_player_vis fuel a p g = draw_vis_rows fuel a (visible_objects p) (word_of_int (vis_ysize - 1)) g"

section \<open>Blocks and the player\<close>

lemma loaded_asset:
  assumes "loader_ok xpm_load" "xpm_load x = (cs, im)" "xpm_dims x = (w, h)"
  shows "cs = Some (img_bytes im)" "uint (img_width im) = w" "uint (img_height im) = h" "int (length (img_bytes im)) = w * h"
  using loader_okD [OF assms(1,2)] assms(3) by simp_all

text \<open>Drawing a block puts the 64 by 128 pixels of its image on the screen, clipped to it, and nothing else.\<close>

theorem assets_manager_draw_block_pixels:
  assumes g: "indexed_ok g" and load: "loader_ok xpm_load" and pos: "uint posx < 65000" "uint posy < 65000"
  shows "\<exists>g'. assets_manager_draw_asset (assets_manager_init xpm_load a) (CHR ''#'') posx posy g = Ok g' \<and> indexed_ok g' \<and>
    (\<forall>x y. on_screen g x y \<longrightarrow> pixel g' x y =
       (if uint posx \<le> x \<and> x < uint posx + 64 \<and> uint posy \<le> y \<and> y < uint posy + 128
        then img_pixel (snd (xpm_load block_xpm)) (x - uint posx) (y - uint posy) else pixel g x y))"
proof -
  obtain cs im where im: "xpm_load block_xpm = (cs, im)" by (cases "xpm_load block_xpm")
  note d = loaded_asset [OF load im, of 64 128, simplified block_dims_def xpm_dims.simps, OF refl]
  let ?a = "assets_manager_init xpm_load a"
  have a: "block_img ?a = im" "block_colors ?a = Some (img_bytes im)"
    using im d(1) by (simp_all add: assets_manager_init_def split: prod.splits)
  obtain g' where g': "draw_colors (img_bytes im) (img_width im) (img_height im) posx posy g = Ok g'"
      "painted g (box (uint posx) (uint posy) 64 128 (\<lambda>a b. Some (img_bytes im ! nat (b * 64 + a)))) g'"
    using draw_colors_painted [OF g, of "img_width im" "img_height im" "img_bytes im" posx posy] d pos by auto
  have "assets_manager_draw_asset ?a (CHR ''#'') posx posy g = Ok g'"
    using g'(1) by (simp add: assets_manager_draw_asset_def assets_manager_draw_img_def a)
  moreover have "indexed_ok g'" using screen.painted_ready [OF g'(2) g] .
  ultimately show ?thesis using g'(2) im d(2) by (auto simp: painted_def box_def img_pixel_def)
qed

lemma draw_colors_short:
  assumes "int (length colors) < uint w * uint h"
  shows "draw_colors colors w h x y g = Undefined"
proof -
  let ?n = "int (length colors)" and ?W = "uint w"
  let ?dot = "\<lambda>j i g. obind (aread_int colors (j * ?W + i)) (\<lambda>c. gpu_draw_pixel (x + word_of_int i) (y + word_of_int j) (ucast c) g)"
  have dot: "?dot j i g = Undefined \<or> (\<exists>g'. ?dot j i g = Ok g' \<and> True)" for i j g
    using gpu_draw_pixel_partial by (auto simp: aread_int_def aread_def)
  have W: "0 < ?W" using assms by (cases "?W = 0") (auto simp: order_less_le)
  have "?n div ?W * ?W \<le> ?n" using W by (simp add: minus_mod_eq_div_mult [symmetric])
  with assms have "?n div ?W * ?W < uint h * ?W" by (simp add: mult.commute)
  then have "?n div ?W < uint h" using W by (simp add: mult_less_cancel_right)
  then have rows: "0 \<le> ?n div ?W" "?n div ?W < uint h" "0 \<le> ?n mod ?W" "?n mod ?W < ?W"
    using W by (simp_all add: pos_imp_zdiv_nonneg_iff)
  have "?dot (?n div ?W) (?n mod ?W) g = Undefined" for g by (simp add: aread_int_def aread_def)
  then have "for_loop 0 ?W (?dot (?n div ?W)) g = Undefined" for g
    using rows dot by (intro for_loop_undefined [where I = "\<lambda>_. True" and k = "?n mod ?W"]) auto
  note row = this
  have "for_loop 0 ?W (?dot j) g = Undefined \<or> (\<exists>g'. for_loop 0 ?W (?dot j) g = Ok g' \<and> True)" for j g
    by (rule for_loop_partial [where I = "\<lambda>_. True"]) (use dot in auto)
  then show ?thesis
    unfolding draw_colors_def by (rule for_loop_undefined [where I = "\<lambda>_. True", OF TrueI rows(1,2)]) (rule row)
qed

text \<open>C39: drawing the player's image, which is half as high as a block's, reads past its end: with every loader that gives the
  images their documented sizes, wherever the player is drawn.\<close>

theorem assets_manager_draw_player_undefined:
  assumes load: "loader_ok xpm_load"
  shows "assets_manager_draw_asset (assets_manager_init xpm_load a) (CHR ''p'') posx posy g = Undefined"
proof -
  obtain cs im where im: "xpm_load block_xpm = (cs, im)" by (cases "xpm_load block_xpm")
  obtain pcs pim where pim: "xpm_load player_xpm = (pcs, pim)" by (cases "xpm_load player_xpm")
  note d = loaded_asset [OF load im, of 64 128, simplified block_dims_def xpm_dims.simps, OF refl]
    and pd = loaded_asset [OF load pim, of 64 64, simplified player_dims_def xpm_dims.simps, OF refl]
  let ?a = "assets_manager_init xpm_load a"
  have "block_img ?a = im" "player_colors ?a = Some (img_bytes pim)"
    using im pim pd(1) by (simp_all add: assets_manager_init_def)
  with draw_colors_short [of "img_bytes pim" "img_width im" "img_height im"] d pd(4) show ?thesis
    by (simp add: assets_manager_draw_asset_def assets_manager_draw_img_def)
qed

lemma draw_asset_partial:
  "assets_manager_draw_asset a c x y g = Undefined \<or> (\<exists>g'. assets_manager_draw_asset a c x y g = Ok g')"
  using draw_colors_partial by (auto simp: assets_manager_draw_asset_def assets_manager_draw_img_def)

lemma vis_row_partial:
  "for_loop 0 vis_xsize (\<lambda>xi g. obind (aread2 visible y xi) (\<lambda>c. assets_manager_draw_asset a c (f xi) z g)) g = Undefined \<or>
   (\<exists>g'. for_loop 0 vis_xsize (\<lambda>xi g. obind (aread2 visible y xi) (\<lambda>c. assets_manager_draw_asset a c (f xi) z g)) g = Ok g' \<and> True)"
proof (rule for_loop_partial [where I = "\<lambda>_. True", OF TrueI])
  fix xi g
  show "obind (aread2 visible y xi) (\<lambda>c. assets_manager_draw_asset a c (f xi) z g) = Undefined \<or>
     (\<exists>g'. obind (aread2 visible y xi) (\<lambda>c. assets_manager_draw_asset a c (f xi) z g) = Ok g' \<and> True)"
    using draw_asset_partial [of a _ "f xi" z g] by (cases "in_table visible xi y") (auto simp: aread2_in aread2_out)
qed

lemma draw_vis_rows_undefined:
  assumes "map length visible = replicate 14 18"
  shows "n < 14 \<Longrightarrow> n + 2 \<le> fuel \<Longrightarrow> draw_vis_rows fuel a visible (of_nat n) g = Undefined"
proof (induction n arbitrary: fuel g)
  case 0
  then obtain k where k: "fuel = Suc (Suc k)" by (cases fuel; cases "fuel - 1") auto
  have "\<not> in_table visible 0 255" using in_table_replicate [OF assms] by simp
  then have "draw_vis_rows (Suc k) a visible (- 1) g' = Undefined" for g'
    by (simp add: vis_xsize_def for_loop_step aread2_out unsigned_minus_1_eq_mask mask_eq_exp_minus_1)
  then show ?case unfolding k draw_vis_rows.simps(2) [of "Suc k"]
    by (intro obind_undefined [OF vis_row_partial]) simp
next
  case (Suc n)
  then obtain k where k: "fuel = Suc k" "n + 2 \<le> k" by (cases fuel) auto
  have "of_nat (Suc n) - 1 = (of_nat n :: u8)" by simp
  moreover have "n < 14" using Suc.prems(1) by simp
  ultimately show ?case unfolding k(1) draw_vis_rows.simps(2)
    by (intro obind_undefined [OF vis_row_partial]) (simp only: Suc.IH [OF _ k(2)])
qed

text \<open>Drawing the visible squares never succeeds: after row 0 the unsigned row counter wraps around to 255 and the table is
  read outside its bounds, whatever it holds.\<close>

theorem assets_manager_draw_player_vis_undefined:
  assumes "visible_ok p" "15 \<le> fuel"
  shows "assets_manager_draw_player_vis fuel a p g = Undefined"
  using draw_vis_rows_undefined [of "visible_objects p" 13 fuel a g] assms
  by (simp add: assets_manager_draw_player_vis_def vis_ysize_def visible_ok_def MAX_XSIZE_def MAX_YSIZE_def)

theorem assets_manager_draw_block_pixels_witness:
  "\<forall>a. \<exists>g'. assets_manager_draw_asset (assets_manager_init black_loader a) (CHR ''#'') 64 128 mode105_gpu = Ok g' \<and> indexed_ok g'"
proof
  fix a
  have "indexed_ok mode105_gpu" using mode105_screen_ok by (simp add: screen_ok_def)
  from assets_manager_draw_block_pixels [OF this black_loader_ok, of 64 128 a]
  show "\<exists>g'. assets_manager_draw_asset (assets_manager_init black_loader a) (CHR ''#'') 64 128 mode105_gpu = Ok g' \<and> indexed_ok g'"
    by auto
qed

theorem assets_manager_draw_player_undefined_witness:
  "\<forall>a. assets_manager_draw_asset (assets_manager_init black_loader a) (CHR ''p'') 64 128 mode105_gpu = Undefined"
  by (rule allI, rule assets_manager_draw_player_undefined [OF black_loader_ok])

theorem assets_manager_draw_player_vis_undefined_witness:
  "\<forall>a. assets_manager_draw_player_vis 15 a (player_start\<lparr>player_posx := 0, player_posy := 0\<rparr>) mode105_gpu = Undefined"
  by (rule allI, rule assets_manager_draw_player_vis_undefined [OF player_start_ok]) simp

end
