(* ===== verification/Lab2.thy ===== *)
theory Lab2
  imports Timer Messages
begin

text \<open>
  The timer tests, \<open>lab2/lab2.c\<close>, on top of the project's timer driver.  The file reads the tick counter through
  \<open>extern size_t counter\<close>, which no file defines (the driver calls it \<open>timer_counter\<close>): it is the parameter \<open>counter\<close>, of
  which the code needs that \<open>timer_int_handler\<close> increments it.  The lemmas count the beats of a loop that looks at every
  \<open>f\<close>-th tick; they are shared with the idle time of \<open>Lab3\<close>.
\<close>

section \<open>Beats of the tick counter\<close>

locale tick_counter =
  fixes counter :: "timer_drv \<Rightarrow> u32"
  assumes tick: "counter (timer_int_handler d) = counter d + 1"
begin

lemma tick_unat: "unat (counter d) + 1 < 2 ^ 32 \<Longrightarrow> unat (counter (timer_int_handler d)) = unat (counter d) + 1"
  by (simp add: tick unat_word_ariths)

end

interpretation driver_ticks: tick_counter timer_counter
  by unfold_locales (simp add: timer_int_handler_def)

text \<open>How many multiples of \<open>f\<close> lie among the \<open>k\<close> numbers after \<open>c\<close>.\<close>

definition beats :: "nat \<Rightarrow> nat \<Rightarrow> nat \<Rightarrow> nat" where
  "beats f c k = (c + k) div f - c div f"

lemma beats_0 [simp]: "beats f c 0 = 0"
  by (simp add: beats_def)

lemma beats_Suc: "beats f c (Suc k) = (if (c + 1) mod f = 0 then 1 else 0) + beats f (c + 1) k"
proof -
  have "(c + 1) div f \<le> (c + 1 + k) div f" by (rule div_le_mono) simp
  moreover have "(c + 1) div f = (if (c + 1) mod f = 0 then Suc (c div f) else c div f)" by (simp add: div_Suc)
  ultimately show ?thesis by (auto simp: beats_def)
qed

lemma beats_multiple: "0 < f \<Longrightarrow> n * f \<le> k \<Longrightarrow> n \<le> beats f c k"
proof -
  assume "0 < f" "n * f \<le> k"
  then have "(c + n * f) div f \<le> (c + k) div f" by (intro div_le_mono) simp
  with \<open>0 < f\<close> show ?thesis by (simp add: beats_def)
qed

section \<open>The tests\<close>

text \<open>The print function of the course library reports failure by \<open>False\<close>.\<close>

definition timer_test_read_config ::
  "(u8 \<Rightarrow> timer_status_field \<Rightarrow> timer_status_field_val \<Rightarrow> bool) \<Rightarrow> kernel \<Rightarrow> u8 \<Rightarrow> timer_status_field \<Rightarrow> (trace, unit) io" where
  "timer_test_read_config print_config K timer field =
     andthen (timer_get_conf K timer) (\<lambda>st.
       if timer_display_conf print_config timer st field then ret_ok () else ret_err)"

definition timer_test_time_base :: "kernel \<Rightarrow> u8 \<Rightarrow> u32 \<Rightarrow> (trace, unit) io" where
  "timer_test_time_base K timer freq = andthen (timer_set_frequency K timer freq) (\<lambda>_. ret_ok ())"

text \<open>The state of \<open>timer_test_int\<close>: the driver, the argument \<open>time\<close> that is counted down, and how often
  \<open>timer_print_elapsed_time\<close> has been called.\<close>

record timer_test =
  tt_drv :: timer_drv
  tt_trace :: trace
  tt_time :: u8
  tt_printed :: nat

definition timer_test_handle :: "(timer_drv \<Rightarrow> u32) \<Rightarrow> u8 \<Rightarrow> message \<Rightarrow> timer_test \<Rightarrow> timer_test outcome" where
  "timer_test_handle counter bit_no msg st =
     (case msg of
        Interrupts irqs \<Rightarrow>
          if pending irqs bit_no
          then let st = st\<lparr>tt_drv := timer_int_handler (tt_drv st)\<rparr> in
               Ok (if counter (tt_drv st) mod 60 = 0
                   then st\<lparr>tt_printed := tt_printed st + 1, tt_time := tt_time st - 1\<rparr> else st)
          else Ok st
      | _ \<Rightarrow> Ok st)"

text \<open>The return code, or \<open>None\<close> while the loop still waits.\<close>

definition timer_test_int :: "kernel \<Rightarrow> (timer_drv \<Rightarrow> u32) \<Rightarrow> message list \<Rightarrow> timer_test \<Rightarrow> (int option \<times> timer_test) outcome" where
  "timer_test_int K counter msgs st =
     (case timer_subscribe K (tt_drv st, tt_trace st) of
        (None, (d, tr)) \<Rightarrow> Ok (Some 1, st\<lparr>tt_drv := d, tt_trace := tr\<rparr>)
      | (Some bit_no, (d, tr)) \<Rightarrow>
          obind (message_loop (\<lambda>st. tt_time st > 0) (timer_test_handle counter bit_no) msgs (st\<lparr>tt_drv := d, tt_trace := tr\<rparr>))
            (\<lambda>(ended, st).
               if \<not> ended then Ok (None, st)
               else case timer_unsubscribe K (tt_drv st, tt_trace st) of
                      (r, (d, tr)) \<Rightarrow> Ok (Some (if r = None then 1 else 0), st\<lparr>tt_drv := d, tt_trace := tr\<rparr>)))"

section \<open>The tests show what they are for\<close>

interpretation timer_test_msgs: message_driven "\<lambda>st. tt_time st > 0" "timer_test_handle counter bit_no" "\<lambda>_. True" for counter bit_no
  by unfold_locales (simp add: timer_test_handle_def Let_def split: message.splits)

interpretation timer_test_ticks: message_filter "timer_test_handle counter bit_no" "notifies bit_no" for counter bit_no
  by unfold_locales (auto simp: timer_test_handle_def split: message.splits)

context tick_counter
begin

lemma seconds_loop:
  "unat (counter (tt_drv st)) + length msgs < 2 ^ 32 \<Longrightarrow> list_all (notifies bit_no) msgs \<Longrightarrow>
   \<exists>ended st'. message_loop (\<lambda>st. tt_time st > 0) (timer_test_handle counter bit_no) msgs st = Ok (ended, st') \<and>
     (ended \<longleftrightarrow> unat (tt_time st) \<le> beats 60 (unat (counter (tt_drv st))) (length msgs)) \<and>
     tt_printed st' = tt_printed st + min (unat (tt_time st)) (beats 60 (unat (counter (tt_drv st))) (length msgs))"
proof (induction msgs arbitrary: st)
  case Nil
  then show ?case by (simp add: word_neq_0_conv [symmetric] unat_eq_0)
next
  case (Cons msg msgs)
  show ?case
  proof (cases "tt_time st = 0")
    case False
    let ?d = "timer_int_handler (tt_drv st)" and ?t = "tt_time st"
    let ?s = "st\<lparr>tt_drv := ?d\<rparr>"
    let ?st = "if counter ?d mod 60 = 0 then ?s\<lparr>tt_printed := tt_printed st + 1, tt_time := ?t - 1\<rparr> else ?s"
    have c: "unat (counter ?d) = unat (counter (tt_drv st)) + 1" using Cons.prems(1) by (intro tick_unat) simp
    have c60: "counter ?d mod 60 = 0 \<longleftrightarrow> unat (counter ?d) mod 60 = 0"
      by (simp add: unat_mod flip: unat_eq_0)
    have t: "unat (?t - 1) = unat ?t - 1" "0 < unat ?t" using False by (simp_all add: unat_minus_one unat_gt_0)
    have st: "counter (tt_drv ?st) = counter ?d" "unat (tt_time ?st) = unat ?t - (if counter ?d mod 60 = 0 then 1 else 0)"
        "tt_printed ?st = tt_printed st + (if counter ?d mod 60 = 0 then 1 else 0)"
      by (simp_all add: t)
    obtain irqs where "msg = Interrupts irqs" "pending irqs bit_no"
      using Cons.prems(2) by (cases msg) simp_all
    then have "timer_test_handle counter bit_no msg st = Ok ?st" by (simp add: timer_test_handle_def Let_def)
    moreover have "unat (counter (tt_drv ?st)) + length msgs < 2 ^ 32" using Cons.prems(1) by (simp add: c)
    ultimately show ?thesis
      using Cons.IH [of ?st] Cons.prems(2) False t(2) unfolding st
      by (auto simp: word_neq_0_conv [symmetric] beats_Suc c60 c)
  qed auto
qed

end

lemma list_all_filter [simp]: "list_all P (filter P xs)"
  by (simp add: list_all_iff)

text \<open>C33: \<open>timer_test_int\<close> prints once a second and ends when the time is over: after any sequence of messages with \<open>k\<close> timer
  notifications among them, it has printed as many times as there are multiples of 60 among the \<open>k\<close> counts, at most \<open>time\<close> times,
  and it has returned exactly when that number reached \<open>time\<close>.\<close>

theorem timer_test_int_counts_seconds:
  assumes "\<forall>d. counter (timer_int_handler d) = counter d + 1"
    and "timer_subscribe K (tt_drv st, tt_trace st) = (Some bit_no, (d, tr))"
    and "unat (counter d) + notifications bit_no msgs < 2 ^ 32"
  shows "\<exists>r st'. timer_test_int K counter msgs st = Ok (r, st') \<and>
    (r \<noteq> None \<longleftrightarrow> unat (tt_time st) \<le> beats 60 (unat (counter d)) (notifications bit_no msgs)) \<and>
    tt_printed st' = tt_printed st + min (unat (tt_time st)) (beats 60 (unat (counter d)) (notifications bit_no msgs))"
proof -
  from assms(1) have "tick_counter counter" by unfold_locales simp
  from tick_counter.seconds_loop [OF this, of "st\<lparr>tt_drv := d, tt_trace := tr\<rparr>" "filter (notifies bit_no) msgs" bit_no] assms(3)
  obtain ended st' where *: "message_loop (\<lambda>st. tt_time st > 0) (timer_test_handle counter bit_no) msgs (st\<lparr>tt_drv := d, tt_trace := tr\<rparr>) = Ok (ended, st')"
      "ended \<longleftrightarrow> unat (tt_time st) \<le> beats 60 (unat (counter d)) (notifications bit_no msgs)"
      "tt_printed st' = tt_printed st + min (unat (tt_time st)) (beats 60 (unat (counter d)) (notifications bit_no msgs))"
    unfolding notifications_def timer_test_ticks.loop_filter [of _ _ _ msgs] by auto
  then show ?thesis using assms(2)
    by (cases "timer_unsubscribe K (tt_drv st', tt_trace st')") (auto simp: timer_test_int_def)
qed

definition timer_test_start :: "u8 \<Rightarrow> timer_test" where
  "timer_test_start time = \<lparr>tt_drv = timer_drv_start, tt_trace = [], tt_time = time, tt_printed = 0\<rparr>"

theorem timer_test_int_counts_seconds_witness:
  "\<exists>r st'. timer_test_int plain_machine timer_counter (replicate 180 (Interrupts 1)) (timer_test_start 3) = Ok (r, st') \<and>
     r \<noteq> None \<and> tt_printed st' = 3"
proof -
  have "timer_subscribe plain_machine (tt_drv (timer_test_start 3), tt_trace (timer_test_start 3)) =
      (Some 1, (timer_drv_start, [Irqset TIMER0_IRQ IRQ_REENABLE 0 (Some 0)]))"
    by (simp add: timer_subscribe_def timer_test_start_def timer_drv_start_def plain_machine_def sys_defs hook_bit_def BIT_def)
  moreover have "notifications 1 (replicate 180 (Interrupts 1)) = 180"
    by (simp add: notifications_def pending_def flag_def)
  ultimately show ?thesis
    using timer_test_int_counts_seconds [of timer_counter plain_machine "timer_test_start 3" 1 timer_drv_start _ "replicate 180 (Interrupts 1)"]
      driver_ticks.tick
    by (simp add: timer_test_start_def timer_drv_start_def beats_def)
qed

end
