(* ===== verification/Lab3.thy ===== *)
theory Lab3
  imports Keyboard Lab2
begin

text \<open>
  The keyboard tests, \<open>lab3/lab3.c\<close>, on top of the project's keyboard and timer drivers: scanning by interrupts, by polling and with a
  time limit.  The three loops assemble scancodes of one or two bytes in the local array \<open>bytes\<close> and print them.  As in
  \<open>Lab2\<close>, \<open>counter\<close> is a parameter; \<open>sys_hz()\<close> is another.  The lemmas show that exactly the key codes in the bytes read
  are printed, that polling ends once the break code of escape is read, and when the timed scan gives up.
\<close>

section \<open>State and the part common to the loops\<close>

text \<open>\<open>kt_printed\<close> holds the calls of \<open>kbd_print_scancode\<close>, the latest first: whether it is a make code, and the bytes.\<close>

record kbd_test =
  kt_kbd :: keyboard_drv
  kt_timer :: timer_drv
  kt_trace :: trace
  kt_byte0 :: u8
  kt_byte1 :: u8
  kt_printed :: "(bool \<times> u8 list) list"
  kt_elapsed :: u8

definition make_code :: "u8 \<Rightarrow> bool" where
  "make_code b \<longleftrightarrow> \<not> flag b BREAK_BIT"

text \<open>What happens to a valid scancode byte; the first component says whether the code executes \<open>continue\<close>.\<close>

definition scan_byte :: "kbd_test \<Rightarrow> bool \<times> kbd_test" where
  "scan_byte st =
     (let b = scan_code (kt_kbd st) in
      if b = DOUBLE_BYTE then (True, st\<lparr>kt_byte0 := b\<rparr>)
      else if kt_byte0 st = DOUBLE_BYTE
      then (True, st\<lparr>kt_byte1 := b, kt_printed := (make_code b, [kt_byte0 st, b]) # kt_printed st, kt_byte0 := 0\<rparr>)
      else (False, st\<lparr>kt_byte0 := b, kt_printed := (make_code b, [b]) # kt_printed st\<rparr>))"

definition scan_keyboard :: "kernel \<Rightarrow> kbd_test \<Rightarrow> bool \<times> kbd_test" where
  "scan_keyboard K st =
     (case kbc_ih K ((kt_kbd st)\<lparr>kbd_ih_valid := False\<rparr>, kt_trace st) of
        (d, tr) \<Rightarrow> let st = st\<lparr>kt_kbd := d, kt_trace := tr\<rparr> in
          if kbd_ih_valid d then scan_byte st else (False, st))"

definition escaped :: "kbd_test \<Rightarrow> bool" where
  "escaped st \<longleftrightarrow> scan_code (kt_kbd st) = ESC_BREAKCODE"

text \<open>Driver calls on their part of the state.\<close>

definition kt_keyboard :: "(keyboard_drv \<times> trace, 'a) io \<Rightarrow> (kbd_test, 'a) io" where
  "kt_keyboard f st = (case f (kt_kbd st, kt_trace st) of (r, (d, tr)) \<Rightarrow> (r, st\<lparr>kt_kbd := d, kt_trace := tr\<rparr>))"

definition kt_tick :: "(timer_drv \<times> trace, 'a) io \<Rightarrow> (kbd_test, 'a) io" where
  "kt_tick f st = (case f (kt_timer st, kt_trace st) of (r, (d, tr)) \<Rightarrow> (r, st\<lparr>kt_timer := d, kt_trace := tr\<rparr>))"

section \<open>The tests\<close>

definition kbd_scan_handle :: "kernel \<Rightarrow> u8 \<Rightarrow> message \<Rightarrow> kbd_test \<Rightarrow> kbd_test outcome" where
  "kbd_scan_handle K bit_no msg st =
     (case msg of
        Interrupts irqs \<Rightarrow> if pending irqs bit_no then Ok (snd (scan_keyboard K st)) else Ok st
      | _ \<Rightarrow> Ok st)"

definition kbd_test_scan :: "kernel \<Rightarrow> message list \<Rightarrow> kbd_test \<Rightarrow> (int option \<times> kbd_test) outcome" where
  "kbd_test_scan K msgs st =
     (case kt_keyboard (keyboard_subscribe K) st of
        (None, st) \<Rightarrow> Ok (Some 1, st)
      | (Some bit_no, st) \<Rightarrow>
          obind (message_loop (\<lambda>st. \<not> escaped st) (kbd_scan_handle K bit_no) msgs (st\<lparr>kt_byte0 := 0, kt_byte1 := 0\<rparr>)) (\<lambda>(ended, st).
            if \<not> ended then Ok (None, st)
            else case kt_keyboard (keyboard_unsubscribe K) st of
                   (r, st) \<Rightarrow> Ok (Some (if r = None then 1 else 0), st)))"

text \<open>The polling loop; it diverges as far as the fuel tells.\<close>

fun kbd_poll_loop :: "nat \<Rightarrow> kernel \<Rightarrow> kbd_test \<Rightarrow> kbd_test outcome" where
  "kbd_poll_loop 0 K st = Diverges"
| "kbd_poll_loop (Suc fuel) K st =
     (let st = snd (scan_keyboard K st) in if \<not> escaped st then kbd_poll_loop fuel K st else Ok st)"

definition kbd_test_poll :: "nat \<Rightarrow> kernel \<Rightarrow> kbd_test \<Rightarrow> (int \<times> kbd_test) outcome" where
  "kbd_test_poll fuel K st =
     obind (kbd_poll_loop fuel K (st\<lparr>kt_byte0 := 0, kt_byte1 := 0\<rparr>)) (\<lambda>st.
       case keyboard_enable_interrupts K (kt_trace st) of
         (r, tr) \<Rightarrow> Ok (if r = None then 1 else 0, st\<lparr>kt_trace := tr\<rparr>))"

text \<open>A \<open>continue\<close> in the keyboard part leaves out the timer part of the same notification; \<open>counter % timer_freq\<close> is undefined for a
  frequency of zero.\<close>

definition timed_tick :: "(timer_drv \<Rightarrow> u32) \<Rightarrow> u16 \<Rightarrow> kbd_test \<Rightarrow> kbd_test outcome" where
  "timed_tick counter timer_freq st =
     (let st = st\<lparr>kt_timer := timer_int_handler (kt_timer st)\<rparr> in
      if timer_freq = 0 then Undefined
      else Ok (if counter (kt_timer st) mod ucast timer_freq = 0 then st\<lparr>kt_elapsed := kt_elapsed st + 1\<rparr> else st))"

definition timed_scan_handle ::
  "kernel \<Rightarrow> (timer_drv \<Rightarrow> u32) \<Rightarrow> u16 \<Rightarrow> u8 \<Rightarrow> u8 \<Rightarrow> message \<Rightarrow> kbd_test \<Rightarrow> kbd_test outcome" where
  "timed_scan_handle K counter timer_freq kbd_bit_no timer_bit_no msg st =
     (case msg of
        Interrupts irqs \<Rightarrow>
          (case (if pending irqs kbd_bit_no then scan_keyboard K (st\<lparr>kt_elapsed := 0\<rparr>) else (False, st)) of
             (continue, st) \<Rightarrow>
               if continue then Ok st
               else if pending irqs timer_bit_no then timed_tick counter timer_freq st
               else Ok st)
      | _ \<Rightarrow> Ok st)"

definition kbd_test_timed_scan ::
  "kernel \<Rightarrow> (timer_drv \<Rightarrow> u32) \<Rightarrow> u32 \<Rightarrow> u8 \<Rightarrow> message list \<Rightarrow> kbd_test \<Rightarrow> (int option \<times> kbd_test) outcome" where
  "kbd_test_timed_scan K counter sys_hz n msgs st =
     (case andthen (kt_keyboard (keyboard_subscribe K)) (\<lambda>kbd_bit_no.
           andthen (kt_tick (timer_subscribe K)) (\<lambda>timer_bit_no. ret_ok (kbd_bit_no, timer_bit_no))) st of
        (None, st) \<Rightarrow> Ok (Some 1, st)
      | (Some (kbd_bit_no, timer_bit_no), st) \<Rightarrow>
          obind (message_loop (\<lambda>st. \<not> escaped st \<and> kt_elapsed st < n)
                   (timed_scan_handle K counter (ucast sys_hz) kbd_bit_no timer_bit_no) msgs
                   (st\<lparr>kt_elapsed := 0, kt_byte0 := 0, kt_byte1 := 0\<rparr>)) (\<lambda>(ended, st).
            if \<not> ended then Ok (None, st)
            else case andthen (kt_keyboard (keyboard_unsubscribe K)) (\<lambda>_. kt_tick (timer_unsubscribe K)) st of
                   (r, st) \<Rightarrow> Ok (Some (if r = None then 1 else 0), st)))"

section \<open>Key codes in a stream of bytes\<close>

text \<open>The codes of one or two bytes in a sequence of bytes; \<open>prefixed\<close> says that the byte before was \<open>DOUBLE_BYTE\<close>.\<close>

fun key_codes :: "bool \<Rightarrow> u8 list \<Rightarrow> u8 list list" where
  "key_codes prefixed [] = []"
| "key_codes prefixed (b # bs) =
     (if b = DOUBLE_BYTE then key_codes True bs
      else (if prefixed then [DOUBLE_BYTE, b] else [b]) # key_codes False bs)"

definition key_code :: "u8 list \<Rightarrow> bool" where
  "key_code c \<longleftrightarrow> (case c of [b] \<Rightarrow> b \<noteq> DOUBLE_BYTE | [a, b] \<Rightarrow> a = DOUBLE_BYTE \<and> b \<noteq> DOUBLE_BYTE | _ \<Rightarrow> False)"

lemma key_codeE:
  assumes "key_code c"
  obtains b where "b \<noteq> DOUBLE_BYTE" "c = [b]" | b where "b \<noteq> DOUBLE_BYTE" "c = [DOUBLE_BYTE, b]"
  using assms by (auto simp: key_code_def split: list.splits)

lemma key_codes_concat: "list_all key_code cs \<Longrightarrow> key_codes False (concat cs) = cs"
  by (induction cs) (auto elim: key_codeE)

text \<open>The bytes up to the first break code of escape.\<close>

fun upto_esc :: "u8 list \<Rightarrow> u8 list" where
  "upto_esc [] = []"
| "upto_esc (b # bs) = b # (if b = ESC_BREAKCODE then [] else upto_esc bs)"

lemma upto_esc_append: "ESC_BREAKCODE \<notin> set bs \<Longrightarrow> upto_esc (bs @ [ESC_BREAKCODE]) = bs @ [ESC_BREAKCODE]"
  by (induction bs) auto

text \<open>The call of \<open>kbd_print_scancode\<close> for a code.\<close>

definition print_of :: "u8 list \<Rightarrow> bool \<times> u8 list" where
  "print_of c = (make_code (last c), c)"

section \<open>What a keyboard delivers\<close>

text \<open>The answers of successive calls of the interrupt handler from a trace on: a byte, or nothing.\<close>

fun delivers :: "kernel \<Rightarrow> u8 option list \<Rightarrow> trace \<Rightarrow> bool" where
  "delivers K [] tr = True"
| "delivers K (x # xs) tr =
     (\<exists>tr'. (\<forall>d. kbc_ih K (d, tr) = (case x of None \<Rightarrow> d | Some b \<Rightarrow> d\<lparr>scan_code := b, kbd_ih_valid := True\<rparr>, tr')) \<and>
        delivers K xs tr')"

definition delivered :: "u8 option list \<Rightarrow> u8 list" where
  "delivered xs = concat (map (case_option [] (\<lambda>b. [b])) xs)"

lemma delivered_simps [simp]:
  "delivered [] = []" "delivered (None # xs) = delivered xs" "delivered (Some b # xs) = b # delivered xs"
  "delivered (map Some bs) = bs"
proof -
  show "delivered (map Some bs) = bs" by (induction bs) (simp_all add: delivered_def)
qed (simp_all add: delivered_def)

text \<open>One scan of a byte, seen from outside.\<close>

lemma scan_keyboard_byte:
  assumes "delivers K (Some b # xs) (kt_trace st)"
  obtains st' where "snd (scan_keyboard K st) = st'" "delivers K xs (kt_trace st')" "escaped st' \<longleftrightarrow> b = ESC_BREAKCODE"
    "\<And>bs. map print_of (key_codes (kt_byte0 st = DOUBLE_BYTE) (b # bs)) =
       (if b = DOUBLE_BYTE then [] else [hd (kt_printed st')]) @ map print_of (key_codes (kt_byte0 st' = DOUBLE_BYTE) bs)"
    "kt_printed st' = (if b = DOUBLE_BYTE then [] else [hd (kt_printed st')]) @ kt_printed st"
proof -
  from assms obtain tr where tr: "\<And>d. kbc_ih K (d, kt_trace st) = (d\<lparr>scan_code := b, kbd_ih_valid := True\<rparr>, tr)"
      and "delivers K xs tr" by auto
  then show ?thesis
    by (intro that [OF refl])
      (auto simp: scan_keyboard_def scan_byte_def Let_def escaped_def print_of_def DOUBLE_BYTE_def)
qed

lemma scan_keyboard_nothing:
  assumes "delivers K (None # xs) (kt_trace st)"
  obtains st' where "snd (scan_keyboard K st) = st'" "delivers K xs (kt_trace st')" "escaped st' = escaped st"
    "kt_byte0 st' = kt_byte0 st" "kt_printed st' = kt_printed st"
proof -
  from assms obtain tr where tr: "\<And>d. kbc_ih K (d, kt_trace st) = (d, tr)" and "delivers K xs tr" by auto
  then show ?thesis by (intro that [OF refl]) (simp_all add: scan_keyboard_def escaped_def)
qed

section \<open>The loops print the key codes\<close>

lemma kbd_poll_loop_prints:
  "delivers K xs (kt_trace st) \<Longrightarrow> \<not> escaped st \<Longrightarrow> ESC_BREAKCODE \<in> set (delivered xs) \<Longrightarrow> length xs \<le> fuel \<Longrightarrow>
   \<exists>st'. kbd_poll_loop fuel K st = Ok st' \<and> escaped st' \<and>
     kt_printed st' = rev (map print_of (key_codes (kt_byte0 st = DOUBLE_BYTE) (upto_esc (delivered xs)))) @ kt_printed st"
proof (induction xs arbitrary: fuel st)
  case (Cons x xs)
  then obtain k where k: "fuel = Suc k" "length xs \<le> k" by (cases fuel) auto
  show ?case
  proof (cases x)
    case None
    with Cons.prems(1) obtain st1 where "snd (scan_keyboard K st) = st1" "delivers K xs (kt_trace st1)" "escaped st1 = escaped st"
      "kt_byte0 st1 = kt_byte0 st" "kt_printed st1 = kt_printed st" by (metis scan_keyboard_nothing)
    with Cons.IH [of st1 k] Cons.prems None k show ?thesis by simp
  next
    case (Some b)
    obtain st1 where st1: "snd (scan_keyboard K st) = st1" "delivers K xs (kt_trace st1)" "escaped st1 \<longleftrightarrow> b = ESC_BREAKCODE"
      "\<And>bs. map print_of (key_codes (kt_byte0 st = DOUBLE_BYTE) (b # bs)) =
         (if b = DOUBLE_BYTE then [] else [hd (kt_printed st1)]) @ map print_of (key_codes (kt_byte0 st1 = DOUBLE_BYTE) bs)"
      "kt_printed st1 = (if b = DOUBLE_BYTE then [] else [hd (kt_printed st1)]) @ kt_printed st"
      using scan_keyboard_byte [OF Cons.prems(1) [unfolded Some]] by blast
    let ?new = "if b = DOUBLE_BYTE then [] else [hd (kt_printed st1)]"
    have rev_new: "rev ?new = ?new" by simp
    show ?thesis
    proof (cases "b = ESC_BREAKCODE")
      case True
      have "rev (map print_of (key_codes (kt_byte0 st = DOUBLE_BYTE) [b])) @ kt_printed st = kt_printed st1"
        using st1(4) [of "[]"] st1(5) rev_new by (simp only: key_codes.simps(1) list.map(1) append_Nil2)
      with st1(1,3) True k Some show ?thesis by simp
    next
      case False
      then obtain st' where "kbd_poll_loop k K st1 = Ok st'" "escaped st'"
        "kt_printed st' = rev (map print_of (key_codes (kt_byte0 st1 = DOUBLE_BYTE) (upto_esc (delivered xs)))) @ kt_printed st1"
        using Cons.IH [of st1 k] Cons.prems(3) Some st1(2,3) k(2) by auto
      moreover have "rev (map print_of (key_codes (kt_byte0 st1 = DOUBLE_BYTE) bs)) @ kt_printed st1 =
          rev (map print_of (key_codes (kt_byte0 st = DOUBLE_BYTE) (b # bs))) @ kt_printed st" for bs
        using st1(5) unfolding st1(4) rev_append rev_new by simp
      ultimately show ?thesis using False st1(1,3) k(1) Some by simp
    qed
  qed
qed simp

text \<open>Scanning by interrupts makes the same turns as polling.\<close>

lemma scan_loop_follows_poll:
  "kbd_poll_loop fuel K st = Ok st' \<Longrightarrow> \<not> escaped st \<Longrightarrow> fuel \<le> length msgs \<Longrightarrow> list_all (notifies bit_no) msgs \<Longrightarrow>
   message_loop (\<lambda>st. \<not> escaped st) (kbd_scan_handle K bit_no) msgs st = Ok (True, st')"
proof (induction fuel arbitrary: st msgs)
  case (Suc fuel)
  then obtain msg rest where msgs: "msgs = msg # rest" by (cases msgs) auto
  then obtain irqs where "msg = Interrupts irqs" "pending irqs bit_no" using Suc.prems(4) by (cases msg) auto
  then have "kbd_scan_handle K bit_no msg st = Ok (snd (scan_keyboard K st))" by (simp add: kbd_scan_handle_def)
  with Suc msgs show ?case by (cases "escaped (snd (scan_keyboard K st))") (auto simp: Let_def)
qed simp

interpretation kbd_scan_msgs: message_filter "kbd_scan_handle K bit_no" "notifies bit_no" for K bit_no
  by unfold_locales (auto simp: kbd_scan_handle_def split: message.splits)

interpretation kbd_scan_total: message_driven "\<lambda>st. \<not> escaped st" "kbd_scan_handle K bit_no" "\<lambda>_. True" for K bit_no
  by unfold_locales (auto simp: kbd_scan_handle_def split: message.splits)

lemma scan_loop_prints:
  assumes "delivers K xs (kt_trace st)" "\<not> escaped st" "ESC_BREAKCODE \<in> set (delivered xs)" "length xs \<le> notifications bit_no msgs"
  shows "\<exists>st'. message_loop (\<lambda>st. \<not> escaped st) (kbd_scan_handle K bit_no) msgs st = Ok (True, st') \<and>
     kt_printed st' = rev (map print_of (key_codes (kt_byte0 st = DOUBLE_BYTE) (upto_esc (delivered xs)))) @ kt_printed st"
proof -
  from kbd_poll_loop_prints [OF assms(1-3) order_refl] obtain st' where st': "kbd_poll_loop (length xs) K st = Ok st'"
    "kt_printed st' = rev (map print_of (key_codes (kt_byte0 st = DOUBLE_BYTE) (upto_esc (delivered xs)))) @ kt_printed st" by blast
  have "message_loop (\<lambda>st. \<not> escaped st) (kbd_scan_handle K bit_no) (filter (notifies bit_no) msgs) st = Ok (True, st')"
    by (rule scan_loop_follows_poll [OF st'(1) assms(2)]) (use assms(4) in \<open>simp_all add: notifications_def\<close>)
  with st'(2) show ?thesis unfolding kbd_scan_msgs.loop_filter [of _ _ _ msgs] by blast
qed

text \<open>A typed sequence of codes that ends with the release of escape.\<close>

definition typed_until_esc :: "u8 list list \<Rightarrow> bool" where
  "typed_until_esc cs \<longleftrightarrow> list_all key_code cs \<and> (\<exists>ks. cs = ks @ [[ESC_BREAKCODE]] \<and> ESC_BREAKCODE \<notin> set (concat ks))"

lemma typed_upto_esc: "typed_until_esc cs \<Longrightarrow> upto_esc (concat cs) = concat cs \<and> ESC_BREAKCODE \<in> set (concat cs)"
  by (auto simp: typed_until_esc_def upto_esc_append simp del: set_concat)

text \<open>C31: scanning is a round trip: when the keyboard delivers the bytes of a sequence of key codes up to the release of escape, at one interrupt
  each or with spurious interrupts in between, and the messages hold these interrupts among any others, then \<open>kbd_test_scan\<close> returns after
  having printed exactly these codes in order, each with its kind.\<close>

theorem kbd_test_scan_roundtrip:
  assumes "keyboard_subscribe K (kt_kbd st, kt_trace st) = (Some bit_no, (d, tr))"
    and "delivers K xs tr" "delivered xs = concat cs" "typed_until_esc cs"
    and "length xs \<le> notifications bit_no msgs" "scan_code (kt_kbd st) \<noteq> ESC_BREAKCODE"
  shows "\<exists>r st'. kbd_test_scan K msgs st = Ok (Some r, st') \<and>
    kt_printed st' = rev (map (\<lambda>c. (make_code (last c), c)) cs) @ kt_printed st"
proof -
  let ?st = "st\<lparr>kt_kbd := d, kt_trace := tr, kt_byte0 := 0, kt_byte1 := 0\<rparr>"
  have d: "scan_code d = scan_code (kt_kbd st)"
    using assms(1) by (auto simp: keyboard_subscribe_def Let_def split: prod.splits option.splits)
  have zero: "kt_byte0 ?st \<noteq> DOUBLE_BYTE" by (simp add: DOUBLE_BYTE_def)
  obtain st' where st': "message_loop (\<lambda>st. \<not> escaped st) (kbd_scan_handle K bit_no) msgs ?st = Ok (True, st')"
      "kt_printed st' = rev (map print_of (key_codes (kt_byte0 ?st = DOUBLE_BYTE) (upto_esc (concat cs)))) @ kt_printed ?st"
    using scan_loop_prints [of K xs ?st bit_no msgs] assms typed_upto_esc [OF assms(4)] d
    by (auto simp: escaped_def)
  have "key_codes (kt_byte0 ?st = DOUBLE_BYTE) (upto_esc (concat cs)) = cs"
    using typed_upto_esc [OF assms(4)] key_codes_concat [of cs] zero assms(4) by (simp add: typed_until_esc_def)
  moreover have "print_of = (\<lambda>c. (make_code (last c), c))" by (rule ext) (simp add: print_of_def)
  ultimately have "kt_printed st' = rev (map (\<lambda>c. (make_code (last c), c)) cs) @ kt_printed st"
    using st'(2) by simp
  then show ?thesis using st'(1) assms(1)
    by (cases "keyboard_unsubscribe K (kt_kbd st', kt_trace st')")
      (auto simp: kbd_test_scan_def kt_keyboard_def)
qed

text \<open>C32: polling ends: once the keyboard has delivered the break code of escape within \<open>n\<close> calls of the handler, with any bytes and any calls without
  data before it, \<open>kbd_test_poll\<close> returns, no matter how much longer it could have run, and has printed the key codes in the bytes up to it.\<close>

theorem kbd_test_poll_terminates:
  assumes "delivers K xs (kt_trace st)" "ESC_BREAKCODE \<in> set (delivered xs)" "length xs \<le> fuel" "scan_code (kt_kbd st) \<noteq> ESC_BREAKCODE"
  shows "\<exists>r st'. kbd_test_poll fuel K st = Ok (r, st') \<and>
    kt_printed st' = rev (map print_of (key_codes False (upto_esc (delivered xs)))) @ kt_printed st"
proof -
  let ?st = "st\<lparr>kt_byte0 := 0, kt_byte1 := 0\<rparr>"
  have "\<not> escaped ?st" "delivers K xs (kt_trace ?st)" using assms by (simp_all add: escaped_def)
  from kbd_poll_loop_prints [OF this(2,1) assms(2,3)] obtain st' where "kbd_poll_loop fuel K ?st = Ok st'"
      "kt_printed st' = rev (map print_of (key_codes False (upto_esc (delivered xs)))) @ kt_printed st"
    by (auto simp: DOUBLE_BYTE_def)
  then show ?thesis
    by (cases "keyboard_enable_interrupts K (kt_trace st')") (auto simp: kbd_test_poll_def)
qed

section \<open>The time limit\<close>

context tick_counter
begin

lemma idle_loop:
  assumes "0 < timer_freq"
  shows "unat (counter (kt_timer st)) + notifications timer_bit_no msgs < 2 ^ 32 \<Longrightarrow> list_all (\<lambda>msg. \<not> notifies kbd_bit_no msg) msgs \<Longrightarrow>
   \<not> escaped st \<Longrightarrow> kt_elapsed st \<le> n \<Longrightarrow>
   \<exists>ended st'. message_loop (\<lambda>st. \<not> escaped st \<and> kt_elapsed st < n) (timed_scan_handle K counter timer_freq kbd_bit_no timer_bit_no) msgs st =
       Ok (ended, st') \<and>
     (ended \<longleftrightarrow> unat n \<le> unat (kt_elapsed st) + beats (unat timer_freq) (unat (counter (kt_timer st))) (notifications timer_bit_no msgs)) \<and>
     kt_printed st' = kt_printed st"
proof (induction msgs arbitrary: st)
  case Nil
  then show ?case by (auto simp: word_le_nat_alt word_less_nat_alt)
next
  case (Cons msg msgs)
  consider "kt_elapsed st = n" | "kt_elapsed st < n" "\<not> notifies timer_bit_no msg" | "kt_elapsed st < n" "notifies timer_bit_no msg"
    using Cons.prems(4) by force
  then show ?case
  proof cases
    case 2
    then have "timed_scan_handle K counter timer_freq kbd_bit_no timer_bit_no msg st = Ok st"
      using Cons.prems(2) by (auto simp: timed_scan_handle_def split: message.splits)
    with 2 Cons show ?thesis by simp
  next
    case 3
    let ?d = "timer_int_handler (kt_timer st)"
    let ?s = "st\<lparr>kt_timer := ?d\<rparr>"
    let ?beat = "counter ?d mod ucast timer_freq = 0"
    let ?st = "if ?beat then ?s\<lparr>kt_elapsed := kt_elapsed st + 1\<rparr> else ?s"
    have freq: "timer_freq \<noteq> 0" using assms by auto
    have "timed_scan_handle K counter timer_freq kbd_bit_no timer_bit_no msg st = Ok ?st"
      using Cons.prems(2) 3(2) freq by (auto simp: timed_scan_handle_def timed_tick_def Let_def split: message.splits)
    moreover have c: "unat (counter ?d) = unat (counter (kt_timer st)) + 1" using Cons.prems(1) 3(2) by (intro tick_unat) simp
    moreover have beat: "?beat \<longleftrightarrow> unat (counter ?d) mod unat timer_freq = 0"
      by (simp add: unat_mod unat_widen flip: unat_eq_0)
    moreover have e: "unat (kt_elapsed st + 1) = unat (kt_elapsed st) + 1"
      using 3(1) unat_byte_less [of n] by (simp add: word_less_nat_alt unat_word_ariths)
    moreover have "unat (counter (kt_timer ?st)) + notifications timer_bit_no msgs < 2 ^ 32" using Cons.prems(1) 3(2) by (simp add: c)
    moreover have "kt_elapsed ?st \<le> n" "\<not> escaped ?st"
      using 3(1) Cons.prems(3) e by (auto simp: word_le_nat_alt word_less_nat_alt escaped_def)
    moreover have st: "kt_timer ?st = ?d" "unat (kt_elapsed ?st) = unat (kt_elapsed st) + (if ?beat then 1 else 0)"
        "kt_printed ?st = kt_printed st" by (simp_all add: e)
    ultimately show ?thesis
      using Cons.IH [of ?st] Cons.prems(2,3) 3 unfolding st
      by (auto simp: beats_Suc)
  qed (use Cons.prems in \<open>auto\<close>)
qed

end

text \<open>The state with which \<open>kbd_test_timed_scan\<close> enters its loop.\<close>

definition timed_scan_begins :: "kernel \<Rightarrow> kbd_test \<Rightarrow> u8 \<Rightarrow> u8 \<Rightarrow> kbd_test \<Rightarrow> bool" where
  "timed_scan_begins K st kbd_bit_no timer_bit_no st1 \<longleftrightarrow>
     (\<exists>st0. kt_keyboard (keyboard_subscribe K) st = (Some kbd_bit_no, st0) \<and>
        kt_tick (timer_subscribe K) st0 = (Some timer_bit_no, st1))"

text \<open>The timed scan gives up after \<open>n\<close> seconds without a key: on messages none of which notifies of the keyboard it prints nothing, and it has
  returned exactly when \<open>n\<close> multiples of the timer frequency lie among the ticks counted, in particular after \<open>n\<close> times the
  frequency of them; with a frequency of zero the first tick is undefined.\<close>

theorem kbd_test_timed_scan_gives_up:
  assumes "\<forall>d. counter (timer_int_handler d) = counter d + 1"
    and "timed_scan_begins K st kbd_bit_no timer_bit_no st1" "scan_code (kt_kbd st) \<noteq> ESC_BREAKCODE"
    and "\<forall>msg \<in> set msgs. \<not> notifies kbd_bit_no msg"
    and "unat (counter (kt_timer st1)) + notifications timer_bit_no msgs < 2 ^ 32" "(ucast sys_hz :: u16) \<noteq> 0"
  defines "freq \<equiv> unat (ucast sys_hz :: u16)"
  shows "\<exists>r st'. kbd_test_timed_scan K counter sys_hz n msgs st = Ok (r, st') \<and> kt_printed st' = kt_printed st \<and>
    (r \<noteq> None \<longleftrightarrow> unat n \<le> beats freq (unat (counter (kt_timer st1))) (notifications timer_bit_no msgs)) \<and>
    (unat n * freq \<le> notifications timer_bit_no msgs \<longrightarrow> r \<noteq> None)"
proof -
  from assms(1) have ticks: "tick_counter counter" by unfold_locales simp
  from assms(2) obtain st0 where sub: "kt_keyboard (keyboard_subscribe K) st = (Some kbd_bit_no, st0)"
    "kt_tick (timer_subscribe K) st0 = (Some timer_bit_no, st1)" by (auto simp: timed_scan_begins_def)
  let ?st = "st1\<lparr>kt_elapsed := 0, kt_byte0 := 0, kt_byte1 := 0\<rparr>"
  have same: "scan_code (kt_kbd st1) = scan_code (kt_kbd st)" "kt_printed st1 = kt_printed st"
    using sub by (auto simp: kt_keyboard_def kt_tick_def keyboard_subscribe_def timer_subscribe_def Let_def
        split: prod.splits option.splits)
  have pos: "0 < (ucast sys_hz :: u16)" using assms(6) by (simp add: word_neq_0_conv)
  obtain ended st' where loop:
      "message_loop (\<lambda>st. \<not> escaped st \<and> kt_elapsed st < n) (timed_scan_handle K counter (ucast sys_hz) kbd_bit_no timer_bit_no) msgs ?st = Ok (ended, st')"
      "ended \<longleftrightarrow> unat n \<le> beats freq (unat (counter (kt_timer st1))) (notifications timer_bit_no msgs)"
      "kt_printed st' = kt_printed st"
    using tick_counter.idle_loop [OF ticks pos, of ?st timer_bit_no msgs kbd_bit_no n K] assms(3,4,5) same
    by (auto simp: escaped_def list_all_iff freq_def)
  have "0 < freq" using pos by (simp add: freq_def word_less_nat_alt)
  then have limit: "unat n * freq \<le> notifications timer_bit_no msgs \<longrightarrow> ended"
    unfolding loop(2) using beats_multiple by blast
  obtain r st2 where r: "andthen (kt_keyboard (keyboard_unsubscribe K)) (\<lambda>_. kt_tick (timer_unsubscribe K)) st' = (r, st2)"
    by (cases "andthen (kt_keyboard (keyboard_unsubscribe K)) (\<lambda>_. kt_tick (timer_unsubscribe K)) st'")
  then have "kt_printed st2 = kt_printed st'"
    by (auto simp: io_defs kt_keyboard_def kt_tick_def split: prod.splits option.splits)
  moreover have "kbd_test_timed_scan K counter sys_hz n msgs st =
      (if \<not> ended then Ok (None, st') else Ok (Some (if r = None then 1 else 0), st2))"
    using sub loop(1) r by (simp add: kbd_test_timed_scan_def io_defs)
  ultimately show ?thesis using loop(2,3) limit by (cases ended) simp_all
qed

text \<open>The timer part of a notification is lost when the keyboard part of the same notification reads a prefix byte.\<close>

theorem timed_scan_loses_tick:
  assumes "delivers K (Some DOUBLE_BYTE # xs) (kt_trace st)" "pending irqs kbd_bit_no" "pending irqs timer_bit_no"
  shows "\<exists>st'. timed_scan_handle K counter timer_freq kbd_bit_no timer_bit_no (Interrupts irqs) st = Ok st' \<and>
    kt_timer st' = kt_timer st"
  using assms by (auto simp: timed_scan_handle_def scan_keyboard_def scan_byte_def Let_def)

section \<open>A machine that types\<close>

text \<open>Every read of the output buffer gives the next byte of a text.\<close>

fun bytes_read :: "trace \<Rightarrow> nat" where
  "bytes_read [] = 0"
| "bytes_read (Inb p v # tr) = (if p = 0x60 then 1 else 0) + bytes_read tr"
| "bytes_read (_ # tr) = bytes_read tr"

definition typist :: "u8 list \<Rightarrow> kernel" where
  "typist bs = idle_keyboard\<lparr>k_inb := \<lambda>tr p. Some (if p = 0x64 then 1 else if bytes_read tr < length bs then ucast (bs ! bytes_read tr) else 0)\<rparr>"

lemma typist_ih:
  assumes "bytes_read tr < length bs"
  shows "\<exists>tr'. bytes_read tr' = Suc (bytes_read tr) \<and>
    (\<forall>d. kbc_ih (typist bs) (d, tr) = (d\<lparr>scan_code := bs ! bytes_read tr, kbd_ih_valid := True\<rparr>, tr'))"
proof -
  let ?tr = "Inb KBC_REG_STAT (Some 1) # tr"
  have "kbc_read_outbuff (typist bs) False data ?tr =
      ((True, ucast (ucast (bs ! bytes_read tr) :: u32)), Inb KBC_REG_OUT_BUF (Some (ucast (bs ! bytes_read tr))) # Inb KBC_REG_STAT (Some 1) # ?tr)" for data
    using assms by (intro kbc_read_at_once)
      (simp_all add: typist_def c_consts readable_def corrupt_def flag_or flag_BIT)
  then show ?thesis
    by (intro exI [of _ "Inb KBC_REG_OUT_BUF (Some (ucast (bs ! bytes_read tr))) # Inb KBC_REG_STAT (Some 1) # ?tr"])
      (simp add: kbc_ih_def kbc_read_status_apply typist_def c_consts flag_or flag_BIT)
qed

lemma typist_delivers: "bytes_read tr + k = length bs \<Longrightarrow> delivers (typist bs) (map Some (drop (bytes_read tr) bs)) tr"
proof (induction k arbitrary: tr)
  case (Suc k)
  then have n: "bytes_read tr < length bs" by simp
  from typist_ih [OF n] obtain tr' where tr': "bytes_read tr' = Suc (bytes_read tr)"
    "\<forall>d. kbc_ih (typist bs) (d, tr) = (d\<lparr>scan_code := bs ! bytes_read tr, kbd_ih_valid := True\<rparr>, tr')" by blast
  have "delivers (typist bs) (map Some (drop (Suc (bytes_read tr)) bs)) tr'" using Suc.IH [of tr'] Suc.prems tr'(1) by simp
  with tr'(2) show ?case by (auto simp: Cons_nth_drop_Suc [OF n, symmetric])
qed simp

definition kbd_test_start :: kbd_test where
  "kbd_test_start = \<lparr>kt_kbd = keyboard_drv_start, kt_timer = timer_drv_start, kt_trace = [], kt_byte0 = 0, kt_byte1 = 0,
     kt_printed = [], kt_elapsed = 0\<rparr>"

lemma typist_subscribe:
  "keyboard_subscribe (typist bs) (kt_kbd kbd_test_start, kt_trace kbd_test_start) =
     (Some 2, (keyboard_drv_start, [Irqset KBC_IRQ_KBD (IRQ_REENABLE OR IRQ_EXCLUSIVE) 1 (Some 1)]))"
  by (simp add: keyboard_subscribe_def kbd_test_start_def keyboard_drv_start_def typist_def idle_keyboard_def sys_defs hook_bit_def BIT_def)

text \<open>The right arrow key (two bytes), then escape.\<close>

definition arrow_then_esc :: "u8 list list" where
  "arrow_then_esc = [[0xE0, 0x4D], [0xE0, 0xCD], [0x01], [0x81]]"

lemma arrow_then_esc_typed: "typed_until_esc arrow_then_esc"
  unfolding typed_until_esc_def
  by (rule conjI, simp add: arrow_then_esc_def key_code_def c_consts)
    (rule exI [of _ "[[0xE0, 0x4D], [0xE0, 0xCD], [0x01]]"], simp add: arrow_then_esc_def c_consts)

theorem kbd_test_scan_roundtrip_witness:
  "\<exists>r st'. kbd_test_scan (typist (concat arrow_then_esc)) (replicate 6 (Interrupts 2)) kbd_test_start = Ok (Some r, st') \<and>
     kt_printed st' = [(False, [0x81]), (True, [0x01]), (False, [0xE0, 0xCD]), (True, [0xE0, 0x4D])]"
proof -
  let ?bs = "concat arrow_then_esc" and ?tr = "[Irqset KBC_IRQ_KBD (IRQ_REENABLE OR IRQ_EXCLUSIVE) 1 (Some 1)]"
  have len: "length ?bs = 6" by (simp add: arrow_then_esc_def)
  have "delivers (typist ?bs) (map Some ?bs) ?tr" using typist_delivers [of ?tr 6 ?bs] len by simp
  moreover have "length (map Some ?bs) \<le> notifications 2 (replicate 6 (Interrupts 2))"
    by (simp only: length_map len) (simp add: notifications_def pending_def flag_def)
  moreover have "scan_code (kt_kbd kbd_test_start) \<noteq> ESC_BREAKCODE"
    by (simp add: kbd_test_start_def keyboard_drv_start_def c_consts)
  ultimately obtain r st' where "kbd_test_scan (typist ?bs) (replicate 6 (Interrupts 2)) kbd_test_start = Ok (Some r, st')"
      "kt_printed st' = rev (map (\<lambda>c. (make_code (last c), c)) arrow_then_esc) @ kt_printed kbd_test_start"
    using kbd_test_scan_roundtrip [OF typist_subscribe _ _ arrow_then_esc_typed, of ?bs "map Some ?bs" "replicate 6 (Interrupts 2)"]
    by auto
  moreover have "rev (map (\<lambda>c. (make_code (last c), c)) arrow_then_esc) @ kt_printed kbd_test_start =
      [(False, [0x81]), (True, [0x01]), (False, [0xE0, 0xCD]), (True, [0xE0, 0x4D])]"
    by (simp add: arrow_then_esc_def make_code_def c_consts flag_BIT kbd_test_start_def)
  ultimately show ?thesis by (intro exI [of _ r] exI [of _ st']) (simp only: simp_thms)
qed

theorem kbd_test_poll_terminates_witness:
  "\<exists>r st'. kbd_test_poll 100 (typist [0xE0, 0x4D, 0x81]) kbd_test_start = Ok (r, st') \<and> length (kt_printed st') = 2"
proof -
  have "delivers (typist [0xE0, 0x4D, 0x81]) (map Some [0xE0, 0x4D, 0x81]) (kt_trace kbd_test_start)"
    using typist_delivers [of "[]" 3 "[0xE0, 0x4D, 0x81]"] by (simp add: kbd_test_start_def)
  moreover have "scan_code (kt_kbd kbd_test_start) \<noteq> ESC_BREAKCODE"
    by (simp add: kbd_test_start_def keyboard_drv_start_def c_consts)
  ultimately obtain r st' where "kbd_test_poll 100 (typist [0xE0, 0x4D, 0x81]) kbd_test_start = Ok (r, st')"
      "kt_printed st' = rev (map print_of (key_codes False (upto_esc [0xE0, 0x4D, 0x81]))) @ kt_printed kbd_test_start"
    using kbd_test_poll_terminates [of "typist [0xE0, 0x4D, 0x81]" "map Some [0xE0, 0x4D, 0x81]" kbd_test_start 100]
    unfolding delivered_simps(4) by (auto simp: c_consts)
  moreover have "length (rev (map print_of (key_codes False (upto_esc [0xE0, 0x4D, 0x81]))) @ kt_printed kbd_test_start) = 2"
    by (simp add: c_consts kbd_test_start_def)
  ultimately show ?thesis by (intro exI [of _ r] exI [of _ st']) simp
qed

theorem kbd_test_timed_scan_gives_up_witness:
  "\<exists>r st'. kbd_test_timed_scan (typist []) timer_counter 60 5 (replicate 300 (Interrupts 1)) kbd_test_start = Ok (r, st') \<and> r \<noteq> None"
proof -
  have "timed_scan_begins (typist []) kbd_test_start 2 1 (kbd_test_start\<lparr>kt_trace := [Irqset TIMER0_IRQ IRQ_REENABLE 0 (Some 0),
      Irqset KBC_IRQ_KBD (IRQ_REENABLE OR IRQ_EXCLUSIVE) 1 (Some 1)]\<rparr>)" (is "timed_scan_begins _ _ _ _ ?st1")
    unfolding timed_scan_begins_def kt_keyboard_def typist_subscribe
    by (simp add: kt_tick_def kbd_test_start_def timer_subscribe_def timer_drv_start_def typist_def idle_keyboard_def sys_defs hook_bit_def BIT_def)
  moreover have "notifications 1 (replicate 300 (Interrupts 1)) = 300" by (simp add: notifications_def pending_def flag_def)
  moreover have "\<forall>msg \<in> set (replicate 300 (Interrupts 1)). \<not> notifies 2 msg" by (simp add: pending_def flag_def)
  ultimately show ?thesis
    using kbd_test_timed_scan_gives_up [of timer_counter "typist []" kbd_test_start 2 1 ?st1 "replicate 300 (Interrupts 1)" 60 5]
      driver_ticks.tick
    by (auto simp: kbd_test_start_def keyboard_drv_start_def timer_drv_start_def c_consts)
qed

end
