(* ===== verification/Lab4.thy ===== *)
theory Lab4
  imports Mouse Messages
begin

text \<open>
  The mouse tests, \<open>lab4/lab4.c\<close>, on top of the project's mouse driver.  \<open>mouse_test_packet\<close> prints a number of packets; its handler calls
  \<open>mouse_ih\<close> once for every hardware notification and once more for those of the mouse.  The lemmas show that the printed packets are the
  movements of the device as long as one of the two calls finds a byte, and that a packet is lost when both do at the wrong time.
\<close>

section \<open>The tests\<close>

text \<open>\<open>mt_printed\<close> holds the packets given to \<open>mouse_print_packet\<close>, the latest first.\<close>

record mouse_test =
  mt_mouse :: mouse_drv
  mt_trace :: trace
  mt_cnt :: u32
  mt_printed :: "packet list"

definition mouse_ih :: "kernel \<Rightarrow> mouse_test \<Rightarrow> mouse_test" where
  "mouse_ih K st = (case mouse_read_packet K (mt_mouse st, mt_trace st) of (_, (d, tr)) \<Rightarrow> st\<lparr>mt_mouse := d, mt_trace := tr\<rparr>)"

text \<open>Printing the local \<open>packet\<close> without a packet in it would be undefined.\<close>

definition mouse_print_ready :: "mouse_test \<Rightarrow> mouse_test outcome" where
  "mouse_print_ready st =
     (if mouse_packet_ready (mt_mouse st)
      then case mouse_get_packet (mt_mouse st) of
             None \<Rightarrow> Undefined
           | Some (p, d) \<Rightarrow> Ok (st\<lparr>mt_mouse := d, mt_printed := p # mt_printed st, mt_cnt := mt_cnt st - 1\<rparr>)
      else Ok st)"

definition mouse_packet_handle :: "kernel \<Rightarrow> message \<Rightarrow> mouse_test \<Rightarrow> mouse_test outcome" where
  "mouse_packet_handle K msg st =
     (case msg of
        Interrupts irqs \<Rightarrow>
          let st = mouse_ih K st in
          if flag irqs (BIT 2) then mouse_print_ready (mouse_ih K st) else Ok st
      | _ \<Rightarrow> Ok st)"

definition mt_io :: "(mouse_drv \<times> trace, 'a) io \<Rightarrow> (mouse_test, 'a) io" where
  "mt_io f st = (case f (mt_mouse st, mt_trace st) of (r, (d, tr)) \<Rightarrow> (r, st\<lparr>mt_mouse := d, mt_trace := tr\<rparr>))"

definition mt_command :: "(trace, 'a) io \<Rightarrow> (mouse_test, 'a) io" where
  "mt_command f st = (case f (mt_trace st) of (r, tr) \<Rightarrow> (r, st\<lparr>mt_trace := tr\<rparr>))"

text \<open>\<open>a1\<close> and \<open>a2\<close> are what the two calls of \<open>mouse_write_command\<close> find in their uninitialised local.\<close>

definition mouse_test_packet :: "kernel \<Rightarrow> u8 \<Rightarrow> u8 \<Rightarrow> message list \<Rightarrow> mouse_test \<Rightarrow> (int option \<times> mouse_test) outcome" where
  "mouse_test_packet K a1 a2 msgs st =
     (case andthen (mt_command (mouse_write_command K a1 MOUSE_COMM_ENABLE_DATA_REPORTING)) (\<lambda>_. mt_io (mouse_subscribe K)) st of
        (None, st) \<Rightarrow> Ok (Some 1, st)
      | (Some mouse_bit_no, st) \<Rightarrow>
          obind (message_loop (\<lambda>st. mt_cnt st \<noteq> 0) (mouse_packet_handle K) msgs st) (\<lambda>(ended, st).
            if \<not> ended then Ok (None, st)
            else case andthen (mt_io (mouse_unsubscribe K)) (\<lambda>_.
                        mt_command (mouse_write_command K a2 MOUSE_COMM_DISABLE_DATA_REPORTING)) st of
                   (r, st) \<Rightarrow> Ok (Some (if r = None then 1 else 0), st)))"

definition mouse_test_async :: "u8 \<Rightarrow> int" where
  "mouse_test_async idle_time = 1"

definition mouse_test_gesture :: "u8 \<Rightarrow> u8 \<Rightarrow> int" where
  "mouse_test_gesture x_len tolerance = 1"

definition mouse_test_remote :: "u16 \<Rightarrow> u8 \<Rightarrow> int" where
  "mouse_test_remote period cnt = 1"

section \<open>What a mouse delivers\<close>

text \<open>The answers of successive reads of the driver from a trace on: a byte, or nothing.\<close>

fun mouse_delivers :: "kernel \<Rightarrow> u8 option list \<Rightarrow> trace \<Rightarrow> bool" where
  "mouse_delivers K [] tr = True"
| "mouse_delivers K (x # xs) tr =
     (\<exists>tr'. (\<forall>d. mouse_read_packet K (d, tr) =
          (case x of None \<Rightarrow> (None, (d, tr')) | Some b \<Rightarrow> (Some (), (mouse_feed b d, tr')))) \<and>
        mouse_delivers K xs tr')"

text \<open>In each notification exactly one of the two reads gives a byte.\<close>

inductive one_each :: "u8 list \<Rightarrow> u8 option list \<Rightarrow> bool" where
  none: "one_each [] []"
| first: "one_each bs xs \<Longrightarrow> one_each (b # bs) (Some b # None # xs)"
| second: "one_each bs xs \<Longrightarrow> one_each (b # bs) (None # Some b # xs)"

inductive_cases one_eachE: "one_each (b # bs) xs"

text \<open>A notification of the mouse feeds its byte to the driver and prints a packet that is complete.\<close>

lemma mouse_packet_turn:
  assumes "one_each (b # bs) xs" "mouse_delivers K xs (mt_trace st)" "flag irqs (BIT 2)"
  obtains ys tr where "one_each bs ys" "mouse_delivers K ys tr"
    "mouse_packet_handle K (Interrupts irqs) st = mouse_print_ready (st\<lparr>mt_mouse := mouse_feed b (mt_mouse st), mt_trace := tr\<rparr>)"
proof -
  consider ys where "xs = Some b # None # ys" "one_each bs ys" | ys where "xs = None # Some b # ys" "one_each bs ys"
    using assms(1) by (cases rule: one_eachE) auto
  then show ?thesis
  proof cases
    case (1 ys)
    with assms(2) obtain tr1 tr2 where "\<And>d. mouse_read_packet K (d, mt_trace st) = (Some (), (mouse_feed b d, tr1))"
        "\<And>d. mouse_read_packet K (d, tr1) = (None, (d, tr2))" "mouse_delivers K ys tr2" by auto
    then show ?thesis by (intro that [OF 1(2)]) (simp_all add: mouse_packet_handle_def mouse_ih_def assms(3))
  next
    case (2 ys)
    with assms(2) obtain tr1 tr2 where "\<And>d. mouse_read_packet K (d, mt_trace st) = (None, (d, tr1))"
        "\<And>d. mouse_read_packet K (d, tr1) = (Some (), (mouse_feed b d, tr2))" "mouse_delivers K ys tr2" by auto
    then show ?thesis by (intro that [OF 2(2)]) (simp_all add: mouse_packet_handle_def mouse_ih_def assms(3))
  qed
qed

section \<open>The printed packets\<close>

lemma mouse_feed_first: "current_byte_index s = 0 \<Longrightarrow> bit b 3 \<Longrightarrow>
    \<not> packet_ready (mouse_feed b s) \<and> current_byte_index (mouse_feed b s) = 1"
  by (simp add: mouse_feed_def mouse_accept_byte_def flag_BIT)

lemma mouse_feed_second: "current_byte_index s = 1 \<Longrightarrow> \<not> packet_ready s \<Longrightarrow>
    \<not> packet_ready (mouse_feed b s) \<and> current_byte_index (mouse_feed b s) = 2"
  by (simp add: mouse_feed_def mouse_accept_byte_def)

lemma mouse_print_not_ready: "\<not> packet_ready (mt_mouse st) \<Longrightarrow> mouse_print_ready st = Ok st"
  by (simp add: mouse_print_ready_def mouse_packet_ready_def)

lemma mouse_get_packet_iff: "mouse_get_packet d = None \<longleftrightarrow> \<not> packet_ready d"
  by (simp add: mouse_get_packet_def Let_def)

type_synonym movement = "bool \<times> bool \<times> bool \<times> int \<times> int"

fun encode_movement :: "movement \<Rightarrow> u8 list" where
  "encode_movement (l, r, m, dx, dy) = ps2_encode l r m dx dy"

fun movement_ok :: "movement \<Rightarrow> bool" where
  "movement_ok (l, r, m, dx, dy) \<longleftrightarrow> - 256 \<le> dx \<and> dx \<le> 255 \<and> - 256 \<le> dy \<and> dy \<le> 255"

definition movement_of :: "packet \<Rightarrow> movement" where
  "movement_of p = (lb p, rb p, mb p, sint (delta_x p), sint (delta_y p))"

definition mouse_idle :: "mouse_drv \<Rightarrow> bool" where
  "mouse_idle d \<longleftrightarrow> mouse_drv_ok d \<and> current_byte_index d = 0"

lemma mouse_packet_three_turns:
  assumes "one_each (encode_movement v @ bs) xs" "mouse_delivers K xs (mt_trace st)" "mouse_idle (mt_mouse st)" "movement_ok v"
    "flag i1 (BIT 2)" "flag i2 (BIT 2)" "flag i3 (BIT 2)" "mt_cnt st \<noteq> 0"
  shows "\<exists>st' ys p. message_loop (\<lambda>st. mt_cnt st \<noteq> 0) (mouse_packet_handle K) (map Interrupts [i1, i2, i3] @ msgs) st =
      message_loop (\<lambda>st. mt_cnt st \<noteq> 0) (mouse_packet_handle K) msgs st' \<and>
    one_each bs ys \<and> mouse_delivers K ys (mt_trace st') \<and> mouse_idle (mt_mouse st') \<and>
    mt_cnt st' = mt_cnt st - 1 \<and> mt_printed st' = p # mt_printed st \<and> movement_of p = v"
proof -
  obtain l r m dx dy where v: "v = (l, r, m, dx, dy)" by (cases v) auto
  let ?s = "mt_mouse st"
  obtain b0 b1 b2 where b: "ps2_encode l r m dx dy = [b0, b1, b2]" "bit b0 3"
    by (simp add: ps2_encode_def bit_or_iff bit_BIT)
  obtain xs1 tr1 where 1: "one_each (b1 # b2 # bs) xs1" "mouse_delivers K xs1 tr1"
      "mouse_packet_handle K (Interrupts i1) st = mouse_print_ready (st\<lparr>mt_mouse := mouse_feed b0 ?s, mt_trace := tr1\<rparr>)"
    using mouse_packet_turn [of b0 "b1 # b2 # bs" xs K st i1] assms v b by auto
  let ?st1 = "st\<lparr>mt_mouse := mouse_feed b0 ?s, mt_trace := tr1\<rparr>"
  have idx: "current_byte_index ?s = 0" using assms(3) by (simp add: mouse_idle_def)
  note f1 = mouse_feed_first [OF idx b(2)]
  then have t1: "mouse_packet_handle K (Interrupts i1) st = Ok ?st1" using 1(3) mouse_print_not_ready [of ?st1] by simp
  obtain xs2 tr2 where 2: "one_each (b2 # bs) xs2" "mouse_delivers K xs2 tr2"
      "mouse_packet_handle K (Interrupts i2) ?st1 = mouse_print_ready (st\<lparr>mt_mouse := mouse_feed b1 (mouse_feed b0 ?s), mt_trace := tr2\<rparr>)"
    using mouse_packet_turn [OF 1(1), of K ?st1 i2] 1(2) assms(6) by auto
  let ?st2 = "st\<lparr>mt_mouse := mouse_feed b1 (mouse_feed b0 ?s), mt_trace := tr2\<rparr>"
  have t2: "mouse_packet_handle K (Interrupts i2) ?st1 = Ok ?st2"
    using 2(3) mouse_print_not_ready [of ?st2] mouse_feed_second [of "mouse_feed b0 ?s" b1] f1 by simp
  let ?d = "fold mouse_feed [b0, b1, b2] ?s"
  obtain xs3 tr3 where 3: "one_each bs xs3" "mouse_delivers K xs3 tr3"
      "mouse_packet_handle K (Interrupts i3) ?st2 = mouse_print_ready (st\<lparr>mt_mouse := ?d, mt_trace := tr3\<rparr>)"
    using mouse_packet_turn [OF 2(1), of K ?st2 i3] 2(2) assms(7) by auto
  have ok: "mouse_drv_ok ?s" using assms(3) by (simp add: mouse_idle_def)
  obtain p d where p: "mouse_get_packet ?d = Some (p, d)" "movement_of p = v"
    using mouse_packet_decodes [OF ok idx, of "[]" dx dy l r m] assms(4) v b(1) by (auto simp: movement_of_def)
  have ready: "packet_ready ?d" using p(1) mouse_get_packet_iff [of ?d] by simp
  have "?d = ?s\<lparr>current_byte := b2, mouse_bytes := [b0, b1, b2], current_byte_index := 0, packet_ready := True\<rparr>"
    using mouse_feed_three [OF idx _ b(2)] ok by (simp add: mouse_drv_ok_def)
  then have idle: "mouse_idle d"
    using p(1) by (auto simp: mouse_idle_def mouse_drv_ok_def mouse_get_packet_def Let_def)
  let ?st3 = "st\<lparr>mt_mouse := d, mt_trace := tr3, mt_printed := p # mt_printed st, mt_cnt := mt_cnt st - 1\<rparr>"
  have t3: "mouse_packet_handle K (Interrupts i3) ?st2 = Ok ?st3"
    using 3(3) p(1) ready by (simp add: mouse_print_ready_def mouse_packet_ready_def)
  from t1 t2 t3 assms(8) 3(1,2) idle p(2) show ?thesis
    by (intro exI [of _ ?st3] exI [of _ xs3] exI [of _ p]) simp
qed

text \<open>The handler is never undefined and only looks at hardware notifications.\<close>

interpretation mouse_packet_msgs: message_driven "\<lambda>st. mt_cnt st \<noteq> 0" "mouse_packet_handle K" "\<lambda>_. True" for K
  by unfold_locales
    (auto simp: mouse_packet_handle_def Let_def mouse_print_ready_def mouse_packet_ready_def mouse_get_packet_iff split: message.splits option.splits)

fun from_hardware :: "message \<Rightarrow> bool" where
  "from_hardware (Interrupts irqs) = True"
| "from_hardware _ = False"

interpretation mouse_packet_hw: message_filter "mouse_packet_handle K" from_hardware for K
  by unfold_locales (auto simp: mouse_packet_handle_def split: message.splits)

lemma mouse_packet_loop:
  "one_each (concat (map encode_movement vs)) xs \<Longrightarrow> mouse_delivers K xs (mt_trace st) \<Longrightarrow> mouse_idle (mt_mouse st) \<Longrightarrow>
   list_all movement_ok vs \<Longrightarrow> unat (mt_cnt st) = length vs \<Longrightarrow>
   list_all (\<lambda>i. flag i (BIT 2)) is \<Longrightarrow> 3 * length vs \<le> length is \<Longrightarrow>
   \<exists>st'. message_loop (\<lambda>st. mt_cnt st \<noteq> 0) (mouse_packet_handle K) (map Interrupts is) st = Ok (True, st') \<and>
     (\<exists>ps. mt_printed st' = rev ps @ mt_printed st \<and> map movement_of ps = vs)"
proof (induction vs arbitrary: st xs "is")
  case Nil
  then have "mt_cnt st = 0" by (simp add: unat_eq_0)
  then show ?case by simp
next
  case (Cons v vs)
  obtain i1 i2 i3 js where is_eq: "is = i1 # i2 # i3 # js" "3 * length vs \<le> length js"
    using Cons.prems(7) by (cases "is"; cases "tl is"; cases "tl (tl is)") auto
  have cnt: "mt_cnt st \<noteq> 0" using Cons.prems(5) by auto
  have enc: "one_each (encode_movement v @ concat (map encode_movement vs)) xs" using Cons.prems(1) by simp
  have flags: "flag i1 (BIT 2)" "flag i2 (BIT 2)" "flag i3 (BIT 2)" and v: "movement_ok v"
    using Cons.prems(4,6) is_eq(1) by simp_all
  from mouse_packet_three_turns [OF enc Cons.prems(2,3) v flags cnt, of "map Interrupts js"]
  obtain st1 ys p where st1: "message_loop (\<lambda>st. mt_cnt st \<noteq> 0) (mouse_packet_handle K) (map Interrupts is) st =
        message_loop (\<lambda>st. mt_cnt st \<noteq> 0) (mouse_packet_handle K) (map Interrupts js) st1"
      "one_each (concat (map encode_movement vs)) ys" "mouse_delivers K ys (mt_trace st1)" "mouse_idle (mt_mouse st1)"
      "mt_cnt st1 = mt_cnt st - 1" "mt_printed st1 = p # mt_printed st" "movement_of p = v"
    unfolding is_eq(1) by auto
  have "unat (mt_cnt st1) = length vs" using st1(5) Cons.prems(5) cnt by (simp add: unat_minus_one)
  from Cons.IH [OF st1(2-4) _ this _ is_eq(2)] Cons.prems(4,6) is_eq(1) obtain st' ps where
    st': "message_loop (\<lambda>st. mt_cnt st \<noteq> 0) (mouse_packet_handle K) (map Interrupts js) st1 = Ok (True, st')"
      "mt_printed st' = rev ps @ mt_printed st1" "map movement_of ps = vs" by auto
  then show ?case using st1(1,6,7) by (intro exI [of _ st'] conjI exI [of _ "p # ps"]) simp_all
qed

text \<open>The masks of the hardware notifications among the messages.\<close>

definition masks :: "message list \<Rightarrow> u32 list" where
  "masks msgs = concat (map (\<lambda>msg. case msg of Interrupts irqs \<Rightarrow> [irqs] | _ \<Rightarrow> []) msgs)"

lemma hardware_messages: "filter from_hardware msgs = map Interrupts (masks msgs)"
  by (induction msgs) (auto simp: masks_def split: message.splits)

text \<open>C34: \<open>mouse_test_packet\<close> prints what the mouse did, under these conditions: enabling the mouse and subscribing to it succeed, no packet is half received, and the device
  reports \<open>cnt\<close> movements byte by byte in notifications that all have the bit of the mouse and of which each finds exactly one byte in its two reads, with at least three
  notifications for every movement.  Then the test returns after printing \<open>cnt\<close> packets that are these movements, in order and with
  their buttons, however the notifications are mixed with other messages.  Two bytes in one notification may lose a packet (\<open>mouse_test_packet_loses\<close>).\<close>

theorem mouse_test_packet_roundtrip:
  assumes "mouse_write_command K a1 MOUSE_COMM_ENABLE_DATA_REPORTING (mt_trace st) = (Some (), tr1)"
    and "mouse_subscribe K (mt_mouse st, tr1) = (Some bit_no, (d, tr2))" "mouse_idle (mt_mouse st)"
    and "one_each (concat (map encode_movement vs)) xs" "mouse_delivers K xs tr2" "list_all movement_ok vs"
    and "unat (mt_cnt st) = length vs" "3 * length vs \<le> length (masks msgs)" "list_all (\<lambda>irqs. flag irqs (BIT 2)) (masks msgs)"
  shows "\<exists>r st' ps. mouse_test_packet K a1 a2 msgs st = Ok (Some r, st') \<and>
    mt_printed st' = rev ps @ mt_printed st \<and> map movement_of ps = vs"
proof -
  let ?st = "st\<lparr>mt_mouse := d, mt_trace := tr2\<rparr>"
  have "mouse_idle (mt_mouse ?st)"
    using assms(2,3) by (auto simp: mouse_subscribe_def mouse_idle_def mouse_drv_ok_def Let_def split: prod.splits option.splits)
  from mouse_packet_loop [OF assms(4) _ this assms(6) _ assms(9,8), of K] assms(5,7)
  obtain st' ps where st': "message_loop (\<lambda>st. mt_cnt st \<noteq> 0) (mouse_packet_handle K) msgs ?st = Ok (True, st')"
    "mt_printed st' = rev ps @ mt_printed st" "map movement_of ps = vs"
    unfolding mouse_packet_hw.loop_filter [of _ _ msgs] hardware_messages by auto
  obtain r st2 where r: "andthen (mt_io (mouse_unsubscribe K)) (\<lambda>_.
      mt_command (mouse_write_command K a2 MOUSE_COMM_DISABLE_DATA_REPORTING)) st' = (r, st2)" by fastforce
  then have "mt_printed st2 = mt_printed st'"
    by (auto simp: io_defs mt_io_def mt_command_def split: prod.splits option.splits)
  with assms(1,2) st' r show ?thesis
    by (intro exI [of _ "if r = None then 1 else 0"] exI [of _ st2] exI [of _ ps])
      (simp add: mouse_test_packet_def io_defs mt_io_def mt_command_def)
qed

text \<open>The second call of \<open>mouse_ih\<close> can lose a packet: when both calls of a notification find a byte, and the second byte starts the next packet
  just as the first completed one, nothing is printed and nothing counted for the completed packet.\<close>

theorem mouse_test_packet_loses:
  assumes "mouse_idle (mt_mouse st)" "mouse_delivers K [Some b0, Some b1, Some b2, Some c0] (mt_trace st)" "bit b0 3" "bit c0 3"
    "flag i1 (BIT 2)" "flag i2 (BIT 2)" "mt_cnt st \<noteq> 0"
  shows "\<exists>st'. message_loop (\<lambda>st. mt_cnt st \<noteq> 0) (mouse_packet_handle K) [Interrupts i1, Interrupts i2] st = Ok (False, st') \<and>
    mt_printed st' = mt_printed st \<and> mt_cnt st' = mt_cnt st"
proof -
  let ?s = "mt_mouse st"
  from assms(2) obtain tr1 tr2 tr3 tr4 where
    tr: "\<And>d. mouse_read_packet K (d, mt_trace st) = (Some (), (mouse_feed b0 d, tr1))"
      "\<And>d. mouse_read_packet K (d, tr1) = (Some (), (mouse_feed b1 d, tr2))"
      "\<And>d. mouse_read_packet K (d, tr2) = (Some (), (mouse_feed b2 d, tr3))"
      "\<And>d. mouse_read_packet K (d, tr3) = (Some (), (mouse_feed c0 d, tr4))" by auto
  have idx: "current_byte_index ?s = 0" "length (mouse_bytes ?s) = 3" using assms(1) by (simp_all add: mouse_idle_def mouse_drv_ok_def)
  note f1 = mouse_feed_first [OF idx(1) assms(3)]
  let ?st1 = "st\<lparr>mt_mouse := mouse_feed b1 (mouse_feed b0 ?s), mt_trace := tr2\<rparr>"
  have 1: "mouse_packet_handle K (Interrupts i1) st = Ok ?st1"
    using mouse_print_not_ready [of ?st1] mouse_feed_second [of "mouse_feed b0 ?s" b1] f1
    by (simp add: mouse_packet_handle_def Let_def mouse_ih_def tr assms(5))
  let ?d = "mouse_feed b2 (mouse_feed b1 (mouse_feed b0 ?s))"
  let ?st2 = "st\<lparr>mt_mouse := mouse_feed c0 ?d, mt_trace := tr4\<rparr>"
  have "current_byte_index ?d = 0" using mouse_feed_three [OF idx assms(3), of b1 b2] by simp
  then have 2: "mouse_packet_handle K (Interrupts i2) ?st1 = Ok ?st2"
    using mouse_print_not_ready [of ?st2] mouse_feed_first [of ?d c0] assms(4)
    by (simp add: mouse_packet_handle_def Let_def mouse_ih_def tr assms(6))
  from 1 2 assms(7) show ?thesis by simp
qed

section \<open>A mouse that moves\<close>

text \<open>A device that acknowledges the first command and then offers the next byte after every eight looks at the status; one with
  \<open>wait = 0\<close> offers it at once.\<close>

fun polls_since :: "trace \<Rightarrow> nat" where
  "polls_since [] = 0"
| "polls_since (Inb p v # tr) = (if p = 0x60 then 0 else if p = 0x64 then 1 + polls_since tr else polls_since tr)"
| "polls_since (_ # tr) = polls_since tr"

fun data_reads :: "trace \<Rightarrow> nat" where
  "data_reads [] = 0"
| "data_reads (Inb p v # tr) = (if p = 0x60 then 1 else 0) + data_reads tr"
| "data_reads (_ # tr) = data_reads tr"

definition moving_mouse :: "nat \<Rightarrow> u8 list \<Rightarrow> kernel" where
  "moving_mouse wait bs =
     \<lparr>k_inb = (\<lambda>tr p. Some (if p = 0x64 then (if wait \<le> polls_since tr then 0x21 else 0)
                 else if data_reads tr < length bs then ucast (bs ! data_reads tr) else 0)),
      k_outb = (\<lambda>_ _ _. True), k_irqset = (\<lambda>_ _ _ h. Some h), k_irqrm = (\<lambda>_ h. Some h), k_int86 = (\<lambda>_ _ _ _. True)\<rparr>"

lemma moving_mouse_waits:
  "polls_since tr + n \<le> wait \<Longrightarrow> \<exists>tr'. (\<forall>data. kbc_read_outbuff_loop (moving_mouse wait bs) True n data tr = ((False, data), tr')) \<and>
     polls_since tr' = polls_since tr + n \<and> data_reads tr' = data_reads tr"
proof (induction n arbitrary: tr)
  case (Suc n)
  let ?tr = "Tickdelay DELAY_US # Inb 0x64 (Some 0) # tr"
  have "kbc_read_outbuff_loop (moving_mouse wait bs) True (Suc n) data tr = kbc_read_outbuff_loop (moving_mouse wait bs) True n data ?tr" for data
    using Suc.prems by (simp add: kbc_read_status_apply tickdelay_def moving_mouse_def c_consts)
  moreover have "polls_since ?tr + n \<le> wait" using Suc.prems by simp
  ultimately show ?case using Suc.IH [of ?tr] by simp
qed simp

lemma moving_mouse_reads:
  assumes "wait \<le> polls_since tr" "data_reads tr < length bs"
  shows "\<exists>tr'. (\<forall>data. kbc_read_outbuff (moving_mouse wait bs) True data tr = ((True, bs ! data_reads tr), tr')) \<and>
    polls_since tr' = 0 \<and> data_reads tr' = Suc (data_reads tr)"
proof -
  let ?b = "ucast (bs ! data_reads tr) :: u32"
  have "kbc_read_outbuff (moving_mouse wait bs) True data tr =
      ((True, ucast ?b), Inb KBC_REG_OUT_BUF (Some ?b) # Inb KBC_REG_STAT (Some 0x21) # tr)" for data
    using assms by (intro kbc_read_at_once) (simp_all add: moving_mouse_def c_consts readable_def corrupt_def flag_or flag_BIT)
  then show ?thesis by (auto simp: c_consts)
qed

lemma moving_mouse_delivers:
  "polls_since tr = 0 \<Longrightarrow> data_reads tr + k = length bs \<Longrightarrow>
   mouse_delivers (moving_mouse 8 bs) (concat (map (\<lambda>b. [None, Some b]) (drop (data_reads tr) bs))) tr"
proof (induction k arbitrary: tr)
  case (Suc k)
  let ?K = "moving_mouse 8 bs"
  have n: "data_reads tr < length bs" using Suc.prems(2) by simp
  obtain tr1 where 1: "\<And>data. kbc_read_outbuff ?K True data tr = ((False, data), tr1)" "polls_since tr1 = 8" "data_reads tr1 = data_reads tr"
    using moving_mouse_waits [of tr 8 8 bs] Suc.prems(1) by (auto simp: kbc_read_outbuff_def)
  obtain tr2 where 2: "\<And>data. kbc_read_outbuff ?K True data tr1 = ((True, bs ! data_reads tr), tr2)" "polls_since tr2 = 0"
      "data_reads tr2 = Suc (data_reads tr)"
    using moving_mouse_reads [of 8 tr1 bs] 1(2,3) n by auto
  have "mouse_delivers ?K (concat (map (\<lambda>b. [None, Some b]) (drop (Suc (data_reads tr)) bs))) tr2"
    using Suc.IH [OF 2(2)] Suc.prems(2) 2(3) by simp
  then show ?case
    unfolding Cons_nth_drop_Suc [OF n, symmetric]
    by (auto simp: mouse_read_packet_def 1(1) 2(1) mouse_feed_def)
qed simp

lemma moving_mouse_delivers_at_once:
  "data_reads tr + k = length bs \<Longrightarrow> mouse_delivers (moving_mouse 0 bs) (map Some (drop (data_reads tr) bs)) tr"
proof (induction k arbitrary: tr)
  case (Suc k)
  then have n: "data_reads tr < length bs" by simp
  obtain tr1 where 1: "\<And>data. kbc_read_outbuff (moving_mouse 0 bs) True data tr = ((True, bs ! data_reads tr), tr1)"
      "data_reads tr1 = Suc (data_reads tr)"
    using moving_mouse_reads [of 0 tr bs] n by auto
  have "mouse_delivers (moving_mouse 0 bs) (map Some (drop (Suc (data_reads tr)) bs)) tr1"
    using Suc.IH [of tr1] Suc.prems 1(2) by simp
  then show ?case
    unfolding Cons_nth_drop_Suc [OF n, symmetric] by (auto simp: mouse_read_packet_def 1(1) mouse_feed_def)
qed simp

lemma one_each_second: "one_each bs (concat (map (\<lambda>b. [None, Some b]) bs))"
  by (induction bs) (auto intro: one_each.intros)

lemma moving_mouse_enables:
  "mouse_write_command (moving_mouse 8 (0xFA # bs)) 0 c [] =
     (Some (), [Inb 0x60 (Some 0xFA), Tickdelay DELAY_US, Outb 0x60 c True, Inb 0x64 (Some 0),
        Outb 0x64 KBC_COMM_WRITE_MOUSE_COMM_BYTE True, Inb 0x64 (Some 0)])"
proof -
  have put: "kbc_write (moving_mouse 8 (0xFA # bs)) p c tr = (Some (), Outb p c True # Inb KBC_REG_STAT (Some 0) # tr)"
    if "polls_since tr < 8" for p c tr
    using that by (intro kbc_write_at_once) (simp_all add: moving_mouse_def c_consts flag_BIT)
  have attempts: "MAX_ATTEMPTS = Suc 19" by (simp add: c_consts)
  show ?thesis
    unfolding mouse_write_command_def attempts mouse_write_command_loop.simps(2)
    by (simp add: io_defs put util_sys_inb_apply tickdelay_def c_consts) (simp add: moving_mouse_def io_defs)
qed

definition mouse_test_start :: "u32 \<Rightarrow> mouse_test" where
  "mouse_test_start cnt = \<lparr>mt_mouse = mouse_drv_start, mt_trace = [], mt_cnt = cnt, mt_printed = []\<rparr>"

lemma mouse_test_start_idle: "mouse_idle (mt_mouse (mouse_test_start cnt))"
  using mouse_drv_start_ok by (simp add: mouse_test_start_def mouse_idle_def mouse_drv_start_def)

text \<open>A drag to the lower left, then the release of the button.\<close>

definition drag :: "movement list" where
  "drag = [(True, False, False, - 5, - 9), (False, False, False, 0, 0)]"

theorem mouse_test_packet_roundtrip_witness:
  "\<exists>r st' ps. mouse_test_packet (moving_mouse 8 (0xFA # concat (map encode_movement drag))) 0 0 (replicate 6 (Interrupts 4)) (mouse_test_start 2) =
      Ok (Some r, st') \<and> mt_printed st' = rev ps \<and> map movement_of ps = drag"
proof -
  let ?bs = "concat (map encode_movement drag)" and ?st = "mouse_test_start 2"
  let ?K = "moving_mouse 8 (0xFA # ?bs)"
  let ?tr1 = "[Inb 0x60 (Some 0xFA), Tickdelay DELAY_US, Outb 0x60 MOUSE_COMM_ENABLE_DATA_REPORTING True, Inb 0x64 (Some 0),
        Outb 0x64 KBC_COMM_WRITE_MOUSE_COMM_BYTE True, Inb 0x64 (Some 0)]"
  let ?tr2 = "Irqset KBC_IRQ_MOUSE (IRQ_REENABLE OR IRQ_EXCLUSIVE) 2 (Some 2) # ?tr1"
  have len: "length ?bs = 6" by (simp add: drag_def ps2_encode_def)
  have "mouse_write_command ?K 0 MOUSE_COMM_ENABLE_DATA_REPORTING (mt_trace ?st) = (Some (), ?tr1)"
    using moving_mouse_enables by (simp add: mouse_test_start_def)
  moreover have "mouse_subscribe ?K (mt_mouse ?st, ?tr1) = (Some 4, (mouse_drv_start, ?tr2))"
    by (simp add: mouse_subscribe_def mouse_test_start_def mouse_drv_start_def moving_mouse_def sys_defs hook_bit_def BIT_def)
  moreover have "mouse_delivers ?K (concat (map (\<lambda>b. [None, Some b]) ?bs)) ?tr2"
    using moving_mouse_delivers [of ?tr2 6 "0xFA # ?bs"] len by simp
  moreover have "list_all movement_ok drag" by (simp add: drag_def)
  moreover have "unat (mt_cnt ?st) = length drag" by (simp add: mouse_test_start_def drag_def)
  moreover have "masks (replicate 6 (Interrupts 4)) = replicate 6 4" by (simp add: masks_def numeral_eq_Suc)
  moreover have "3 * length drag \<le> length (replicate 6 (4 :: u32))" by (simp add: drag_def)
  moreover have "list_all (\<lambda>irqs. flag irqs (BIT 2)) (replicate 6 (4 :: u32))" by (simp add: flag_def BIT_def list_all_iff)
  moreover have "mt_printed ?st = []" by (simp add: mouse_test_start_def)
  ultimately show ?thesis
    using mouse_test_packet_roundtrip [OF _ _ mouse_test_start_idle one_each_second, of ?K 0 2 ?tr1 4 mouse_drv_start ?tr2 drag "replicate 6 (Interrupts 4)" 0]
    by simp
qed

theorem mouse_test_packet_loses_witness:
  "\<exists>st'. message_loop (\<lambda>st. mt_cnt st \<noteq> 0) (mouse_packet_handle (moving_mouse 0 [8, 3, 4, 8])) [Interrupts 4, Interrupts 4] (mouse_test_start 1) =
      Ok (False, st') \<and> mt_printed st' = [] \<and> mt_cnt st' = 1"
proof -
  have "mouse_delivers (moving_mouse 0 [8, 3, 4, 8]) [Some 8, Some 3, Some 4, Some 8] (mt_trace (mouse_test_start 1))"
    using moving_mouse_delivers_at_once [of "[]" 4 "[8, 3, 4, 8]"] by (simp add: mouse_test_start_def)
  from mouse_test_packet_loses [OF mouse_test_start_idle this, of 4 4] show ?thesis
    by (simp add: mouse_test_start_def flag_BIT)
qed

end
