(* ===== verification/Lab5_Gpu.thy ===== *)
theory Lab5_Gpu
  imports Gpu
begin

text \<open>
  The graphics driver of the labs, \<open>lab5/gpu.c\<close>, the predecessor of the project's.  Its state is the record of the project's driver;
  its statics \<open>x_res\<close> and \<open>y_res\<close>, which unlike the project's are set, are the fields of \<open>gpu_res_info\<close>.  The functions that the project
  took over are compared with the project's; of the others, rectangles and patterns, the lemmas say which pixels they paint, including what
  the 8-bit size of a tile and the 16-bit coordinates do.
\<close>

section \<open>Modes\<close>

text \<open>The message printed for a failed call, from the registers \<open>al\<close> and \<open>ah\<close>.\<close>

definition gpu_r86_err_hand :: "u8 \<Rightarrow> u8 \<Rightarrow> string" where
  "gpu_r86_err_hand al ah =
     (if al = 0x4F
      then if ah = 0x02 then ''Function is not supported in the current hardware configuration''
           else if ah = 0x03 then ''Function call invalid in current video mode''
           else '' Function call failed''
      else ''Function is not supported'')"

text \<open>\<open>regs\<close> gives the registers after a failed call; the result holds what is printed.\<close>

definition lab_gpu_set_mode :: "kernel \<Rightarrow> (trace \<Rightarrow> u8 \<times> u8) \<Rightarrow> u16 \<Rightarrow> trace \<Rightarrow> (int \<times> string) \<times> trace" where
  "lab_gpu_set_mode K regs mode tr =
     (case sys_int86 K 0x4F02 (BIT 14 OR mode) 0x10 tr of
        (None, tr') \<Rightarrow> (case regs tr' of (al, ah) \<Rightarrow> ((1, gpu_r86_err_hand al ah), tr'))
      | (Some _, tr') \<Rightarrow> ((0, []), tr'))"

text \<open>The same statements as in the project's driver, with \<open>x_res\<close> and \<open>y_res\<close> for \<open>gpu_res_info\<close>.\<close>

definition lab_gpu_init_mem_indexation :: "gpu_env \<Rightarrow> u16 \<Rightarrow> gpu \<Rightarrow> (int \<times> gpu) outcome" where
  "lab_gpu_init_mem_indexation E mode g = gpu_init_mem_indexation E mode g"

section \<open>Drawing\<close>

definition lab_gpu_draw_pixel :: "u16 \<Rightarrow> u16 \<Rightarrow> u32 \<Rightarrow> gpu \<Rightarrow> gpu outcome" where
  "lab_gpu_draw_pixel x y color g =
     (if x \<ge> x_res (gpu_res_info g) \<or> y \<ge> y_res (gpu_res_info g) then Ok g
      else let location = word_of_int ((uint y * X_RES g + uint x) * BPP g) :: u32
           in obind (memcpy (backbuffer g) (uint location) (color_bytes color) 0 (BPP g))
                (\<lambda>b. Ok (g\<lparr>backbuffer := b\<rparr>)))"

text \<open>No drawing function ever returns a non-zero code.\<close>

definition vg_draw_hline :: "u16 \<Rightarrow> u16 \<Rightarrow> u16 \<Rightarrow> u32 \<Rightarrow> gpu \<Rightarrow> gpu outcome" where
  "vg_draw_hline x y len color = for_loop 0 (uint len) (\<lambda>n. lab_gpu_draw_pixel (x + word_of_int n) y color)"

definition vg_draw_rectangle :: "u16 \<Rightarrow> u16 \<Rightarrow> u16 \<Rightarrow> u16 \<Rightarrow> u32 \<Rightarrow> gpu \<Rightarrow> gpu outcome" where
  "vg_draw_rectangle x y width height color = for_loop 0 (uint height) (\<lambda>n. vg_draw_hline x (y + word_of_int n) width color)"

text \<open>Left shifts: of an \<open>int\<close>, undefined when the result does not fit, and of a \<open>uint32_t\<close>, undefined for 32 bits or more.\<close>

definition shl_int :: "int \<Rightarrow> nat \<Rightarrow> int outcome" where
  "shl_int v n = (if n < 32 \<and> v * 2 ^ n < 2 ^ 31 then Ok (v * 2 ^ n) else Undefined)"

definition shl_u32 :: "u32 \<Rightarrow> nat \<Rightarrow> u32 outcome" where
  "shl_u32 v n = (if n < 32 then Ok (push_bit n v) else Undefined)"

text \<open>One component of a direct colour: \<open>((first & ((location << size) - 1)) + n * step) % (1 << size)\<close>.\<close>

definition pattern_component :: "u32 \<Rightarrow> u8 \<Rightarrow> u8 \<Rightarrow> int \<Rightarrow> u32 outcome" where
  "pattern_component first location msize n =
     obind (shl_int (uint location) (unat msize)) (\<lambda>m.
     obind (shl_int 1 (unat msize)) (\<lambda>range.
     Ok (((first AND word_of_int (m - 1)) + word_of_int n) mod word_of_int range)))"

definition pattern_color :: "u8 \<Rightarrow> u32 \<Rightarrow> u8 \<Rightarrow> int \<Rightarrow> int \<Rightarrow> gpu \<Rightarrow> u32 outcome" where
  "pattern_color no_rectangles first step ny nx g =
     (if color_mode g = INDEX_MODE
      then obind (shl_int 1 (unat (bits_per_pixel g))) (\<lambda>range.
           Ok ((first + word_of_int ((ny * uint no_rectangles + nx) * uint step)) mod word_of_int range))
      else obind (pattern_component first (red_mask_location g) (red_mask_size g) (nx * uint step)) (\<lambda>red.
           obind (pattern_component first (green_mask_location g) (green_mask_size g) (ny * uint step)) (\<lambda>green.
           obind (pattern_component first (blue_mask_location g) (blue_mask_size g) ((nx + ny) * uint step)) (\<lambda>blue.
           obind (shl_u32 red (unat (red_mask_location g))) (\<lambda>r.
           obind (shl_u32 green (unat (green_mask_location g))) (\<lambda>gr.
           obind (shl_u32 blue (unat (blue_mask_location g))) (\<lambda>b.
           Ok (r OR gr OR b))))))))"

text \<open>\<open>size_x\<close> and \<open>size_y\<close> are \<open>uint8_t\<close>; a division by zero is undefined.  \<open>color_mode\<close> is one of the two modes.\<close>

definition aux_draw_pattern :: "u8 \<Rightarrow> u32 \<Rightarrow> u8 \<Rightarrow> gpu \<Rightarrow> gpu outcome" where
  "aux_draw_pattern no_rectangles first step g =
     (if no_rectangles = 0 then Undefined
      else let size_x = word_of_int (X_RES g div uint no_rectangles) :: u8;
               size_y = word_of_int (Y_RES g div uint no_rectangles) :: u8
           in for_loop 0 (uint no_rectangles) (\<lambda>ny. for_loop 0 (uint no_rectangles) (\<lambda>nx g.
                if color_mode g = INDEX_MODE \<or> color_mode g = DIRECT_MODE
                then obind (pattern_color no_rectangles first step ny nx g) (\<lambda>color.
                     vg_draw_rectangle (word_of_int (nx * uint size_x)) (word_of_int (ny * uint size_y))
                       (ucast size_x) (ucast size_y) color g)
                else Ok g)) g)"

definition lab_aux_draw_xpm :: "('x \<Rightarrow> u8 list option \<times> xpm_image) \<Rightarrow> 'x \<Rightarrow> u16 \<Rightarrow> u16 \<Rightarrow> gpu \<Rightarrow> gpu outcome" where
  "lab_aux_draw_xpm xpm_load xpm x y g =
     (case xpm_load xpm of (colors, img) \<Rightarrow>
        for_loop 0 (uint (img_height img)) (\<lambda>iy. for_loop 0 (uint (img_width img)) (\<lambda>ix g.
          obind (aread_int (case colors of None \<Rightarrow> [] | Some cs \<Rightarrow> cs) (iy * uint (img_width img) + ix)) (\<lambda>c.
            lab_gpu_draw_pixel (x + word_of_int ix) (y + word_of_int iy) (ucast c) g))) g)"

definition aux_vg_commit :: "gpu \<Rightarrow> gpu outcome" where
  "aux_vg_commit g =
     obind (memcpy (video_mem g) 0 (backbuffer g) 0 (uint (vram_size g))) (\<lambda>v. Ok (g\<lparr>video_mem := v\<rparr>))"

definition lab_aux_clear :: "gpu \<Rightarrow> gpu outcome" where
  "lab_aux_clear g = vg_draw_rectangle 0 0 (x_res (gpu_res_info g)) (y_res (gpu_res_info g)) 0 g"

section \<open>The functions the project kept\<close>

lemma lab_gpu_draw_pixel_same: "lab_gpu_draw_pixel = gpu_draw_pixel"
  by (intro ext) (simp add: lab_gpu_draw_pixel_def gpu_draw_pixel_def)

lemma lab_aux_draw_xpm_same: "lab_aux_draw_xpm = aux_draw_xpm"
  by (intro ext) (simp add: lab_aux_draw_xpm_def aux_draw_xpm_def draw_colors_def lab_gpu_draw_pixel_same split: prod.splits)

lemma aux_vg_commit_same: "aux_vg_commit = gpu_buffer_commit"
  by (intro ext) (simp add: aux_vg_commit_def gpu_buffer_commit_def)

section \<open>Rectangles\<close>

lemma color_bytes_hd: "take 1 (color_bytes color) = [ucast color]"
  by (simp add: color_bytes_def upt_rec)

text \<open>In a mode with one byte per pixel only the low byte of the colour is used.\<close>

lemma draw_pixel_low_byte:
  assumes "bytes_per_pixel g = 1"
  shows "gpu_draw_pixel x y color g = gpu_draw_pixel x y (ucast (ucast color :: u8)) g"
proof -
  have "color_bytes (ucast (ucast color :: u8)) = [ucast color, 0, 0, 0]" by (rule color_bytes_byte)
  moreover have "take (nat 1) (drop (nat 0) (color_bytes color)) = [ucast color]" "length (color_bytes color) = 4"
    using color_bytes_hd by (simp_all add: color_bytes_def)
  ultimately show ?thesis using assms by (simp add: gpu_draw_pixel_def memcpy_def Let_def)
qed

lemma draw_pixel_dot:
  assumes "indexed_ok g"
  shows "\<exists>g'. lab_gpu_draw_pixel x y color g = Ok g' \<and> painted g (dot (uint x) (uint y) (ucast color)) g'"
proof -
  have "uint x < 65536" "uint y < 65536" "X_RES g < 65536" "Y_RES g < 65536"
    using uint_lt2p [of x] uint_lt2p [of y] uint_lt2p [of "x_res (gpu_res_info g)"] uint_lt2p [of "y_res (gpu_res_info g)"] by simp_all
  then have "window16 g (uint x) (uint y)" using uint_ge_0 [of x] uint_ge_0 [of y] unfolding window16_def by linarith
  from gpu_draw_pixel_painted [OF assms this, of "ucast color"] show ?thesis
    using assms draw_pixel_low_byte [of g x y color] by (simp add: lab_gpu_draw_pixel_same indexed_ok_def)
qed

lemma uint_add16: "uint (x + word_of_int n :: u16) = (uint x + n) mod 65536"
  by (simp add: uint_word_ariths uint_word_of_int mod_add_right_eq)

lemma mod_shift:
  fixes a u n :: int
  assumes "0 \<le> a" "a < 65536" "0 \<le> n" "n < 65536"
  shows "a = (u + n) mod 65536 \<longleftrightarrow> (a - u) mod 65536 = n"
proof
  assume "a = (u + n) mod 65536"
  then have "(a - u) mod 65536 = (u + n - u) mod 65536" by (simp add: mod_diff_left_eq)
  with assms show "(a - u) mod 65536 = n" by simp
next
  assume "(a - u) mod 65536 = n"
  then have "(u + n) mod 65536 = (u + (a - u)) mod 65536" by (metis mod_add_right_eq)
  with assms show "a = (u + n) mod 65536" by simp
qed

lemma wrap_next:
  fixes a u n :: int
  assumes "0 \<le> a" "a < 65536" "0 \<le> n" "n < 65536"
  shows "(a - u) mod 65536 < n + 1 \<longleftrightarrow> (a - u) mod 65536 < n \<or> a = (u + n) mod 65536"
  unfolding mod_shift [OF assms] by linarith

lemma wrap_one:
  fixes b u :: int
  assumes "0 \<le> b" "b < 65536" "0 \<le> u" "u < 65536"
  shows "(b - u) mod 65536 < 1 \<longleftrightarrow> b = u"
proof -
  have "(b - u) mod 65536 < 1 \<longleftrightarrow> (b - u) mod 65536 = 0" using pos_mod_sign [of 65536 "b - u"] by linarith
  also have "\<dots> \<longleftrightarrow> b = u mod 65536" using mod_shift [of b 0 u] assms by simp
  finally show ?thesis using assms by simp
qed

text \<open>The pixels of a rectangle whose coordinates wrap around at 16 bits.\<close>

definition wrapped :: "int \<Rightarrow> int \<Rightarrow> int \<Rightarrow> int \<Rightarrow> 'c \<Rightarrow> 'c pic" where
  "wrapped x y w h c = (\<lambda>a b. if (a - x) mod 65536 < w \<and> (b - y) mod 65536 < h then Some c else None)"

lemma wrapped_empty: "w \<le> 0 \<or> h \<le> 0 \<Longrightarrow> wrapped x y w h c = blank"
proof -
  assume "w \<le> 0 \<or> h \<le> 0"
  moreover have "0 \<le> (k :: int) mod 65536" for k by simp
  ultimately have "\<not> ((a - x) mod 65536 < w \<and> (b - y) mod 65536 < h)" for a b
    by (meson dual_order.strict_trans2 linorder_not_less)
  then show ?thesis by (intro ext) (simp add: wrapped_def blank_def)
qed

lemma on_screen_16: "on_screen g a b \<Longrightarrow> 0 \<le> a \<and> a < 65536 \<and> 0 \<le> b \<and> b < 65536"
  using uint_lt2p [of "x_res (gpu_res_info g)"] uint_lt2p [of "y_res (gpu_res_info g)"] by (auto simp: on_screen_def)

lemma hline_painted:
  assumes "indexed_ok g"
  shows "\<exists>g'. vg_draw_hline x y len color g = Ok g' \<and> painted g (wrapped (uint x) (uint y) (uint len) 1 (ucast color)) g'"
proof -
  let ?P = "\<lambda>n. wrapped (uint x) (uint y) n 1 (ucast color :: u8)"
  have len: "uint len < 65536" using uint_lt2p [of len] by simp
  have "\<exists>g'. vg_draw_hline x y len color g = Ok g' \<and> painted g (?P (uint len)) g'"
    unfolding vg_draw_hline_def
  proof (rule for_loop_invariant)
    show "painted g (?P 0) g" using screen.painted_blank by (simp add: wrapped_empty)
    fix n g1 assume n: "0 \<le> n" "n < uint len" and g1: "painted g (?P n) g1"
    from draw_pixel_dot [OF screen.painted_ready [OF g1 assms], of "x + word_of_int n" y color] obtain g2 where
      g2: "lab_gpu_draw_pixel (x + word_of_int n) y color g1 = Ok g2"
        "painted g1 (dot ((uint x + n) mod 65536) (uint y) (ucast color)) g2" by (auto simp: uint_add16)
    have "painted g (?P (n + 1)) g2"
    proof (rule painted_cong [OF screen.painted_over [OF g1 g2(2)]])
      fix a b assume on: "on_screen g a b"
      have y: "(b - uint y) mod 65536 < 1 \<longleftrightarrow> b = uint y"
        using on_screen_16 [OF on] uint_lt2p [of y] by (intro wrap_one) auto
      have x: "(a - uint x) mod 65536 < n + 1 \<longleftrightarrow> (a - uint x) mod 65536 < n \<or> a = (uint x + n) mod 65536"
        using on_screen_16 [OF on] n len by (intro wrap_next) auto
      show "over (dot ((uint x + n) mod 65536) (uint y) (ucast color)) (?P n) a b = ?P (n + 1) a b"
        unfolding wrapped_def over_def x y by (cases "a = (uint x + n) mod 65536"; cases "b = uint y") (simp_all add: dot_def box_def)
    qed
    with g2(1) show "\<exists>g'. lab_gpu_draw_pixel (x + word_of_int n) y color g1 = Ok g' \<and> painted g (?P (n + 1)) g'" by blast
  qed simp
  then show ?thesis .
qed

lemma rectangle_painted:
  assumes "indexed_ok g"
  shows "\<exists>g'. vg_draw_rectangle x y w h color g = Ok g' \<and> painted g (wrapped (uint x) (uint y) (uint w) (uint h) (ucast color)) g'"
proof -
  let ?P = "\<lambda>n. wrapped (uint x) (uint y) (uint w) n (ucast color :: u8)"
  have h: "uint h < 65536" using uint_lt2p [of h] by simp
  have "\<exists>g'. vg_draw_rectangle x y w h color g = Ok g' \<and> painted g (?P (uint h)) g'"
    unfolding vg_draw_rectangle_def
  proof (rule for_loop_invariant)
    show "painted g (?P 0) g" using screen.painted_blank by (simp add: wrapped_empty)
    fix n g1 assume n: "0 \<le> n" "n < uint h" and g1: "painted g (?P n) g1"
    from hline_painted [OF screen.painted_ready [OF g1 assms], of x "y + word_of_int n" w color] obtain g2 where
      g2: "vg_draw_hline x (y + word_of_int n) w color g1 = Ok g2"
        "painted g1 (wrapped (uint x) ((uint y + n) mod 65536) (uint w) 1 (ucast color)) g2" by (auto simp: uint_add16)
    have "painted g (?P (n + 1)) g2"
    proof (rule painted_cong [OF screen.painted_over [OF g1 g2(2)]])
      fix a b assume on: "on_screen g a b"
      let ?z = "(uint y + n) mod 65536"
      have y: "(b - ?z) mod 65536 < 1 \<longleftrightarrow> b = ?z" using on_screen_16 [OF on] by (intro wrap_one) auto
      have y': "(b - uint y) mod 65536 < n + 1 \<longleftrightarrow> (b - uint y) mod 65536 < n \<or> b = ?z"
        using on_screen_16 [OF on] n h by (intro wrap_next) auto
      show "over (wrapped (uint x) ?z (uint w) 1 (ucast color)) (?P n) a b = ?P (n + 1) a b"
        unfolding wrapped_def over_def y y' by (cases "b = ?z"; cases "(a - uint x) mod 65536 < uint w") simp_all
    qed
    with g2(1) show "\<exists>g'. vg_draw_hline x (y + word_of_int n) w color g1 = Ok g' \<and> painted g (?P (n + 1)) g'" by blast
  qed simp
  then show ?thesis .
qed

text \<open>A rectangle that ends before column and row 65536.\<close>

lemma wrapped_box:
  assumes "0 \<le> x" "0 \<le> y" "x + w \<le> 65536" "y + h \<le> 65536" "0 \<le> a" "a < 65536" "0 \<le> b" "b < 65536" "0 \<le> w" "0 \<le> h"
  shows "wrapped x y w h c a b = (if x \<le> a \<and> a < x + w \<and> y \<le> b \<and> b < y + h then Some c else None)"
proof -
  have side: "(k - z) mod 65536 < n \<longleftrightarrow> z \<le> k \<and> k < z + n" if "0 \<le> z" "z + n \<le> 65536" "0 \<le> k" "k < 65536" "0 \<le> n" for k z n :: int
  proof (cases "z \<le> k")
    case False
    have "(k - z) mod 65536 = (k - z + 65536) mod 65536" by simp
    also have "\<dots> = k - z + 65536" using False that by (intro mod_pos_pos_trivial) (auto simp: not_le)
    finally show ?thesis using False that by simp
  qed (use that in auto)
  show ?thesis unfolding wrapped_def side [OF assms(1,3,5,6,9)] side [OF assms(2,4,7,8,10)] by auto
qed

text \<open>\<open>vg_draw_rectangle\<close> paints exactly the pixels of the screen whose distance from the corner, counted to the right and downwards and wrapping around at
  65536, is less than the size, with the low byte of the colour, and no other pixel.\<close>

theorem vg_draw_rectangle_pixels:
  assumes "indexed_ok g"
  shows "\<exists>g'. vg_draw_rectangle x y w h color g = Ok g' \<and> indexed_ok g' \<and>
    (\<forall>a b. on_screen g a b \<longrightarrow> pixel g' a b =
       (if (a - uint x) mod 65536 < uint w \<and> (b - uint y) mod 65536 < uint h then ucast color else pixel g a b))"
proof -
  from rectangle_painted [OF assms, of x y w h color] obtain g' where
    g': "vg_draw_rectangle x y w h color g = Ok g'" "painted g (wrapped (uint x) (uint y) (uint w) (uint h) (ucast color)) g'" by blast
  then show ?thesis using screen.painted_ready [OF g'(2) assms] by (auto simp: painted_def wrapped_def)
qed

theorem vg_draw_rectangle_pixels_witness:
  "\<exists>g'. vg_draw_rectangle 0xFFFF 1 3 1 0x107 tiny_gpu = Ok g' \<and> pixel g' 1 1 = 7 \<and> pixel g' 2 1 = pixel tiny_gpu 2 1"
proof -
  from vg_draw_rectangle_pixels [OF tiny_gpu_ok(2), of "0xFFFF" 1 3 1 "0x107"] obtain g' where
    g': "vg_draw_rectangle 0xFFFF 1 3 1 0x107 tiny_gpu = Ok g'"
      "\<And>a b. on_screen tiny_gpu a b \<Longrightarrow> pixel g' a b =
         (if (a - 65535) mod 65536 < 3 \<and> (b - 1) mod 65536 < 1 then 7 else pixel tiny_gpu a b)" by auto
  have "pixel g' 1 1 = 7" "pixel g' 2 1 = pixel tiny_gpu 2 1" by (simp_all add: g'(2) on_screen_def)
  with g'(1) show ?thesis by blast
qed

lemma lab_aux_clear_ok:
  assumes "indexed_ok g"
  shows "\<exists>g'. lab_aux_clear g = Ok g' \<and> painted g (\<lambda>a b. Some 0) g'"
proof -
  from rectangle_painted [OF assms, of 0 0 "x_res (gpu_res_info g)" "y_res (gpu_res_info g)" 0] obtain g' where
    g': "lab_aux_clear g = Ok g'" "painted g (wrapped 0 0 (X_RES g) (Y_RES g) 0) g'" by (auto simp: lab_aux_clear_def)
  have "painted g (\<lambda>a b. Some 0) g'"
  proof (rule painted_cong [OF g'(2)])
    fix a b assume on: "on_screen g a b"
    have "X_RES g < 65536" "Y_RES g < 65536"
      using uint_lt2p [of "x_res (gpu_res_info g)"] uint_lt2p [of "y_res (gpu_res_info g)"] by simp_all
    then have "wrapped 0 0 (X_RES g) (Y_RES g) (0 :: u8) a b =
        (if 0 \<le> a \<and> a < 0 + X_RES g \<and> 0 \<le> b \<and> b < 0 + Y_RES g then Some 0 else None)"
      using on_screen_16 [OF on] by (intro wrapped_box) simp_all
    with on show "wrapped 0 0 (X_RES g) (Y_RES g) 0 a b = Some (0 :: u8)" by (simp add: on_screen_def)
  qed
  with g'(1) show ?thesis by blast
qed

section \<open>Patterns\<close>

lemma div_tile: "0 < s \<Longrightarrow> k * s \<le> a \<and> a < k * s + s \<longleftrightarrow> a div s = k" for a k s :: int
proof
  assume "0 < s" "k * s \<le> a \<and> a < k * s + s"
  then have "(a - k * s) div s = 0" by (intro div_pos_pos_trivial) auto
  with \<open>0 < s\<close> show "a div s = k" using div_mult_self1 [of s "a - k * s" k] by simp
next
  assume "0 < s" "a div s = k"
  then have "k * s + a mod s = a" "0 \<le> a mod s" "a mod s < s" using div_mult_mod_eq [of a s] by simp_all
  then show "k * s \<le> a \<and> a < k * s + s" by linarith
qed

lemma tile_painted:
  fixes sx sy :: u8
  assumes "indexed_ok g" "0 \<le> nx" "nx < 256" "0 \<le> ny" "ny < 256"
  shows "\<exists>g'. vg_draw_rectangle (word_of_int (nx * uint sx)) (word_of_int (ny * uint sy)) (ucast sx) (ucast sy) color g = Ok g' \<and>
    painted g (\<lambda>a b. if 0 < sx \<and> 0 < sy \<and> a div uint sx = nx \<and> b div uint sy = ny then Some (ucast color) else None) g'"
proof -
  have small: "uint z < 256" for z :: u8 using uint_lt2p [of z] by simp
  have pos: "uint (word_of_int (k * uint z) :: u16) = k * uint z \<and> k * uint z + uint z \<le> 65536" if "0 \<le> k" "k < 256" for k and z :: u8
  proof -
    have "k * uint z \<le> 255 * 255" using that small [of z] by (intro mult_mono) auto
    moreover have "0 \<le> k * uint z" using that by simp
    ultimately show ?thesis using small [of z] uint_wrap16 [of "k * uint z"] by simp
  qed
  have size: "uint (ucast z :: u16) = uint z" for z :: u8
    using small [of z] by (simp add: unsigned_ucast_eq take_bit_int_eq_self)
  obtain g' where g': "vg_draw_rectangle (word_of_int (nx * uint sx)) (word_of_int (ny * uint sy)) (ucast sx) (ucast sy) color g = Ok g'"
      "painted g (wrapped (nx * uint sx) (ny * uint sy) (uint sx) (uint sy) (ucast color)) g'"
    using rectangle_painted [OF assms(1), of "word_of_int (nx * uint sx)" "word_of_int (ny * uint sy)" "ucast sx" "ucast sy" color]
      pos [OF assms(2,3), of sx] pos [OF assms(4,5), of sy] by (simp add: size del: of_int_mult) blast
  have "painted g (\<lambda>a b. if 0 < sx \<and> 0 < sy \<and> a div uint sx = nx \<and> b div uint sy = ny then Some (ucast color) else None) g'"
  proof (rule painted_cong [OF g'(2)])
    fix a b assume on: "on_screen g a b"
    show "wrapped (nx * uint sx) (ny * uint sy) (uint sx) (uint sy) (ucast color) a b =
        (if 0 < sx \<and> 0 < sy \<and> a div uint sx = nx \<and> b div uint sy = ny then Some (ucast color) else None)"
    proof (cases "0 < sx \<and> 0 < sy")
      case True
      then have s: "0 < uint sx" "0 < uint sy" by (simp_all add: word_less_def)
      have "wrapped (nx * uint sx) (ny * uint sy) (uint sx) (uint sy) (ucast color) a b =
          (if (nx * uint sx \<le> a \<and> a < nx * uint sx + uint sx) \<and> (ny * uint sy \<le> b \<and> b < ny * uint sy + uint sy) then Some (ucast color) else None)"
        using wrapped_box [of "nx * uint sx" "ny * uint sy" "uint sx" "uint sy" a b "ucast color"]
          pos [OF assms(2,3), of sx] pos [OF assms(4,5), of sy] on_screen_16 [OF on] assms by simp
      then show ?thesis using True unfolding div_tile [OF s(1)] div_tile [OF s(2)] by simp
    next
      case False
      then have "\<not> 0 < uint sx \<or> \<not> 0 < uint sy" by (simp add: word_less_def)
      then have "uint sx \<le> 0 \<or> uint sy \<le> 0" by linarith
      with False show ?thesis by (auto simp: wrapped_empty blank_def)
    qed
  qed
  with g'(1) show ?thesis by blast
qed

definition tile_color :: "u8 \<Rightarrow> u32 \<Rightarrow> u8 \<Rightarrow> int \<Rightarrow> int \<Rightarrow> u8" where
  "tile_color no_rectangles first step ny nx = ucast (first + word_of_int ((ny * uint no_rectangles + nx) * uint step))"

lemma ucast_mod_256: "(ucast (c mod 256 :: u32) :: u8) = ucast c"
proof -
  have "c mod 256 = take_bit 8 c" by (simp add: take_bit_eq_mod)
  then show ?thesis by (simp add: bit_eq_iff bit_ucast_iff bit_take_bit_iff)
qed

lemma pattern_color_indexed:
  assumes "color_mode g = INDEX_MODE" "bits_per_pixel g = 8"
  shows "\<exists>c. pattern_color no_rectangles first step ny nx g = Ok c \<and> ucast c = tile_color no_rectangles first step ny nx"
  using assms by (simp add: pattern_color_def shl_int_def tile_color_def ucast_mod_256 del: of_int_add of_int_mult)

definition indexed8 :: "gpu \<Rightarrow> bool" where
  "indexed8 g \<longleftrightarrow> indexed_ok g \<and> color_mode g = INDEX_MODE \<and> bits_per_pixel g = 8"

lemma painted_indexed8: "painted g P g' \<Longrightarrow> indexed8 g \<Longrightarrow> indexed8 g'"
  using screen.painted_ready [of g P g'] by (auto simp: indexed8_def painted_def redrawn_def)

text \<open>The tiles painted before tile \<open>(nx, ny)\<close>.\<close>

definition tiles_until :: "u8 \<Rightarrow> u32 \<Rightarrow> u8 \<Rightarrow> u8 \<Rightarrow> u8 \<Rightarrow> int \<Rightarrow> int \<Rightarrow> u8 pic" where
  "tiles_until no_rectangles first step sx sy ny nx = (\<lambda>a b.
     if 0 < sx \<and> 0 < sy \<and> a div uint sx < uint no_rectangles \<and> (b div uint sy < ny \<or> b div uint sy = ny \<and> a div uint sx < nx)
     then Some (tile_color no_rectangles first step (b div uint sy) (a div uint sx)) else None)"

lemma pattern_painted:
  assumes g: "indexed8 g" and n: "no_rectangles \<noteq> 0"
  defines "N \<equiv> uint no_rectangles"
    and "sx \<equiv> word_of_int (X_RES g div uint no_rectangles) :: u8" and "sy \<equiv> word_of_int (Y_RES g div uint no_rectangles) :: u8"
  shows "\<exists>g'. aux_draw_pattern no_rectangles first step g = Ok g' \<and> painted g (tiles_until no_rectangles first step sx sy N 0) g'"
proof -
  let ?P = "tiles_until no_rectangles first step sx sy"
  let ?tile = "\<lambda>ny nx g. if color_mode g = INDEX_MODE \<or> color_mode g = DIRECT_MODE
      then obind (pattern_color no_rectangles first step ny nx g) (\<lambda>color.
        vg_draw_rectangle (word_of_int (nx * uint sx)) (word_of_int (ny * uint sy)) (ucast sx) (ucast sy) color g) else Ok g"
  have N: "0 \<le> N" "N < 256" using uint_lt2p [of no_rectangles] by (simp_all add: N_def)
  have tile: "\<exists>g2. ?tile ny nx g1 = Ok g2 \<and> painted g (?P ny (nx + 1)) g2"
    if ny: "0 \<le> ny" "ny < N" and nx: "0 \<le> nx" "nx < N" and g1: "painted g (?P ny nx) g1" for ny nx g1
  proof -
    have g1': "indexed8 g1" using painted_indexed8 [OF g1 g] .
    obtain c where c: "pattern_color no_rectangles first step ny nx g1 = Ok c" "ucast c = tile_color no_rectangles first step ny nx"
      using pattern_color_indexed [of g1 no_rectangles first step ny nx] g1' by (auto simp: indexed8_def)
    let ?T = "\<lambda>a b. if 0 < sx \<and> 0 < sy \<and> a div uint sx = nx \<and> b div uint sy = ny then Some (ucast c :: u8) else None"
    obtain g2 where g2: "vg_draw_rectangle (word_of_int (nx * uint sx)) (word_of_int (ny * uint sy)) (ucast sx) (ucast sy) c g1 = Ok g2"
        "painted g1 ?T g2"
      using tile_painted [of g1 nx ny sx sy c] g1' ny nx N by (auto simp: indexed8_def)
    have "over ?T (?P ny nx) = ?P ny (nx + 1)"
      using nx(2) by (intro ext) (auto simp: over_def tiles_until_def c(2) N_def)
    with screen.painted_over [OF g1 g2(2)] have "painted g (?P ny (nx + 1)) g2" by simp
    with g2(1) c(1) g1' show ?thesis by (simp add: indexed8_def)
  qed
  have row: "\<exists>g2. for_loop 0 N (?tile ny) g1 = Ok g2 \<and> painted g (?P (ny + 1) 0) g2"
    if ny: "0 \<le> ny" "ny < N" and g1: "painted g (?P ny 0) g1" for ny g1
  proof -
    have "\<exists>g2. for_loop 0 N (?tile ny) g1 = Ok g2 \<and> painted g (?P ny N) g2"
      by (rule for_loop_invariant [where I = "\<lambda>nx. painted g (?P ny nx)", OF g1 N(1)]) (rule tile [OF ny])
    moreover have "painted g (?P (ny + 1) 0) g2" if "painted g (?P ny N) g2" for g2
    proof (rule painted_cong [OF that])
      fix a b assume "on_screen g a b"
      then have "0 < sx \<Longrightarrow> 0 \<le> a div uint sx" by (simp add: on_screen_def pos_imp_zdiv_nonneg_iff word_less_def)
      then show "?P ny N a b = ?P (ny + 1) 0 a b" by (auto simp: tiles_until_def N_def)
    qed
    ultimately show ?thesis by blast
  qed
  have none: "painted g (?P 0 0) g"
  proof (rule painted_clipped)
    fix a b assume "on_screen g a b"
    then have "0 < sy \<Longrightarrow> 0 \<le> b div uint sy" "0 < sx \<Longrightarrow> 0 \<le> a div uint sx"
      by (simp_all add: on_screen_def pos_imp_zdiv_nonneg_iff word_less_def)
    then show "?P 0 0 a b = None" by (auto simp: tiles_until_def)
  qed
  have "\<exists>g'. for_loop 0 N (\<lambda>ny. for_loop 0 N (?tile ny)) g = Ok g' \<and> painted g (?P N 0) g'"
    by (rule for_loop_invariant [where I = "\<lambda>ny. painted g (?P ny 0)", OF none N(1)]) (rule row)
  then show ?thesis using n unfolding aux_draw_pattern_def Let_def sx_def [symmetric] sy_def [symmetric] N_def by simp
qed

text \<open>C36: a pattern in the indexed colour mode with 8 bits per pixel, for a number of rectangles that is not zero: the screen is cut into \<open>no_rectangles\<close> times \<open>no_rectangles\<close> tiles whose width and height are the quotients
  of the resolution, reduced modulo 256; the tile in row \<open>i\<close> and column \<open>j\<close> has the colour
  \<open>first + (i * no_rectangles + j) * step\<close>, and no pixel outside the tiles changes.  When a reduced size is zero nothing is painted.\<close>

theorem aux_draw_pattern_tiles:
  assumes "indexed8 g" "no_rectangles \<noteq> 0"
  shows "\<exists>g'. aux_draw_pattern no_rectangles first step g = Ok g' \<and> indexed_ok g' \<and>
    (\<forall>a b. on_screen g a b \<longrightarrow>
       (let n = uint no_rectangles; sx = X_RES g div n mod 256; sy = Y_RES g div n mod 256 in
        pixel g' a b =
          (if 0 < sx \<and> 0 < sy \<and> a div sx < n \<and> b div sy < n
           then ucast (first + word_of_int ((b div sy * n + a div sx) * uint step)) else pixel g a b)))"
proof -
  let ?n = "uint no_rectangles"
  let ?sx = "word_of_int (X_RES g div ?n) :: u8" and ?sy = "word_of_int (Y_RES g div ?n) :: u8"
  from pattern_painted [OF assms, of first step] obtain g' where g': "aux_draw_pattern no_rectangles first step g = Ok g'"
    "painted g (tiles_until no_rectangles first step ?sx ?sy ?n 0) g'" by blast
  have ok: "indexed_ok g'" using painted_indexed8 [OF g'(2) assms(1)] by (simp add: indexed8_def)
  have size: "uint (word_of_int k :: u8) = k mod 256" "(0 :: u8) < word_of_int k \<longleftrightarrow> 0 < k mod 256" for k :: int
    by (simp_all add: uint_word_of_int word_less_def)
  have pic: "tiles_until no_rectangles first step ?sx ?sy ?n 0 a b =
      (let sx = X_RES g div ?n mod 256; sy = Y_RES g div ?n mod 256 in
       if 0 < sx \<and> 0 < sy \<and> a div sx < ?n \<and> b div sy < ?n
       then Some (ucast (first + word_of_int ((b div sy * ?n + a div sx) * uint step))) else None)" if "on_screen g a b" for a b
  proof -
    have "\<not> a div sx < 0" if "0 < sx" for sx
      using \<open>on_screen g a b\<close> that pos_imp_zdiv_nonneg_iff [of sx a] by (simp add: on_screen_def not_less)
    then show ?thesis unfolding tiles_until_def size Let_def tile_color_def by auto
  qed
  have "pixel g' a b = (case tiles_until no_rectangles first step ?sx ?sy ?n 0 a b of None \<Rightarrow> pixel g a b | Some c \<Rightarrow> c)"
    if "on_screen g a b" for a b using g'(2) that by (simp add: painted_def)
  with g'(1) ok show ?thesis by (simp add: pic Let_def)
qed

definition demo_screen :: gpu where
  "demo_screen = tiny_gpu\<lparr>bits_per_pixel := 8\<rparr>"

lemma demo_screen_ok: "indexed8 demo_screen"
  by (simp add: indexed8_def demo_screen_def indexed_ok_def gpu_ok_def c_consts)

theorem aux_draw_pattern_tiles_witness:
  "\<exists>g'. aux_draw_pattern 3 10 2 demo_screen = Ok g' \<and> pixel g' 1 2 = 10 + (2 * 3 + 1) * 2 \<and> pixel g' 3 0 = pixel demo_screen 3 0"
proof -
  have res: "X_RES demo_screen = 4" "Y_RES demo_screen = 3" by (simp_all add: demo_screen_def)
  obtain g' where g': "aux_draw_pattern 3 10 2 demo_screen = Ok g'"
    "\<And>a b. on_screen demo_screen a b \<Longrightarrow> pixel g' a b =
       (if a < 3 \<and> b < 3 then ucast (10 + word_of_int ((b * 3 + a) * 2) :: u32) else pixel demo_screen a b)"
    using aux_draw_pattern_tiles [OF demo_screen_ok, of 3 10 2] by (auto simp: res Let_def simp del: of_int_add of_int_mult)
  have "pixel g' 1 2 = 10 + (2 * 3 + 1) * 2" "pixel g' 3 0 = pixel demo_screen 3 0"
    by (simp_all add: g'(2) on_screen_def res)
  with g'(1) show ?thesis by blast
qed

text \<open>On a screen of 1024 columns, a pattern of 1, 2 or 4 rectangles paints nothing: the width of a tile is a multiple of 256.\<close>

theorem aux_draw_pattern_nothing:
  assumes "indexed8 g" "no_rectangles \<noteq> 0" "X_RES g div uint no_rectangles mod 256 = 0"
  shows "\<exists>g'. aux_draw_pattern no_rectangles first step g = Ok g' \<and> painted g blank g'"
proof -
  let ?n = "uint no_rectangles"
  have "\<not> (0 :: u8) < word_of_int (X_RES g div ?n)" using assms(3) by (simp add: uint_word_of_int word_less_def)
  then have "tiles_until no_rectangles first step (word_of_int (X_RES g div ?n)) sy k m = blank" for sy k m
    by (intro ext) (simp add: tiles_until_def blank_def)
  then show ?thesis using pattern_painted [OF assms(1,2), of first step] by simp
qed

end
