(* ===== verification/Lab5.thy ===== *)
theory Lab5
  imports Keyboard Lab2 Lab5_Gpu
begin

text \<open>
  The graphics tests, \<open>lab5/lab5.c\<close>, on the driver of \<open>Lab5_Gpu\<close> and the project's keyboard and timer drivers.  As in \<open>Lab2\<close>, \<open>counter\<close> is a
  parameter; so are \<open>sys_hz()\<close>, \<open>vg_exit()\<close>, \<open>xpm_load\<close> and the pixmap \<open>penguin\<close> of the course library.  The lemmas show that the loops
  never do anything undefined, where the moving image is, and that the rectangle test shows nothing.
\<close>

section \<open>State and environment\<close>

datatype moveState = RUNNING | WALKING

fun move_speed :: "moveState \<Rightarrow> int" where
  "move_speed RUNNING = 10"
| "move_speed WALKING = 1"

record video_test =
  vt_kbd :: keyboard_drv
  vt_timer :: timer_drv
  vt_trace :: trace
  vt_gpu :: gpu
  vt_x :: u16
  vt_y :: u16
  elapsed :: int
  move_state :: moveState
  w_key_state :: bool
  a_key_state :: bool
  s_key_state :: bool
  d_key_state :: bool

record 'x video_env =
  v_kernel :: kernel
  v_gpu :: gpu_env
  v_regs :: "trace \<Rightarrow> u8 \<times> u8"
  v_vg_exit :: bool
  v_sys_hz :: u32
  v_counter :: "timer_drv \<Rightarrow> u32"
  v_load :: "'x \<Rightarrow> u8 list option \<times> xpm_image"
  v_penguin :: 'x

definition vt_keyboard :: "(keyboard_drv \<times> trace, 'a) io \<Rightarrow> (video_test, 'a) io" where
  "vt_keyboard f st = (case f (vt_kbd st, vt_trace st) of (r, (d, tr)) \<Rightarrow> (r, st\<lparr>vt_kbd := d, vt_trace := tr\<rparr>))"

definition vt_tick :: "(timer_drv \<times> trace, 'a) io \<Rightarrow> (video_test, 'a) io" where
  "vt_tick f st = (case f (vt_timer st, vt_trace st) of (r, (d, tr)) \<Rightarrow> (r, st\<lparr>vt_timer := d, vt_trace := tr\<rparr>))"

definition vt_kbc_ih :: "kernel \<Rightarrow> video_test \<Rightarrow> video_test" where
  "vt_kbc_ih K st = (case kbc_ih K (vt_kbd st, vt_trace st) of (d, tr) \<Rightarrow> st\<lparr>vt_kbd := d, vt_trace := tr\<rparr>)"

definition vt_escaped :: "video_test \<Rightarrow> bool" where
  "vt_escaped st \<longleftrightarrow> scan_code (vt_kbd st) = ESC_BREAKCODE"

section \<open>The tests\<close>

definition wait_esc_handle :: "kernel \<Rightarrow> u8 \<Rightarrow> message \<Rightarrow> video_test \<Rightarrow> video_test outcome" where
  "wait_esc_handle K bit_no msg st =
     (case msg of Interrupts irqs \<Rightarrow> Ok (if pending irqs bit_no then vt_kbc_ih K st else st) | _ \<Rightarrow> Ok st)"

text \<open>The return code, or \<open>None\<close> while it still waits.\<close>

definition aux_wait_esc :: "kernel \<Rightarrow> message list \<Rightarrow> video_test \<Rightarrow> (int option \<times> video_test) outcome" where
  "aux_wait_esc K msgs st =
     (case vt_keyboard (keyboard_subscribe K) st of
        (None, st) \<Rightarrow> Ok (Some 1, st)
      | (Some bit_no, st) \<Rightarrow>
          obind (message_loop (\<lambda>st. \<not> vt_escaped st) (wait_esc_handle K bit_no) msgs st) (\<lambda>(ended, st).
            if \<not> ended then Ok (None, st)
            else case vt_keyboard (keyboard_unsubscribe K) st of (r, st) \<Rightarrow> Ok (Some (if r = None then 1 else 0), st)))"

definition vt_set_mode :: "'x video_env \<Rightarrow> u16 \<Rightarrow> video_test \<Rightarrow> int \<times> video_test" where
  "vt_set_mode env mode st =
     (case lab_gpu_set_mode (v_kernel env) (v_regs env) mode (vt_trace st) of ((r, _), tr) \<Rightarrow> (r, st\<lparr>vt_trace := tr\<rparr>))"

definition vt_init_mem :: "'x video_env \<Rightarrow> u16 \<Rightarrow> video_test \<Rightarrow> (int \<times> video_test) outcome" where
  "vt_init_mem env mode st =
     obind (lab_gpu_init_mem_indexation (v_gpu env) mode (vt_gpu st)) (\<lambda>(r, g). Ok (r, st\<lparr>vt_gpu := g\<rparr>))"

text \<open>\<open>sleep(delay)\<close> only takes time.\<close>

definition video_test_init :: "'x video_env \<Rightarrow> u16 \<Rightarrow> u8 \<Rightarrow> video_test \<Rightarrow> int \<times> video_test" where
  "video_test_init env mode delay st =
     (case vt_set_mode env mode st of (r, st) \<Rightarrow>
        if r \<noteq> 0 then (1, st) else if \<not> v_vg_exit env then (1, st) else (0, st))"

text \<open>The three tests that draw once: memory, mode, the drawing, and waiting for escape.\<close>

definition draw_and_wait :: "'x video_env \<Rightarrow> u16 \<Rightarrow> (gpu \<Rightarrow> gpu outcome) \<Rightarrow> message list \<Rightarrow> video_test \<Rightarrow> (int option \<times> video_test) outcome" where
  "draw_and_wait env mode draw msgs st =
     obind (vt_init_mem env mode st) (\<lambda>(r, st).
       if r \<noteq> 0 then Ok (Some 1, st)
       else case vt_set_mode env mode st of (r, st) \<Rightarrow>
         if r \<noteq> 0 then Ok (Some 1, st)
         else obind (draw (vt_gpu st)) (\<lambda>g.
              obind (aux_wait_esc (v_kernel env) msgs (st\<lparr>vt_gpu := g\<rparr>)) (\<lambda>(r, st).
                case r of None \<Rightarrow> Ok (None, st)
                | Some c \<Rightarrow> Ok (Some (if c \<noteq> 0 \<or> \<not> v_vg_exit env then 1 else 0), st))))"

definition video_test_rectangle ::
  "'x video_env \<Rightarrow> message list \<Rightarrow> u16 \<Rightarrow> u16 \<Rightarrow> u16 \<Rightarrow> u16 \<Rightarrow> u16 \<Rightarrow> u32 \<Rightarrow> video_test \<Rightarrow> (int option \<times> video_test) outcome" where
  "video_test_rectangle env msgs mode x y width height color =
     draw_and_wait env mode (vg_draw_rectangle x y width height color) msgs"

definition video_test_pattern ::
  "'x video_env \<Rightarrow> message list \<Rightarrow> u16 \<Rightarrow> u8 \<Rightarrow> u32 \<Rightarrow> u8 \<Rightarrow> video_test \<Rightarrow> (int option \<times> video_test) outcome" where
  "video_test_pattern env msgs mode no_rectangles first step =
     draw_and_wait env mode (\<lambda>g. obind (aux_draw_pattern no_rectangles first step g) aux_vg_commit) msgs"

definition video_test_xpm :: "'x video_env \<Rightarrow> message list \<Rightarrow> 'x \<Rightarrow> u16 \<Rightarrow> u16 \<Rightarrow> video_test \<Rightarrow> (int option \<times> video_test) outcome" where
  "video_test_xpm env msgs xpm x y =
     draw_and_wait env 0x105 (\<lambda>g. obind (lab_aux_draw_xpm (v_load env) xpm x y g) aux_vg_commit) msgs"

text \<open>A frame of the two tests with a moving image: clear, draw, commit.\<close>

definition show_image :: "'x video_env \<Rightarrow> 'x \<Rightarrow> video_test \<Rightarrow> video_test outcome" where
  "show_image env xpm st =
     obind (lab_aux_clear (vt_gpu st)) (\<lambda>g.
     obind (lab_aux_draw_xpm (v_load env) xpm (vt_x st) (vt_y st) g) (\<lambda>g.
     obind (aux_vg_commit g) (\<lambda>g. Ok (st\<lparr>vt_gpu := g\<rparr>))))"

text \<open>\<open>counter % clocks_per_frame\<close> is undefined for zero clocks.\<close>

definition move_tick :: "'x video_env \<Rightarrow> 'x \<Rightarrow> u16 \<Rightarrow> video_test \<Rightarrow> video_test outcome" where
  "move_tick env xpm clocks_per_frame st =
     (let st = st\<lparr>vt_timer := timer_int_handler (vt_timer st)\<rparr> in
      if clocks_per_frame = 0 then Undefined
      else if v_counter env (vt_timer st) mod ucast clocks_per_frame = 0
      then show_image env xpm (st\<lparr>vt_x := vt_x st + 1, vt_y := vt_y st + 1\<rparr>)
      else Ok st)"

definition move_handle :: "'x video_env \<Rightarrow> 'x \<Rightarrow> u16 \<Rightarrow> u8 \<Rightarrow> u8 \<Rightarrow> message \<Rightarrow> video_test \<Rightarrow> video_test outcome" where
  "move_handle env xpm clocks_per_frame kbd_bit_no timer_bit_no msg st =
     (case msg of
        Interrupts irqs \<Rightarrow>
          let st = (if pending irqs kbd_bit_no then vt_kbc_ih (v_kernel env) st else st) in
          if pending irqs timer_bit_no then move_tick env xpm clocks_per_frame st else Ok st
      | _ \<Rightarrow> Ok st)"

definition subscribe_both :: "kernel \<Rightarrow> (video_test, u8 \<times> u8) io" where
  "subscribe_both K =
     andthen (vt_keyboard (keyboard_subscribe K)) (\<lambda>kbd_bit_no.
     andthen (vt_tick (timer_subscribe K)) (\<lambda>timer_bit_no. ret_ok (kbd_bit_no, timer_bit_no)))"

text \<open>The end of both tests: \<open>vg_exit\<close>, then the subscriptions are removed.\<close>

definition leave :: "'x video_env \<Rightarrow> bool \<times> video_test \<Rightarrow> (int option \<times> video_test) outcome" where
  "leave env = (\<lambda>(ended, st).
     if \<not> ended then Ok (None, st)
     else if \<not> v_vg_exit env then Ok (Some 1, st)
     else case andthen (vt_keyboard (keyboard_unsubscribe (v_kernel env))) (\<lambda>_. vt_tick (timer_unsubscribe (v_kernel env))) st of
            (r, st) \<Rightarrow> Ok (Some (if r = None then 1 else 0), st))"

text \<open>\<open>xf\<close>, \<open>yf\<close> and \<open>speed\<close> are not used.\<close>

definition video_test_move ::
  "'x video_env \<Rightarrow> message list \<Rightarrow> 'x \<Rightarrow> u16 \<Rightarrow> u16 \<Rightarrow> u16 \<Rightarrow> u16 \<Rightarrow> 16 word \<Rightarrow> u8 \<Rightarrow> video_test \<Rightarrow> (int option \<times> video_test) outcome" where
  "video_test_move env msgs xpm xi yi xf yf speed fr_rate st =
     (case subscribe_both (v_kernel env) st of
        (None, st) \<Rightarrow> Ok (Some 1, st)
      | (Some (kbd_bit_no, timer_bit_no), st) \<Rightarrow>
          let frequency = (ucast (v_sys_hz env) :: u16) in
          if fr_rate = 0 then Undefined
          else let clocks_per_frame = frequency div ucast fr_rate;
                   st = st\<lparr>vt_x := xi, vt_y := yi\<rparr>
               in case vt_set_mode env 0x105 st of (r, st) \<Rightarrow>
                    if r \<noteq> 0 then Ok (Some 1, st)
                    else obind (vt_init_mem env 0x105 st) (\<lambda>(r, st).
                         if r \<noteq> 0 then Ok (Some 1, st)
                         else obind (message_loop (\<lambda>st. \<not> vt_escaped st) (move_handle env xpm clocks_per_frame kbd_bit_no timer_bit_no) msgs st)
                                (leave env)))"

text \<open>The held keys move the image when the cooldown is over, whatever message has been received.\<close>

definition move_by_keys :: "int \<Rightarrow> video_test \<Rightarrow> video_test" where
  "move_by_keys cooldown st =
     (if elapsed st = 0
      then let st = (if w_key_state st then st\<lparr>vt_y := vt_y st - 10, elapsed := cooldown div move_speed (move_state st)\<rparr> else st);
               st = (if a_key_state st then st\<lparr>vt_x := vt_x st - 10, elapsed := cooldown div move_speed (move_state st)\<rparr> else st);
               st = (if s_key_state st then st\<lparr>vt_y := vt_y st + 10, elapsed := cooldown div move_speed (move_state st)\<rparr> else st)
           in if d_key_state st then st\<lparr>vt_x := vt_x st + 10, elapsed := cooldown div move_speed (move_state st)\<rparr> else st
      else st)"

definition note_key :: "video_test \<Rightarrow> video_test" where
  "note_key st =
     (let c = scan_code (vt_kbd st);
          st = (if c = SHIFT_MAKECODE then st\<lparr>move_state := RUNNING\<rparr> else st);
          st = (if c = SHIFT_BREAKCODE then st\<lparr>move_state := WALKING\<rparr> else st);
          st = (if c = W_MAKECODE then st\<lparr>w_key_state := True\<rparr> else st);
          st = (if c = W_BREAKCODE then st\<lparr>w_key_state := False\<rparr> else st);
          st = (if c = A_MAKECODE then st\<lparr>a_key_state := True\<rparr> else st);
          st = (if c = A_BREAKCODE then st\<lparr>a_key_state := False\<rparr> else st);
          st = (if c = S_MAKECODE then st\<lparr>s_key_state := True\<rparr> else st);
          st = (if c = S_BREAKCODE then st\<lparr>s_key_state := False\<rparr> else st);
          st = (if c = D_MAKECODE then st\<lparr>d_key_state := True\<rparr> else st)
      in if c = D_BREAKCODE then st\<lparr>d_key_state := False\<rparr> else st)"

definition controller_tick :: "'x video_env \<Rightarrow> u16 \<Rightarrow> video_test \<Rightarrow> video_test outcome" where
  "controller_tick env clocks_per_frame st =
     (let st = st\<lparr>vt_timer := timer_int_handler (vt_timer st)\<rparr>;
          st = (if elapsed st \<noteq> 0 then st\<lparr>elapsed := elapsed st - 1\<rparr> else st)
      in if clocks_per_frame = 0 then Undefined
         else if v_counter env (vt_timer st) mod ucast clocks_per_frame = 0 then show_image env (v_penguin env) st
         else Ok st)"

text \<open>\<open>kbd_ih_valid\<close> is never reset here.\<close>

definition controller_handle :: "'x video_env \<Rightarrow> int \<Rightarrow> u16 \<Rightarrow> u8 \<Rightarrow> u8 \<Rightarrow> message \<Rightarrow> video_test \<Rightarrow> video_test outcome" where
  "controller_handle env cooldown clocks_per_frame kbd_bit_no timer_bit_no msg st =
     (case msg of
        Receive_failed \<Rightarrow> Ok st
      | Interrupts irqs \<Rightarrow>
          let st = move_by_keys cooldown st;
              st = (if pending irqs kbd_bit_no
                    then let st = vt_kbc_ih (v_kernel env) st in if kbd_ih_valid (vt_kbd st) then note_key st else st
                    else st)
          in if pending irqs timer_bit_no then controller_tick env clocks_per_frame st else Ok st
      | _ \<Rightarrow> Ok (move_by_keys cooldown st))"

definition video_test_controller :: "'x video_env \<Rightarrow> message list \<Rightarrow> video_test \<Rightarrow> (int option \<times> video_test) outcome" where
  "video_test_controller env msgs st =
     (case subscribe_both (v_kernel env) st of
        (None, st) \<Rightarrow> Ok (Some 1, st)
      | (Some (kbd_bit_no, timer_bit_no), st) \<Rightarrow>
          case vt_set_mode env 0x105 st of (r, st) \<Rightarrow>
            if r \<noteq> 0 then Ok (Some 1, st)
            else obind (vt_init_mem env 0x105 st) (\<lambda>(r, st).
                 if r \<noteq> 0 then Ok (Some 1, st)
                 else let frequency = (ucast (v_sys_hz env) :: u16);
                          clocks_per_frame = frequency div 30;
                          cooldown = uint frequency;
                          st = st\<lparr>vt_x := 100, vt_y := 100, elapsed := cooldown, move_state := WALKING,
                                  w_key_state := False, a_key_state := False, s_key_state := False, d_key_state := False\<rparr>
                      in obind (message_loop (\<lambda>st. \<not> vt_escaped st)
                                  (controller_handle env cooldown clocks_per_frame kbd_bit_no timer_bit_no) msgs st)
                           (leave env)))"

section \<open>Frames\<close>

text \<open>What is relied on of \<open>xpm_load\<close>: it returns the bytes of the image.\<close>

definition loaded :: "u8 list option \<times> xpm_image \<Rightarrow> bool" where
  "loaded r \<longleftrightarrow> (case r of (Some cs, im) \<Rightarrow> uint (img_width im) * uint (img_height im) \<le> int (length cs) | _ \<Rightarrow> False)"

lemma draw_colors_any:
  assumes ok: "indexed_ok g" and len: "uint w * uint h \<le> int (length colors)"
  shows "\<exists>g'. draw_colors colors w h x y g = Ok g' \<and> redrawn g g'"
  unfolding draw_colors_def
proof (rule for_loop_invariant [where I = "\<lambda>_. redrawn g"])
  fix j g1 assume j: "0 \<le> j" "j < uint h" and g1: "redrawn g g1"
  show "\<exists>g2. for_loop 0 (uint w) (\<lambda>i g. obind (aread_int colors (j * uint w + i)) (\<lambda>c.
      gpu_draw_pixel (x + word_of_int i) (y + word_of_int j) (ucast c) g)) g1 = Ok g2 \<and> redrawn g g2"
  proof (rule for_loop_invariant [where I = "\<lambda>_. redrawn g", OF g1])
    fix i g2 assume i: "0 \<le> i" "i < uint w" and g2: "redrawn g g2"
    have "aread_int colors (j * uint w + i) = Ok (colors ! nat (j * uint w + i))"
      using cell_bound [of i "uint w" j "uint h"] i j len by (simp add: aread_int_def aread_def nat_less_iff)
    moreover have "\<exists>g3. gpu_draw_pixel (x + word_of_int i) (y + word_of_int j) c g2 = Ok g3 \<and> redrawn g g3" for c
      using draw_pixel_dot [of g2 "x + word_of_int i" "y + word_of_int j" c] redrawn_indexed_ok [OF g2] ok
        redrawn_trans [OF g2] painted_redrawn by (auto simp: lab_gpu_draw_pixel_same)
    ultimately show "\<exists>g3. obind (aread_int colors (j * uint w + i)) (\<lambda>c.
        gpu_draw_pixel (x + word_of_int i) (y + word_of_int j) (ucast c) g2) = Ok g3 \<and> redrawn g g3" by simp
  qed simp
qed simp_all

text \<open>The image over a black background, at the position of the test, unless it crosses column or row 65536.\<close>

definition image_shown :: "u8 list option \<times> xpm_image \<Rightarrow> video_test \<Rightarrow> bool" where
  "image_shown r st \<longleftrightarrow> (case r of (cs, im) \<Rightarrow>
     uint (vt_x st) + uint (img_width im) \<le> 65536 \<longrightarrow> uint (vt_y st) + uint (img_height im) \<le> 65536 \<longrightarrow>
     (\<forall>a b. on_screen (vt_gpu st) a b \<longrightarrow> shown (vt_gpu st) a b =
        (let i = a - uint (vt_x st); j = b - uint (vt_y st) in
         if 0 \<le> i \<and> i < uint (img_width im) \<and> 0 \<le> j \<and> j < uint (img_height im)
         then the cs ! nat (j * uint (img_width im) + i) else 0)))"

lemma commit_shown:
  assumes "indexed_ok g"
  shows "\<exists>g'. aux_vg_commit g = Ok g' \<and> indexed_ok g' \<and> gpu_res_info g' = gpu_res_info g \<and> (\<forall>a b. shown g' a b = pixel g a b)"
  using assms gpu_buffer_commit_ok [of g]
  by (auto simp: aux_vg_commit_same indexed_ok_def shown_def pixel_def) (simp add: gpu_ok_def)

lemma show_image_ok:
  assumes g: "indexed_ok (vt_gpu st)" and load: "loaded (v_load env xpm)"
  shows "\<exists>g'. show_image env xpm st = Ok (st\<lparr>vt_gpu := g'\<rparr>) \<and> indexed_ok g' \<and> image_shown (v_load env xpm) (st\<lparr>vt_gpu := g'\<rparr>)"
proof -
  let ?g = "vt_gpu st"
  obtain cs im where im: "v_load env xpm = (Some cs, im)" "uint (img_width im) * uint (img_height im) \<le> int (length cs)"
    using load by (auto simp: loaded_def split: option.splits prod.splits)
  let ?w = "uint (img_width im)" and ?h = "uint (img_height im)" and ?x = "uint (vt_x st)" and ?y = "uint (vt_y st)"
  obtain g1 where g1: "lab_aux_clear ?g = Ok g1" "painted ?g (\<lambda>a b. Some 0) g1" using lab_aux_clear_ok [OF g] by blast
  have ok1: "indexed_ok g1" by (rule screen.painted_ready [OF g1(2) g])
  obtain g2 where g2: "draw_colors cs (img_width im) (img_height im) (vt_x st) (vt_y st) g1 = Ok g2" "redrawn g1 g2"
    using draw_colors_any [OF ok1 im(2)] by blast
  have ok2: "indexed_ok g2" using redrawn_indexed_ok [OF g2(2)] ok1 by simp
  obtain g3 where g3: "aux_vg_commit g2 = Ok g3" "indexed_ok g3" "gpu_res_info g3 = gpu_res_info g2" "\<And>a b. shown g3 a b = pixel g2 a b"
    using commit_shown [OF ok2] by blast
  have res: "gpu_res_info g3 = gpu_res_info ?g"
    using g3(3) redrawn_fields(1) [OF g2(2)] redrawn_fields(1) [OF painted_redrawn [OF g1(2)]] by simp
  have "pixel g2 a b = (if 0 \<le> a - ?x \<and> a - ?x < ?w \<and> 0 \<le> b - ?y \<and> b - ?y < ?h then cs ! nat ((b - ?y) * ?w + (a - ?x)) else 0)"
    if on: "on_screen ?g a b" and fit: "?x + ?w \<le> 65536" "?y + ?h \<le> 65536" for a b
  proof -
    have on1: "on_screen g1 a b" using on redrawn_fields(1) [OF painted_redrawn [OF g1(2)]] by (simp add: on_screen_def)
    have "painted g1 (box ?x ?y ?w ?h (\<lambda>a b. Some (cs ! nat (b * ?w + a)))) g2"
      using draw_colors_painted [OF ok1 im(2) fit] g2(1) by auto
    then have "pixel g2 a b = (case box ?x ?y ?w ?h (\<lambda>a b. Some (cs ! nat (b * ?w + a))) a b of None \<Rightarrow> pixel g1 a b | Some c \<Rightarrow> c)"
      using on1 by (simp add: painted_def)
    moreover have "pixel g1 a b = 0" using g1(2) on by (simp add: painted_def)
    ultimately show ?thesis by (auto simp: box_def)
  qed
  then have "image_shown (v_load env xpm) (st\<lparr>vt_gpu := g3\<rparr>)"
    using res g3(4) im(1) by (auto simp: image_shown_def on_screen_def Let_def)
  moreover have "show_image env xpm st = Ok (st\<lparr>vt_gpu := g3\<rparr>)"
    using g1(1) g2(1) g3(1) im(1) by (simp add: show_image_def lab_aux_draw_xpm_same aux_draw_xpm_def)
  ultimately show ?thesis using g3(2) by blast
qed

section \<open>The loops\<close>

interpretation wait_esc_msgs: message_driven "\<lambda>st. \<not> vt_escaped st" "wait_esc_handle K bit_no" "\<lambda>st. vt_gpu st = g" for K bit_no g
  by unfold_locales (auto simp: wait_esc_handle_def vt_kbc_ih_def split: message.splits prod.splits)

lemma aux_wait_esc_gpu: "\<exists>r st'. aux_wait_esc K msgs st = Ok (r, st') \<and> vt_gpu st' = vt_gpu st"
proof (cases "vt_keyboard (keyboard_subscribe K) st")
  case (Pair b st1)
  then have 1: "vt_gpu st1 = vt_gpu st" by (auto simp: vt_keyboard_def split: prod.splits)
  have un: "vt_gpu (snd (vt_keyboard (keyboard_unsubscribe K) s)) = vt_gpu s" for s
    by (auto simp: vt_keyboard_def split: prod.splits)
  show ?thesis
  proof (cases b)
    case None
    with Pair 1 show ?thesis by (simp add: aux_wait_esc_def)
  next
    case (Some bit_no)
    obtain ended st2 where "message_loop (\<lambda>st. \<not> vt_escaped st) (wait_esc_handle K bit_no) msgs st1 = Ok (ended, st2)" "vt_gpu st2 = vt_gpu st1"
      using wait_esc_msgs.loop_ok [of st1 "vt_gpu st1" K bit_no msgs] by auto
    with Pair Some 1 un [of st2] show ?thesis
      by (cases "vt_keyboard (keyboard_unsubscribe K) st2") (simp add: aux_wait_esc_def)
  qed
qed

text \<open>The rectangle test shows nothing: whatever rectangle is asked for, when the test waits for escape or has returned the screen holds what it held when
  its memory was mapped, because the back buffer is never committed.\<close>

theorem video_test_rectangle_not_shown:
  assumes "lab_gpu_init_mem_indexation (v_gpu env) mode (vt_gpu st) = Ok (r1, g1)" "indexed_ok g1"
  shows "\<exists>r st'. video_test_rectangle env msgs mode x y width height color st = Ok (r, st') \<and> video_mem (vt_gpu st') = video_mem g1"
proof -
  let ?st = "st\<lparr>vt_gpu := g1\<rparr>"
  obtain r2 st2 where set: "vt_set_mode env mode ?st = (r2, st2)" by (cases "vt_set_mode env mode ?st")
  then have g2: "vt_gpu st2 = g1" by (auto simp: vt_set_mode_def split: prod.splits)
  obtain g3 where g3: "vg_draw_rectangle x y width height color g1 = Ok g3" "redrawn g1 g3"
    using rectangle_painted [OF assms(2)] painted_redrawn by blast
  obtain r4 st4 where "aux_wait_esc (v_kernel env) msgs (st2\<lparr>vt_gpu := g3\<rparr>) = Ok (r4, st4)" "vt_gpu st4 = g3"
    using aux_wait_esc_gpu [of "v_kernel env" msgs "st2\<lparr>vt_gpu := g3\<rparr>"] by auto
  then show ?thesis
    using assms(1) set g2 g3(1) redrawn_fields(4) [OF g3(2)]
    by (cases r4) (auto simp: video_test_rectangle_def draw_and_wait_def vt_init_mem_def)
qed

text \<open>Everything the drawing of a frame needs.\<close>

definition ready_to_draw :: "'x video_env \<Rightarrow> 'x \<Rightarrow> video_test \<Rightarrow> bool" where
  "ready_to_draw env xpm st \<longleftrightarrow> indexed_ok (vt_gpu st) \<and> loaded (v_load env xpm)"

lemma ready_to_draw_simps [simp]:
  "ready_to_draw env xpm (vt_kbc_ih K st) = ready_to_draw env xpm st"
  "ready_to_draw env xpm (note_key st) = ready_to_draw env xpm st"
  "ready_to_draw env xpm (move_by_keys cooldown st) = ready_to_draw env xpm st"
  "ready_to_draw env xpm (st\<lparr>vt_timer := d\<rparr>) = ready_to_draw env xpm st"
  "ready_to_draw env xpm (st\<lparr>elapsed := e\<rparr>) = ready_to_draw env xpm st"
  "ready_to_draw env xpm (st\<lparr>vt_x := x\<rparr>) = ready_to_draw env xpm st"
  "ready_to_draw env xpm (st\<lparr>vt_y := y\<rparr>) = ready_to_draw env xpm st"
  by (simp_all add: ready_to_draw_def vt_kbc_ih_def note_key_def move_by_keys_def Let_def split: prod.splits)

lemma show_image_ready:
  assumes "ready_to_draw env xpm st"
  shows "\<exists>st'. show_image env xpm st = Ok st' \<and> ready_to_draw env xpm st'"
  using assms show_image_ok [of st env xpm] by (auto simp: ready_to_draw_def)

lemma controller_tick_ok:
  assumes "clocks_per_frame \<noteq> 0" "ready_to_draw env (v_penguin env) st"
  shows "\<exists>st'. controller_tick env clocks_per_frame st = Ok st' \<and> ready_to_draw env (v_penguin env) st'"
  unfolding controller_tick_def Let_def using assms by (auto intro!: show_image_ready)

interpretation controller_msgs: message_driven "\<lambda>st. \<not> vt_escaped st"
    "controller_handle env cooldown clocks_per_frame kbd_bit_no timer_bit_no"
    "\<lambda>st. clocks_per_frame \<noteq> 0 \<and> ready_to_draw env (v_penguin env) st" for env cooldown clocks_per_frame kbd_bit_no timer_bit_no
proof
  fix st msg
  assume st: "clocks_per_frame \<noteq> 0 \<and> ready_to_draw env (v_penguin env) st"
  let ?ok = "\<lambda>r. \<exists>st'. r = Ok st' \<and> ready_to_draw env (v_penguin env) st'"
  have tick: "?ok (controller_tick env clocks_per_frame s)" if "ready_to_draw env (v_penguin env) s" for s
    using controller_tick_ok st that by blast
  have "?ok (controller_handle env cooldown clocks_per_frame kbd_bit_no timer_bit_no msg st)"
  proof (cases msg)
    case (Interrupts irqs)
    let ?st1 = "move_by_keys cooldown st"
    let ?st2 = "if pending irqs kbd_bit_no then let st = vt_kbc_ih (v_kernel env) ?st1 in if kbd_ih_valid (vt_kbd st) then note_key st else st else ?st1"
    have "ready_to_draw env (v_penguin env) ?st2" using st by (simp add: Let_def)
    from tick [OF this] this show ?thesis
      unfolding controller_handle_def Interrupts message.case Let_def by (cases "pending irqs timer_bit_no") simp_all
  qed (use st in \<open>simp_all add: controller_handle_def\<close>)
  then show "\<exists>st'. controller_handle env cooldown clocks_per_frame kbd_bit_no timer_bit_no msg st = Ok st' \<and>
      clocks_per_frame \<noteq> 0 \<and> ready_to_draw env (v_penguin env) st'" using st by simp
qed

text \<open>An environment for mode 0x105: blocks of the right size, a screen of one byte per pixel that fits an \<open>int\<close>, a loaded image, and a timer of at
  least the frame rate.\<close>

definition video_env_ok :: "'x video_env \<Rightarrow> 'x \<Rightarrow> u16 \<Rightarrow> bool" where
  "video_env_ok env xpm fr_rate \<longleftrightarrow> blocks_ok (v_gpu env) \<and> loaded (v_load env xpm) \<and> fr_rate \<noteq> 0 \<and> fr_rate \<le> ucast (v_sys_hz env) \<and>
     (case vbe_get_mode_info (v_gpu env) 0x105 of None \<Rightarrow> True
      | Some vmi \<Rightarrow> 0 < BitsPerPixel vmi \<and> BitsPerPixel vmi \<le> 8 \<and> uint (XResolution vmi) * uint (YResolution vmi) < 2 ^ 31)"

lemma vt_init_mem_ok:
  assumes "video_env_ok env xpm fr_rate"
  shows "case vt_init_mem env 0x105 st of
      Ok (r, st') \<Rightarrow> (\<exists>g. st' = st\<lparr>vt_gpu := g\<rparr>) \<and> (r = 0 \<longrightarrow> ready_to_draw env xpm st')
    | Panicked \<Rightarrow> True
    | _ \<Rightarrow> False"
proof (cases "vbe_get_mode_info (v_gpu env) 0x105")
  case None
  then show ?thesis
    by (auto simp: vt_init_mem_def lab_gpu_init_mem_indexation_def gpu_init_mem_indexation_def intro: exI [of _ "vt_gpu st"])
next
  case (Some vmi)
  with assms have vmi: "0 < BitsPerPixel vmi" "BitsPerPixel vmi \<le> 8" "BitsPerPixel vmi \<le> 32" "uint (XResolution vmi) * uint (YResolution vmi) < 2 ^ 31"
      and blocks: "blocks_ok (v_gpu env)"
    by (auto simp: video_env_ok_def word_le_def)
  have "0 < uint (BitsPerPixel vmi)" "uint (BitsPerPixel vmi) \<le> 8" using vmi(1,2) by (simp_all add: word_less_def word_le_def)
  then have "(uint (BitsPerPixel vmi) + 7) div 8 = 1" by linarith
  then show ?thesis
    using gpu_init_ok [OF blocks Some vmi(1,3), of "vt_gpu st"] vmi assms
    by (auto simp: vt_init_mem_def lab_gpu_init_mem_indexation_def ready_to_draw_def video_env_ok_def split: outcome.splits)
qed

text \<open>C35: the controller test never does anything undefined: whatever the messages and the keys, with the image moved off the screen in any direction and its
  coordinates wrapping around, the test waits for more messages, returns, or panicked while mapping the screen.\<close>

theorem video_test_controller_safe:
  assumes "video_env_ok env (v_penguin env) 30"
  shows "case video_test_controller env msgs st of Ok (r, st') \<Rightarrow> True | Panicked \<Rightarrow> True | _ \<Rightarrow> False"
proof -
  let ?freq = "ucast (v_sys_hz env) :: u16"
  have "30 \<le> ?freq" using assms by (simp add: video_env_ok_def)
  then have "30 \<le> uint ?freq" by (simp add: word_le_def)
  then have "uint (?freq div 30) \<noteq> 0" by (simp add: uint_div)
  then have clocks: "?freq div 30 \<noteq> 0" by auto
  obtain b st1 where sub: "subscribe_both (v_kernel env) st = (b, st1)" by (cases "subscribe_both (v_kernel env) st")
  show ?thesis
  proof (cases b)
    case None
    with sub show ?thesis by (simp add: video_test_controller_def)
  next
    case (Some bits)
    obtain kb tb where bits: "bits = (kb, tb)" by (cases bits)
    obtain r2 st2 where mode: "vt_set_mode env 0x105 st1 = (r2, st2)" by (cases "vt_set_mode env 0x105 st1")
    show ?thesis
    proof (cases "r2 = 0")
      case False
      with sub Some bits mode show ?thesis by (simp add: video_test_controller_def)
    next
      case r2: True
      note init = vt_init_mem_ok [OF assms, of st2]
      show ?thesis
      proof (cases "vt_init_mem env 0x105 st2")
        case (Ok p)
        obtain r3 st3 where p: "p = (r3, st3)" by (cases p)
        let ?st = "st3\<lparr>vt_x := 100, vt_y := 100, elapsed := uint ?freq, move_state := WALKING,
            w_key_state := False, a_key_state := False, s_key_state := False, d_key_state := False\<rparr>"
        show ?thesis
        proof (cases "r3 = 0")
          case True
          then have "ready_to_draw env (v_penguin env) ?st" using init Ok p by (simp add: ready_to_draw_def)
          then obtain ended st4 where loop: "message_loop (\<lambda>st. \<not> vt_escaped st) (controller_handle env (uint ?freq) (?freq div 30) kb tb) msgs ?st = Ok (ended, st4)"
            using controller_msgs.loop_ok [of "?freq div 30" env ?st "uint ?freq" kb tb msgs] clocks by auto
          have "\<exists>r st5. leave env (ended, st4) = Ok (r, st5)" by (auto simp: leave_def split: prod.splits)
          with loop sub Some bits mode r2 Ok p True show ?thesis by (auto simp: video_test_controller_def Let_def)
        qed (use sub Some bits mode r2 Ok p in \<open>simp add: video_test_controller_def\<close>)
      qed (use init sub Some bits mode r2 in \<open>simp_all add: video_test_controller_def\<close>)
    qed
  qed
qed

section \<open>The moving image\<close>

lemma image_shown_timer [simp]: "image_shown r (st\<lparr>vt_timer := d\<rparr>) = image_shown r st"
  by (simp add: image_shown_def)

lemma move_loop:
  fixes timer_bit_no :: u8
  assumes ticks: "tick_counter (v_counter env)" and clocks: "clocks_per_frame \<noteq> 0"
  defines "frames \<equiv> \<lambda>st msgs. beats (unat clocks_per_frame) (unat (v_counter env (vt_timer st))) (notifications timer_bit_no msgs)"
  shows "unat (v_counter env (vt_timer st)) + notifications timer_bit_no msgs < 2 ^ 32 \<Longrightarrow> list_all (\<lambda>msg. \<not> notifies kbd_bit_no msg) msgs \<Longrightarrow>
    \<not> vt_escaped st \<Longrightarrow> ready_to_draw env xpm st \<Longrightarrow>
    \<exists>st'. message_loop (\<lambda>st. \<not> vt_escaped st) (move_handle env xpm clocks_per_frame kbd_bit_no timer_bit_no) msgs st = Ok (False, st') \<and>
      vt_x st' = vt_x st + of_nat (frames st msgs) \<and> vt_y st' = vt_y st + of_nat (frames st msgs) \<and>
      (image_shown (v_load env xpm) st \<or> 0 < frames st msgs \<longrightarrow> image_shown (v_load env xpm) st')"
proof (induction msgs arbitrary: st)
  case Nil
  then show ?case by (simp add: frames_def)
next
  case (Cons msg msgs)
  show ?case
  proof (cases "notifies timer_bit_no msg")
    case False
    then have "move_handle env xpm clocks_per_frame kbd_bit_no timer_bit_no msg st = Ok st"
      using Cons.prems(2) by (auto simp: move_handle_def Let_def split: message.splits)
    with False Cons show ?thesis by (simp add: frames_def)
  next
    case True
    let ?d = "timer_int_handler (vt_timer st)"
    let ?s = "st\<lparr>vt_timer := ?d\<rparr>"
    let ?beat = "unat (v_counter env ?d) mod unat clocks_per_frame = 0"
    have c: "unat (v_counter env ?d) = unat (v_counter env (vt_timer st)) + 1"
      using Cons.prems(1) True by (intro tick_counter.tick_unat [OF ticks]) simp
    have beat: "v_counter env ?d mod ucast clocks_per_frame = 0 \<longleftrightarrow> ?beat"
      by (simp add: unat_mod unat_widen flip: unat_eq_0)
    have handle: "move_handle env xpm clocks_per_frame kbd_bit_no timer_bit_no msg st =
        (if ?beat then show_image env xpm (?s\<lparr>vt_x := vt_x st + 1, vt_y := vt_y st + 1\<rparr>) else Ok ?s)"
      using Cons.prems(2) True clocks beat by (auto simp: move_handle_def move_tick_def Let_def split: message.splits)
    have frames: "frames st (msg # msgs) = (if ?beat then 1 else 0) + frames ?s msgs"
      using True by (simp add: frames_def beats_Suc c)
    obtain st1 where st1: "move_handle env xpm clocks_per_frame kbd_bit_no timer_bit_no msg st = Ok st1" "ready_to_draw env xpm st1"
        "vt_timer st1 = ?d" "\<not> vt_escaped st1"
        "vt_x st1 = vt_x st + (if ?beat then 1 else 0)" "vt_y st1 = vt_y st + (if ?beat then 1 else 0)"
        "image_shown (v_load env xpm) st \<or> ?beat \<longrightarrow> image_shown (v_load env xpm) st1"
    proof (cases ?beat)
      case True
      have "ready_to_draw env xpm (?s\<lparr>vt_x := vt_x st + 1, vt_y := vt_y st + 1\<rparr>)" using Cons.prems(4) by simp
      then show ?thesis
        using handle True show_image_ok [of "?s\<lparr>vt_x := vt_x st + 1, vt_y := vt_y st + 1\<rparr>" env xpm] Cons.prems(3) that
        by (auto simp: ready_to_draw_def vt_escaped_def)
    next
      case False
      then show ?thesis using handle Cons.prems(3,4) by (intro that [of ?s]) (simp_all add: vt_escaped_def)
    qed
    have fr: "frames st1 msgs = frames ?s msgs" using st1(3) by (simp add: frames_def)
    have "unat (v_counter env (vt_timer st1)) + notifications timer_bit_no msgs < 2 ^ 32"
      using Cons.prems(1) True by (simp add: st1(3) c)
    from Cons.IH [OF this _ st1(4,2)] Cons.prems(2) obtain st' where
      st': "message_loop (\<lambda>st. \<not> vt_escaped st) (move_handle env xpm clocks_per_frame kbd_bit_no timer_bit_no) msgs st1 = Ok (False, st')"
        "vt_x st' = vt_x st1 + of_nat (frames ?s msgs)" "vt_y st' = vt_y st1 + of_nat (frames ?s msgs)"
        "image_shown (v_load env xpm) st1 \<or> 0 < frames ?s msgs \<longrightarrow> image_shown (v_load env xpm) st'"
      unfolding fr by auto
    show ?thesis
      by (rule exI [of _ st']) (use st1 st' Cons.prems(3) in \<open>auto simp: frames\<close>)
  qed
qed

text \<open>The moving image ignores its target: as long as no key is pressed, after any messages the image has moved one pixel down and one to the right for every
  frame, that is for every multiple of the clocks per frame among the ticks counted, whatever the final position and the speed asked for, and once there
  was a frame the screen shows it there on black; the test goes on waiting.\<close>

theorem video_test_move_diagonal:
  assumes "\<forall>d. v_counter env (timer_int_handler d) = v_counter env d + 1"
    and "subscribe_both (v_kernel env) st = (Some (kbd_bit_no, timer_bit_no), st1)" "fr_rate \<noteq> 0" "ucast fr_rate \<le> (ucast (v_sys_hz env) :: u16)"
    and "vt_set_mode env 0x105 (st1\<lparr>vt_x := xi, vt_y := yi\<rparr>) = (0, st2)"
    and "vt_init_mem env 0x105 st2 = Ok (0, st3)" "ready_to_draw env xpm st3" "\<not> vt_escaped st3"
    and "\<forall>msg \<in> set msgs. \<not> notifies kbd_bit_no msg"
    and "unat (v_counter env (vt_timer st3)) + notifications timer_bit_no msgs < 2 ^ 32"
  defines "frames \<equiv> beats (unat ((ucast (v_sys_hz env) :: u16) div ucast fr_rate)) (unat (v_counter env (vt_timer st3))) (notifications timer_bit_no msgs)"
  shows "\<exists>st'. video_test_move env msgs xpm xi yi xf yf speed fr_rate st = Ok (None, st') \<and>
    vt_x st' = xi + of_nat frames \<and> vt_y st' = yi + of_nat frames \<and> (0 < frames \<longrightarrow> image_shown (v_load env xpm) st')"
proof -
  let ?clocks = "(ucast (v_sys_hz env) :: u16) div ucast fr_rate"
  have ticks: "tick_counter (v_counter env)" using assms(1) by unfold_locales simp
  have rate: "unat (ucast fr_rate :: u16) = unat fr_rate" using unat_byte_less [of fr_rate] by (simp add: unsigned_ucast_eq take_bit_nat_eq_self)
  have "0 < unat fr_rate" using assms(3) by (simp add: unat_gt_0)
  moreover have "unat fr_rate \<le> unat (ucast (v_sys_hz env) :: u16)" using assms(4) by (simp add: word_le_nat_alt rate)
  ultimately have "0 < unat ?clocks" by (simp add: unat_div rate div_greater_zero_iff)
  then have clocks: "?clocks \<noteq> 0" by (auto simp: unat_gt_0)
  have pos: "vt_x st3 = xi" "vt_y st3 = yi"
    using assms(5,6) by (auto simp: vt_set_mode_def vt_init_mem_def split: prod.splits)
  obtain st' where "message_loop (\<lambda>st. \<not> vt_escaped st) (move_handle env xpm ?clocks kbd_bit_no timer_bit_no) msgs st3 = Ok (False, st')"
      "vt_x st' = xi + of_nat frames" "vt_y st' = yi + of_nat frames" "0 < frames \<longrightarrow> image_shown (v_load env xpm) st'"
    using move_loop [OF ticks clocks assms(10) _ assms(8,7), of kbd_bit_no] assms(9) unfolding frames_def pos by (auto simp: list_all_iff)
  then show ?thesis using assms(2,3,5,6)
    by (intro exI [of _ st']) (simp add: video_test_move_def Let_def leave_def)
qed

section \<open>A small machine\<close>

definition demo_video :: "unit video_env" where
  "demo_video = \<lparr>v_kernel = plain_machine, v_gpu = tiny_env, v_regs = \<lambda>_. (0, 0), v_vg_exit = True, v_sys_hz = 60,
     v_counter = timer_counter, v_load = \<lambda>_. (Some [1, 2, 3, 4], tiny_img), v_penguin = ()\<rparr>"

definition video_test_start :: video_test where
  "video_test_start = \<lparr>vt_kbd = keyboard_drv_start, vt_timer = timer_drv_start, vt_trace = [], vt_gpu = gpu_start 100, vt_x = 0, vt_y = 0,
     elapsed = 0, move_state = WALKING, w_key_state = False, a_key_state = False, s_key_state = False, d_key_state = False\<rparr>"

lemma demo_video_ok: "fr_rate \<noteq> 0 \<Longrightarrow> fr_rate \<le> 60 \<Longrightarrow> video_env_ok demo_video () fr_rate"
  by (simp add: video_env_ok_def demo_video_def tiny_env_def tiny_vmi_def blocks_ok_def loaded_def tiny_img_def word_less_def word_le_def)

theorem video_test_controller_safe_witness:
  "case video_test_controller demo_video [Interrupts 1, Interrupts 3] video_test_start of Ok (r, st') \<Rightarrow> True | Panicked \<Rightarrow> True | _ \<Rightarrow> False"
  by (rule video_test_controller_safe) (simp add: demo_video_ok [unfolded demo_video_def] demo_video_def)

lemma demo_gpu_init: "\<exists>g. lab_gpu_init_mem_indexation (v_gpu demo_video) 0x105 g0 = Ok (0, g) \<and> indexed_ok g"
proof -
  have "blocks_ok tiny_env" "vbe_get_mode_info tiny_env 0x105 = Some tiny_vmi" "0 < BitsPerPixel tiny_vmi" "BitsPerPixel tiny_vmi \<le> 32"
    by (simp_all add: tiny_env_def tiny_vmi_def blocks_ok_def)
  from gpu_init_exact [OF this, of g0] show ?thesis
    by (simp add: lab_gpu_init_mem_indexation_def demo_video_def mode_bytes_def memory_refused_def tiny_env_def tiny_vmi_def)
      (auto simp: uint_word_of_int_eq take_bit_eq_mod)
qed

lemma demo_video_init: "\<exists>g. vt_init_mem demo_video 0x105 st = Ok (0, st\<lparr>vt_gpu := g\<rparr>) \<and> indexed_ok g"
  using demo_gpu_init [of "vt_gpu st"] by (auto simp: vt_init_mem_def)

theorem video_test_rectangle_not_shown_witness:
  "\<exists>g1 r st'. lab_gpu_init_mem_indexation (v_gpu demo_video) 0x105 (gpu_start 100) = Ok (0, g1) \<and>
     video_test_rectangle demo_video [Interrupts 2] 0x105 0 0 4 3 7 video_test_start = Ok (r, st') \<and> video_mem (vt_gpu st') = video_mem g1"
proof -
  obtain g1 where g1: "lab_gpu_init_mem_indexation (v_gpu demo_video) 0x105 (vt_gpu video_test_start) = Ok (0, g1)" "indexed_ok g1"
    using demo_gpu_init by blast
  from video_test_rectangle_not_shown [OF g1, of "[Interrupts 2]" 0 0 4 3 7] g1(1) show ?thesis
    by (auto simp: video_test_start_def)
qed

theorem video_test_move_diagonal_witness:
  "\<exists>st'. video_test_move demo_video (replicate 10 (Interrupts 1)) () 0 1 100 200 5 30 video_test_start = Ok (None, st') \<and>
     vt_x st' = 5 \<and> vt_y st' = 6"
proof -
  let ?tr = "[Irqset TIMER0_IRQ IRQ_REENABLE 0 (Some 0), Irqset KBC_IRQ_KBD (IRQ_REENABLE OR IRQ_EXCLUSIVE) 1 (Some 1)]"
  let ?st1 = "video_test_start\<lparr>vt_trace := ?tr\<rparr>"
  let ?st2 = "?st1\<lparr>vt_x := 0, vt_y := 1, vt_trace := Int86 0x4F02 (BIT 14 OR 0x105) 0x10 True # ?tr\<rparr>"
  obtain g where g: "vt_init_mem demo_video 0x105 ?st2 = Ok (0, ?st2\<lparr>vt_gpu := g\<rparr>)" "indexed_ok g" using demo_video_init by blast
  have count: "v_counter demo_video (timer_int_handler d) = v_counter demo_video d + 1" for d
    using driver_ticks.tick by (simp add: demo_video_def)
  have sub: "subscribe_both (v_kernel demo_video) video_test_start = (Some (2, 1), ?st1)"
    by (simp add: subscribe_both_def io_defs vt_keyboard_def vt_tick_def keyboard_subscribe_def timer_subscribe_def video_test_start_def
        keyboard_drv_start_def timer_drv_start_def demo_video_def plain_machine_def sys_defs hook_bit_def BIT_def)
  have mode: "vt_set_mode demo_video 0x105 (?st1\<lparr>vt_x := 0, vt_y := 1\<rparr>) = (0, ?st2)"
    by (simp add: vt_set_mode_def lab_gpu_set_mode_def demo_video_def plain_machine_def sys_defs)
  have ready: "ready_to_draw demo_video () (?st2\<lparr>vt_gpu := g\<rparr>)" "\<not> vt_escaped (?st2\<lparr>vt_gpu := g\<rparr>)"
    using g(2) by (simp_all add: ready_to_draw_def demo_video_def loaded_def tiny_img_def vt_escaped_def video_test_start_def
        keyboard_drv_start_def c_consts)
  have msgs: "notifications 1 (replicate 10 (Interrupts 1)) = 10" "\<forall>msg \<in> set (replicate 10 (Interrupts 1)). \<not> notifies 2 msg"
    by (simp_all add: notifications_def pending_def flag_def)
  have start: "v_counter demo_video (vt_timer (?st2\<lparr>vt_gpu := g\<rparr>)) = 0" "ucast (v_sys_hz demo_video) = (60 :: u16)" "ucast (30 :: u8) = (30 :: u16)"
    by (simp_all add: demo_video_def video_test_start_def timer_drv_start_def)
  have beats: "beats (unat ((60 :: u16) div 30)) (unat (0 :: u32)) 10 = 5" by (simp add: beats_def)
  from video_test_move_diagonal [OF allI [OF count] sub _ _ mode g(1) ready msgs(2), where fr_rate = 30 and xf = 100 and yf = 200 and speed = 5]
  show ?thesis unfolding start msgs(1) beats by auto
qed

end
