(* ===== verification/Spec2Isabelle.thy ===== *)
theory Spec2Isabelle
  imports C_Prelude Kernel_IO Kbc Keyboard Mouse Linked_List C_Text Timer Calendar Rtc Leaderboard
    Geometry Gpu Sprite Ui Menu Gamestate Keyboard_Manager Mouse_Manager Proj Session Session_Refinement Machine Scene Canvas Messages Receive
    Checked_Drawing Checked_Game
    Xpm Pixmaps Spare_Pixmaps Alphabet Artwork Grid Screen Player Assets_Manager Lab2 Lab3 Lab4 Lab5_Gpu Lab5
begin

text \<open>
  Verification of the LCOM project: a game for Minix 3 with its own drivers for the timer, the keyboard, the mouse, the graphics card and the real time
  clock, and the laboratory programs that preceded it.

  \<^bold>\<open>The program.\<close>  \<open>proj.c\<close> initialises the devices and the game state, then handles one message of the kernel after the other until the game
  is quit: a mouse notification moves the cursor, a keyboard notification updates the key table and may quit, and every second timer notification
  draws the current menu and the cursor into a back buffer, shows it and clears it.  The drivers talk to the hardware through system calls; the
  managers (game state, keyboard, mouse) keep the state of the game; the menus are linked lists of elements with sprites and callbacks; the
  leaderboard is read from a file.  The level code (grid, screen, player, asset manager) is in the repository but not called yet.

  \<^bold>\<open>The model.\<close>  Each theory models one part; its definitions carry the names of the C functions, in the order of the source.
  \<^item> \<open>C_Prelude\<close>: integer types, outcomes of C code (a value, undefined behaviour, exit, panic, endless loop), counting loops, status codes,
    byte buffers.  \<open>Canvas\<close>: pictures and tables with the locales for drawing by rows and by dots.  \<open>Messages\<close>: the interrupt loop and its locales.
  \<^item> \<open>Kernel_IO\<close> (\<open>drivers/utils.c\<close> and the system calls), \<open>Kbc\<close> (\<open>kbc.c\<close>, \<open>i8042.h\<close>), \<open>Keyboard\<close>, \<open>Mouse\<close>, \<open>Timer\<close>, \<open>Calendar\<close> and \<open>Rtc\<close>, \<open>Gpu\<close>: the
    drivers under \<open>proj/src/drivers\<close>.  The kernel is a parameter that answers every call from the history of all calls.
  \<^item> \<open>Linked_List\<close> (\<open>data_structs\<close>), on an explicit heap; \<open>C_Text\<close> (the standard library's text functions) and \<open>Leaderboard\<close>; \<open>Geometry\<close>
    (\<open>vec2\<close>, \<open>aabb\<close>); \<open>Sprite\<close>; \<open>Ui\<close>; \<open>Menu\<close>; \<open>Gamestate\<close>; \<open>Keyboard_Manager\<close>; \<open>Mouse_Manager\<close>; \<open>Proj\<close> (\<open>proj.c\<close>).
  \<^item> \<open>Receive\<close>: what \<open>driver_receive\<close> delivers, with the message macros of the Minix headers; \<open>Checked_Drawing\<close> and \<open>Checked_Game\<close>: the functions of the program that
    compute with \<open>int\<close>s once more, with a check of every operation.
  \<^item> \<open>Session\<close>: the specification of the running game, as its player sees it; \<open>Session_Refinement\<close>: the view of the program's state and the proof that the main loop
    refines the specification; \<open>Machine\<close>: a controller that delivers scripted input, and the whole program on it.
  \<^item> \<open>Xpm\<close>, \<open>Pixmaps\<close>, \<open>Alphabet\<close>, \<open>Spare_Pixmaps\<close>: the images under \<open>assets/sprites\<close>, each row as runs of one character; \<open>Artwork\<close>: the images as loaded;
    \<open>Scene\<close>: the frames the program shows with them.
  \<^item> \<open>Grid\<close>, \<open>Screen\<close>, \<open>Player\<close>, \<open>Assets_Manager\<close>: the level code.
  \<^item> \<open>Lab2\<close>, \<open>Lab3\<close>, \<open>Lab4\<close>, \<open>Lab5_Gpu\<close>, \<open>Lab5\<close>: the programs under \<open>lab2\<close> to \<open>lab5\<close>, on the project's drivers.

  \<^bold>\<open>State.\<close>  The static variables of a C file are a record (\<open>keyboard_drv\<close>, \<open>mouse_drv\<close>, \<open>timer_drv\<close>, \<open>gpu\<close>, \<open>gamestate\<close> and so on), passed along and returned
  updated; \<open>game\<close> in \<open>Proj\<close> holds them all.  Objects on the C heap live in an explicit heap with a budget of allocations.  A function that reports
  success by 0 and a result through a pointer gives an \<open>option\<close>; undefined behaviour, \<open>exit\<close> and \<open>panic\<close> are values of \<open>outcome\<close>, so that a theorem that a
  function gives \<open>Ok\<close> says that nothing undefined happens.  Uninitialised variables and fresh memory are parameters.

  \<^bold>\<open>What is shown.\<close>  For the drivers: every write to the keyboard controller follows a status with a free input buffer, reads take only bytes of the right device,
  commands are acknowledged, packets and divisors are encoded and decoded correctly, drawing paints exactly the clipped pixels and stays in the buffers.
  For the data: lists, leaderboard, file format and dates, with round trips and a refinement of sorted insertion.  For the menus: what they contain and that
  drawing paints the elements in order.  For the program: no sequence of messages makes it do anything undefined, no \<open>int\<close> operation of it overflows, it
  tells the notifications of the hardware from other messages, the main loop refines the specification \<open>Session\<close> for every behaviour of the machine, on the scripted machine the program as a whole does, what every frame shows, that escape and the mouse can end it, that only escape leads out of
  the leaderboard, and which states it can reach.  For the images: that they are well-formed and that their sizes are those the program uses, so that the assumption made about \<open>xpm_load\<close>
  holds of the documented behaviour; that every frame of the main menu shows the logo and the buttons, and every frame of the leaderboard the text of the entries read from the file, pixel
  by pixel.  For the labs: what the loops print, when they end, and what is drawn.  Some theorems show where the code does not do what it means to;
  their text says so.

  \<^bold>\<open>Interfaces.\<close>  \<open>canvas\<close>, \<open>row_canvas\<close> and \<open>dot_canvas\<close> (what a drawing primitive promises, interpreted for the back buffer and for the tables of the level),
  \<open>message_driven\<close>, \<open>message_simulation\<close> and \<open>message_filter\<close> (handlers of the interrupt loops that keep an invariant, follow a specification or ignore messages, interpreted for the
  game and the labs), \<open>trace_invariant\<close>, \<open>guarded_writes\<close> and \<open>program_trace\<close>
  (properties of the history of port accesses), \<open>heap_list\<close> (lists on the heap), \<open>tick_counter\<close> (what the timer tests need of their counter).

  \<^bold>\<open>Bounds and fuel.\<close>  The retry loops of the controller run 8 and 20 times, as in the code.  Loops over linked lists have the number of allocated addresses plus two as fuel, more than the
  nodes of any list.  The polling loop of \<open>Lab3\<close> and the loop over the visible rows in \<open>Assets_Manager\<close> have fuel as an argument; their theorems hold for all
  sufficient fuel.  An interrupt loop runs over a finite sequence of messages and reports whether it has ended.  The menus need 25 and 13 plus 204 per
  entry allocations, initialisation 654 in all; \<open>malloc_max\<close> bounds a line buffer.

  \<^bold>\<open>Not modelled.\<close>  The \<open>printf\<close> diagnostics; overflow of \<open>int\<close>s in the level code and in the labs, where \<open>int\<close>s are mathematical, and in \<open>_ENDPOINT_P\<close>
  for sources that are not endpoints; rounding of \<open>double\<close>; daylight saving time, since \<open>mktime\<close> has one fixed offset from UTC; trap representations of an uninitialised \<open>bool\<close>, which is some
  truth value; the course library LCF, the kernel and \<open>main()\<close>, which only calls that library; the vendored headers under
  \<open>.minix-src\<close> but for the message macros: they declare the interfaces of code that is not in the repository.
\<close>

section \<open>Properties of the whole program\<close>

text \<open>C2: under two conditions no sequence of messages makes the program do anything undefined, run forever inside a handler or exit early: it returns a code or waits for
  the next message with its invariant intact, or it panicked while mapping video memory.  The first condition is \<open>env_ok\<close>: the library calls give blocks of
  the requested size, the pixmaps are loaded, the graphics mode, if there is one, has 1 to 8 bits per pixel and at most 32000 pixels in each direction, and reading
  the leaderboard file is defined and leaves at most three entries whose times can be converted; \<open>Leaderboard.Leaderboard_far_date_undefined\<close> shows what
  happens otherwise.  The second is \<open>fresh_game\<close>: a start with memory for 654 allocations and for line buffers of 540 bytes.\<close>

theorem program_never_undefined:
  assumes "env_ok env" "fresh_game st"
  shows "case proj_main_loop env msgs st of
      Ok (r, st') \<Rightarrow> r = Some 0 \<or> r = Some 1 \<or> (r = None \<and> game_ok st' \<and> gs_state (g_state st') \<noteq> GS_QUIT)
    | Panicked \<Rightarrow> True
    | _ \<Rightarrow> False"
proof (cases "proj_init env st")
  case (Ok p)
  obtain x st2 where p: "p = (x, st2)" by (cases p)
  have x: "x = 0 \<and> game_ok st2 \<or> x = 1" using proj_init_ok [OF assms] Ok p by auto
  show ?thesis
  proof (cases "x = 0")
    case True
    then have "game_ok (st2\<lparr>skip_frame := False\<rparr>)" using x by (simp add: game_ok_def)
    from game_loop_ok [OF this, of env msgs] obtain ended st3 where
      "game_loop env msgs (st2\<lparr>skip_frame := False\<rparr>) = Ok (ended, st3)" "game_ok st3" "ended \<longleftrightarrow> gs_state (g_state st3) = GS_QUIT"
      by blast
    then show ?thesis using Ok p True by (cases "proj_shutdown env st3") (simp add: proj_main_loop_def)
  qed (use Ok p x in \<open>simp add: proj_main_loop_def\<close>)
qed (use proj_init_ok [OF assms] in \<open>simp_all add: proj_main_loop_def\<close>)

text \<open>C12: for every behaviour of the machine and every sequence of messages, from start to shutdown, the program writes to no port but the
  two of the keyboard controller, and each of these writes directly follows a status read that showed a free input
  buffer.\<close>

theorem program_respects_controller:
  "case proj_main_loop env msgs (game_start budget room) of
     Ok (r, st') \<Rightarrow> kbc_polite (g_trace st') \<and> kbc_ports_only (g_trace st')
   | _ \<Rightarrow> True"
proof (cases "proj_main_loop env msgs (game_start budget room)")
  case (Ok p)
  obtain r st' where p: "p = (r, st')" by (cases p)
  have start: "kbc_polite (g_trace (game_start budget room))" "kbc_ports_only (g_trace (game_start budget room))"
    by (simp_all add: game_start_def kbc_ports_only_def)
  show ?thesis
    using polite_program.program_keeps [OF start(1)] ports_program.program_keeps [OF start(2)] Ok p by simp
qed simp_all


text \<open>C11: pressing escape in a menu ends the game: the interrupt that delivers the make code sets the quit state, whatever the timer does in
  the same message, and the main loop ends without looking at any further message.\<close>

theorem escape_quits:
  assumes ok: "game_ok st" and menu: "in_menu (g_state st)" and width: "\<not> double_width (g_keys st)"
    and irqs: "pending irqs (kbc_bit_no st)" "\<not> pending irqs (mouse_bit_no st)"
    and read: "keyboard_read_scancode (e_kernel env) (e_scancode env (g_trace st)) (g_trace st) = ((True, 0x01), tr)"
  shows "\<exists>st'. game_loop env (Interrupts irqs # msgs) st = Ok (True, st') \<and> gs_state (g_state st') = GS_QUIT"
proof -
  let ?k = "keyboard_scancode 0x01 (g_keys st)"
  have k: "?k = (g_keys st)\<lparr>keys := (keys (g_keys st))[0 := True]\<rparr>"
    using width Keyboard_translate_codes(1) [of True] by (simp add: keyboard_scancode_def)
  have "0 < length (keys (g_keys st))" using ok by (cases "keys (g_keys st)") (simp_all add: game_ok_def keyboard_ok_def)
  then have esc: "Keyboard_pressed KB_ESC ?k = Ok True" by (simp add: k Keyboard_pressed_def)
  let ?st1 = "st\<lparr>g_keys := ?k, g_trace := tr, g_state := Gamestate_quit (g_state st)\<rparr>"
  have kbd: "on_keyboard_interrupt env st = Ok ?st1"
    using read menu esc by (simp add: on_keyboard_interrupt_def Keyboard_handle_def Let_def)
  then have ok1: "game_ok ?st1" using on_keyboard_interrupt_ok [OF ok, of env] by auto
  obtain st2 where st2: "(if pending irqs (timer_bit_no ?st1) then on_timer_interrupt ?st1 else Ok ?st1) = Ok st2"
    using on_timer_interrupt_ok [OF ok1] by (metis (full_types))
  then have "follows (g_state ?st1) (g_state st2)" by (auto split: if_splits dest: on_timer_interrupt_follows)
  then have quit: "gs_state (g_state st2) = GS_QUIT"
    by (simp add: follows_def in_menu_def Gamestate_get_state_def Gamestate_quit_def)
  have "handle_message env (Interrupts irqs) st = Ok st2"
    unfolding handle_message_def message.case Let_def using irqs kbd st2 by (simp split: if_splits)
  moreover have "gs_state (g_state st) \<noteq> GS_QUIT" using menu by (auto simp: in_menu_def Gamestate_get_state_def)
  ultimately have "game_loop env (Interrupts irqs # msgs) st = game_loop env msgs st2" by (simp add: Gamestate_get_state_def)
  also have "\<dots> = Ok (True, st2)" using quit by (cases msgs) (simp_all add: Gamestate_get_state_def)
  finally show ?thesis using quit by blast
qed

text \<open>C29: the game only moves forward: no sequence of messages leads from the leaderboard back to the main menu, or from anywhere into a
  level, although the main menu has a play button.\<close>

theorem game_never_goes_back:
  assumes "reachable env st st'"
  shows "stage (gs_state (g_state st)) \<le> stage (gs_state (g_state st')) \<and>
    (gs_state (g_state st') = GS_LEVEL \<longrightarrow> gs_state (g_state st) = GS_LEVEL)"
proof -
  have forward: "stage (gs_state gs) \<le> stage (gs_state gs') \<and> (gs_state gs' = GS_LEVEL \<longrightarrow> gs_state gs = GS_LEVEL)"
    if "follows gs gs'" for gs gs'
    using that by (auto simp: follows_def in_menu_def Gamestate_get_state_def)
  show ?thesis
    using assms
  proof (induction rule: reachable.induct)
    case start
    then show ?case by simp
  next
    case (step st1 st2)
    then obtain msg where "handle_message env msg st1 = Ok st2" by (auto elim: turnE)
    from forward [OF handle_message_follows [OF this]] step.IH show ?case by auto
  qed
qed

section \<open>The properties on a concrete machine\<close>

theorem program_never_undefined_witness:
  "case proj_main_loop demo_env [Interrupts 1, Standard_message, Interrupts 6] (game_start 1000 100000) of
     Ok (r, st') \<Rightarrow> r = Some 0 \<or> r = Some 1 \<or> (r = None \<and> game_ok st' \<and> gs_state (g_state st') \<noteq> GS_QUIT)
   | Panicked \<Rightarrow> True
   | _ \<Rightarrow> False"
  by (rule program_never_undefined [OF demo_env_ok demo_fresh])


theorem escape_quits_witness:
  "\<exists>st st'. gs_state (g_state st) = GS_MAIN \<and> game_loop demo_env [Interrupts 3, Interrupts 1] st = Ok (True, st') \<and>
     gs_state (g_state st') = GS_QUIT"
proof -
  from demo_game obtain st where st: "game_ok st" "gs_state (g_state st) = GS_MAIN" "\<not> double_width (g_keys st)"
    "mouse_bit_no st = 4" "kbc_bit_no st = 2" "g_trace st = []" by auto
  from demo_read obtain tr where tr: "keyboard_read_scancode (e_kernel demo_env) (e_scancode demo_env (g_trace st)) (g_trace st) = ((True, 0x01), tr)"
    using st(6) by auto
  have "pending 3 (kbc_bit_no st)" "\<not> pending 3 (mouse_bit_no st)" "in_menu (g_state st)"
    using st by (simp_all add: pending_def flag_def in_menu_def Gamestate_get_state_def)
  from escape_quits [OF st(1) this(3) st(3) this(1,2) tr] st(2) show ?thesis by blast
qed

theorem game_never_goes_back_witness:
  "\<exists>st st'. gs_state (g_state st) = GS_MAIN \<and> handle_message demo_env (Interrupts 5) st = Ok st' \<and>
     gs_state (g_state st') \<noteq> GS_LEVEL"
proof -
  from demo_game obtain st where st: "game_ok st" "gs_state (g_state st) = GS_MAIN" by blast
  from handle_message_ok [OF st(1)] obtain st' where st': "handle_message demo_env (Interrupts 5) st = Ok st'" by blast
  then have "turn demo_env st st'" using st(2) by (auto intro: turn.turn)
  from game_never_goes_back [OF reachable.step [OF reachable.start this]] st(2) st' show ?thesis by fastforce
qed

end
